(* ===== verification/PyStr.thy ===== *)
theory PyStr
  imports Main "HOL-Library.Sublist" "HOL-Library.Char_ord" "HOL-Library.List_Lexorder"
begin

text \<open>
  Prelude: the Python \<open>str\<close> operations and exceptions the modelled modules use.

  A Python string is a \<^typ>\<open>string\<close>, the list of its UTF-8 bytes. The only characters
  beyond ASCII that the modelled code mentions are U+2014 (em dash) and U+2192 (arrow), which are
  no whitespace, no letter and have no case, so that searching, splitting at an ASCII separator,
  stripping and comparing agree with Python's code points on texts made of them and of ASCII.
  Case conversion and character classes are the ASCII ones.

  An operation that can raise returns \<open>py_exc + 'a\<close>, with \<open>Inl\<close> for the exception.
\<close>

named_theorems str_intro \<open>introduction facts about the string operations\<close>

datatype py_exc =
    TypeError | ValueError | KeyError | AttributeError | OverflowError | FileNotFoundError | ReError
  | YamlError | SchemaError string

definition rbind :: "'e + 'a \<Rightarrow> ('a \<Rightarrow> 'e + 'b) \<Rightarrow> 'e + 'b" where
  "rbind r f = (case r of Inl e \<Rightarrow> Inl e | Inr x \<Rightarrow> f x)"

lemma rbind_simps [simp]:
  "rbind (Inl e) f = Inl e"
  "rbind (Inr x) f = f x"
  by (simp_all add: rbind_def)

lemma rbind_Inr_iff: "rbind r f = Inr y \<longleftrightarrow> (\<exists>x. r = Inr x \<and> f x = Inr y)"
  by (cases r) simp_all

lemma rbind_Inl_iff: "rbind r f = Inl e \<longleftrightarrow> r = Inl e \<or> (\<exists>x. r = Inr x \<and> f x = Inl e)"
  by (cases r) simp_all

text \<open>\<open>[f(x) for x in xs]\<close> where \<open>f\<close> may raise: the first exception wins.\<close>

fun rmap :: "('a \<Rightarrow> 'e + 'b) \<Rightarrow> 'a list \<Rightarrow> 'e + 'b list" where
  "rmap f [] = Inr []"
| "rmap f (x # xs) = rbind (f x) (\<lambda>y. rbind (rmap f xs) (\<lambda>ys. Inr (y # ys)))"

lemma rmap_Inr_iff: "rmap f xs = Inr ys \<longleftrightarrow> list_all2 (\<lambda>x y. f x = Inr y) xs ys"
  by (induction xs arbitrary: ys) (auto simp: rbind_Inr_iff list_all2_Cons1)

lemma rmap_Inr_ex:
  assumes "rmap f xs = Inr ys" "y \<in> set ys"
  shows "\<exists>x \<in> set xs. f x = Inr y"
  using assms
  by (induction xs arbitrary: ys) (auto simp: rbind_Inr_iff)

lemma rmap_Inr_ex2:
  assumes "rmap f xs = Inr ys" "x \<in> set xs"
  shows "\<exists>y \<in> set ys. f x = Inr y"
  using assms
  by (induction xs arbitrary: ys) (auto simp: rbind_Inr_iff)

section \<open>Characters\<close>

abbreviation code :: "char \<Rightarrow> nat" where
  "code c \<equiv> of_char c"

definition is_space :: "char \<Rightarrow> bool" where
  "is_space c \<longleftrightarrow> code c = 32 \<or> (9 \<le> code c \<and> code c \<le> 13) \<or> (28 \<le> code c \<and> code c \<le> 31)"

definition is_digit :: "char \<Rightarrow> bool" where
  "is_digit c \<longleftrightarrow> 48 \<le> code c \<and> code c \<le> 57"

definition is_lower :: "char \<Rightarrow> bool" where
  "is_lower c \<longleftrightarrow> 97 \<le> code c \<and> code c \<le> 122"

definition is_upper :: "char \<Rightarrow> bool" where
  "is_upper c \<longleftrightarrow> 65 \<le> code c \<and> code c \<le> 90"

definition is_alnum :: "char \<Rightarrow> bool" where
  "is_alnum c \<longleftrightarrow> is_digit c \<or> is_lower c \<or> is_upper c"

definition is_word :: "char \<Rightarrow> bool" where
  "is_word c \<longleftrightarrow> is_alnum c \<or> code c = 95"

lemmas char_class_defs =
  is_space_def is_digit_def is_lower_def is_upper_def is_alnum_def is_word_def

definition lower_char :: "char \<Rightarrow> char" where
  "lower_char c = (if is_upper c then char_of (code c + 32) else c)"

definition upper_char :: "char \<Rightarrow> char" where
  "upper_char c = (if is_lower c then char_of (code c - 32) else c)"

text \<open>Code equations on the bits of a character, for evaluation.\<close>

lemma is_space_Char [code]:
  "is_space (Char b0 b1 b2 b3 b4 b5 b6 b7) \<longleftrightarrow> \<not> b7 \<and> \<not> b6 \<and>
     (if b5 then \<not> b4 \<and> \<not> b3 \<and> \<not> b2 \<and> \<not> b1 \<and> \<not> b0
      else b3 \<and> (if b4 then b2 else if b2 then \<not> b1 else b1 \<or> b0))"
  unfolding is_space_def
  by (cases b0; cases b1; cases b2; cases b3; cases b4; cases b5; cases b6; cases b7) simp_all

lemma is_digit_Char [code]:
  "is_digit (Char b0 b1 b2 b3 b4 b5 b6 b7) \<longleftrightarrow> \<not> b7 \<and> \<not> b6 \<and> b5 \<and> b4 \<and> (b3 \<longrightarrow> \<not> b2 \<and> \<not> b1)"
  unfolding is_digit_def
  by (cases b0; cases b1; cases b2; cases b3; cases b4; cases b5; cases b6; cases b7) simp_all

lemma is_upper_Char [code]:
  "is_upper (Char b0 b1 b2 b3 b4 b5 b6 b7) \<longleftrightarrow> \<not> b7 \<and> b6 \<and> \<not> b5 \<and> (b0 \<or> b1 \<or> b2 \<or> b3 \<or> b4) \<and>
     \<not> (b4 \<and> b3 \<and> (b2 \<or> b1 \<and> b0))"
  unfolding is_upper_def
  by (cases b0; cases b1; cases b2; cases b3; cases b4; cases b5; cases b6; cases b7) simp_all

lemma is_lower_Char [code]:
  "is_lower (Char b0 b1 b2 b3 b4 b5 b6 b7) \<longleftrightarrow> \<not> b7 \<and> b6 \<and> b5 \<and> (b0 \<or> b1 \<or> b2 \<or> b3 \<or> b4) \<and>
     \<not> (b4 \<and> b3 \<and> (b2 \<or> b1 \<and> b0))"
  unfolding is_lower_def
  by (cases b0; cases b1; cases b2; cases b3; cases b4; cases b5; cases b6; cases b7) simp_all

lemma is_word_code [code]: "is_word c \<longleftrightarrow> is_alnum c \<or> c = CHR ''_''"
proof -
  have "(95::nat) = code (CHR ''_'')" by simp
  then show ?thesis unfolding is_word_def by (metis of_char_eq_iff)
qed

lemma char_shift:
  "is_upper (Char b0 b1 b2 b3 b4 b5 b6 b7) \<Longrightarrow> of_char (Char b0 b1 b2 b3 b4 b5 b6 b7) + 32 =
     code (Char b0 b1 b2 b3 b4 True b6 b7)"
  "is_lower (Char b0 b1 b2 b3 b4 b5 b6 b7) \<Longrightarrow> of_char (Char b0 b1 b2 b3 b4 b5 b6 b7) - 32 =
     code (Char b0 b1 b2 b3 b4 False b6 b7)"
  by (simp_all add: is_upper_Char is_lower_Char)

lemma lower_char_Char [code]:
  "lower_char (Char b0 b1 b2 b3 b4 b5 b6 b7) = Char b0 b1 b2 b3 b4 (b5 \<or> is_upper (Char b0 b1 b2 b3 b4 b5 b6 b7)) b6 b7"
  by (cases "is_upper (Char b0 b1 b2 b3 b4 b5 b6 b7)";
      simp only: lower_char_def char_shift char_of_char if_True if_False simp_thms)

lemma upper_char_Char [code]:
  "upper_char (Char b0 b1 b2 b3 b4 b5 b6 b7) = Char b0 b1 b2 b3 b4 (b5 \<and> \<not> is_lower (Char b0 b1 b2 b3 b4 b5 b6 b7)) b6 b7"
  by (cases "is_lower (Char b0 b1 b2 b3 b4 b5 b6 b7)";
      simp only: upper_char_def char_shift char_of_char if_True if_False simp_thms)

definition lower :: "string \<Rightarrow> string" where "lower s = map lower_char s"

definition upper :: "string \<Rightarrow> string" where "upper s = map upper_char s"

lemma upper_char_idem [simp]: "upper_char (upper_char c) = upper_char c"
  by (auto simp: upper_char_def is_lower_def)

lemma lower_char_idem [simp]: "lower_char (lower_char c) = lower_char c"
  by (auto simp: lower_char_def is_upper_def)

lemma upper_idem [simp]: "upper (upper s) = upper s"
  by (simp add: upper_def)

lemma lower_idem [simp]: "lower (lower s) = lower s"
  by (simp add: lower_def)

section \<open>Stripping\<close>

definition lstrip_of :: "(char \<Rightarrow> bool) \<Rightarrow> string \<Rightarrow> string" where
  "lstrip_of P s = dropWhile P s"

definition rstrip_of :: "(char \<Rightarrow> bool) \<Rightarrow> string \<Rightarrow> string" where
  "rstrip_of P s = rev (dropWhile P (rev s))"

definition strip_of :: "(char \<Rightarrow> bool) \<Rightarrow> string \<Rightarrow> string" where
  "strip_of P s = rstrip_of P (lstrip_of P s)"

abbreviation strip :: "string \<Rightarrow> string" where "strip \<equiv> strip_of is_space"

abbreviation one_of :: "string \<Rightarrow> char \<Rightarrow> bool" where "one_of cs \<equiv> \<lambda>c. c \<in> set cs"

lemma lstrip_of_Nil_iff [simp]: "lstrip_of P s = [] \<longleftrightarrow> (\<forall>c \<in> set s. P c)"
  by (simp add: lstrip_of_def)

lemma rstrip_of_Nil_iff [simp]: "rstrip_of P s = [] \<longleftrightarrow> (\<forall>c \<in> set s. P c)"
  by (simp add: rstrip_of_def)

lemma rstrip_decomp: "\<exists>t. s = rstrip_of P s @ t \<and> (\<forall>c \<in> set t. P c)"
proof -
  have "rev s = takeWhile P (rev s) @ dropWhile P (rev s)" by simp
  then have "s = rev (takeWhile P (rev s) @ dropWhile P (rev s))"
    by (simp del: takeWhile_dropWhile_id add: rev_swap)
  then have "s = rstrip_of P s @ rev (takeWhile P (rev s))"
    by (simp only: rstrip_of_def rev_append)
  moreover have "\<forall>c \<in> set (rev (takeWhile P (rev s))). P c" by (auto dest: set_takeWhileD)
  ultimately show ?thesis by blast
qed

lemma lstrip_decomp: "\<exists>t. s = t @ lstrip_of P s \<and> (\<forall>c \<in> set t. P c)"
  by (rule exI [of _ "takeWhile P s"]) (auto simp: lstrip_of_def dest: set_takeWhileD)

lemma strip_of_sublist: "\<exists>u v. s = u @ strip_of P s @ v"
proof -
  obtain u where "s = u @ lstrip_of P s" using lstrip_decomp by blast
  moreover obtain v where "lstrip_of P s = strip_of P s @ v"
    using rstrip_decomp [of "lstrip_of P s" P] by (auto simp: strip_of_def)
  ultimately show ?thesis by metis
qed

lemma set_strip_of: "set (strip_of P s) \<subseteq> set s"
  using strip_of_sublist [of s P] by (metis Un_iff set_append subsetI)

lemma strip_of_Nil_iff: "strip_of P s = [] \<longleftrightarrow> (\<forall>c \<in> set s. P c)"
proof -
  have "(\<forall>c \<in> set (lstrip_of P s). P c) \<longleftrightarrow> (\<forall>c \<in> set s. P c)"
    using lstrip_decomp [of s P] by (metis Un_iff set_append)
  then show ?thesis by (simp add: strip_of_def)
qed

lemma strip_of_hd: "strip_of P s \<noteq> [] \<Longrightarrow> \<not> P (hd (strip_of P s))"
proof -
  assume ne: "strip_of P s \<noteq> []"
  obtain v where v: "lstrip_of P s = strip_of P s @ v"
    using rstrip_decomp [of "lstrip_of P s" P] by (auto simp: strip_of_def)
  with ne have "hd (lstrip_of P s) = hd (strip_of P s)" "lstrip_of P s \<noteq> []" by auto
  then show ?thesis by (metis hd_dropWhile lstrip_of_def)
qed

lemma strip_of_last: "strip_of P s \<noteq> [] \<Longrightarrow> \<not> P (last (strip_of P s))"
  by (metis hd_dropWhile last_rev rev_is_Nil_conv rstrip_of_def strip_of_def)

lemma strip_of_id:
  assumes "s = [] \<or> \<not> P (hd s) \<and> \<not> P (last s)"
  shows "strip_of P s = s"
proof (cases "s = []")
  case True
  then show ?thesis by (simp add: strip_of_def lstrip_of_def rstrip_of_def)
next
  case False
  with assms have "dropWhile P s = s" "dropWhile P (rev s) = rev s"
    by (simp_all add: dropWhile_eq_self_iff hd_rev)
  then show ?thesis by (simp add: strip_of_def lstrip_of_def rstrip_of_def)
qed

lemma strip_of_idem [simp]: "strip_of P (strip_of P s) = strip_of P s"
  by (rule strip_of_id) (metis strip_of_hd strip_of_last)

section \<open>Searching, splitting, joining\<close>

abbreviation startswith :: "string \<Rightarrow> string \<Rightarrow> bool" where
  "startswith s p \<equiv> prefix p s"

definition endswith :: "string \<Rightarrow> string \<Rightarrow> bool" where
  "endswith s p \<longleftrightarrow> prefix (rev p) (rev s)"

lemma endswith_iff: "endswith s p \<longleftrightarrow> (\<exists>u. s = u @ p)"
  by (simp add: endswith_def suffix_to_prefix [symmetric] suffix_def)

text \<open>\<open>p in s\<close> for strings.\<close>

fun contains :: "string \<Rightarrow> string \<Rightarrow> bool" where
  "contains p [] = (p = [])"
| "contains p (c # s) = (prefix p (c # s) \<or> contains p s)"

lemma contains_iff: "contains p s \<longleftrightarrow> (\<exists>u v. s = u @ p @ v)"
proof (induction s)
  case Nil
  then show ?case by simp
next
  case (Cons c s)
  show ?case
  proof
    assume "contains p (c # s)"
    then consider "prefix p (c # s)" | "contains p s" by auto
    then show "\<exists>u v. c # s = u @ p @ v"
    proof cases
      case 1
      then show ?thesis by (metis append_Nil prefix_def)
    next
      case 2
      then obtain u v where "s = u @ p @ v" using Cons.IH by blast
      then have "c # s = (c # u) @ p @ v" by simp
      then show ?thesis by blast
    qed
  next
    assume "\<exists>u v. c # s = u @ p @ v"
    then obtain u v where uv: "c # s = u @ p @ v" by blast
    show "contains p (c # s)"
    proof (cases u)
      case Nil
      with uv have "prefix p (c # s)" by simp
      then show ?thesis by simp
    next
      case (Cons d u')
      with uv have "s = u' @ p @ v" by simp
      then show ?thesis using Cons.IH by auto
    qed
  qed
qed

lemma contains_set: "contains p s \<Longrightarrow> set p \<subseteq> set s"
  by (auto simp: contains_iff)

lemma contains_Nil [simp]: "contains [] s"
  by (cases s) simp_all

lemma contains_char_iff: "contains [c] s \<longleftrightarrow> c \<in> set s"
  by (induction s) auto

text \<open>\<open>s.partition(p)\<close>, with \<open>None\<close> where \<open>p\<close> does not occur.\<close>

fun cut_at :: "string \<Rightarrow> string \<Rightarrow> (string \<times> string) option" where
  "cut_at p [] = (if p = [] then Some ([], []) else None)"
| "cut_at p (c # s) =
     (if prefix p (c # s) then Some ([], drop (length p) (c # s))
      else map_option (\<lambda>(a, b). (c # a, b)) (cut_at p s))"

lemma cut_at_Some: "cut_at p s = Some (a, b) \<Longrightarrow> s = a @ p @ b"
proof (induction s arbitrary: a b)
  case Nil
  then show ?case by (simp split: if_splits)
next
  case (Cons c s)
  then show ?case
    by (auto simp: prefix_def split: if_splits)
qed

lemma cut_at_None_iff: "cut_at p s = None \<longleftrightarrow> \<not> contains p s"
  by (induction s) auto

text \<open>\<open>s.split(c)\<close> for a one-character separator.\<close>

fun split_on :: "char \<Rightarrow> string \<Rightarrow> string list" where
  "split_on d [] = [[]]"
| "split_on d (c # s) =
     (if c = d then [] # split_on d s
      else (case split_on d s of [] \<Rightarrow> [[c]] | w # ws \<Rightarrow> (c # w) # ws))"

lemma split_on_ne [simp]: "split_on d s \<noteq> []"
  by (cases s) (auto split: list.splits)

text \<open>\<open>sep.join(xs)\<close>.\<close>

fun join :: "string \<Rightarrow> string list \<Rightarrow> string" where
  "join sep [] = []"
| "join sep [x] = x"
| "join sep (x # y # xs) = x @ sep @ join sep (y # xs)"

lemma join_Cons: "xs \<noteq> [] \<Longrightarrow> join sep (x # xs) = x @ sep @ join sep xs"
  by (cases xs) simp_all

lemma join_split_on: "join [d] (split_on d s) = s"
proof (induction s)
  case Nil
  then show ?case by simp
next
  case (Cons c s)
  obtain w ws where sp: "split_on d s = w # ws" by (cases "split_on d s") auto
  show ?case
  proof (cases "c = d")
    case True
    then show ?thesis using Cons.IH by (simp add: sp join_Cons)
  next
    case False
    then show ?thesis using Cons.IH by (cases ws) (simp_all add: sp)
  qed
qed

lemma split_on_notin: "d \<notin> set s \<Longrightarrow> split_on d s = [s]"
  by (induction s) auto

lemma split_on_append: "d \<notin> set u \<Longrightarrow> split_on d (u @ d # s) = u # split_on d s"
  by (induction u) auto

lemma split_on_app: "split_on d (u @ d # w) = split_on d u @ split_on d w"
proof (induction u)
  case (Cons c u)
  obtain x xs where "split_on d u = x # xs" by (cases "split_on d u") auto
  with Cons show ?case by simp
qed simp

lemma split_on_parts: "w \<in> set (split_on d s) \<Longrightarrow> d \<notin> set w \<and> set w \<subseteq> set s"
proof (induction s arbitrary: w)
  case Nil
  then show ?case by simp
next
  case (Cons c s)
  obtain v vs where sp: "split_on d s = v # vs" by (cases "split_on d s") auto
  with Cons.IH have parts: "\<forall>w \<in> set (v # vs). d \<notin> set w \<and> set w \<subseteq> set s" by simp
  show ?case
  proof (cases "c = d")
    case True
    with Cons.prems sp parts show ?thesis by auto
  next
    case False
    with Cons.prems sp have "w = c # v \<or> w \<in> set vs" by simp
    with parts False show ?thesis by auto
  qed
qed

lemma split_on_join:
  assumes "xs \<noteq> []" "\<forall>x \<in> set xs. d \<notin> set x"
  shows "split_on d (join [d] xs) = xs"
  using assms
proof (induction xs)
  case Nil
  then show ?case by simp
next
  case (Cons x xs)
  then show ?case by (cases xs) (simp_all add: split_on_notin split_on_append)
qed

text \<open>\<open>s.split()\<close>: the maximal runs of non-whitespace characters.\<close>

fun words_acc :: "string \<Rightarrow> string \<Rightarrow> string list" where
  "words_acc w [] = (if w = [] then [] else [rev w])"
| "words_acc w (c # s) =
     (if is_space c then (if w = [] then words_acc [] s else rev w # words_acc [] s)
      else words_acc (c # w) s)"

definition split_ws :: "string \<Rightarrow> string list" where
  "split_ws s = words_acc [] s"

text \<open>\<open>s.splitlines()\<close>: a line ends at \<open>\n\<close>, \<open>\r\<close>, \<open>\r\n\<close>, \<open>\v\<close>, \<open>\f\<close> or one of \<open>\x1c\<close>
  to \<open>\x1e\<close>; a final line end opens no further line.\<close>

definition is_eol :: "char \<Rightarrow> bool" where
  "is_eol c \<longleftrightarrow> (10 \<le> code c \<and> code c \<le> 13) \<or> (28 \<le> code c \<and> code c \<le> 30)"

lemma is_eol_Char [code]:
  "is_eol (Char b0 b1 b2 b3 b4 b5 b6 b7) \<longleftrightarrow> \<not> b7 \<and> \<not> b6 \<and> \<not> b5 \<and> b3 \<and>
     (if b4 then b2 \<and> \<not> (b1 \<and> b0) else b2 \<noteq> b1)"
  unfolding is_eol_def
  by (cases b0; cases b1; cases b2; cases b3; cases b4; cases b5; cases b6; cases b7) simp_all

fun lines_acc :: "bool \<Rightarrow> string \<Rightarrow> string \<Rightarrow> string list" where
  "lines_acc cr w [] = (if w = [] then [] else [rev w])"
| "lines_acc cr w (c # s) =
     (if cr \<and> code c = 10 then lines_acc False w s
      else if is_eol c then rev w # lines_acc (code c = 13) [] s
      else lines_acc False (c # w) s)"

lemma code_cr_iff: "code c = 13 \<longleftrightarrow> c = CHR 0x0D"
proof -
  have "(13::nat) = code (CHR 0x0D)" by simp
  then show ?thesis by (metis of_char_eq_iff)
qed

lemma code_nl_iff: "code c = 10 \<longleftrightarrow> c = CHR 0x0A"
proof -
  have "(10::nat) = code (CHR 0x0A)" by simp
  then show ?thesis by (metis of_char_eq_iff)
qed

lemma lines_acc_code [code]:
  "lines_acc cr w [] = (if w = [] then [] else [rev w])"
  "lines_acc cr w (c # s) =
     (if cr \<and> c = CHR 0x0A then lines_acc False w s
      else if is_eol c then rev w # lines_acc (c = CHR 0x0D) [] s
      else lines_acc False (c # w) s)"
  by (simp_all add: code_nl_iff code_cr_iff)

definition splitlines :: "string \<Rightarrow> string list" where
  "splitlines s = lines_acc False [] s"

text \<open>\<open>"\n".join(lines) + "\n"\<close>, the way every file writer of the engine ends.\<close>

definition unlines :: "string list \<Rightarrow> string" where
  "unlines ls = join [CHR 0x0A] ls @ [CHR 0x0A]"

section \<open>Code points\<close>

text \<open>\<open>s[:n]\<close> and \<open>len(s)\<close> count code points: a byte of the form \<open>10xxxxxx\<close> continues one.\<close>

definition is_cont :: "char \<Rightarrow> bool" where
  "is_cont c \<longleftrightarrow> 128 \<le> code c \<and> code c < 192"

lemma is_cont_Char [code]: "is_cont (Char b0 b1 b2 b3 b4 b5 b6 b7) \<longleftrightarrow> b7 \<and> \<not> b6"
  unfolding is_cont_def
  by (cases b0; cases b1; cases b2; cases b3; cases b4; cases b5; cases b6; cases b7) simp_all

fun utake :: "nat \<Rightarrow> string \<Rightarrow> string" where
  "utake n [] = []"
| "utake n (c # s) =
     (if is_cont c then c # utake n s
      else (case n of 0 \<Rightarrow> [] | Suc k \<Rightarrow> c # utake k s))"

definition ulen :: "string \<Rightarrow> nat" where
  "ulen s = length (filter (\<lambda>c. \<not> is_cont c) s)"

lemma ulen_utake: "ulen (utake n s) \<le> n"
  by (induction n s rule: utake.induct) (auto simp: ulen_def split: nat.splits)

lemma prefix_utake: "prefix (utake n s) s"
  by (induction n s rule: utake.induct) (auto split: nat.splits)

text \<open>The em dash U+2014 and the arrows U+2190 and U+2192.\<close>

definition em_dash :: string where "em_dash = [CHR 0xE2, CHR 0x80, CHR 0x94]"

definition left_arrow :: string where "left_arrow = [CHR 0xE2, CHR 0x86, CHR 0x90]"

definition right_arrow :: string where "right_arrow = [CHR 0xE2, CHR 0x86, CHR 0x92]"

text \<open>\<open>s.replace(c, t)\<close> for one character.\<close>

definition replace_char :: "char \<Rightarrow> string \<Rightarrow> string \<Rightarrow> string" where
  "replace_char d t s = concat (map (\<lambda>c. if c = d then t else [c]) s)"

text \<open>\<open>s.replace(p, t)\<close> for a non-empty \<open>p\<close>: from left to right, without overlaps.\<close>

function replace_str :: "string \<Rightarrow> string \<Rightarrow> string \<Rightarrow> string" where
  "replace_str p t s =
     (if p = [] then s
      else (case cut_at p s of None \<Rightarrow> s | Some (a, b) \<Rightarrow> a @ t @ replace_str p t b))"
  by pat_completeness auto
termination
proof (relation "measure (\<lambda>(p, t, s). length s)", goal_cases)
  case (2 p t s x a b)
  then show ?case using cut_at_Some [of p s a b] by simp
qed simp

declare replace_str.simps [simp del]

lemma replace_str_absent: "\<not> contains p s \<Longrightarrow> replace_str p t s = s"
  by (simp add: replace_str.simps cut_at_None_iff [THEN iffD2] split: if_splits)

text \<open>\<open>s.split(p)\<close> for a non-empty \<open>p\<close>.\<close>

function split_str :: "string \<Rightarrow> string \<Rightarrow> string list" where
  "split_str p s =
     (if p = [] then [s]
      else (case cut_at p s of None \<Rightarrow> [s] | Some (a, b) \<Rightarrow> a # split_str p b))"
  by pat_completeness auto
termination
proof (relation "measure (\<lambda>(p, s). length s)", goal_cases)
  case (2 p s x a b)
  then show ?case using cut_at_Some [of p s a b] by simp
qed simp

declare split_str.simps [simp del]

end
