(* ===== verification/PyNum.thy ===== *)
theory PyNum
  imports PyStr
begin

text \<open>
  Decimal numbers as the code reads and prints them: \<open>str(n)\<close>, \<open>int(s)\<close>, \<open>f"{n:03d}"\<close>. Python
  integers are unbounded, hence \<^typ>\<open>int\<close>.
\<close>

definition digit_char :: "nat \<Rightarrow> char" where
  "digit_char d = char_of (48 + d)"

definition digit_val :: "char \<Rightarrow> nat" where
  "digit_val c = code c - 48"

fun nat_str :: "nat \<Rightarrow> string" where
  "nat_str n = (if n < 10 then [digit_char n] else nat_str (n div 10) @ [digit_char (n mod 10)])"

declare nat_str.simps [simp del]

definition int_str :: "int \<Rightarrow> string" where
  "int_str i = (if i < 0 then CHR ''-'' # nat_str (nat (- i)) else nat_str (nat i))"

text \<open>Left padding with zeros to a width, \<open>f"{n:0wd}"\<close> for a natural \<open>n\<close>.\<close>

definition pad0 :: "nat \<Rightarrow> nat \<Rightarrow> string" where
  "pad0 w n = (let s = nat_str n in replicate (w - length s) (CHR ''0'') @ s)"

definition digits_val :: "string \<Rightarrow> nat" where
  "digits_val s = foldl (\<lambda>a c. 10 * a + digit_val c) 0 s"

text \<open>\<open>int(s)\<close>: surrounding whitespace, one sign, digits with single underscores between them.
  \<open>None\<close> is \<open>ValueError\<close>.\<close>

fun drop_underscores :: "bool \<Rightarrow> string \<Rightarrow> string option" where
  "drop_underscores prev [] = (if prev then Some [] else None)"
| "drop_underscores prev (c # s) =
     (if is_digit c then map_option ((#) c) (drop_underscores True s)
      else if c = CHR ''_'' \<and> prev then drop_underscores False s
      else None)"

definition py_int :: "string \<Rightarrow> int option" where
  "py_int s0 =
     (let s = strip s0;
          neg = (s \<noteq> [] \<and> hd s = CHR ''-'');
          body = (if s \<noteq> [] \<and> (hd s = CHR ''-'' \<or> hd s = CHR ''+'') then tl s else s)
      in map_option (\<lambda>ds. if neg then - int (digits_val ds) else int (digits_val ds))
           (drop_underscores False body))"

lemma digit_char_code: "d < 10 \<Longrightarrow> code (digit_char d) = 48 + d"
  by (simp add: digit_char_def)

lemma is_digit_digit_char [simp]: "d < 10 \<Longrightarrow> is_digit (digit_char d)"
  by (simp add: is_digit_def digit_char_code)

lemma digit_val_digit_char [simp]: "d < 10 \<Longrightarrow> digit_val (digit_char d) = d"
  by (simp add: digit_val_def digit_char_code)

lemma nat_str_digits: "\<forall>c \<in> set (nat_str n). is_digit c"
proof (induction n rule: nat_str.induct)
  case (1 n)
  then show ?case by (cases "n < 10") (auto simp: nat_str.simps [of n])
qed

lemma nat_str_ne [simp]: "nat_str n \<noteq> []"
  by (simp add: nat_str.simps [of n])

lemma digits_val_snoc [simp]: "digits_val (s @ [c]) = 10 * digits_val s + digit_val c"
  by (simp add: digits_val_def)

lemma digits_val_nat_str [simp]: "digits_val (nat_str n) = n"
proof (induction n rule: nat_str.induct)
  case (1 n)
  show ?case
  proof (cases "n < 10")
    case True
    then show ?thesis by (simp add: nat_str.simps [of n] digits_val_def)
  next
    case False
    then have "digits_val (nat_str n) = 10 * (n div 10) + n mod 10"
      using 1 by (subst nat_str.simps) simp
    then show ?thesis by simp
  qed
qed

lemma drop_underscores_digits:
  "\<forall>c \<in> set s. is_digit c \<Longrightarrow> s \<noteq> [] \<or> prev \<Longrightarrow> drop_underscores prev s = Some s"
  by (induction prev s rule: drop_underscores.induct) auto

lemma digit_not_space: "is_digit c \<Longrightarrow> \<not> is_space c"
  by (auto simp: char_class_defs)

lemma digit_not_sign: "is_digit c \<Longrightarrow> c \<noteq> CHR ''-'' \<and> c \<noteq> CHR ''+''"
  by (auto simp: is_digit_def)

lemma strip_digits: "\<forall>c \<in> set s. is_digit c \<Longrightarrow> strip s = s"
  by (rule strip_of_id) (metis digit_not_space hd_in_set last_in_set)

text \<open>Printing and reading back.\<close>

lemma py_int_nat_str [simp]: "py_int (nat_str n) = Some (int n)"
proof -
  have hd: "hd (nat_str n) \<noteq> CHR ''-''" "hd (nat_str n) \<noteq> CHR ''+''"
    using nat_str_digits [of n] digit_not_sign nat_str_ne hd_in_set by metis+
  show ?thesis
    by (simp add: py_int_def strip_digits nat_str_digits drop_underscores_digits hd Let_def)
qed

lemma digits_val_zeros: "digits_val (replicate k (CHR ''0'') @ s) = digits_val s"
proof -
  have "foldl (\<lambda>a c. 10 * a + digit_val c) 0 (replicate k (CHR ''0'')) = 0"
    by (induction k) (simp_all add: digit_val_def)
  then show ?thesis by (simp add: digits_val_def)
qed

lemma pad0_digits: "\<forall>c \<in> set (pad0 w n). is_digit c"
  using nat_str_digits [of n] by (auto simp: pad0_def Let_def is_digit_def)

lemma digits_val_pad0 [simp]: "digits_val (pad0 w n) = n"
  by (simp add: pad0_def Let_def digits_val_zeros)

lemma pad0_ne [simp]: "pad0 w n \<noteq> []"
  by (simp add: pad0_def Let_def)

lemma length_nat_str_le: "0 < k \<Longrightarrow> n < 10 ^ k \<Longrightarrow> length (nat_str n) \<le> k"
proof (induction k arbitrary: n)
  case 0
  then show ?case by simp
next
  case (Suc k)
  show ?case
  proof (cases "n < 10")
    case True
    then show ?thesis by (simp add: nat_str.simps [of n])
  next
    case False
    then have "0 < k" using Suc.prems by (cases k) auto
    moreover have "n div 10 < 10 ^ k" using Suc.prems by (auto simp: less_mult_imp_div_less)
    ultimately show ?thesis using Suc.IH False by (simp add: nat_str.simps [of n])
  qed
qed

lemma length_pad0: "0 < w \<Longrightarrow> n < 10 ^ w \<Longrightarrow> length (pad0 w n) = w"
  using length_nat_str_le [of w n] by (simp add: pad0_def Let_def)

end
