(* ===== verification/PyVal.thy ===== *)
theory PyVal
  imports PyNum
begin

text \<open>
  The values \<open>json.loads\<close> and \<open>yaml.safe_load\<close> return, as far as the code distinguishes them. A
  \<open>dict\<close> is the list of its items in insertion order. Numbers with a fraction and YAML dates are
  not modelled.
\<close>

datatype pyval =
    VNone
  | VBool bool
  | VInt int
  | VStr string
  | VList "pyval list"
  | VDict "(pyval \<times> pyval) list"

fun py_truth :: "pyval \<Rightarrow> bool" where
  "py_truth VNone = False"
| "py_truth (VBool b) = b"
| "py_truth (VInt i) = (i \<noteq> 0)"
| "py_truth (VStr s) = (s \<noteq> [])"
| "py_truth (VList xs) = (xs \<noteq> [])"
| "py_truth (VDict kvs) = (kvs \<noteq> [])"

text \<open>\<open>hash(v)\<close> raises \<open>TypeError\<close> on a list or a dict.\<close>

fun hashable :: "pyval \<Rightarrow> bool" where
  "hashable (VList xs) = False"
| "hashable (VDict kvs) = False"
| "hashable _ = True"

text \<open>\<open>True == 1\<close> and \<open>False == 0\<close>: scalars are compared, and looked up as keys, after this
  normalisation.\<close>

fun py_norm :: "pyval \<Rightarrow> pyval" where
  "py_norm (VBool b) = VInt (if b then 1 else 0)"
| "py_norm (VList xs) = VList (map py_norm xs)"
| "py_norm (VDict kvs) = VDict (map (\<lambda>(k, v). (py_norm k, py_norm v)) kvs)"
| "py_norm v = v"

definition py_eq :: "pyval \<Rightarrow> pyval \<Rightarrow> bool" where
  "py_eq a b \<longleftrightarrow> py_norm a = py_norm b"

lemma py_eq_VStr [simp]: "py_eq (VStr s) v \<longleftrightarrow> v = VStr s" "py_eq v (VStr s) \<longleftrightarrow> v = VStr s"
  by (cases v; auto simp: py_eq_def)+

lemma py_eq_refl [simp]: "py_eq v v"
  by (simp add: py_eq_def)

lemma py_eq_sym: "py_eq a b \<longleftrightarrow> py_eq b a"
  by (auto simp: py_eq_def)

lemma py_eq_trans: "py_eq a b \<Longrightarrow> py_eq b c \<Longrightarrow> py_eq a c"
  by (simp add: py_eq_def)

section \<open>Dictionaries in insertion order\<close>

text \<open>\<open>d[k] = v\<close>: an existing key keeps its place, a new one goes to the end.\<close>

fun dput :: "'k \<Rightarrow> 'v \<Rightarrow> ('k \<times> 'v) list \<Rightarrow> ('k \<times> 'v) list" where
  "dput k v [] = [(k, v)]"
| "dput k v ((k', v') # d) = (if k' = k then (k', v) # d else (k', v') # dput k v d)"

definition dget_or :: "'v \<Rightarrow> 'k \<Rightarrow> ('k \<times> 'v) list \<Rightarrow> 'v" where
  "dget_or v0 k d = (case map_of d k of None \<Rightarrow> v0 | Some v \<Rightarrow> v)"

text \<open>\<open>d.setdefault(k, v)\<close>.\<close>

definition dsetdefault :: "'k \<Rightarrow> 'v \<Rightarrow> ('k \<times> 'v) list \<Rightarrow> ('k \<times> 'v) list" where
  "dsetdefault k v d = (if map_of d k = None then d @ [(k, v)] else d)"

lemma map_of_dput [simp]: "map_of (dput k v d) = (map_of d)(k \<mapsto> v)"
  by (induction d) auto

lemma dom_keys_dput [simp]: "fst ` set (dput k v d) = insert k (fst ` set d)"
  by (simp flip: dom_map_of_conv_image_fst)

lemma distinct_dput: "distinct (map fst d) \<Longrightarrow> distinct (map fst (dput k v d))"
proof (induction d)
  case Nil
  then show ?case by simp
next
  case (Cons kv d)
  obtain k' v' where kv: "kv = (k', v')" by (cases kv)
  have "k' \<notin> fst ` set (dput k v d)" if "k' \<noteq> k" using Cons.prems that by (simp add: kv)
  with Cons show ?case by (auto simp: kv)
qed

lemma map_of_dsetdefault:
  "map_of (dsetdefault k v d) = (case map_of d k of None \<Rightarrow> (map_of d)(k \<mapsto> v) | Some _ \<Rightarrow> map_of d)"
  by (auto simp: dsetdefault_def fun_eq_iff map_add_def split: option.splits)

lemma distinct_dsetdefault: "distinct (map fst d) \<Longrightarrow> distinct (map fst (dsetdefault k v d))"
  by (auto simp: dsetdefault_def map_of_eq_None_iff)

text \<open>\<open>v.get(k)\<close> and \<open>v.get(k, d)\<close> with a string key, on a value that is a dict.\<close>

fun items :: "pyval \<Rightarrow> (pyval \<times> pyval) list" where
  "items (VDict kvs) = kvs"
| "items _ = []"

fun is_dict :: "pyval \<Rightarrow> bool" where
  "is_dict (VDict _) = True"
| "is_dict _ = False"

definition vget :: "string \<Rightarrow> pyval \<Rightarrow> pyval option" where
  "vget k v = map_of (items v) (VStr k)"

definition vget_or :: "pyval \<Rightarrow> string \<Rightarrow> pyval \<Rightarrow> pyval" where
  "vget_or d k v = (case vget k v of None \<Rightarrow> d | Some x \<Rightarrow> x)"

abbreviation vget0 :: "string \<Rightarrow> pyval \<Rightarrow> pyval" where
  "vget0 \<equiv> vget_or VNone"

abbreviation vhas :: "string \<Rightarrow> pyval \<Rightarrow> bool" where
  "vhas k v \<equiv> vget k v \<noteq> None"

text \<open>A dict literal with string keys.\<close>

definition vdict :: "(string \<times> pyval) list \<Rightarrow> pyval" where
  "vdict kvs = VDict (map (\<lambda>(k, v). (VStr k, v)) kvs)"

lemma map_of_vstr: "map_of (map (\<lambda>(k, v). (VStr k, v)) kvs) (VStr k) = map_of kvs k"
  by (induction kvs) auto

lemma vget_vdict [simp]: "vget k (vdict kvs) = map_of kvs k"
  by (simp add: vget_def vdict_def map_of_vstr)

section \<open>\<open>str(v)\<close> and \<open>repr(v)\<close>\<close>

definition hex_char :: "nat \<Rightarrow> char" where
  "hex_char d = (if d < 10 then char_of (48 + d) else char_of (87 + d))"

definition repr_char :: "char \<Rightarrow> char \<Rightarrow> string" where
  "repr_char q c =
     (if c = q \<or> c = CHR 0x5C then [CHR 0x5C, c]
      else if code c = 10 then [CHR 0x5C, CHR ''n'']
      else if code c = 13 then [CHR 0x5C, CHR ''r'']
      else if code c = 9 then [CHR 0x5C, CHR ''t'']
      else if code c < 32 \<or> code c = 127
        then [CHR 0x5C, CHR ''x'', hex_char (code c div 16), hex_char (code c mod 16)]
      else [c])"

definition str_repr :: "string \<Rightarrow> string" where
  "str_repr s =
     (let q = (if CHR 0x27 \<in> set s \<and> CHR 0x22 \<notin> set s then CHR 0x22 else CHR 0x27)
      in q # concat (map (repr_char q) s) @ [q])"

fun py_repr :: "pyval \<Rightarrow> string" where
  "py_repr VNone = ''None''"
| "py_repr (VBool b) = (if b then ''True'' else ''False'')"
| "py_repr (VInt i) = int_str i"
| "py_repr (VStr s) = str_repr s"
| "py_repr (VList xs) = ''['' @ join '', '' (map py_repr xs) @ '']''"
| "py_repr (VDict kvs) =
     ''{'' @ join '', '' (map (\<lambda>(k, v). py_repr k @ '': '' @ py_repr v) kvs) @ ''}''"

fun py_str :: "pyval \<Rightarrow> string" where
  "py_str (VStr s) = s"
| "py_str v = py_repr v"

text \<open>\<open>tuple(v)\<close>, \<open>for x in v\<close>: a string yields its characters, a dict its keys.\<close>

fun py_iter :: "pyval \<Rightarrow> py_exc + pyval list" where
  "py_iter (VList xs) = Inr xs"
| "py_iter (VDict kvs) = Inr (map fst kvs)"
| "py_iter (VStr s) = Inr (map (\<lambda>c. VStr [c]) s)"
| "py_iter _ = Inl TypeError"

text \<open>\<open>dict(v)\<close>: a dict is copied, a list must hold pairs.\<close>

fun as_pair :: "pyval \<Rightarrow> py_exc + (pyval \<times> pyval)" where
  "as_pair v = rbind (py_iter v) (\<lambda>xs. case xs of
      [a, b] \<Rightarrow> if hashable a then Inr (a, b) else Inl TypeError
    | _ \<Rightarrow> Inl ValueError)"

fun py_dict :: "pyval \<Rightarrow> py_exc + (pyval \<times> pyval) list" where
  "py_dict (VDict kvs) = Inr kvs"
| "py_dict v = rbind (py_iter v) (\<lambda>xs. rbind (rmap as_pair xs)
      (\<lambda>ps. Inr (foldl (\<lambda>d (k, x). dput k x d) [] ps)))"

end
