(* ===== verification/Schema.thy ===== *)
theory Schema
  imports PyVal
begin

text \<open>
  \<open>nightclaw_engine/schema/loader.py\<close>: the typed schema model, its loaders and the mtime cache.

  PyYAML is not part of the repository: \<open>yaml\<close> stands for \<open>yaml.safe_load\<close> (\<open>Inl\<close> its error text),
  and \<open>sha\<close> for SHA-256. A schema directory is the list of its files: name, text and mtime.
\<close>

section \<open>The typed model\<close>

record object_spec =
  ob_obj :: string
  ob_file :: string
  ob_pk :: string
  ob_reader :: string
  ob_writer :: string
  ob_append_only :: bool

record field_spec =
  fs_obj :: string
  fs_field :: string
  fs_type :: string
  fs_req :: string
  fs_constraint :: string
  fs_fk :: string

record route_rule =
  rr_file :: string
  rr_tier :: string
  rr_bundle :: string
  rr_note :: string

record edge =
  e_source :: string
  e_type :: string
  e_target :: string

record bundle_spec =
  bs_name :: string
  bs_trigger :: string
  bs_args :: "string list"
  bs_validates :: "string list"
  bs_writes :: "(pyval \<times> pyval) list"
  bs_append :: "(pyval \<times> pyval) list"
  bs_notify :: "(pyval \<times> pyval) list option"
  bs_returns :: string
  bs_inline :: bool
  bs_extras :: "(pyval \<times> pyval) list"

record scr_rule =
  sr_id :: string
  sr_severity :: string
  sr_predicate :: string
  sr_title :: string

record schema_model =
  sm_objects :: "object_spec list"
  sm_fields :: "field_spec list"
  sm_routes :: "route_rule list"
  sm_edges :: "edge list"
  sm_bundles :: "bundle_spec list"
  sm_protected :: "string list"
  sm_schema_paths :: "string list"
  sm_scr_rules :: "scr_rule list"
  sm_source_dir :: string
  sm_fingerprint :: string

definition model_bundle :: "schema_model \<Rightarrow> string \<Rightarrow> bundle_spec option" where
  "model_bundle m name = find (\<lambda>b. bs_name b = name) (sm_bundles m)"

definition model_is_protected :: "schema_model \<Rightarrow> string \<Rightarrow> bool" where
  "model_is_protected m rel_path \<longleftrightarrow> rel_path \<in> set (sm_protected m)"

section \<open>The schema directory\<close>

record schema_file =
  sf_name :: string
  sf_text :: string
  sf_mtime :: int

type_synonym schema_dir = "schema_file list"

abbreviation yaml_files :: "schema_dir \<Rightarrow> schema_file list" where
  "yaml_files d \<equiv> filter (\<lambda>f. endswith (sf_name f) ''.yaml'') d"

definition dir_text :: "schema_dir \<Rightarrow> string \<Rightarrow> string option" where
  "dir_text d name = map_option sf_text (find (\<lambda>f. sf_name f = name) d)"

definition schema_dir_mtime :: "schema_dir \<Rightarrow> int" where
  "schema_dir_mtime d =
     foldl (\<lambda>latest f. if sf_mtime f > latest then sf_mtime f else latest) 0
       (sort_key sf_name (yaml_files d))"

definition fingerprint :: "(string \<Rightarrow> string) \<Rightarrow> schema_dir \<Rightarrow> string" where
  "fingerprint sha d =
     sha (concat (map (\<lambda>f. sf_name f @ [CHR 0x00] @ sf_text f @ [CHR 0x00])
                   (sort_key sf_name (yaml_files d))))"

section \<open>Loaders\<close>

fun type_name :: "pyval \<Rightarrow> string" where
  "type_name VNone = ''NoneType''"
| "type_name (VBool _) = ''bool''"
| "type_name (VInt _) = ''int''"
| "type_name (VStr _) = ''str''"
| "type_name (VList _) = ''list''"
| "type_name (VDict _) = ''dict''"

definition read_yaml ::
  "(string \<Rightarrow> string + pyval) \<Rightarrow> string \<Rightarrow> schema_dir \<Rightarrow> string \<Rightarrow> py_exc + pyval" where
  "read_yaml yaml path d name =
     (let p = path @ ''/'' @ name in
      case dir_text d name of
        None \<Rightarrow> Inl (SchemaError (''missing schema file: '' @ p))
      | Some text \<Rightarrow>
          (case yaml text of
             Inl e \<Rightarrow> Inl (SchemaError (''invalid YAML in '' @ p @ '': '' @ e))
           | Inr data \<Rightarrow>
               if data = VNone then Inr (VDict [])
               else if is_dict data then Inr data
               else Inl (SchemaError (''expected mapping at top of '' @ p @ '', got '' @ type_name data))))"

text \<open>The loop the row loaders share: \<open>data.get(key, [])\<close> must be a list of mappings.\<close>

definition load_rows ::
  "string \<Rightarrow> string \<Rightarrow> (pyval \<Rightarrow> py_exc + 'r) \<Rightarrow> pyval \<Rightarrow> py_exc + 'r list" where
  "load_rows file key mk data =
     (case vget_or (VList []) key data of
        VList rows \<Rightarrow>
          rmap (\<lambda>(i, row). if is_dict row then mk row
                         else Inl (SchemaError (file @ '' row '' @ nat_str i @ '' is not a mapping'')))
            (enumerate 0 rows)
      | _ \<Rightarrow> Inl (SchemaError (file @ '':'' @ key @ '' must be a list'')))"

definition row_str :: "string \<Rightarrow> pyval \<Rightarrow> string" where
  "row_str k row = py_str (vget_or (VStr []) k row)"

definition row_bool :: "string \<Rightarrow> pyval \<Rightarrow> bool" where
  "row_bool k row = py_truth (vget_or (VBool False) k row)"

definition object_of_row :: "pyval \<Rightarrow> object_spec" where
  "object_of_row row =
     \<lparr>ob_obj = row_str ''obj'' row, ob_file = row_str ''file'' row, ob_pk = row_str ''pk'' row,
      ob_reader = row_str ''reader'' row, ob_writer = row_str ''writer'' row,
      ob_append_only = row_bool ''append_only'' row\<rparr>"

definition load_objects :: "pyval \<Rightarrow> py_exc + object_spec list" where
  "load_objects = load_rows ''objects.yaml'' ''objects'' (\<lambda>row. Inr (object_of_row row))"

definition field_of_row :: "pyval \<Rightarrow> field_spec" where
  "field_of_row row =
     \<lparr>fs_obj = row_str ''obj'' row, fs_field = row_str ''field'' row, fs_type = row_str ''type'' row,
      fs_req = lower (row_str ''req'' row), fs_constraint = row_str ''constraint'' row,
      fs_fk = row_str ''fk'' row\<rparr>"

definition load_fields :: "pyval \<Rightarrow> py_exc + field_spec list" where
  "load_fields = load_rows ''fields.yaml'' ''fields'' (\<lambda>row. Inr (field_of_row row))"

definition route_of_row :: "pyval \<Rightarrow> route_rule" where
  "route_of_row row =
     \<lparr>rr_file = row_str ''file'' row, rr_tier = row_str ''tier'' row,
      rr_bundle = row_str ''bundle'' row, rr_note = row_str ''note'' row\<rparr>"

definition load_routes :: "pyval \<Rightarrow> py_exc + route_rule list" where
  "load_routes = load_rows ''routing.yaml'' ''routes'' (\<lambda>row. Inr (route_of_row row))"

definition edge_of_row :: "pyval \<Rightarrow> edge" where
  "edge_of_row row =
     \<lparr>e_source = row_str ''source'' row, e_type = row_str ''type'' row,
      e_target = row_str ''target'' row\<rparr>"

definition load_edges :: "pyval \<Rightarrow> py_exc + edge list" where
  "load_edges = load_rows ''edges.yaml'' ''edges'' (\<lambda>row. Inr (edge_of_row row))"

text \<open>\<open>row.get(k) or dflt\<close>.\<close>

definition get_or_falsy :: "pyval \<Rightarrow> string \<Rightarrow> pyval \<Rightarrow> pyval" where
  "get_or_falsy dflt k row = (let v = vget0 k row in if py_truth v then v else dflt)"

definition known_top :: "string list" where
  "known_top = [''name'', ''trigger'', ''args'', ''validates'', ''writes'', ''append'',
                ''notify'', ''returns'', ''inline'']"

definition bundle_of_row :: "pyval \<Rightarrow> py_exc + bundle_spec" where
  "bundle_of_row row =
     rbind (py_iter (get_or_falsy (VList []) ''args'' row)) (\<lambda>args.
     rbind (py_iter (get_or_falsy (VList []) ''validates'' row)) (\<lambda>vals.
     rbind (py_dict (get_or_falsy (VDict []) ''writes'' row)) (\<lambda>writes.
     rbind (py_dict (get_or_falsy (VDict []) ''append'' row)) (\<lambda>app.
       Inr \<lparr>bs_name = row_str ''name'' row, bs_trigger = row_str ''trigger'' row,
            bs_args = map py_str args, bs_validates = map py_str vals,
            bs_writes = writes, bs_append = app,
            bs_notify = (case vget0 ''notify'' row of VDict d \<Rightarrow> Some d | _ \<Rightarrow> None),
            bs_returns = row_str ''returns'' row, bs_inline = row_bool ''inline'' row,
            bs_extras = filter (\<lambda>(k, v). k \<notin> set (map VStr known_top)) (items row)\<rparr>))))"

definition load_bundles :: "pyval \<Rightarrow> py_exc + bundle_spec list" where
  "load_bundles = load_rows ''bundles.yaml'' ''bundles'' bundle_of_row"

definition load_protected :: "pyval \<Rightarrow> py_exc + (string list \<times> string list)" where
  "load_protected data =
     (case (vget_or (VList []) ''protected_paths'' data, vget_or (VList []) ''schema_paths'' data) of
        (VList pp, VList sp) \<Rightarrow> Inr (map py_str pp, map py_str sp)
      | _ \<Rightarrow> Inl (SchemaError ''protected.yaml: protected_paths and schema_paths must be lists''))"

definition scr_of_row :: "pyval \<Rightarrow> scr_rule" where
  "scr_of_row row =
     \<lparr>sr_id = row_str ''id'' row, sr_severity = upper (row_str ''severity'' row),
      sr_predicate = row_str ''predicate'' row, sr_title = row_str ''title'' row\<rparr>"

definition load_scr_rules :: "pyval \<Rightarrow> py_exc + scr_rule list" where
  "load_scr_rules = load_rows ''scr_rules.yaml'' ''scr_rules'' (\<lambda>row. Inr (scr_of_row row))"

text \<open>The body of \<open>load\<close> past the cache: read the seven files in this order, first error wins.\<close>

definition load_fresh ::
  "(string \<Rightarrow> string + pyval) \<Rightarrow> (string \<Rightarrow> string) \<Rightarrow> string \<Rightarrow> schema_dir \<Rightarrow> py_exc + schema_model" where
  "load_fresh yaml sha path d =
     (let rd = read_yaml yaml path d in
      rbind (rbind (rd ''objects.yaml'') load_objects) (\<lambda>objects.
      rbind (rbind (rd ''fields.yaml'') load_fields) (\<lambda>flds.
      rbind (rbind (rd ''routing.yaml'') load_routes) (\<lambda>routes.
      rbind (rbind (rd ''edges.yaml'') load_edges) (\<lambda>edges.
      rbind (rbind (rd ''bundles.yaml'') load_bundles) (\<lambda>bundles.
      rbind (rbind (rd ''protected.yaml'') load_protected) (\<lambda>(pp, sp).
      rbind (rbind (rd ''scr_rules.yaml'') load_scr_rules) (\<lambda>scr.
        Inr \<lparr>sm_objects = objects, sm_fields = flds, sm_routes = routes, sm_edges = edges,
             sm_bundles = bundles, sm_protected = pp, sm_schema_paths = sp, sm_scr_rules = scr,
             sm_source_dir = path, sm_fingerprint = fingerprint sha d\<rparr>))))))))"

section \<open>The cache\<close>

type_synonym schema_cache = "(string \<times> (int \<times> schema_model)) list"

definition load ::
  "(string \<Rightarrow> string + pyval) \<Rightarrow> (string \<Rightarrow> string) \<Rightarrow> string \<Rightarrow> bool \<Rightarrow> schema_dir \<Rightarrow> schema_cache \<Rightarrow>
   (py_exc + schema_model) \<times> schema_cache" where
  "load yaml sha path force d cache =
     (case (if force then None else map_of cache path) of
        Some (m, model) \<Rightarrow>
          if m \<ge> schema_dir_mtime d then (Inr model, cache)
          else (case load_fresh yaml sha path d of
                  Inl e \<Rightarrow> (Inl e, cache)
                | Inr model' \<Rightarrow> (Inr model', dput path (schema_dir_mtime d, model') cache))
      | None \<Rightarrow>
          (case load_fresh yaml sha path d of
             Inl e \<Rightarrow> (Inl e, cache)
           | Inr model' \<Rightarrow> (Inr model', dput path (schema_dir_mtime d, model') cache)))"

definition invalidate :: "string option \<Rightarrow> schema_cache \<Rightarrow> schema_cache" where
  "invalidate dir cache =
     (case dir of None \<Rightarrow> [] | Some p \<Rightarrow> filter (\<lambda>(k, _). k \<noteq> p) cache)"

end
