(* ===== verification/SchemaCache.thy ===== *)
theory SchemaCache
  imports Schema
begin


definition remove_file :: "string \<Rightarrow> schema_dir \<Rightarrow> schema_dir" where
  "remove_file name d = filter (\<lambda>f. sf_name f \<noteq> name) d"



section \<open>The newest mtime\<close>

lemma foldl_max_mtime:
  "foldl (\<lambda>l f. if sf_mtime f > l then sf_mtime f else l) a fs = Max (insert a (sf_mtime ` set fs))"
proof (induction fs arbitrary: a)
  case Nil
  then show ?case by simp
next
  case (Cons f fs)
  have eq: "(if sf_mtime f > a then sf_mtime f else a) = max a (sf_mtime f)" by simp
  have "foldl (\<lambda>l f. if sf_mtime f > l then sf_mtime f else l) a (f # fs)
      = Max (insert (max a (sf_mtime f)) (sf_mtime ` set fs))"
    using Cons.IH [of "max a (sf_mtime f)"] by (simp only: foldl_Cons eq)
  also have "\<dots> = Max (insert a (sf_mtime ` set (f # fs)))"
    by (cases "fs = []") (simp_all add: max.assoc)
  finally show ?case .
qed

lemma schema_dir_mtime_Max: "schema_dir_mtime d = Max (insert 0 (sf_mtime ` set (yaml_files d)))"
  unfolding schema_dir_mtime_def foldl_max_mtime by simp




section \<open>The invariant\<close>







section \<open>Properties\<close>

definition sample_dir :: "string \<Rightarrow> schema_dir" where
  "sample_dir prot =
     map (\<lambda>n. \<lparr>sf_name = n, sf_text = [], sf_mtime = 5\<rparr>)
       [''objects.yaml'', ''fields.yaml'', ''routing.yaml'', ''edges.yaml'', ''bundles.yaml'',
        ''scr_rules.yaml''] @
     [\<lparr>sf_name = ''protected.yaml'', sf_text = prot, sf_mtime = 9\<rparr>]"

text \<open>A YAML reader that knows two texts: the empty one and \<open>P\<close>.\<close>

definition sample_yaml :: "string \<Rightarrow> string + pyval" where
  "sample_yaml t =
     (if t = [] then Inr VNone
      else if t = ''P'' then Inr (vdict [(''protected_paths'', VList [VStr ''SOUL.md''])])
      else Inl ''bad'')"

definition sample_sha :: "string \<Rightarrow> string" where "sample_sha t = take 8 t"

lemma sample_load_fresh:
  "load_fresh sample_yaml sample_sha ''s'' (sample_dir ''P'') =
     Inr \<lparr>sm_objects = [], sm_fields = [], sm_routes = [], sm_edges = [], sm_bundles = [],
          sm_protected = [''SOUL.md''], sm_schema_paths = [], sm_scr_rules = [],
          sm_source_dir = ''s'', sm_fingerprint = fingerprint sample_sha (sample_dir ''P'')\<rparr>"
  by (simp add: load_fresh_def read_yaml_def dir_text_def sample_dir_def sample_yaml_def Let_def
      load_objects_def load_fields_def load_routes_def load_edges_def load_bundles_def
      load_protected_def load_scr_rules_def load_rows_def vget_or_def vget_def vdict_def)



text \<open>The cache looks at the newest mtime only: when a directory changes in any way that does not
  raise it, such as the removal of a file, \<open>load\<close> keeps returning the old model.\<close>

theorem load_stale_without_newer_mtime:
  assumes "load_fresh yaml sha path d = Inr model" "schema_dir_mtime d' \<le> schema_dir_mtime d"
  shows "fst (load yaml sha path False d' (snd (load yaml sha path True d c))) = Inr model"
  using assms by (simp add: load_def)

theorem load_stale_without_newer_mtime_witness:
  "(\<exists>model. fst (load sample_yaml sample_sha ''s'' False (remove_file ''protected.yaml'' (sample_dir ''P''))
      (snd (load sample_yaml sample_sha ''s'' True (sample_dir ''P'') []))) = Inr model)
   \<and> load_fresh sample_yaml sample_sha ''s'' (remove_file ''protected.yaml'' (sample_dir ''P'')) =
       Inl (SchemaError ''missing schema file: s/protected.yaml'')"
proof
  have "schema_dir_mtime (remove_file ''protected.yaml'' (sample_dir ''P'')) \<le> schema_dir_mtime (sample_dir ''P'')"
    by (simp add: schema_dir_mtime_Max remove_file_def sample_dir_def endswith_def)
  then show "\<exists>model. fst (load sample_yaml sample_sha ''s'' False (remove_file ''protected.yaml'' (sample_dir ''P''))
      (snd (load sample_yaml sample_sha ''s'' True (sample_dir ''P'') []))) = Inr model"
    using load_stale_without_newer_mtime [OF sample_load_fresh] by blast
  show "load_fresh sample_yaml sample_sha ''s'' (remove_file ''protected.yaml'' (sample_dir ''P'')) =
       Inl (SchemaError ''missing schema file: s/protected.yaml'')"
    by (simp add: load_fresh_def read_yaml_def dir_text_def sample_dir_def sample_yaml_def Let_def
      load_objects_def load_fields_def load_routes_def load_edges_def load_bundles_def
      load_rows_def vget_or_def vget_def remove_file_def)
qed

end
