(* ===== verification/Workspace.thy ===== *)
theory Workspace
  imports PyStr
begin

text \<open>
  The workspace the commands read and write: a map from paths to file texts. A path that starts
  with no slash is relative to the workspace root (\<open>_shared.ROOT\<close>), one that starts with a slash is
  absolute, the way \<open>ROOT / rel_path\<close> and \<open>os.path.join(ws, rel_path)\<close> resolve. Directories and
  symbolic links are not modelled: creating the parent directories of a file is no step.

  A command is a function from the workspace to an outcome (exit code and standard output, or the
  exception that ends it) and the workspace it leaves.
\<close>

type_synonym workspace = "string \<Rightarrow> string option"

datatype outcome = Exit nat "string list" | Raise py_exc "string list"

fun out_lines :: "outcome \<Rightarrow> string list" where
  "out_lines (Exit n ls) = ls"
| "out_lines (Raise e ls) = ls"

section \<open>Paths\<close>

text \<open>Segments \<open>""\<close> and \<open>.\<close> vanish, \<open>..\<close> takes its parent away; above the root of a relative path
  it stays, above \<open>/\<close> it vanishes.\<close>

fun canon_segs :: "bool \<Rightarrow> string list \<Rightarrow> string list \<Rightarrow> string list" where
  "canon_segs ab acc [] = rev acc"
| "canon_segs ab acc (seg # segs) =
     (if seg = [] \<or> seg = ''.'' then canon_segs ab acc segs
      else if seg = ''..'' then
        (case acc of
           [] \<Rightarrow> canon_segs ab (if ab then [] else [''..'']) segs
         | a # as \<Rightarrow> canon_segs ab (if a = ''..'' then ''..'' # acc else as) segs)
      else canon_segs ab (seg # acc) segs)"

definition is_absolute :: "string \<Rightarrow> bool" where
  "is_absolute p \<longleftrightarrow> startswith p ''/''"

definition canon_path :: "string \<Rightarrow> string" where
  "canon_path p =
     (if is_absolute p then ''/'' else []) @
       join ''/'' (canon_segs (is_absolute p) [] (split_on (CHR ''/'') p))"

text \<open>Whether the file a path names lies in the workspace.\<close>

definition in_workspace :: "string \<Rightarrow> bool" where
  "in_workspace p \<longleftrightarrow> \<not> is_absolute p \<and> \<not> startswith (canon_path p) ''..''"

definition plain_seg :: "string \<Rightarrow> bool" where
  "plain_seg seg \<longleftrightarrow> seg \<noteq> [] \<and> seg \<noteq> ''.'' \<and> seg \<noteq> ''..''"

definition plain_path :: "string \<Rightarrow> bool" where
  "plain_path p \<longleftrightarrow> list_all plain_seg (split_on (CHR ''/'') p)"

section \<open>Reading and writing\<close>

text \<open>Text mode reads \<open>\r\n\<close> and \<open>\r\<close> as \<open>\n\<close>, and writes what it is given.\<close>

fun univ_nl :: "string \<Rightarrow> string" where
  "univ_nl [] = []"
| "univ_nl [c] = [if code c = 13 then CHR 0x0A else c]"
| "univ_nl (c # d # s) =
     (if code c = 13 then (if code d = 10 then CHR 0x0A # univ_nl s else CHR 0x0A # univ_nl (d # s))
      else c # univ_nl (d # s))"

lemma univ_nl_code [code]:
  "univ_nl [] = []"
  "univ_nl [c] = [if c = CHR 0x0D then CHR 0x0A else c]"
  "univ_nl (c # d # s) =
     (if c = CHR 0x0D then (if d = CHR 0x0A then CHR 0x0A # univ_nl s else CHR 0x0A # univ_nl (d # s))
      else c # univ_nl (d # s))"
  by (simp_all add: code_nl_iff code_cr_iff)

definition read_file :: "string \<Rightarrow> workspace \<Rightarrow> string option" where
  "read_file rel w = map_option univ_nl (w (canon_path rel))"

definition write_file :: "string \<Rightarrow> string \<Rightarrow> workspace \<Rightarrow> workspace" where
  "write_file rel text w = w(canon_path rel \<mapsto> text)"

text \<open>\<open>open(path, "a")\<close>: the file is created where it does not exist.\<close>

definition append_file :: "string \<Rightarrow> string \<Rightarrow> workspace \<Rightarrow> workspace" where
  "append_file rel text w =
     w(canon_path rel \<mapsto> (case w (canon_path rel) of None \<Rightarrow> [] | Some t \<Rightarrow> t) @ text)"

section \<open>Lemmas\<close>

lemma canon_segs_plain: "list_all plain_seg segs \<Longrightarrow> canon_segs b acc segs = rev acc @ segs"
  by (induction segs arbitrary: acc) (auto simp: plain_seg_def)

lemma plain_path_relative: "plain_path p \<Longrightarrow> \<not> is_absolute p"
  by (cases p) (auto simp: plain_path_def is_absolute_def plain_seg_def)

lemma canon_path_plain [simp]: "plain_path p \<Longrightarrow> canon_path p = p"
  using plain_path_relative [of p]
  by (simp add: canon_path_def plain_path_def canon_segs_plain join_split_on)

lemma plain_path_join:
  assumes "plain_path p" "plain_path q"
  shows "plain_path (p @ ''/'' @ q)"
  using assms by (simp add: plain_path_def split_on_app)

lemma plain_path_seg: "CHR ''/'' \<notin> set p \<Longrightarrow> plain_path p \<longleftrightarrow> plain_seg p"
  by (simp add: plain_path_def split_on_notin)

text \<open>No canonical path has a parent segment left, unless it climbs out of the workspace.\<close>

lemma canon_segs_parts:
  assumes "list_all (\<lambda>s. plain_seg s \<or> (\<not> b \<and> s = ''..'')) acc"
  shows "list_all (\<lambda>s. plain_seg s \<or> (\<not> b \<and> s = ''..'')) (canon_segs b acc segs)"
  using assms
proof (induction b acc segs rule: canon_segs.induct)
  case (1 b acc)
  then show ?case by (simp add: list_all_iff)
next
  case (2 b acc seg segs)
  then show ?case by (auto simp: plain_seg_def split: list.splits)
qed

lemma univ_nl_id: "CHR 0x0D \<notin> set s \<Longrightarrow> univ_nl s = s"
  by (induction s rule: univ_nl.induct) (auto simp: code_cr_iff)

lemma univ_nl_no_cr: "CHR 0x0D \<notin> set (univ_nl s)"
  by (induction s rule: univ_nl.induct) (auto simp: code_cr_iff)

lemma univ_nl_idem [simp]: "univ_nl (univ_nl s) = univ_nl s"
  by (rule univ_nl_id) (rule univ_nl_no_cr)

lemma read_write_same: "canon_path p = canon_path q \<Longrightarrow> read_file q (write_file p t w) = Some (univ_nl t)"
  by (simp add: read_file_def write_file_def)

lemma read_write_other: "canon_path p \<noteq> canon_path q \<Longrightarrow> read_file q (write_file p t w) = read_file q w"
  by (simp add: read_file_def write_file_def)

lemma write_file_other: "q \<noteq> canon_path p \<Longrightarrow> write_file p t w q = w q"
  by (simp add: write_file_def)

lemma append_file_other: "q \<noteq> canon_path p \<Longrightarrow> append_file p t w q = w q"
  by (simp add: append_file_def)

section \<open>What a sequence of operations can touch\<close>

text \<open>An operation that changes only the files its argument allows. Nothing else changes in any
  sequence of such operations.\<close>

locale confined_op =
  fixes run_op :: "'a \<Rightarrow> workspace \<Rightarrow> workspace"
    and targets :: "'a \<Rightarrow> string set"
  assumes frame: "q \<notin> targets a \<Longrightarrow> run_op a w q = w q"
begin

lemma frame_seq:
  assumes "\<And>a. a \<in> set as \<Longrightarrow> q \<notin> targets a"
  shows "fold run_op as w q = w q"
  using assms
  by (induction as arbitrary: w) (simp_all add: frame)

lemma changed_in_targets:
  assumes "fold run_op as w q \<noteq> w q"
  shows "\<exists>a \<in> set as. q \<in> targets a"
  using assms frame_seq by metis

end

text \<open>An operation that only appends: every file it leaves starts with what it held.\<close>

definition grows :: "workspace \<Rightarrow> workspace \<Rightarrow> bool" where
  "grows w w' \<longleftrightarrow> (\<forall>q t. w q = Some t \<longrightarrow> (\<exists>u. w' q = Some (t @ u)))"

lemma grows_refl [simp]: "grows w w"
  by (simp add: grows_def)

lemma grows_trans: "grows u v \<Longrightarrow> grows v w \<Longrightarrow> grows u w"
  by (fastforce simp: grows_def)

lemma grows_append_file: "grows w (append_file p t w)"
  by (auto simp: grows_def append_file_def)

locale append_only_op = confined_op +
  assumes growing: "grows w (run_op a w)"
begin

lemma grows_seq: "grows w (fold run_op as w)"
  by (induction as arbitrary: w) (auto intro: grows_trans growing)

lemma never_deleted: "w q = Some t \<Longrightarrow> \<exists>u. fold run_op as w q = Some (t @ u)"
  using grows_seq by (simp add: grows_def)

end

end
