(* ===== verification/PyRe.thy ===== *)
theory PyRe
  imports PyStr
begin

text \<open>
  The fragment of Python's \<open>re\<close> module the modelled code uses: a backtracking matcher that lists
  every way to match in the order in which \<open>re\<close> tries them (greedy first, \<open>RLazy\<close> shortest first,
  alternatives left to right), so that the first element of the list is the match \<open>re\<close> returns,
  with its groups. \<open>lang\<close> is the language of an expression; \<open>rx_run_sound\<close> and \<open>rx_run_complete\<close>
  relate the two, and the \<open>rx_match_*\<close> lemmas below them are what the components use.
\<close>

datatype rx =
    REps
  | RSet "char \<Rightarrow> bool"      \<comment> \<open>a character class\<close>
  | RSeq rx rx
  | RAlt rx rx
  | RStar rx                   \<comment> \<open>greedy\<close>
  | RLazy rx                   \<comment> \<open>\<open>*?\<close>\<close>
  | RGrp nat rx                \<comment> \<open>a capturing group\<close>
  | RBol | RBolM               \<comment> \<open>\<open>^\<close> without and with \<open>re.MULTILINE\<close>\<close>
  | REol | REolM               \<comment> \<open>\<open>$\<close> without and with \<open>re.MULTILINE\<close>\<close>
  | RWordB                     \<comment> \<open>\<open>\b\<close>\<close>
  | REnd                       \<comment> \<open>\<open>\Z\<close>\<close>
  | RLook rx                   \<comment> \<open>\<open>(?=...)\<close>, without groups in it\<close>

text \<open>A matcher state: the character before the position, the text from there, the groups.\<close>

type_synonym rst = "char option \<times> string \<times> (nat \<times> string) list"

abbreviation nl :: char where "nl \<equiv> CHR 0x0A"

text \<open>A star tries one more round only where the round before consumed something.\<close>

fun rx_iter :: "nat \<Rightarrow> (rst \<Rightarrow> rst list) \<Rightarrow> rst \<Rightarrow> rst list" where
  "rx_iter 0 f st = [st]"
| "rx_iter (Suc n) f st =
     concat (map (\<lambda>st'. if length (fst (snd st')) < length (fst (snd st)) then rx_iter n f st' else [])
                 (f st)) @ [st]"

fun rx_iter_lazy :: "nat \<Rightarrow> (rst \<Rightarrow> rst list) \<Rightarrow> rst \<Rightarrow> rst list" where
  "rx_iter_lazy 0 f st = [st]"
| "rx_iter_lazy (Suc n) f st =
     st # concat (map (\<lambda>st'. if length (fst (snd st')) < length (fst (snd st)) then rx_iter_lazy n f st' else [])
                      (f st))"

definition at_word_boundary :: "char option \<Rightarrow> string \<Rightarrow> bool" where
  "at_word_boundary p s \<longleftrightarrow>
     (case p of None \<Rightarrow> False | Some c \<Rightarrow> is_word c) \<noteq> (case s of [] \<Rightarrow> False | c # _ \<Rightarrow> is_word c)"

primrec rx_run :: "rx \<Rightarrow> rst \<Rightarrow> rst list" where
  "rx_run REps st = [st]"
| "rx_run (RSet P) st =
     (case st of (p, s, g) \<Rightarrow> (case s of [] \<Rightarrow> [] | c # t \<Rightarrow> if P c then [(Some c, t, g)] else []))"
| "rx_run (RSeq a b) st = concat (map (rx_run b) (rx_run a st))"
| "rx_run (RAlt a b) st = rx_run a st @ rx_run b st"
| "rx_run (RStar a) st = rx_iter (length (fst (snd st))) (rx_run a) st"
| "rx_run (RLazy a) st = rx_iter_lazy (length (fst (snd st))) (rx_run a) st"
| "rx_run (RGrp n a) st =
     map (\<lambda>(p', s', g'). (p', s', (n, take (length (fst (snd st)) - length s') (fst (snd st))) # g'))
       (rx_run a st)"
| "rx_run RBol st = (case st of (p, s, g) \<Rightarrow> if p = None then [st] else [])"
| "rx_run RBolM st = (case st of (p, s, g) \<Rightarrow> if p = None \<or> p = Some nl then [st] else [])"
| "rx_run REol st = (case st of (p, s, g) \<Rightarrow> if s = [] \<or> s = [nl] then [st] else [])"
| "rx_run REolM st = (case st of (p, s, g) \<Rightarrow> if s = [] \<or> hd s = nl then [st] else [])"
| "rx_run RWordB st = (case st of (p, s, g) \<Rightarrow> if at_word_boundary p s then [st] else [])"
| "rx_run REnd st = (case st of (p, s, g) \<Rightarrow> if s = [] then [st] else [])"
| "rx_run (RLook a) st = (if rx_run a st = [] then [] else [st])"

section \<open>Derived expressions\<close>

definition ropt :: "rx \<Rightarrow> rx" where "ropt r = RAlt r REps"

definition rplus :: "rx \<Rightarrow> rx" where "rplus r = RSeq r (RStar r)"

fun rrep :: "nat \<Rightarrow> rx \<Rightarrow> rx" where
  "rrep 0 r = REps"
| "rrep (Suc n) r = RSeq r (rrep n r)"

text \<open>\<open>r{0,n}\<close>.\<close>

fun rupto :: "nat \<Rightarrow> rx \<Rightarrow> rx" where
  "rupto 0 r = REps"
| "rupto (Suc n) r = ropt (RSeq r (rupto n r))"

fun rseq :: "rx list \<Rightarrow> rx" where
  "rseq [] = REps"
| "rseq [r] = r"
| "rseq (r # r' # rs) = RSeq r (rseq (r' # rs))"

fun ralts :: "rx list \<Rightarrow> rx" where
  "ralts [] = RSet (\<lambda>_. False)"
| "ralts [r] = r"
| "ralts (r # r' # rs) = RAlt r (ralts (r' # rs))"

fun rlit :: "string \<Rightarrow> rx" where
  "rlit [] = REps"
| "rlit [c] = RSet (\<lambda>x. x = c)"
| "rlit (c # d # s) = RSeq (RSet (\<lambda>x. x = c)) (rlit (d # s))"

text \<open>A literal under \<open>re.IGNORECASE\<close>.\<close>

fun rlit_ci :: "string \<Rightarrow> rx" where
  "rlit_ci [] = REps"
| "rlit_ci (c # s) = RSeq (RSet (\<lambda>x. lower_char x = lower_char c)) (rlit_ci s)"

definition rdigit :: rx where "rdigit = RSet is_digit"
definition rspaces :: rx where "rspaces = RStar (RSet is_space)"
definition rnonspaces :: rx where "rnonspaces = rplus (RSet (\<lambda>c. \<not> is_space c))"
definition rwords :: rx where "rwords = rplus (RSet is_word)"
definition rdot :: rx where "rdot = RSet (\<lambda>c. c \<noteq> nl)"

lemmas rx_derived_defs =
  ropt_def rplus_def rdigit_def rspaces_def rnonspaces_def rwords_def rdot_def

section \<open>\<open>re.match\<close>, \<open>re.fullmatch\<close>, \<open>re.search\<close>, \<open>finditer\<close>, \<open>sub\<close>\<close>

record rmatch =
  m_before :: string            \<comment> \<open>the text before the match\<close>
  m_text :: string              \<comment> \<open>\<open>group(0)\<close>\<close>
  m_after :: string
  m_groups :: "(nat \<times> string) list"

definition m_group :: "nat \<Rightarrow> rmatch \<Rightarrow> string option" where
  "m_group n m = map_of (m_groups m) n"

definition m_group_or :: "string \<Rightarrow> nat \<Rightarrow> rmatch \<Rightarrow> string" where
  "m_group_or d n m = (case m_group n m of None \<Rightarrow> d | Some w \<Rightarrow> w)"

text \<open>A match attempt at one position, \<open>p\<close> being the character before it.\<close>

definition rx_at :: "rx \<Rightarrow> char option \<Rightarrow> string \<Rightarrow> rmatch option" where
  "rx_at r p s =
     (case rx_run r (p, s, []) of
        [] \<Rightarrow> None
      | (p', s', g) # _ \<Rightarrow>
          Some \<lparr>m_before = [], m_text = take (length s - length s') s, m_after = s', m_groups = g\<rparr>)"

definition rx_match :: "rx \<Rightarrow> string \<Rightarrow> rmatch option" where
  "rx_match r s = rx_at r None s"

definition rx_matches :: "rx \<Rightarrow> string \<Rightarrow> bool" where
  "rx_matches r s \<longleftrightarrow> rx_run r (None, s, []) \<noteq> []"

definition rx_fullmatches :: "rx \<Rightarrow> string \<Rightarrow> bool" where
  "rx_fullmatches r s \<longleftrightarrow> (\<exists>st \<in> set (rx_run r (None, s, [])). fst (snd st) = [])"

fun rx_search_from :: "rx \<Rightarrow> char option \<Rightarrow> string \<Rightarrow> rmatch option" where
  "rx_search_from r p [] = rx_at r p []"
| "rx_search_from r p (c # s) =
     (case rx_at r p (c # s) of
        Some m \<Rightarrow> Some m
      | None \<Rightarrow> map_option (\<lambda>m. m\<lparr>m_before := c # m_before m\<rparr>) (rx_search_from r (Some c) s))"

definition rx_search :: "rx \<Rightarrow> string \<Rightarrow> rmatch option" where
  "rx_search r s = rx_search_from r None s"

text \<open>
  The non-overlapping matches from left to right, for an expression that matches no empty text
  (all those the code passes to \<open>finditer\<close>, \<open>findall\<close>, \<open>sub\<close> and \<open>split\<close>); an empty match ends the
  scan here. The fuel is the length of the text, of which every match consumes some.
\<close>

fun rx_finditer_n :: "nat \<Rightarrow> rx \<Rightarrow> char option \<Rightarrow> string \<Rightarrow> rmatch list" where
  "rx_finditer_n 0 r p s = []"
| "rx_finditer_n (Suc n) r p s =
     (case rx_search_from r p s of
        None \<Rightarrow> []
      | Some m \<Rightarrow> if m_text m = [] then [] else m # rx_finditer_n n r (Some (last (m_text m))) (m_after m))"

definition rx_finditer :: "rx \<Rightarrow> string \<Rightarrow> rmatch list" where
  "rx_finditer r s = rx_finditer_n (Suc (length s)) r None s"

fun rx_sub_matches :: "(rmatch \<Rightarrow> string) \<Rightarrow> rmatch list \<Rightarrow> string \<Rightarrow> string" where
  "rx_sub_matches f [] s = s"
| "rx_sub_matches f (m # ms) s = m_before m @ f m @ rx_sub_matches f ms (m_after m)"

definition rx_sub :: "rx \<Rightarrow> (rmatch \<Rightarrow> string) \<Rightarrow> string \<Rightarrow> string" where
  "rx_sub r f s = rx_sub_matches f (rx_finditer r s) s"

fun rx_split_matches :: "rmatch list \<Rightarrow> string \<Rightarrow> string list" where
  "rx_split_matches [] s = [s]"
| "rx_split_matches (m # ms) s = m_before m # rx_split_matches ms (m_after m)"

definition rx_split :: "rx \<Rightarrow> string \<Rightarrow> string list" where
  "rx_split r s = rx_split_matches (rx_finditer r s) s"

section \<open>Languages\<close>

primrec lang :: "rx \<Rightarrow> string set" where
  "lang REps = {[]}"
| "lang (RSet P) = {[c] | c. P c}"
| "lang (RSeq a b) = {u @ v | u v. u \<in> lang a \<and> v \<in> lang b}"
| "lang (RAlt a b) = lang a \<union> lang b"
| "lang (RStar a) = {concat ws | ws. set ws \<subseteq> lang a}"
| "lang (RLazy a) = {concat ws | ws. set ws \<subseteq> lang a}"
| "lang (RGrp n a) = lang a"
| "lang RBol = {[]}"
| "lang RBolM = {[]}"
| "lang REol = {[]}"
| "lang REolM = {[]}"
| "lang RWordB = {[]}"
| "lang REnd = {[]}"
| "lang (RLook a) = {[]}"

text \<open>Every match consumes a word of the language (an anchor counts as the empty word).\<close>

lemma rx_iter_sound:
  assumes "\<And>st st'. st' \<in> set (f st) \<Longrightarrow> \<exists>w \<in> L. fst (snd st) = w @ fst (snd st')"
    and "st' \<in> set (rx_iter n f st)"
  shows "\<exists>ws. set ws \<subseteq> L \<and> fst (snd st) = concat ws @ fst (snd st')"
  using assms(2)
proof (induction n arbitrary: st)
  case 0
  then show ?case by (intro exI [of _ "[]"]) simp
next
  case (Suc n)
  from Suc.prems consider "st' = st" | st1 where "st1 \<in> set (f st)" "st' \<in> set (rx_iter n f st1)"
    by (auto split: if_splits)
  then show ?case
  proof cases
    case 1
    then show ?thesis by (intro exI [of _ "[]"]) simp
  next
    case 2
    obtain w where "w \<in> L" "fst (snd st) = w @ fst (snd st1)" using assms(1) [OF 2(1)] by blast
    moreover obtain ws where "set ws \<subseteq> L" "fst (snd st1) = concat ws @ fst (snd st')"
      using Suc.IH [OF 2(2)] by blast
    ultimately show ?thesis by (intro exI [of _ "w # ws"]) simp
  qed
qed

lemma set_rx_iter_lazy: "set (rx_iter_lazy n f st) = set (rx_iter n f st)"
  by (induction n arbitrary: st) auto

lemma rx_run_sound:
  "st' \<in> set (rx_run r st) \<Longrightarrow> \<exists>w \<in> lang r. fst (snd st) = w @ fst (snd st')"
proof (induction r arbitrary: st st')
  case (RSet P)
  then show ?case by (auto split: list.splits if_splits)
next
  case (RSeq a b)
  then obtain st1 where st1: "st1 \<in> set (rx_run a st)" "st' \<in> set (rx_run b st1)" by auto
  obtain u where "u \<in> lang a" "fst (snd st) = u @ fst (snd st1)" using RSeq.IH(1) [OF st1(1)] by blast
  moreover obtain v where "v \<in> lang b" "fst (snd st1) = v @ fst (snd st')"
    using RSeq.IH(2) [OF st1(2)] by blast
  ultimately show ?case by (intro bexI [of _ "u @ v"]) auto
next
  case (RAlt a b)
  then consider "st' \<in> set (rx_run a st)" | "st' \<in> set (rx_run b st)" by auto
  then show ?case
  proof cases
    case 1
    from RAlt.IH(1) [OF this] show ?thesis by (simp add: bex_Un)
  next
    case 2
    from RAlt.IH(2) [OF this] show ?thesis by (simp add: bex_Un)
  qed
next
  case (RStar a)
  from rx_iter_sound [OF RStar.IH] RStar.prems
  obtain ws where "set ws \<subseteq> lang a" "fst (snd st) = concat ws @ fst (snd st')" by fastforce
  then show ?case by (intro bexI [of _ "concat ws"]) auto
next
  case (RLazy a)
  from rx_iter_sound [OF RLazy.IH] RLazy.prems
  obtain ws where "set ws \<subseteq> lang a" "fst (snd st) = concat ws @ fst (snd st')"
    by (fastforce simp: set_rx_iter_lazy)
  then show ?case by (intro bexI [of _ "concat ws"]) auto
next
  case (RGrp n a)
  then obtain st1 where "st1 \<in> set (rx_run a st)" "fst (snd st') = fst (snd st1)" by force
  with RGrp.IH [of st1 st] show ?case by simp
qed (auto split: prod.splits if_splits)

text \<open>Conversely, every word of the language of an expression without anchors is matched.\<close>

primrec rx_plain :: "rx \<Rightarrow> bool" where
  "rx_plain REps = True"
| "rx_plain (RSet P) = True"
| "rx_plain (RSeq a b) = (rx_plain a \<and> rx_plain b)"
| "rx_plain (RAlt a b) = (rx_plain a \<and> rx_plain b)"
| "rx_plain (RStar a) = rx_plain a"
| "rx_plain (RLazy a) = rx_plain a"
| "rx_plain (RGrp n a) = rx_plain a"
| "rx_plain RBol = False"
| "rx_plain RBolM = False"
| "rx_plain REol = False"
| "rx_plain REolM = False"
| "rx_plain RWordB = False"
| "rx_plain REnd = False"
| "rx_plain (RLook a) = False"

lemma rx_iter_complete:
  assumes step: "\<And>w p t g. w \<in> L \<Longrightarrow> \<exists>p' g'. (p', t, g') \<in> set (f (p, w @ t, g))"
    and "set ws \<subseteq> L" "length (concat ws) \<le> n"
  shows "\<exists>p' g'. (p', t, g') \<in> set (rx_iter n f (p, concat ws @ t, g))"
  using assms(2,3)
proof (induction ws arbitrary: n p g)
  case Nil
  then show ?case by (cases n) auto
next
  case (Cons w ws)
  show ?case
  proof (cases "w = []")
    case True
    with Cons show ?thesis by simp
  next
    case False
    with Cons.prems(2) obtain m where n: "n = Suc m" by (cases n) auto
    with Cons.prems(2) False have m: "length (concat ws) \<le> m" by (cases w) auto
    obtain p1 g1 where s1: "(p1, concat ws @ t, g1) \<in> set (f (p, w @ concat ws @ t, g))"
      using step [of w "concat ws @ t" p g] Cons.prems(1) by auto
    obtain p2 g2 where "(p2, t, g2) \<in> set (rx_iter m f (p1, concat ws @ t, g1))"
      using Cons.IH [OF _ m] Cons.prems(1) by fastforce
    with s1 False show ?thesis by (fastforce simp: n)
  qed
qed

lemma rx_run_complete:
  "rx_plain r \<Longrightarrow> w \<in> lang r \<Longrightarrow> \<exists>p' g'. (p', t, g') \<in> set (rx_run r (p, w @ t, g))"
proof (induction r arbitrary: w t p g)
  case (RSeq a b)
  then obtain u v where w: "w = u @ v" "u \<in> lang a" "v \<in> lang b" by auto
  have "rx_plain a" "rx_plain b" using RSeq.prems(1) by simp_all
  then obtain p1 g1 where "(p1, v @ t, g1) \<in> set (rx_run a (p, u @ v @ t, g))"
    using RSeq.IH(1) [OF _ w(2)] by blast
  moreover obtain p2 g2 where "(p2, t, g2) \<in> set (rx_run b (p1, v @ t, g1))"
    using RSeq.IH(2) [OF \<open>rx_plain b\<close> w(3)] by blast
  ultimately show ?case by (auto simp: w(1))
next
  case (RAlt a b)
  then show ?case by fastforce
next
  case (RStar a)
  then obtain ws where "w = concat ws" "set ws \<subseteq> lang a" by auto
  then show ?case
    using rx_iter_complete [of "lang a" "rx_run a" ws "length (w @ t)" t p g] RStar by simp
next
  case (RLazy a)
  then obtain ws where "w = concat ws" "set ws \<subseteq> lang a" by auto
  then show ?case
    using rx_iter_complete [of "lang a" "rx_run a" ws "length (w @ t)" t p g] RLazy
    by (simp add: set_rx_iter_lazy)
next
  case (RGrp n a)
  then obtain p' g' where "(p', t, g') \<in> set (rx_run a (p, w @ t, g))" by fastforce
  then show ?case by force
qed auto

text \<open>The forms in which the code uses its expressions.\<close>

lemma rx_fullmatches_iff:
  assumes "rx_plain r"
  shows "rx_fullmatches r s \<longleftrightarrow> s \<in> lang r"
proof
  assume "rx_fullmatches r s"
  then obtain st where "st \<in> set (rx_run r (None, s, []))" "fst (snd st) = []"
    by (auto simp: rx_fullmatches_def)
  then show "s \<in> lang r" using rx_run_sound [of st r "(None, s, [])"] by auto
next
  assume "s \<in> lang r"
  with assms obtain p' g' where "(p', [], g') \<in> set (rx_run r (None, s @ [], []))"
    using rx_run_complete by blast
  then show "rx_fullmatches r s" by (force simp: rx_fullmatches_def)
qed

text \<open>\<open>re.match(r"^...$", s)\<close>: without \<open>re.MULTILINE\<close>, \<open>$\<close> also matches before a final newline.\<close>

lemma rx_matches_eol_iff:
  assumes "rx_plain r"
  shows "rx_matches (RSeq r REol) s \<longleftrightarrow> s \<in> lang r \<or> (\<exists>w \<in> lang r. s = w @ [nl])"
proof
  assume "rx_matches (RSeq r REol) s"
  then obtain st where st: "st \<in> set (rx_run r (None, s, []))" "fst (snd st) = [] \<or> fst (snd st) = [nl]"
    by (fastforce simp: rx_matches_def split: if_splits)
  obtain w where "w \<in> lang r" "s = w @ fst (snd st)" using rx_run_sound [OF st(1)] by auto
  with st(2) show "s \<in> lang r \<or> (\<exists>w \<in> lang r. s = w @ [nl])" by auto
next
  have hit: "rx_matches (RSeq r REol) (w @ t)" if wt: "w \<in> lang r" "t = [] \<or> t = [nl]" for w t
  proof -
    obtain p' g' where "(p', t, g') \<in> set (rx_run r (None, w @ t, []))"
      using rx_run_complete [OF assms wt(1)] by blast
    with wt(2) show ?thesis by (force simp: rx_matches_def)
  qed
  assume "s \<in> lang r \<or> (\<exists>w \<in> lang r. s = w @ [nl])"
  then show "rx_matches (RSeq r REol) s" using hit [of s "[]"] hit [of _ "[nl]"] by auto
qed

lemma lang_star_set [simp]: "lang (RStar (RSet P)) = {w. \<forall>c \<in> set w. P c}"
proof (intro equalityI subsetI)
  fix w
  assume "w \<in> lang (RStar (RSet P))"
  then show "w \<in> {w. \<forall>c \<in> set w. P c}" by fastforce
next
  fix w
  assume "w \<in> {w. \<forall>c \<in> set w. P c}"
  then have "w = concat (map (\<lambda>c. [c]) w)" "set (map (\<lambda>c. [c]) w) \<subseteq> lang (RSet P)" by auto
  then show "w \<in> lang (RStar (RSet P))" unfolding lang.simps by blast
qed

lemma lang_cons_set: "lang (RSeq (RSet P) r) = {c # v | c v. P c \<and> v \<in> lang r}"
proof (intro equalityI subsetI)
  fix w
  assume "w \<in> {c # v | c v. P c \<and> v \<in> lang r}"
  then obtain c v where "w = [c] @ v" "[c] \<in> lang (RSet P)" "v \<in> lang r" by auto
  then show "w \<in> lang (RSeq (RSet P) r)" unfolding lang.simps(3) by blast
qed auto

lemma lang_plus_set [simp]: "lang (rplus (RSet P)) = {w. w \<noteq> [] \<and> (\<forall>c \<in> set w. P c)}"
  unfolding rplus_def lang_cons_set lang_star_set by (auto simp: neq_Nil_conv)

lemma lang_rlit [simp]: "lang (rlit s) = {s}"
  by (induction s rule: rlit.induct) auto

lemma lang_rrep_set [simp]: "lang (rrep n (RSet P)) = {w. length w = n \<and> (\<forall>c \<in> set w. P c)}"
  by (induction n) (auto simp: length_Suc_conv lang_cons_set simp del: lang.simps(3))

lemma rx_plain_derived [simp]:
  "rx_plain (rplus r) = rx_plain r"
  "rx_plain (ropt r) = rx_plain r"
  by (simp_all add: rplus_def ropt_def)

lemma rx_plain_rlit [simp]: "rx_plain (rlit s)"
  by (induction s rule: rlit.induct) auto

lemma rx_plain_rrep [simp]: "rx_plain r \<Longrightarrow> rx_plain (rrep n r)"
  by (induction n) auto

lemma lang_ropt [simp]: "lang (ropt r) = insert [] (lang r)"
  by (auto simp: ropt_def)

declare lang.simps(5,6) [simp del]

lemma lang_rseq_Nil [simp]: "lang (rseq []) = {[]}"
  by simp

lemma lang_rseq_Cons: "lang (rseq (r # rs)) = {u @ v | u v. u \<in> lang r \<and> v \<in> lang (rseq rs)}"
  by (cases rs) auto

lemma rx_plain_rseq [simp]: "rx_plain (rseq rs) = list_all rx_plain rs"
  by (induction rs rule: rseq.induct) auto

section \<open>Searching for a literal\<close>

lemma rx_run_rlit:
  "rx_run (rlit l) (p, s, g) =
     (if prefix l s then [(if l = [] then p else Some (last l), drop (length l) s, g)] else [])"
  by (induction l arbitrary: p s rule: rlit.induct) (auto split: list.splits)

text \<open>Where an expression fails at every position of a prefix, the search goes on behind it.\<close>

lemma rx_search_from_skip:
  assumes "\<forall>u c v. pre = u @ c # v \<longrightarrow> (\<forall>q. rx_at r q (c # v @ s) = None)"
  shows "rx_search_from r p (pre @ s) =
     map_option (\<lambda>m. m\<lparr>m_before := pre @ m_before m\<rparr>)
       (rx_search_from r (if pre = [] then p else Some (last pre)) s)"
  using assms
proof (induction pre arbitrary: p)
  case Nil
  then show ?case by (simp add: option.map_ident)
next
  case (Cons c pre)
  have "rx_at r p (c # pre @ s) = None" using Cons.prems by (metis append_Nil)
  moreover have "\<forall>u d v. pre = u @ d # v \<longrightarrow> (\<forall>q. rx_at r q (d # v @ s) = None)"
    using Cons.prems by (metis append_Cons)
  ultimately show ?case using Cons.IH [of "Some c"] by (simp add: option.map_comp comp_def)
qed

section \<open>Expressions that do not look at the character before\<close>

primrec rx_forward :: "rx \<Rightarrow> bool" where
  "rx_forward REps = True"
| "rx_forward (RSet P) = True"
| "rx_forward (RSeq a b) = (rx_forward a \<and> rx_forward b)"
| "rx_forward (RAlt a b) = (rx_forward a \<and> rx_forward b)"
| "rx_forward (RStar a) = rx_forward a"
| "rx_forward (RLazy a) = rx_forward a"
| "rx_forward (RGrp n a) = rx_forward a"
| "rx_forward RBol = False"
| "rx_forward RBolM = False"
| "rx_forward REol = True"
| "rx_forward REolM = True"
| "rx_forward RWordB = False"
| "rx_forward REnd = True"
| "rx_forward (RLook a) = rx_forward a"

abbreviation same_rest :: "rst \<Rightarrow> rst \<Rightarrow> bool" where
  "same_rest st st' \<equiv> snd st = snd st'"

lemma list_all2_bind:
  assumes "list_all2 R xs ys" "\<And>x y. R x y \<Longrightarrow> list_all2 S (f x) (g y)"
  shows "list_all2 S (concat (map f xs)) (concat (map g ys))"
  using assms(1) by (induction rule: list_all2_induct) (auto intro: list_all2_appendI assms(2))

lemma rx_iter_forward:
  assumes "\<And>st st'. same_rest st st' \<Longrightarrow> list_all2 same_rest (f st) (f st')" "same_rest st st'"
  shows "list_all2 same_rest (rx_iter n f st) (rx_iter n f st')"
    and "list_all2 same_rest (rx_iter_lazy n f st) (rx_iter_lazy n f st')"
  using assms(2)
  by (induction n arbitrary: st st')
     (auto intro!: list_all2_appendI list_all2_bind [OF assms(1)])

lemma rx_run_forward:
  "rx_forward r \<Longrightarrow> same_rest st st' \<Longrightarrow> list_all2 same_rest (rx_run r st) (rx_run r st')"
proof (induction r arbitrary: st st')
  case (RSeq a b)
  then have "list_all2 same_rest (rx_run a st) (rx_run a st')" by simp
  moreover have "list_all2 same_rest (rx_run b s1) (rx_run b s2)" if "same_rest s1 s2" for s1 s2
    using RSeq that by simp
  ultimately show ?case by (simp add: list_all2_bind)
next
  case (RAlt a b)
  then show ?case by (simp add: list_all2_appendI)
next
  case (RStar a)
  then show ?case using rx_iter_forward(1) [of "rx_run a"] by simp
next
  case (RLazy a)
  then show ?case using rx_iter_forward(2) [of "rx_run a"] by simp
next
  case (RGrp n a)
  then have "list_all2 same_rest (rx_run a st) (rx_run a st')" by simp
  then show ?case using RGrp.prems(2)
    by (auto simp: list.rel_map split: prod.splits elim!: list_all2_mono)
next
  case (RLook a)
  then have "list_all2 same_rest (rx_run a st) (rx_run a st')" by simp
  then have "rx_run a st = [] \<longleftrightarrow> rx_run a st' = []" by auto
  with RLook.prems(2) show ?case by simp
qed (auto split: prod.splits list.splits)

lemma rx_at_forward: "rx_forward r \<Longrightarrow> rx_at r p s = rx_at r q s"
  using rx_run_forward [of r "(p, s, [])" "(q, s, [])"]
  by (auto simp: rx_at_def split: list.splits prod.splits)

lemma rx_search_from_forward: "rx_forward r \<Longrightarrow> rx_search_from r p s = rx_search_from r q s"
  by (cases s) (simp_all add: rx_at_forward [of r p _ q])

lemma rx_forward_rlit [simp]: "rx_forward (rlit l)"
  by (induction l rule: rlit.induct) auto

lemma rx_forward_rseq [simp]: "rx_forward (rseq rs) = list_all rx_forward rs"
  by (induction rs rule: rseq.induct) auto

section \<open>A match splits the text, and its groups are words\<close>

primrec rx_groups :: "rx \<Rightarrow> (nat \<times> rx) set" where
  "rx_groups REps = {}"
| "rx_groups (RSet P) = {}"
| "rx_groups (RSeq a b) = rx_groups a \<union> rx_groups b"
| "rx_groups (RAlt a b) = rx_groups a \<union> rx_groups b"
| "rx_groups (RStar a) = rx_groups a"
| "rx_groups (RLazy a) = rx_groups a"
| "rx_groups (RGrp n a) = insert (n, a) (rx_groups a)"
| "rx_groups RBol = {}"
| "rx_groups RBolM = {}"
| "rx_groups REol = {}"
| "rx_groups REolM = {}"
| "rx_groups RWordB = {}"
| "rx_groups REnd = {}"
| "rx_groups (RLook a) = {}"

abbreviation group_ok :: "rx \<Rightarrow> (nat \<times> string) list \<Rightarrow> nat \<times> string \<Rightarrow> bool" where
  "group_ok r g nw \<equiv> nw \<in> set g \<or> (\<exists>a. (fst nw, a) \<in> rx_groups r \<and> snd nw \<in> lang a)"

lemma rx_iter_groups:
  assumes "\<And>st st' nw. st' \<in> set (f st) \<Longrightarrow> nw \<in> set (snd (snd st')) \<Longrightarrow> group_ok r (snd (snd st)) nw"
    and "st' \<in> set (rx_iter n f st)" "nw \<in> set (snd (snd st'))"
  shows "group_ok r (snd (snd st)) nw"
  using assms(2)
proof (induction n arbitrary: st)
  case 0
  then show ?case using assms(3) by simp
next
  case (Suc n)
  from Suc.prems consider "st' = st" | st1 where "st1 \<in> set (f st)" "st' \<in> set (rx_iter n f st1)"
    by (auto split: if_splits)
  then show ?case
  proof cases
    case 1
    then show ?thesis using assms(3) by simp
  next
    case 2
    from Suc.IH [OF 2(2)] show ?thesis using assms(1) [OF 2(1)] by blast
  qed
qed

lemma rx_run_groups:
  "st' \<in> set (rx_run r st) \<Longrightarrow> nw \<in> set (snd (snd st')) \<Longrightarrow> group_ok r (snd (snd st)) nw"
proof (induction r arbitrary: st st' nw)
  case (RSeq a b)
  then obtain st1 where st1: "st1 \<in> set (rx_run a st)" "st' \<in> set (rx_run b st1)" by auto
  from RSeq.IH(2) [OF st1(2) RSeq.prems(2)] consider "nw \<in> set (snd (snd st1))"
    | x where "(fst nw, x) \<in> rx_groups b" "snd nw \<in> lang x" by blast
  then show ?case
  proof cases
    case 1
    from RSeq.IH(1) [OF st1(1) this] show ?thesis by auto
  qed auto
next
  case (RAlt a b)
  from RAlt.prems(1) consider "st' \<in> set (rx_run a st)" | "st' \<in> set (rx_run b st)" by auto
  then show ?case
  proof cases
    case 1
    from RAlt.IH(1) [OF this RAlt.prems(2)] show ?thesis by auto
  next
    case 2
    from RAlt.IH(2) [OF this RAlt.prems(2)] show ?thesis by auto
  qed
next
  case (RStar a)
  then show ?case using rx_iter_groups [of "rx_run a" a st' _ st nw] by simp
next
  case (RLazy a)
  then show ?case using rx_iter_groups [of "rx_run a" a st' _ st nw] by (simp add: set_rx_iter_lazy)
next
  case (RGrp n a)
  then obtain st1 where st1: "st1 \<in> set (rx_run a st)"
    and g: "snd (snd st') = (n, take (length (fst (snd st)) - length (fst (snd st1))) (fst (snd st))) # snd (snd st1)"
    by (auto split: prod.splits)
  obtain w where "w \<in> lang a" "fst (snd st) = w @ fst (snd st1)" using rx_run_sound [OF st1] by auto
  then have "nw = (n, w) \<and> w \<in> lang a \<or> nw \<in> set (snd (snd st1))" using g RGrp.prems(2) by auto
  then show ?case
  proof
    assume "nw \<in> set (snd (snd st1))"
    from RGrp.IH [OF st1 this] show ?thesis by auto
  qed auto
qed (auto split: prod.splits list.splits if_splits)

lemma rx_search_groups:
  "rx_search_from r p s = Some m \<Longrightarrow> m_group n m = Some w \<Longrightarrow> \<exists>a. (n, a) \<in> rx_groups r \<and> w \<in> lang a"
proof -
  have at: "\<exists>a. (n, a) \<in> rx_groups r \<and> w \<in> lang a" if "rx_at r p s = Some m" "m_group n m = Some w" for p s m
  proof -
    from that obtain st rest where "rx_run r (p, s, []) = st # rest" "(n, w) \<in> set (snd (snd st))"
      by (auto simp: rx_at_def m_group_def split: list.splits dest: map_of_SomeD)
    then show ?thesis using rx_run_groups [of st r "(p, s, [])" "(n, w)"] by simp
  qed
  show "rx_search_from r p s = Some m \<Longrightarrow> m_group n m = Some w \<Longrightarrow> \<exists>a. (n, a) \<in> rx_groups r \<and> w \<in> lang a"
  proof (induction s arbitrary: p m)
    case Nil
    then show ?case using at [of p "[]" m] by simp
  next
    case (Cons c s)
    then show ?case
      using at [of p "c # s"] by (fastforce simp: m_group_def split: option.splits)
  qed
qed


lemma rx_at_decomp:
  assumes "rx_at r p s = Some m"
  shows "m_before m = [] \<and> s = m_text m @ m_after m \<and> m_text m \<in> lang r"
proof -
  obtain p' s' g rest where run: "rx_run r (p, s, []) = (p', s', g) # rest"
    and m: "m = \<lparr>m_before = [], m_text = take (length s - length s') s, m_after = s', m_groups = g\<rparr>"
    using assms by (auto simp: rx_at_def split: list.splits)
  obtain w where "w \<in> lang r" "s = w @ s'"
    using rx_run_sound [of "(p', s', g)" r "(p, s, [])"] run by auto
  then show ?thesis by (simp add: m)
qed

lemma rx_search_from_decomp:
  "rx_search_from r p s = Some m \<Longrightarrow> s = m_before m @ m_text m @ m_after m \<and> m_text m \<in> lang r"
proof (induction s arbitrary: p m)
  case Nil
  then show ?case using rx_at_decomp [of r p "[]" m] by auto
next
  case (Cons c s)
  show ?case
  proof (cases "rx_at r p (c # s)")
    case None
    with Cons.prems obtain m' where "rx_search_from r (Some c) s = Some m'"
      "m = m'\<lparr>m_before := c # m_before m'\<rparr>" by auto
    with Cons.IH show ?thesis by fastforce
  next
    case (Some a)
    with Cons.prems have "m = a" by simp
    with rx_at_decomp [OF Some] show ?thesis by simp
  qed
qed

text \<open>Any fuel above the length of the text finds the same matches.\<close>

lemma rx_finditer_n_fuel:
  "length s < n \<Longrightarrow> length s < k \<Longrightarrow> rx_finditer_n n r p s = rx_finditer_n k r p s"
proof (induction n arbitrary: k p s)
  case 0
  then show ?case by simp
next
  case (Suc n)
  then obtain j where k: "k = Suc j" by (cases k) auto
  show ?case
  proof (cases "rx_search_from r p s")
    case None
    then show ?thesis by (simp add: k)
  next
    case (Some m)
    have "length (m_after m) < n" "length (m_after m) < j" if "m_text m \<noteq> []"
      using rx_search_from_decomp [OF Some] Suc.prems k that
      by (cases "m_text m"; cases "m_before m"; simp)+
    with Some show ?thesis using Suc.IH by (simp add: k)
  qed
qed

text \<open>A prefix in which the expression matches nowhere is copied by \<open>sub\<close>.\<close>

lemma rx_sub_skip:
  assumes "rx_forward r" "\<forall>c \<in> set u. \<forall>q t. rx_at r q (c # t) = None"
    and "\<And>m b. f (m\<lparr>m_before := b\<rparr>) = f m"
  shows "rx_sub r f (u @ s) = u @ rx_sub r f s"
proof -
  have skip: "rx_search_from r None (u @ s) =
      map_option (\<lambda>m. m\<lparr>m_before := u @ m_before m\<rparr>) (rx_search_from r None s)"
    using rx_search_from_skip [of u r s None] assms(2)
      rx_search_from_forward [OF assms(1), of "if u = [] then None else Some (last u)" s None]
    by simp
  show ?thesis
  proof (cases "rx_search_from r None s")
    case None
    then show ?thesis by (simp add: rx_sub_def rx_finditer_def skip)
  next
    case (Some m)
    have "length (m_after m) < length s" if "m_text m \<noteq> []"
      using rx_search_from_decomp [OF Some] that by (cases "m_text m"; cases "m_before m"; simp)
    then have "rx_finditer_n (length (u @ s)) r q (m_after m) = rx_finditer_n (length s) r q (m_after m)"
      if "m_text m \<noteq> []" for q
      using that rx_finditer_n_fuel [of "m_after m" "length (u @ s)" "length s" r q] by simp
    then show ?thesis by (simp add: rx_sub_def rx_finditer_def skip Some assms(3))
  qed
qed

end
