(* ===== verification/Scan.thy ===== *)
theory Scan
  imports PyRe PyNum
begin

text \<open>
  Searching a text line by line: an expression that starts with a literal finds nothing in the
  lines the literal does not occur in, and the greedy repetitions the code uses
  (\<open>\s*\<close>, \<open>\S+\<close>, \<open>\d+\<close>) take the longest run.
\<close>

text \<open>The first group of the first match, \<open>m = re.search(r, s)\<close> and then \<open>m.group(1)\<close>.\<close>

definition search1 :: "rx \<Rightarrow> string \<Rightarrow> string option" where
  "search1 r s = Option.bind (rx_search r s) (m_group 1)"

section \<open>Greedy repetitions\<close>

lemma rx_iter_star_set:
  "length s \<le> n \<Longrightarrow>
    \<exists>p' rest. rx_iter n (rx_run (RSet P)) (p, s, g) = (p', dropWhile P s, g) # rest"
proof (induction n arbitrary: p s)
  case 0
  then show ?case by simp
next
  case (Suc n)
  show ?case
  proof (cases s)
    case Nil
    then show ?thesis by simp
  next
    case (Cons c t)
    then show ?thesis using Suc.IH [of t "Some c"] Suc.prems by auto
  qed
qed

lemma rx_run_star_set: "\<exists>p' rest. rx_run (RStar (RSet P)) (p, s, g) = (p', dropWhile P s, g) # rest"
  using rx_iter_star_set [of s "length s" P p g] by simp

lemma rx_run_plus_set:
  assumes "s \<noteq> []" "P (hd s)"
  shows "\<exists>p' rest. rx_run (rplus (RSet P)) (p, s, g) = (p', dropWhile P s, g) # rest"
proof -
  obtain c t where s: "s = c # t" "P c" using assms by (cases s) auto
  then show ?thesis using rx_run_star_set [of P "Some c" t g] by (auto simp: rplus_def)
qed

lemma rx_run_rrep_set:
  "\<forall>c \<in> set w. P c \<Longrightarrow>
    rx_run (rrep (length w) (RSet P)) (p, w @ s, g) = [(if w = [] then p else Some (last w), s, g)]"
  by (induction w arbitrary: p) simp_all

section \<open>The first result of an expression\<close>

definition first_run :: "rx \<Rightarrow> rst \<Rightarrow> rst \<Rightarrow> bool" where
  "first_run r st st' \<longleftrightarrow> (\<exists>rest. rx_run r st = st' # rest)"

lemma first_run_seq: "first_run a st s1 \<Longrightarrow> first_run b s1 s2 \<Longrightarrow> first_run (RSeq a b) st s2"
  by (auto simp: first_run_def)

lemma first_run_grp:
  "first_run r (p, s, g) (p', s', g') \<Longrightarrow>
     first_run (RGrp n r) (p, s, g) (p', s', (n, take (length s - length s') s) # g')"
  by (auto simp: first_run_def)

lemma first_run_lit: "l \<noteq> [] \<Longrightarrow> first_run (rlit l) (p, l @ s, g) (Some (last l), s, g)"
  by (simp add: first_run_def rx_run_rlit)

lemma first_run_set: "P c \<Longrightarrow> first_run (RSet P) (p, c # s, g) (Some c, s, g)"
  by (simp add: first_run_def)

lemma first_run_star: "\<exists>p'. first_run (RStar (RSet P)) (p, s, g) (p', dropWhile P s, g)"
  using rx_run_star_set [of P p s g] by (auto simp: first_run_def)

lemma first_run_plus: "s \<noteq> [] \<Longrightarrow> P (hd s) \<Longrightarrow> \<exists>p'. first_run (rplus (RSet P)) (p, s, g) (p', dropWhile P s, g)"
  using rx_run_plus_set [of s P p g] by (auto simp: first_run_def)

lemma first_run_eol: "first_run REol (p, [], g) (p, [], g)"
  by (simp add: first_run_def)

lemma first_run_match:
  "first_run r (None, s, []) (p', s', g) \<Longrightarrow>
     rx_match r s = Some \<lparr>m_before = [], m_text = take (length s - length s') s, m_after = s', m_groups = g\<rparr>"
  by (auto simp: first_run_def rx_match_def rx_at_def)

text \<open>The same whatever character stands before: \<open>takes r s g s' g'\<close> leaves \<open>s'\<close> of \<open>s\<close>.\<close>

definition takes :: "rx \<Rightarrow> string \<Rightarrow> (nat \<times> string) list \<Rightarrow> string \<Rightarrow> (nat \<times> string) list \<Rightarrow> bool" where
  "takes r s g s' g' \<longleftrightarrow> (\<forall>p. \<exists>p'. first_run r (p, s, g) (p', s', g'))"

lemma takes_seq: "takes a s g s1 g1 \<Longrightarrow> takes b s1 g1 s2 g2 \<Longrightarrow> takes (RSeq a b) s g s2 g2"
  unfolding takes_def by (meson first_run_seq)

lemma takes_grp: "takes r (w @ s) g s g' \<Longrightarrow> takes (RGrp n r) (w @ s) g s ((n, w) # g')"
  unfolding takes_def using first_run_grp by fastforce

lemma takes_lit: "takes (rlit l) (l @ s) g s g"
  by (cases "l = []") (auto simp: takes_def first_run_def rx_run_rlit)

lemma takes_lit_cons: "takes (rlit [c]) (c # s) g s g"
  using takes_lit [of "[c]"] by simp

lemma takes_star:
  "\<forall>c \<in> set w. P c \<Longrightarrow> s = [] \<or> \<not> P (hd s) \<Longrightarrow> takes (RStar (RSet P)) (w @ s) g s g"
proof -
  assume "\<forall>c \<in> set w. P c" "s = [] \<or> \<not> P (hd s)"
  then have "dropWhile P (w @ s) = s" by (cases s) (auto simp: dropWhile_append)
  then show ?thesis using first_run_star [of P _ "w @ s" g] by (simp add: takes_def)
qed

lemma takes_plus:
  assumes "w \<noteq> []" "\<forall>c \<in> set w. P c" "s = [] \<or> \<not> P (hd s)"
  shows "takes (rplus (RSet P)) (w @ s) g s g"
proof -
  obtain c v where w: "w = c # v" "P c" "\<forall>c \<in> set v. P c" using assms(1,2) by (cases w) auto
  have "takes (RSet P) (c # v @ s) g (v @ s) g" using w(2) by (auto simp: takes_def first_run_def)
  then show ?thesis using takes_seq takes_star [OF w(3) assms(3)] by (simp add: w(1) rplus_def)
qed

lemma takes_rep: "length w = n \<Longrightarrow> \<forall>c \<in> set w. P c \<Longrightarrow> takes (rrep n (RSet P)) (w @ s) g s g"
  by (auto simp: takes_def first_run_def rx_run_rrep_set)

lemma takes_left: "takes a s g s' g' \<Longrightarrow> takes (RAlt a b) s g s' g'"
  unfolding takes_def first_run_def rx_run.simps by (metis append_Cons)

lemma takes_right: "\<forall>p. rx_run a (p, s, g) = [] \<Longrightarrow> takes b s g s' g' \<Longrightarrow> takes (RAlt a b) s g s' g'"
  by (fastforce simp: takes_def first_run_def)

lemma takes_opt: "takes a s g s' g' \<Longrightarrow> takes (ropt a) s g s' g'"
  unfolding ropt_def by (rule takes_left)

lemma takes_skip: "\<forall>p. rx_run a (p, s, g) = [] \<Longrightarrow> takes (ropt a) s g s g"
  unfolding ropt_def by (rule takes_right) (simp_all add: takes_def first_run_def)

lemma takes_eps: "takes REps s g s g"
  by (auto simp: takes_def first_run_def)

lemma takes_eol: "takes REol [] g [] g"
  by (auto simp: takes_def first_run_def)

lemma takes_match:
  assumes "takes r s [] s' g"
  shows "\<exists>m. rx_match r s = Some m \<and> m_groups m = g"
proof -
  obtain p' where "first_run r (None, s, []) (p', s', g)" using assms by (auto simp: takes_def)
  from first_run_match [OF this] show ?thesis by simp
qed

lemma no_lit: "\<not> prefix l s \<Longrightarrow> rx_run (rlit l) (p, s, g) = []"
  by (simp add: rx_run_rlit)

text \<open>\<open>literal\s*(P+)\<close> right behind the literal: the group is the longest run of \<open>P\<close>.\<close>

definition key_rx :: "string \<Rightarrow> (char \<Rightarrow> bool) \<Rightarrow> rx" where
  "key_rx l P = rseq [rlit l, rspaces, RGrp 1 (rplus (RSet P))]"

lemma key_rx_at:
  assumes "w \<noteq> []" "\<forall>c \<in> set w. P c" "\<not> is_space (hd w)" "rest = [] \<or> \<not> P (hd rest)"
    and "\<forall>c \<in> set sp. is_space c"
  shows "\<exists>m. rx_at (key_rx l P) p (l @ sp @ w @ rest) = Some m \<and> m_group 1 m = Some w"
proof -
  define q where "q = (if l = [] then p else Some (last l))"
  have d1: "dropWhile is_space (sp @ w @ rest) = w @ rest"
    using assms(1,3,5) by (cases w) (simp_all add: dropWhile_append2)
  obtain p1 r1 where sp: "rx_run rspaces (q, sp @ w @ rest, []) = (p1, w @ rest, []) # r1"
    using rx_run_star_set [of is_space q "sp @ w @ rest" "[]"] d1 by (auto simp: rspaces_def)
  have d2: "dropWhile P (w @ rest) = rest" using assms(2,4) by (cases rest) (simp_all add: dropWhile_append2)
  have "P (hd (w @ rest))" using assms(1,2) by (cases w) auto
  then obtain p2 r2 where pl: "rx_run (rplus (RSet P)) (p1, w @ rest, []) = (p2, rest, []) # r2"
    using rx_run_plus_set [of "w @ rest" P p1 "[]"] assms(1) d2 by auto
  have grp: "rx_run (RGrp 1 (rplus (RSet P))) (p1, w @ rest, []) =
      (p2, rest, [(1, w)]) # map (\<lambda>(p', s', g'). (p', s',
         (1, take (length (w @ rest) - length s') (w @ rest)) # g')) r2"
    by (simp add: pl)
  obtain r3 where r3: "rx_run (rseq [rspaces, RGrp 1 (rplus (RSet P))]) (q, sp @ w @ rest, []) =
      (p2, rest, [(1, w)]) # r3"
    by (simp add: sp pl)
  have "rx_run (key_rx l P) (p, l @ sp @ w @ rest, []) = (p2, rest, [(1, w)]) # r3"
    using r3 by (simp add: key_rx_def rx_run_rlit q_def)
  then show ?thesis by (simp add: rx_at_def m_group_def)
qed

section \<open>Literals and lines\<close>

definition starts_lit :: "string \<Rightarrow> rx \<Rightarrow> bool" where
  "starts_lit l r \<longleftrightarrow> (\<forall>p s. \<not> prefix l s \<longrightarrow> rx_at r p s = None)"

lemma starts_lit_seq: "starts_lit l (RSeq (rlit l) r)"
  by (auto simp: starts_lit_def rx_at_def rx_run_rlit)

lemma starts_lit_rseq: "starts_lit l (rseq (rlit l # rs))"
  by (cases rs) (auto simp: starts_lit_def rx_at_def rx_run_rlit)

lemma starts_lit_key [simp]: "starts_lit l (key_rx l P)"
  unfolding key_rx_def by (rule starts_lit_rseq)

lemma rx_forward_key [simp]: "rx_forward (key_rx l P)"
  by (simp add: key_rx_def rspaces_def rplus_def)

lemma lit_not_in_line:
  assumes "nl \<notin> set l" "l \<noteq> []" "\<not> contains l line" "line @ [nl] = u @ c # v"
  shows "\<not> prefix l (c # v @ s)"
proof
  assume "prefix l (c # v @ s)"
  then obtain t where t: "c # v @ s = l @ t" by (auto simp: prefix_def)
  show False
  proof (cases v rule: rev_cases)
    case Nil
    then have "c = nl" using assms(4) by simp
    with t assms(1,2) show False by (cases l) auto
  next
    case (snoc v' d)
    then have line: "line = u @ c # v'" "d = nl" using assms(4) by auto
    have "length l \<le> length (c # v')"
    proof (rule ccontr)
      assume "\<not> length l \<le> length (c # v')"
      then have "nl \<in> set l" using t snoc line(2)
        by (metis (no_types, lifting) append_Cons append_eq_append_conv_if in_set_conv_nth
            length_append_singleton less_Suc_eq_le linorder_not_le nth_append_length
            append.assoc nth_append Suc_leI length_Cons append_Nil lessI)
      with assms(1) show False by simp
    qed
    moreover have "(c # v') @ (d # s) = l @ t" using t snoc by simp
    ultimately have "\<exists>t'. c # v' = l @ t'"
      by (metis append_eq_append_conv_if append_take_drop_id)
    then have "contains l line" using line(1) by (auto simp: contains_iff)
    with assms(3) show False by simp
  qed
qed

lemma search1_skip_line:
  assumes "starts_lit l r" "rx_forward r" "nl \<notin> set l" "l \<noteq> []" "\<not> contains l line"
  shows "search1 r (line @ nl # s) = search1 r s"
proof -
  have "\<forall>u c v. line @ [nl] = u @ c # v \<longrightarrow> (\<forall>q. rx_at r q (c # v @ s) = None)"
    using lit_not_in_line [OF assms(3-5)] assms(1) by (simp add: starts_lit_def)
  from rx_search_from_skip [OF this, of None]
  have "rx_search r (line @ nl # s) =
      map_option (\<lambda>m. m\<lparr>m_before := line @ nl # m_before m\<rparr>) (rx_search_from r (Some nl) s)"
    by (simp add: rx_search_def)
  moreover have "rx_search_from r (Some nl) s = rx_search r s"
    by (simp add: rx_search_def rx_search_from_forward [OF assms(2)])
  ultimately show ?thesis
    by (simp add: search1_def m_group_def [abs_def] Option.bind_map_option comp_def)
qed

lemma search1_key_hit:
  assumes "w \<noteq> []" "\<forall>c \<in> set w. P c" "\<not> is_space (hd w)" "rest = [] \<or> \<not> P (hd rest)"
    and "\<forall>c \<in> set sp. is_space c"
  shows "search1 (key_rx l P) (l @ sp @ w @ rest) = Some w"
proof -
  obtain m where "rx_at (key_rx l P) None (l @ sp @ w @ rest) = Some m" "m_group 1 m = Some w"
    using key_rx_at [OF assms] by blast
  moreover have "l @ sp @ w @ rest \<noteq> []" using assms(1) by simp
  ultimately show ?thesis
    by (cases "l @ sp @ w @ rest") (simp_all add: search1_def rx_search_def)
qed

lemma contains_lines:
  assumes "nl \<notin> set l" "l \<noteq> []"
  shows "contains l (line @ nl # s) \<longleftrightarrow> contains l line \<or> contains l s"
proof
  assume "contains l (line @ nl # s)"
  then obtain u v where uv: "line @ nl # s = u @ l @ v" by (auto simp: contains_iff)
  show "contains l line \<or> contains l s"
  proof (rule ccontr)
    assume no: "\<not> (contains l line \<or> contains l s)"
    show False
    proof (cases "length u \<le> length line")
      case True
      define x where "x = drop (length u) line @ [nl]"
      have u: "u = take (length u) line"
        using True arg_cong [OF uv, of "take (length u)"] by simp
      then have line: "line = u @ drop (length u) line" by (metis append_take_drop_id)
      have "u @ x @ s = line @ nl # s"
        using line by (simp add: x_def flip: append_assoc)
      then have x: "line @ [nl] = u @ x" "x \<noteq> []" "x @ s = l @ v"
        using uv line by (auto simp: x_def)
      obtain c x' where "x = c # x'" using x(2) by (cases x) auto
      with x have "\<not> prefix l (c # x' @ s)" using lit_not_in_line [OF assms, of line u c x' s] no by simp
      with x \<open>x = c # x'\<close> show False by (simp add: prefix_def)
    next
      case False
      then obtain x where "s = x @ l @ v" using uv by (auto simp: append_eq_append_conv2 Cons_eq_append_conv)
      then have "contains l s" by (auto simp: contains_iff)
      with no show False by simp
    qed
  qed
next
  assume "contains l line \<or> contains l s"
  then show "contains l (line @ nl # s)"
    by (auto simp: contains_iff) (metis append.assoc append_Cons)+
qed

section \<open>Behind a line\<close>

lemma rx_forward_rrep [simp]: "rx_forward r \<Longrightarrow> rx_forward (rrep n r)"
  by (induction n) simp_all

lemma rx_search_behind_line:
  assumes "starts_lit l r" "rx_forward r" "nl \<notin> set l" "l \<noteq> []" "\<not> contains l line"
  shows "rx_search r (line @ nl # s) =
     map_option (\<lambda>m. m\<lparr>m_before := line @ nl # m_before m\<rparr>) (rx_search r s)"
proof -
  have "\<forall>u c v. line @ [nl] = u @ c # v \<longrightarrow> (\<forall>q. rx_at r q (c # v @ s) = None)"
    using lit_not_in_line [OF assms(3-5)] assms(1) by (simp add: starts_lit_def)
  from rx_search_from_skip [OF this, of None]
  show ?thesis
    by (simp add: rx_search_def rx_search_from_forward [OF assms(2), of "Some nl" _ None])
qed

lemma cut_at_behind_line:
  assumes "nl \<notin> set p" "p \<noteq> []" "\<not> contains p u"
  shows "cut_at p (u @ nl # p @ v) = Some (u @ [nl], v)"
  using assms(3)
proof (induction u)
  case Nil
  have "\<not> prefix p (nl # p @ v)" using assms(1,2) by (cases p) auto
  moreover have "cut_at p (p @ v) = Some ([], v)" using assms(2) by (cases p) simp_all
  ultimately show ?case by simp
next
  case (Cons c u)
  have "\<not> prefix p (c # u @ nl # p @ v)"
    using lit_not_in_line [OF assms(1,2) Cons.prems, of "[]" c "u @ [nl]" "p @ v"] by simp
  then show ?case using Cons by simp
qed

section \<open>The leftmost match, and all matches\<close>

text \<open>Where an expression matches somewhere, the search finds the leftmost such place.\<close>

lemma rx_search_from_least:
  assumes "rx_forward r" "rx_at r q w \<noteq> None"
  shows "\<exists>m a. rx_search_from r p (u @ w) = Some m \<and> length (m_before m) \<le> length u \<and>
    u @ w = m_before m @ m_text m @ m_after m \<and> rx_at r None (m_text m @ m_after m) = Some a \<and>
    m_text a = m_text m \<and> m_after a = m_after m \<and> m_groups a = m_groups m"
proof (induction u arbitrary: p)
  case Nil
  obtain a where a: "rx_at r p w = Some a"
    using assms(2) rx_at_forward [OF assms(1), of q w p] by auto
  then have d: "m_before a = []" "w = m_text a @ m_after a" using rx_at_decomp by blast+
  have "rx_search_from r p w = Some a" using a by (cases w) simp_all
  moreover have "rx_at r None (m_text a @ m_after a) = Some a"
    using a d rx_at_forward [OF assms(1)] by metis
  ultimately show ?case using d by auto
next
  case (Cons c u)
  show ?case
  proof (cases "rx_at r p (c # u @ w)")
    case None
    from Cons.IH [of "Some c"] obtain m a where "rx_search_from r (Some c) (u @ w) = Some m"
      "length (m_before m) \<le> length u" "u @ w = m_before m @ m_text m @ m_after m"
      "rx_at r None (m_text m @ m_after m) = Some a"
      "m_text a = m_text m" "m_after a = m_after m" "m_groups a = m_groups m" by blast
    with None show ?thesis by (intro exI [of _ "m\<lparr>m_before := c # m_before m\<rparr>"] exI [of _ a]) simp
  next
    case (Some a)
    then have d: "m_before a = []" "c # u @ w = m_text a @ m_after a" using rx_at_decomp by blast+
    moreover have "rx_at r None (m_text a @ m_after a) = Some a"
      using Some d rx_at_forward [OF assms(1)] by metis
    moreover have "rx_search_from r p (c # u @ w) = Some a" using Some by simp
    ultimately show ?thesis by (intro exI [of _ a]) simp
  qed
qed

text \<open>An expression whose matches cannot overlap: each is the literal \<open>h # l\<close> and a text
  accepted by \<open>ok\<close>, and \<open>h\<close> occurs in no match but at its start. Then \<open>finditer\<close> finds every
  occurrence.\<close>

definition keyed_rx :: "rx \<Rightarrow> char \<Rightarrow> string \<Rightarrow> (string \<Rightarrow> bool) \<Rightarrow> nat \<Rightarrow> bool" where
  "keyed_rx r h l ok n \<longleftrightarrow> rx_forward r \<and> h \<notin> set l \<and> (\<forall>w. ok w \<longrightarrow> h \<notin> set w \<and> length w = n) \<and>
     (\<forall>p w v. ok w \<longrightarrow> (\<exists>m. rx_at r p (h # l @ w @ v) = Some m)) \<and>
     (\<forall>p s m. rx_at r p s = Some m \<longrightarrow> (\<exists>w. ok w \<and> m_text m = h # l @ w \<and> m_group_or [] 1 m = w))"

lemma no_overlap:
  assumes "h \<notin> set z" "t @ h # rest = z @ a"
  shows "\<exists>u. a = u @ h # rest"
proof -
  from assms(2) consider us where "t = z @ us" "us @ h # rest = a"
    | us where "t @ us = z" "h # rest = us @ a"
    by (auto simp: append_eq_append_conv2)
  then show ?thesis
  proof cases
    case 1
    then show ?thesis by blast
  next
    case 2
    then show ?thesis using assms(1) by (cases us) auto
  qed
qed

lemma keyed_rxD:
  assumes "keyed_rx r h l ok n"
  shows "rx_forward r" "h \<notin> set l" "ok w \<Longrightarrow> h \<notin> set w" "ok w \<Longrightarrow> length w = n"
    "ok w \<Longrightarrow> rx_at r p (h # l @ w @ v) \<noteq> None"
    "rx_at r p s = Some m \<Longrightarrow> \<exists>w. ok w \<and> m_text m = h # l @ w \<and> m_group_or [] 1 m = w"
  using assms unfolding keyed_rx_def by (blast, blast, blast, blast, fastforce, blast)

lemma keyed_finditer_complete:
  assumes "keyed_rx r h l ok k" "ok w" "length (u @ h # l @ w @ v) < n"
  shows "\<exists>m \<in> set (rx_finditer_n n r p (u @ h # l @ w @ v)). m_group_or [] 1 m = w"
  using assms(3)
proof (induction n arbitrary: u p)
  case 0
  then show ?case by simp
next
  case (Suc n)
  from rx_search_from_least [OF keyed_rxD(1) [OF assms(1)] keyed_rxD(5) [OF assms(1,2)], of p u v] obtain m a where
    m: "rx_search_from r p (u @ h # l @ w @ v) = Some m" "length (m_before m) \<le> length u"
      "u @ h # l @ w @ v = m_before m @ m_text m @ m_after m"
    and a: "rx_at r None (m_text m @ m_after m) = Some a" "m_text a = m_text m"
      "m_groups a = m_groups m" by blast
  obtain x where x: "ok x" "m_text m = h # l @ x" "m_group_or [] 1 m = x"
  proof -
    obtain x where "ok x" "m_text a = h # l @ x" "m_group_or [] 1 a = x"
      using keyed_rxD(6) [OF assms(1) a(1)] by blast
    then show thesis using that a by (simp add: m_group_or_def m_group_def)
  qed
  obtain t where t: "u = m_before m @ t" "t @ h # l @ w @ v = h # l @ x @ m_after m"
  proof -
    have "m_before m = take (length (m_before m)) u"
      using m(2) arg_cong [OF m(3), of "take (length (m_before m))"] by simp
    then obtain t where u: "u = m_before m @ t" by (metis append_take_drop_id)
    then have "m_before m @ (t @ h # l @ w @ v) = m_before m @ (h # l @ x @ m_after m)"
      using m(3) x(2) by simp
    then show thesis using that [OF u] by simp
  qed
  have lens: "length w = k" "length x = k" "h \<notin> set l" "h \<notin> set x"
    using keyed_rxD(2-4) [OF assms(1)] assms(2) x(1) by simp_all
  show ?case
  proof (cases t)
    case Nil
    then have "w = x" using t(2) lens by simp
    then show ?thesis using m(1) x by simp
  next
    case (Cons c t')
    then have eq: "t' @ h # l @ w @ v = (l @ x) @ m_after m" using t(2) by simp
    obtain u' where u': "m_after m = u' @ h # l @ w @ v"
      using no_overlap [OF _ eq] lens by auto
    have "length (u' @ h # l @ w @ v) \<le> length (t' @ h # l @ w @ v)"
      unfolding eq using u' by simp
    then have "length (u' @ h # l @ w @ v) < n" using Suc.prems t(1) Cons by simp
    from Suc.IH [OF this, of "Some (last (m_text m))"] show ?thesis
      using m(1) x(2) by (simp only: u' rx_finditer_n.simps option.case if_False list.simps) auto
  qed
qed

lemma keyed_finditer_groups:
  assumes "keyed_rx r h l ok k"
  shows "\<forall>m \<in> set (rx_finditer_n n r p s). ok (m_group_or [] 1 m)"
proof (induction n arbitrary: p s)
  case 0
  then show ?case by simp
next
  case (Suc n)
  show ?case
  proof (cases "rx_search_from r p s")
    case None
    then show ?thesis by simp
  next
    case (Some m)
    have "\<exists>q t a. rx_at r q t = Some a \<and> m_groups a = m_groups m"
      using Some
    proof (induction s arbitrary: p m)
      case Nil
      then show ?case by auto
    next
      case (Cons c s)
      then show ?case by (cases "rx_at r p (c # s)") fastforce+
    qed
    then have "ok (m_group_or [] 1 m)"
      using assms unfolding keyed_rx_def m_group_or_def m_group_def by metis
    then show ?thesis using Some Suc.IH by simp
  qed
qed

section \<open>Fenced matches\<close>

text \<open>A match of an expression whose words lie in \<open>Q\<close>, behind a character outside \<open>Q\<close>: no earlier
  match covers its start, so \<open>finditer\<close> finds it.\<close>

lemma finditer_fenced:
  assumes "rx_forward r" "\<forall>w \<in> lang r. w \<noteq> [] \<and> (\<forall>c \<in> set w. Q c)" "rx_at r None s = Some a"
    and "u = [] \<or> \<not> Q (last u)" "length (u @ s) < n"
  shows "\<exists>m \<in> set (rx_finditer_n n r p (u @ s)). m_text m = m_text a \<and> m_groups m = m_groups a"
  using assms(4,5)
proof (induction n arbitrary: u p)
  case 0
  then show ?case by simp
next
  case (Suc n)
  from rx_search_from_least [OF assms(1), of None s p u] assms(3) obtain m b where
    m: "rx_search_from r p (u @ s) = Some m" "length (m_before m) \<le> length u"
      "u @ s = m_before m @ m_text m @ m_after m"
    and b: "rx_at r None (m_text m @ m_after m) = Some b" "m_text b = m_text m" "m_groups b = m_groups m"
    by auto
  have word: "m_text m \<noteq> []" "\<forall>c \<in> set (m_text m). Q c"
    using assms(2) rx_search_from_decomp [OF m(1)] by blast+
  obtain t where t: "u = m_before m @ t" "t @ s = m_text m @ m_after m"
  proof -
    have "m_before m = take (length (m_before m)) u"
      using m(2) arg_cong [OF m(3), of "take (length (m_before m))"] by simp
    then obtain t where u: "u = m_before m @ t" by (metis append_take_drop_id)
    with m(3) that show thesis by simp
  qed
  show ?case
  proof (cases "t = []")
    case True
    with t b assms(3) have "b = a" by simp
    with m(1) b word show ?thesis by (intro bexI [of _ m]) simp_all
  next
    case False
    then have out: "\<not> Q (last t)" using Suc.prems(1) t(1) by simp
    obtain t' where t': "t = m_text m @ t'" "t' @ s = m_after m"
    proof -
      from t(2) consider us where "t = m_text m @ us" "us @ s = m_after m" | us where "t @ us = m_text m"
        by (auto simp: append_eq_append_conv2)
      then show thesis
      proof cases
        case 2
        then have "last t \<in> set (m_text m)" using False by (metis Un_iff last_in_set set_append)
        with word out show thesis by blast
      qed (rule that)
    qed
    have ne: "t' \<noteq> []" using out word t'(1) last_in_set by (cases "t' = []") auto
    have "length (t' @ s) < n" using Suc.prems(2) t(1) t'(1) word(1) by (cases "m_text m") auto
    then obtain m' where "m' \<in> set (rx_finditer_n n r (Some (last (m_text m))) (t' @ s))"
      "m_text m' = m_text a" "m_groups m' = m_groups a"
      using Suc.IH [of t'] out ne t'(1) by auto
    with m(1) word(1) t'(2) show ?thesis by (intro bexI [of _ m']) simp_all
  qed
qed

text \<open>A literal and the longest run of \<open>P\<close> behind it, as the group: every such text behind a character
  that is neither in the literal nor in \<open>P\<close> is found.\<close>

lemma findall_literal_run:
  assumes "w \<noteq> []" "\<forall>c \<in> set w. P c" "v = [] \<or> \<not> P (hd v)" "l \<noteq> []" "u = [] \<or> last u \<notin> set l \<and> \<not> P (last u)"
  shows "w \<in> set (map (m_group_or [] 1) (rx_finditer (RSeq (rlit l) (RGrp 1 (rplus (RSet P)))) (u @ l @ w @ v)))"
proof -
  let ?r = "RSeq (rlit l) (RGrp 1 (rplus (RSet P)))"
  have drop: "dropWhile P (w @ v) = v"
    using assms(2,3) by (cases v) auto
  obtain p' rest where "rx_run (rplus (RSet P)) (Some (last l), w @ v, []) = (p', v, []) # rest"
    using rx_run_plus_set [of "w @ v" P "Some (last l)" "[]"] assms(1,2) drop by (cases w) auto
  then have "rx_run ?r (None, l @ w @ v, []) = (p', v, [(1, w)]) #
      map (\<lambda>(q, t, g). (q, t, (1, take (length (w @ v) - length t) (w @ v)) # g)) rest"
    using assms(4) by (simp add: rx_run_rlit)
  then have at: "rx_at ?r None (l @ w @ v) = Some \<lparr>m_before = [], m_text = l @ w, m_after = v, m_groups = [(1, w)]\<rparr>"
    by (simp add: rx_at_def del: rx_run.simps)
  have "\<forall>x \<in> lang ?r. x \<noteq> [] \<and> (\<forall>c \<in> set x. c \<in> set l \<or> P c)" by auto
  from finditer_fenced [OF _ this at, of u "Suc (length (u @ l @ w @ v))" None] assms(5)
  obtain m where "m \<in> set (rx_finditer ?r (u @ l @ w @ v))" "m_groups m = [(1, w)]"
    by (auto simp: rx_finditer_def rplus_def)
  then show ?thesis by (force simp: m_group_or_def m_group_def)
qed

end
