(* ===== verification/PyTime.thy ===== *)
theory PyTime
  imports PyNum
begin

text \<open>
  The part of \<open>datetime\<close> the code uses: calendar dates, naive and aware datetimes, \<open>strftime\<close> with
  the formats of the repository, \<open>fromisoformat\<close> with the documented grammar
  \<open>YYYY-MM-DD[*HH[:MM[:SS[.fff[fff]]]][+HH:MM[:SS[.ffffff]]]]\<close> (Python 3.7 to 3.10), comparison, and
  adding whole days. Offsets and instants are in microseconds, instants counted from
  0001-01-01T00:00 UTC.
\<close>

record pydt =
  dt_y :: nat
  dt_mo :: nat
  dt_d :: nat
  dt_h :: nat
  dt_mi :: nat
  dt_s :: nat
  dt_us :: nat
  dt_tz :: "int option"      \<comment> \<open>\<open>utcoffset()\<close>; \<open>None\<close> for a naive datetime\<close>

section \<open>The calendar\<close>

definition leap :: "nat \<Rightarrow> bool" where
  "leap y \<longleftrightarrow> y mod 4 = 0 \<and> (y mod 100 \<noteq> 0 \<or> y mod 400 = 0)"

definition month_len :: "nat \<Rightarrow> nat \<Rightarrow> nat" where
  "month_len y m =
     (if m = 2 then (if leap y then 29 else 28) else if m \<in> {4, 6, 9, 11} then 30 else 31)"

definition days_before_month :: "nat \<Rightarrow> nat \<Rightarrow> nat" where
  "days_before_month y m = sum_list (map (month_len y) [1..<m])"

definition days_before_year :: "nat \<Rightarrow> nat" where
  "days_before_year y = (y - 1) * 365 + (y - 1) div 4 - (y - 1) div 100 + (y - 1) div 400"

definition ordinal :: "nat \<Rightarrow> nat \<Rightarrow> nat \<Rightarrow> nat" where
  "ordinal y m d = days_before_year y + days_before_month y m + d"

definition valid_date :: "nat \<Rightarrow> nat \<Rightarrow> nat \<Rightarrow> bool" where
  "valid_date y m d \<longleftrightarrow> 1 \<le> y \<and> y \<le> 9999 \<and> 1 \<le> m \<and> m \<le> 12 \<and> 1 \<le> d \<and> d \<le> month_len y m"

definition valid_time :: "nat \<Rightarrow> nat \<Rightarrow> nat \<Rightarrow> nat \<Rightarrow> bool" where
  "valid_time h mi s us \<longleftrightarrow> h < 24 \<and> mi < 60 \<and> s < 60 \<and> us < 1000000"

definition valid_dt :: "pydt \<Rightarrow> bool" where
  "valid_dt t \<longleftrightarrow> valid_date (dt_y t) (dt_mo t) (dt_d t) \<and>
     valid_time (dt_h t) (dt_mi t) (dt_s t) (dt_us t)"

section \<open>Instants and comparison\<close>

definition day_us :: int where "day_us = 86400000000"

definition wall_us :: "pydt \<Rightarrow> int" where
  "wall_us t = (int (ordinal (dt_y t) (dt_mo t) (dt_d t)) - 1) * day_us +
     (int (dt_h t) * 3600 + int (dt_mi t) * 60 + int (dt_s t)) * 1000000 + int (dt_us t)"

definition instant :: "pydt \<Rightarrow> int" where
  "instant t = wall_us t - (case dt_tz t of None \<Rightarrow> 0 | Some off \<Rightarrow> off)"

text \<open>\<open>a < b\<close>: a naive and an aware datetime cannot be ordered.\<close>

definition dt_less :: "pydt \<Rightarrow> pydt \<Rightarrow> py_exc + bool" where
  "dt_less a b =
     (if (dt_tz a = None) = (dt_tz b = None) then Inr (instant a < instant b) else Inl TypeError)"

text \<open>\<open>datetime.max\<close> as an instant of UTC, and \<open>t.astimezone(timezone.utc)\<close>, as an instant.\<close>

definition max_us :: int where "max_us = 3652059 * day_us - 1"

definition to_utc :: "pydt \<Rightarrow> py_exc + int" where
  "to_utc t = (if 0 \<le> instant t \<and> instant t \<le> max_us then Inr (instant t) else Inl OverflowError)"

section \<open>Adding whole days\<close>

definition next_day :: "pydt \<Rightarrow> pydt option" where
  "next_day t =
     (if dt_d t < month_len (dt_y t) (dt_mo t) then Some (t\<lparr>dt_d := dt_d t + 1\<rparr>)
      else if dt_mo t < 12 then Some (t\<lparr>dt_mo := dt_mo t + 1, dt_d := 1\<rparr>)
      else if dt_y t < 9999 then Some (t\<lparr>dt_y := dt_y t + 1, dt_mo := 1, dt_d := 1\<rparr>)
      else None)"

definition prev_day :: "pydt \<Rightarrow> pydt option" where
  "prev_day t =
     (if 1 < dt_d t then Some (t\<lparr>dt_d := dt_d t - 1\<rparr>)
      else if 1 < dt_mo t
        then Some (t\<lparr>dt_mo := dt_mo t - 1, dt_d := month_len (dt_y t) (dt_mo t - 1)\<rparr>)
      else if 1 < dt_y t then Some (t\<lparr>dt_y := dt_y t - 1, dt_mo := 12, dt_d := 31\<rparr>)
      else None)"

fun step_days :: "(pydt \<Rightarrow> pydt option) \<Rightarrow> nat \<Rightarrow> pydt \<Rightarrow> pydt option" where
  "step_days f 0 t = Some t"
| "step_days f (Suc n) t = (case f t of None \<Rightarrow> None | Some t' \<Rightarrow> step_days f n t')"

text \<open>\<open>t + timedelta(days=n)\<close>; \<open>OverflowError\<close> beyond year 1 or 9999.\<close>

definition add_days :: "int \<Rightarrow> pydt \<Rightarrow> py_exc + pydt" where
  "add_days n t =
     (case (if 0 \<le> n then step_days next_day (nat n) t else step_days prev_day (nat (- n)) t) of
        None \<Rightarrow> Inl OverflowError | Some t' \<Rightarrow> Inr t')"

section \<open>Formatting and parsing\<close>

definition fmt_day :: "pydt \<Rightarrow> string" where
  "fmt_day t = pad0 4 (dt_y t) @ ''-'' @ pad0 2 (dt_mo t) @ ''-'' @ pad0 2 (dt_d t)"

definition fmt_day_compact :: "pydt \<Rightarrow> string" where
  "fmt_day_compact t = pad0 4 (dt_y t) @ pad0 2 (dt_mo t) @ pad0 2 (dt_d t)"

definition fmt_clock :: "pydt \<Rightarrow> string" where
  "fmt_clock t = pad0 2 (dt_h t) @ '':'' @ pad0 2 (dt_mi t) @ '':'' @ pad0 2 (dt_s t)"

text \<open>\<open>strftime("%Y-%m-%dT%H:%M:%SZ")\<close>.\<close>

definition fmt_z :: "pydt \<Rightarrow> string" where
  "fmt_z t = fmt_day t @ ''T'' @ fmt_clock t @ ''Z''"

definition take_digits :: "nat \<Rightarrow> string \<Rightarrow> (nat \<times> string) option" where
  "take_digits n s =
     (if length (take n s) = n \<and> list_all is_digit (take n s)
      then Some (digits_val (take n s), drop n s) else None)"

fun expect :: "char \<Rightarrow> string \<Rightarrow> string option" where
  "expect c [] = None"
| "expect c (d # s) = (if d = c then Some s else None)"

definition iso_date :: "string \<Rightarrow> ((nat \<times> nat \<times> nat) \<times> string) option" where
  "iso_date s =
     Option.bind (take_digits 4 s) (\<lambda>(y, s). Option.bind (expect (CHR ''-'') s) (\<lambda>s.
     Option.bind (take_digits 2 s) (\<lambda>(m, s). Option.bind (expect (CHR ''-'') s) (\<lambda>s.
     Option.bind (take_digits 2 s) (\<lambda>(d, s). Some ((y, m, d), s))))))"

definition iso_fraction :: "string \<Rightarrow> (nat \<times> string) option" where
  "iso_fraction s =
     (let ds = takeWhile is_digit s; rest = dropWhile is_digit s
      in if length ds = 6 then Some (digits_val ds, rest)
         else if length ds = 3 then Some (digits_val ds * 1000, rest) else None)"

definition iso_clock :: "string \<Rightarrow> ((nat \<times> nat \<times> nat \<times> nat) \<times> string) option" where
  "iso_clock s =
     Option.bind (take_digits 2 s) (\<lambda>(h, s).
       case expect (CHR '':'') s of
         None \<Rightarrow> Some ((h, 0, 0, 0), s)
       | Some s \<Rightarrow> Option.bind (take_digits 2 s) (\<lambda>(mi, s).
           case expect (CHR '':'') s of
             None \<Rightarrow> Some ((h, mi, 0, 0), s)
           | Some s \<Rightarrow> Option.bind (take_digits 2 s) (\<lambda>(sec, s).
               case expect (CHR ''.'') s of
                 None \<Rightarrow> Some ((h, mi, sec, 0), s)
               | Some s \<Rightarrow> Option.bind (iso_fraction s) (\<lambda>(us, s). Some ((h, mi, sec, us), s)))))"

text \<open>The rest of the text after the clock: nothing, or a UTC offset of less than a day.\<close>

definition iso_zone :: "string \<Rightarrow> int option option" where
  "iso_zone s =
     (case s of [] \<Rightarrow> Some None
      | c # t \<Rightarrow>
          if c = CHR ''+'' \<or> c = CHR ''-'' then
            Option.bind (iso_clock t) (\<lambda>((h, mi, sec, us), rest).
              let off = (int h * 3600 + int mi * 60 + int sec) * 1000000 + int us
              in if rest = [] \<and> length t \<in> {5, 8, 15} \<and> off < day_us
                 then Some (Some (if c = CHR ''-'' then - off else off)) else None)
          else None)"

text \<open>\<open>datetime.fromisoformat(s)\<close>, with \<open>None\<close> for \<open>ValueError\<close>.\<close>

definition fromisoformat :: "string \<Rightarrow> pydt option" where
  "fromisoformat s =
     Option.bind (iso_date s) (\<lambda>((y, m, d), s).
     Option.bind (case s of [] \<Rightarrow> Some ((0, 0, 0, 0), None)
                  | _ # t \<Rightarrow> Option.bind (iso_clock (dropWhile is_cont t)) (\<lambda>(clk, z).
                               map_option (\<lambda>tz. (clk, tz)) (iso_zone z)))
       (\<lambda>((h, mi, sec, us), tz).
          if valid_date y m d \<and> valid_time h mi sec us
          then Some \<lparr>dt_y = y, dt_mo = m, dt_d = d, dt_h = h, dt_mi = mi, dt_s = sec,
                     dt_us = us, dt_tz = tz\<rparr>
          else None))"

definition z_to_offset :: "string \<Rightarrow> string" where
  "z_to_offset s = replace_char (CHR ''Z'') ''+00:00'' s"

definition null_stamps :: "string list" where
  "null_stamps = [em_dash, ''-'', ''~'', ''null'', ''None'', ''none'', []]"

text \<open>\<open>parse_iso\<close> of \<open>_shared.py\<close> and of \<open>preapprovals.py\<close>.\<close>

definition parse_iso :: "string \<Rightarrow> pydt option" where
  "parse_iso s =
     (if strip s \<in> set null_stamps then None
      else map_option (\<lambda>t. if dt_tz t = None then t\<lparr>dt_tz := Some 0\<rparr> else t)
             (fromisoformat (z_to_offset (strip s))))"

section \<open>Printing and reading back\<close>

lemma month_len_bounds: "28 \<le> month_len y m" "month_len y m \<le> 31"
  by (simp_all add: month_len_def)

lemma take_digits_pad0 [simp]:
  assumes "0 < w" "n < 10 ^ w"
  shows "take_digits w (pad0 w n @ rest) = Some (n, rest)"
  using assms length_pad0 [OF assms] pad0_digits [of w n]
  by (simp add: take_digits_def list_all_iff)

lemma valid_dt_bounds:
  assumes "valid_dt t"
  shows "dt_y t < 10 ^ 4" "dt_mo t < 10 ^ 2" "dt_d t < 10 ^ 2" "dt_h t < 10 ^ 2" "dt_mi t < 10 ^ 2"
    "dt_s t < 10 ^ 2"
  using assms month_len_bounds(2) [of "dt_y t" "dt_mo t"]
  by (simp_all add: valid_dt_def valid_date_def valid_time_def)

lemma iso_date_fmt:
  "valid_dt t \<Longrightarrow> iso_date (fmt_day t @ rest) = Some ((dt_y t, dt_mo t, dt_d t), rest)"
  by (simp add: iso_date_def fmt_day_def valid_dt_bounds del: power_numeral power_Suc)

lemma iso_clock_fmt:
  assumes "valid_dt t" "rest = [] \<or> hd rest \<noteq> CHR ''.''"
  shows "iso_clock (fmt_clock t @ rest) = Some ((dt_h t, dt_mi t, dt_s t, 0), rest)"
proof -
  have "expect (CHR ''.'') rest = None" using assms(2) by (cases rest) auto
  then show ?thesis
    by (simp add: iso_clock_def fmt_clock_def valid_dt_bounds assms(1) del: power_numeral power_Suc)
qed

lemma iso_zone_utc: "iso_zone ''+00:00'' = Some (Some 0)"
  by code_simp

lemma fromisoformat_zone:
  assumes "valid_dt t" "dt_us t = 0" "iso_zone z = Some tz" "z = [] \<or> hd z \<noteq> CHR ''.''"
  shows "fromisoformat (fmt_day t @ ''T'' @ fmt_clock t @ z) = Some (t\<lparr>dt_tz := tz\<rparr>)"
proof -
  have hd: "fmt_clock t \<noteq> []" "is_digit (hd (fmt_clock t))"
    using pad0_digits [of 2 "dt_h t"] pad0_ne [of 2 "dt_h t"]
    by (auto simp: fmt_clock_def hd_append hd_in_set simp del: pad0_ne)
  then have "\<not> is_cont (hd (fmt_clock t))" by (auto simp: is_digit_def is_cont_def)
  with hd(1) have "dropWhile is_cont (fmt_clock t @ z) = fmt_clock t @ z"
    by (simp add: dropWhile_eq_self_iff)
  moreover have "iso_clock (fmt_clock t @ z) = Some ((dt_h t, dt_mi t, dt_s t, 0), z)"
    by (rule iso_clock_fmt) (use assms in simp_all)
  moreover have "valid_date (dt_y t) (dt_mo t) (dt_d t)" "valid_time (dt_h t) (dt_mi t) (dt_s t) 0"
    using assms by (simp_all add: valid_dt_def valid_time_def)
  ultimately show ?thesis
    using assms by (simp add: fromisoformat_def iso_date_fmt)
qed

lemma fromisoformat_fmt:
  "valid_dt t \<Longrightarrow> dt_us t = 0 \<Longrightarrow>
    fromisoformat (fmt_day t @ ''T'' @ fmt_clock t @ ''+00:00'') = Some (t\<lparr>dt_tz := Some 0\<rparr>)"
  by (rule fromisoformat_zone) (simp_all add: iso_zone_utc)

lemma fromisoformat_naive:
  "valid_dt t \<Longrightarrow> dt_us t = 0 \<Longrightarrow>
    fromisoformat (fmt_day t @ ''T'' @ fmt_clock t) = Some (t\<lparr>dt_tz := None\<rparr>)"
  using fromisoformat_zone [of t "[]" None] by (simp add: iso_zone_def)

text \<open>The printed stamps hold no white space and no \<open>Z\<close> but the last one.\<close>

definition stamp_char :: "char \<Rightarrow> bool" where
  "stamp_char c \<longleftrightarrow> is_digit c \<or> c \<in> set ''-:T''"

lemma stamp_chars_pad0: "\<forall>c \<in> set (pad0 w n). stamp_char c"
  using pad0_digits by (auto simp: stamp_char_def)

lemma stamp_chars_fmt: "\<forall>c \<in> set (fmt_day t @ ''T'' @ fmt_clock t). stamp_char c"
  using stamp_chars_pad0 by (auto simp: fmt_day_def fmt_clock_def stamp_char_def)

lemma stamp_char_props:
  "stamp_char c \<Longrightarrow> \<not> is_space c \<and> c \<noteq> CHR ''Z'' \<and> \<not> is_eol c \<and> c \<noteq> CHR ''|''"
  by (auto simp: stamp_char_def is_space_def is_digit_def is_eol_def)

lemma replace_char_absent: "d \<notin> set s \<Longrightarrow> replace_char d t s = s"
  by (induction s) (auto simp: replace_char_def)

lemma replace_char_snoc: "d \<notin> set u \<Longrightarrow> replace_char d t (u @ [d]) = u @ t"
  using replace_char_absent [of d u t] by (simp add: replace_char_def)

lemma fmt_z_nospace: "\<forall>c \<in> set (fmt_z t). \<not> is_space c \<and> \<not> is_eol c \<and> c \<noteq> CHR ''|''"
  using stamp_chars_fmt [of t] stamp_char_props
  by (auto simp: fmt_z_def ball_Un is_space_def is_eol_def)

lemma fmt_z_ne [simp]: "fmt_z t \<noteq> []"
  by (simp add: fmt_z_def)

lemma strip_fmt_z: "strip (fmt_z t) = fmt_z t"
  by (rule strip_of_id) (meson fmt_z_nospace fmt_z_ne hd_in_set last_in_set)

lemma z_to_offset_naive: "z_to_offset (fmt_day t @ ''T'' @ fmt_clock t) = fmt_day t @ ''T'' @ fmt_clock t"
  unfolding z_to_offset_def
  by (rule replace_char_absent) (use stamp_chars_fmt [of t] stamp_char_props in blast)

lemma z_to_offset_fmt_z: "z_to_offset (fmt_z t) = fmt_day t @ ''T'' @ fmt_clock t @ ''+00:00''"
proof -
  have "CHR ''Z'' \<notin> set (fmt_day t @ ''T'' @ fmt_clock t)"
    using stamp_chars_fmt [of t] stamp_char_props by blast
  then have "replace_char (CHR ''Z'') ''+00:00'' ((fmt_day t @ ''T'' @ fmt_clock t) @ ''Z'') =
      (fmt_day t @ ''T'' @ fmt_clock t) @ ''+00:00''"
    by (rule replace_char_snoc)
  then show ?thesis by (simp add: z_to_offset_def fmt_z_def)
qed

lemma fmt_z_last: "last (fmt_z t) = CHR ''Z''"
  by (simp add: fmt_z_def)

lemma fmt_z_not_null: "fmt_z t \<notin> set null_stamps"
proof
  assume "fmt_z t \<in> set null_stamps"
  then have "last (fmt_z t) \<in> last ` (set null_stamps - {[]})" using fmt_z_ne by blast
  then show False by (auto simp: fmt_z_last null_stamps_def em_dash_def)
qed

lemma fromisoformat_fmt_z:
  "valid_dt t \<Longrightarrow> dt_us t = 0 \<Longrightarrow> fromisoformat (z_to_offset (fmt_z t)) = Some (t\<lparr>dt_tz := Some 0\<rparr>)"
  by (simp only: z_to_offset_fmt_z fromisoformat_fmt)

lemma parse_iso_fmt_z:
  "valid_dt t \<Longrightarrow> dt_us t = 0 \<Longrightarrow> parse_iso (fmt_z t) = Some (t\<lparr>dt_tz := Some 0\<rparr>)"
  by (simp add: parse_iso_def strip_fmt_z fmt_z_not_null fromisoformat_fmt_z)

section \<open>Days\<close>

abbreviation dt_ordinal :: "pydt \<Rightarrow> nat" where
  "dt_ordinal t \<equiv> ordinal (dt_y t) (dt_mo t) (dt_d t)"

lemma days_before_month_Suc: "1 \<le> m \<Longrightarrow> days_before_month y (Suc m) = days_before_month y m + month_len y m"
  by (simp add: days_before_month_def)

lemma days_before_month_12: "days_before_month y 13 = (if leap y then 366 else 365)"
  by (simp add: days_before_month_def month_len_def upt_rec eval_nat_numeral)

lemma div_Suc_if: "0 < k \<Longrightarrow> Suc n div k = n div k + (if Suc n mod k = 0 then 1 else 0)" for k :: nat
  by (simp add: div_Suc)

lemma days_before_year_Suc:
  assumes "1 \<le> y"
  shows "days_before_year (Suc y) = days_before_year y + (if leap y then 366 else 365)"
proof -
  obtain n where y: "y = Suc n" using assms by (cases y) auto
  have mono: "n div 100 \<le> n div 4" by (rule div_le_mono2) simp_all
  have m400: "Suc n mod 400 = 0 \<Longrightarrow> Suc n mod 100 = 0" "Suc n mod 100 = 0 \<Longrightarrow> Suc n mod 4 = 0"
    by (simp_all add: mod_eq_0_iff_dvd dvd_trans [of 100 400] dvd_trans [of 4 100])
  show ?thesis
    using mono m400 by (auto simp: days_before_year_def leap_def y div_Suc_if; simp only: ac_simps)
qed

lemma ordinal_next_day:
  assumes "valid_dt t" "next_day t = Some t'"
  shows "dt_ordinal t' = dt_ordinal t + 1" "valid_dt t'"
    "dt_h t' = dt_h t \<and> dt_mi t' = dt_mi t \<and> dt_s t' = dt_s t \<and> dt_us t' = dt_us t \<and> dt_tz t' = dt_tz t"
proof -
  have v: "valid_date (dt_y t) (dt_mo t) (dt_d t)" using assms(1) by (simp add: valid_dt_def)
  have dec: "month_len (dt_y t) 12 = 31" by (simp add: month_len_def)
  have year: "days_before_month (dt_y t) 12 + 31 = (if leap (dt_y t) then 366 else 365)"
    using days_before_month_12 [of "dt_y t"] days_before_month_Suc [of 12 "dt_y t"] dec by simp
  have first: "days_before_month y (Suc 0) = 0" for y by (simp add: days_before_month_def)
  have len: "1 \<le> month_len y m" for y m using month_len_bounds(1) [of y m] by linarith
  consider "dt_d t < month_len (dt_y t) (dt_mo t)" "t' = t\<lparr>dt_d := dt_d t + 1\<rparr>"
    | "dt_d t = month_len (dt_y t) (dt_mo t)" "dt_mo t < 12" "t' = t\<lparr>dt_mo := dt_mo t + 1, dt_d := 1\<rparr>"
    | "dt_d t = 31" "dt_mo t = 12" "dt_y t < 9999" "t' = t\<lparr>dt_y := dt_y t + 1, dt_mo := 1, dt_d := 1\<rparr>"
    using assms(2) v dec by (auto simp: next_day_def valid_date_def split: if_splits)
  then have "dt_ordinal t' = dt_ordinal t + 1 \<and> valid_date (dt_y t') (dt_mo t') (dt_d t') \<and>
     dt_h t' = dt_h t \<and> dt_mi t' = dt_mi t \<and> dt_s t' = dt_s t \<and> dt_us t' = dt_us t \<and> dt_tz t' = dt_tz t"
  proof cases
    case 1
    then show ?thesis using v by (simp add: ordinal_def valid_date_def)
  next
    case 2
    then show ?thesis using v len by (simp add: ordinal_def valid_date_def days_before_month_Suc)
  next
    case 3
    then show ?thesis using v len year
      by (simp add: ordinal_def valid_date_def days_before_year_Suc first)
  qed
  then show "dt_ordinal t' = dt_ordinal t + 1" "valid_dt t'"
    "dt_h t' = dt_h t \<and> dt_mi t' = dt_mi t \<and> dt_s t' = dt_s t \<and> dt_us t' = dt_us t \<and> dt_tz t' = dt_tz t"
    using assms(1) by (auto simp: valid_dt_def valid_time_def)
qed

lemma step_next_days:
  assumes "valid_dt t" "step_days next_day n t = Some t'"
  shows "dt_ordinal t' = dt_ordinal t + n \<and> valid_dt t' \<and>
    dt_h t' = dt_h t \<and> dt_mi t' = dt_mi t \<and> dt_s t' = dt_s t \<and> dt_us t' = dt_us t \<and> dt_tz t' = dt_tz t"
  using assms
proof (induction n arbitrary: t)
  case 0
  then show ?case by simp
next
  case (Suc n)
  obtain u where u: "next_day t = Some u" "step_days next_day n u = Some t'"
    using Suc.prems(2) by (auto split: option.splits)
  show ?case using ordinal_next_day [OF Suc.prems(1) u(1)] Suc.IH [OF _ u(2)] by simp
qed

lemma instant_step_days:
  assumes "valid_dt t" "step_days next_day n t = Some t'"
  shows "instant t' = instant t + int n * day_us"
  using step_next_days [OF assms] by (simp add: instant_def wall_us_def algebra_simps)

lemma add_days_instant:
  assumes "valid_dt t" "add_days n t = Inr t'" "0 \<le> n"
  shows "valid_dt t'" "instant t' = instant t + n * day_us" "dt_us t' = dt_us t" "dt_tz t' = dt_tz t"
  using assms step_next_days [OF assms(1), of "nat n" t'] instant_step_days [OF assms(1), of "nat n" t']
  by (auto simp: add_days_def split: option.splits)

end
