(* ===== verification/Lock.thy ===== *)
theory Lock
  imports Workspace Scan PyTime
begin

text \<open>
  \<open>nightclaw_engine/commands/lock.py\<close>: the session lock \<open>LOCK.md\<close> and the run-id allocation. A
  clock reading is an argument: \<open>lock_acquire\<close> reads the clock once to test the old lock and once
  to stamp the new one. Arguments are \<open>sys.argv[2:]\<close>; standard error is not modelled.
\<close>

section \<open>The commands\<close>

definition locked_body :: "string \<Rightarrow> string \<Rightarrow> string \<Rightarrow> string \<Rightarrow> nat \<Rightarrow> string" where
  "locked_body holder run_id locked_at expires_at cpf =
     ''# LOCK'' @ nl # [] @ nl # ''```yaml'' @ nl # ''status: locked'' @ nl #
     (''holder: '' @ holder) @ nl # (''run_id: '' @ run_id) @ nl #
     (''locked_at: '' @ locked_at) @ nl # (''expires_at: '' @ expires_at) @ nl #
     (''consecutive_pass_failures: '' @ nat_str cpf) @ nl # ''```'' @ [nl]"

definition released_body :: string where
  "released_body =
     ''# LOCK'' @ nl # [] @ nl # ''```yaml'' @ nl # ''status: released'' @ nl #
     (''holder: '' @ em_dash) @ nl # (''run_id: '' @ em_dash) @ nl #
     (''locked_at: '' @ em_dash) @ nl # (''expires_at: '' @ em_dash) @ nl #
     ''consecutive_pass_failures: 0'' @ nl # ''```'' @ [nl]"

definition says_locked :: "string \<Rightarrow> bool" where
  "says_locked text \<longleftrightarrow> contains ''status: locked'' text \<or> contains ''status:locked'' text"

definition expires_rx :: rx where "expires_rx = key_rx ''expires_at:'' (\<lambda>c. \<not> is_space c)"

definition cpf_rx :: rx where "cpf_rx = key_rx ''consecutive_pass_failures:'' is_digit"

definition lock_expiry :: "string \<Rightarrow> pydt option" where
  "lock_expiry text =
     Option.bind (search1 expires_rx text) (\<lambda>e. fromisoformat (z_to_offset e))"

text \<open>Whether an existing lock file denies the lock; comparing may raise.\<close>

definition lock_active :: "pydt \<Rightarrow> string \<Rightarrow> py_exc + bool" where
  "lock_active now text =
     (if says_locked text then
        (case lock_expiry text of None \<Rightarrow> Inr False | Some exp \<Rightarrow> dt_less now exp)
      else Inr False)"

definition lock_cpf :: "string \<Rightarrow> nat" where
  "lock_cpf text = (case search1 cpf_rx text of None \<Rightarrow> 0 | Some ds \<Rightarrow> digits_val ds)"

definition lock_acquire :: "pydt \<Rightarrow> pydt \<Rightarrow> string list \<Rightarrow> workspace \<Rightarrow> outcome \<times> workspace" where
  "lock_acquire now stamp args w =
     (case args of
        holder # run_id # expires_at # _ \<Rightarrow>
          (let existing = read_file ''LOCK.md'' w in
           case (case existing of None \<Rightarrow> Inr False | Some text \<Rightarrow> lock_active now text) of
             Inl e \<Rightarrow> (Raise e [], w)
           | Inr denied \<Rightarrow>
               if denied then (Exit 1 [''LOCK:DENIED reason=already_locked''], w)
               else
                 (let cpf = (case existing of None \<Rightarrow> 0 | Some text \<Rightarrow> lock_cpf text);
                      locked_at = fmt_z stamp
                  in (Exit 0 [''LOCK:ACQUIRED holder='' @ holder @ '' run_id='' @ run_id @
                              '' locked_at='' @ locked_at],
                      write_file ''LOCK.md'' (locked_body holder run_id locked_at expires_at cpf) w)))
      | _ \<Rightarrow> (Exit 2 [], w))"

text \<open>The optional \<open>holder\<close> argument of \<open>lock-release\<close> is never read.\<close>

definition lock_release :: "string list \<Rightarrow> workspace \<Rightarrow> outcome \<times> workspace" where
  "lock_release args w =
     (case read_file ''LOCK.md'' w of
        None \<Rightarrow> (Exit 1 [''LOCK:DENIED reason=not_held''], w)
      | Some text \<Rightarrow>
          if \<not> says_locked text then (Exit 1 [''LOCK:DENIED reason=not_held''], w)
          else (Exit 0 [''LOCK:RELEASED''], write_file ''LOCK.md'' released_body w))"

definition run_rx :: "string \<Rightarrow> rx" where
  "run_rx today = rseq [rlit (''RUN-'' @ today @ ''-''), RGrp 1 (rrep 3 rdigit)]"

definition max_run :: "string \<Rightarrow> string \<Rightarrow> nat" where
  "max_run today content =
     foldl (\<lambda>mx m. let n = digits_val (m_group_or [] 1 m) in if n > mx then n else mx) 0
       (rx_finditer (run_rx today) content)"

definition next_run_id :: "pydt \<Rightarrow> workspace \<Rightarrow> outcome \<times> workspace" where
  "next_run_id now w =
     (let today = fmt_day_compact now in
      case read_file ''audit/SESSION-REGISTRY.md'' w of
        None \<Rightarrow> (Exit 0 [''RUN-'' @ today @ ''-001''], w)
      | Some content \<Rightarrow>
          (Exit 0 [''RUN-'' @ today @ ''-'' @ pad0 3 (max_run today content + 1)], w))"

section \<open>Reading back what \<open>lock-acquire\<close> wrote\<close>

text \<open>Holders and run ids are words without a colon; an expiry is made of the characters of an ISO
  8601 stamp.\<close>

definition lock_word :: "string \<Rightarrow> bool" where
  "lock_word s \<longleftrightarrow> (\<forall>c \<in> set s. \<not> is_space c \<and> c \<noteq> CHR '':'')"

definition stamp_word :: "string \<Rightarrow> bool" where
  "stamp_word s \<longleftrightarrow> s \<noteq> [] \<and> (\<forall>c \<in> set s. is_digit c \<or> c \<in> set ''-+:TZ.'')"

lemma stamp_word_fmt_z: "stamp_word (fmt_z t)"
  using stamp_chars_fmt [of t] by (auto simp: stamp_word_def fmt_z_def stamp_char_def)

lemma stamp_word_nospace: "stamp_word s \<Longrightarrow> \<forall>c \<in> set s. \<not> is_space c \<and> c \<noteq> nl"
  by (auto simp: stamp_word_def is_space_def is_digit_def)

lemma key_not_in_field:
  assumes "CHR '':'' \<notin> set a" "CHR '':'' \<notin> set b" "\<not> endswith a l"
  shows "\<not> contains (l @ '':'') (a @ '':'' @ b)"
proof
  assume "contains (l @ '':'') (a @ '':'' @ b)"
  then obtain u v where "a @ CHR '':'' # b = (u @ l) @ CHR '':'' # v" by (auto simp: contains_iff)
  then have "a = u @ l" using append_Cons_eq_iff [OF assms(1,2)] by blast
  with assms(3) show False by (auto simp: endswith_iff)
qed

lemma lock_word_chars: "lock_word s \<Longrightarrow> nl \<notin> set s \<and> CHR '':'' \<notin> set s \<and> CHR 0x0D \<notin> set s"
proof -
  have "is_space nl" "is_space (CHR 0x0D)" by code_simp+
  then show "lock_word s \<Longrightarrow> nl \<notin> set s \<and> CHR '':'' \<notin> set s \<and> CHR 0x0D \<notin> set s"
    by (auto simp: lock_word_def)
qed

lemma key_not_in_word:
  assumes "lock_word h" "\<not> endswith a l" "CHR '':'' \<notin> set a"
  shows "\<not> contains (l @ '':'') (a @ '': '' @ h)"
  using key_not_in_field [of a "CHR '' '' # h" l] assms lock_word_chars [OF assms(1)] by simp

lemma expires_not_in_stamp: "\<not> contains ''expires_at:'' (''locked_at: '' @ fmt_z t)"
proof
  assume "contains ''expires_at:'' (''locked_at: '' @ fmt_z t)"
  then have "CHR ''x'' \<in> set (''locked_at: '' @ fmt_z t)" using contains_set by force
  then have "CHR ''x'' \<in> set (fmt_z t)" by simp
  then show False using stamp_word_fmt_z [of t] by (auto simp: stamp_word_def is_digit_def)
qed

lemma cpf_not_in_stamp:
  assumes "stamp_word e" "CHR ''u'' \<notin> set a"
  shows "\<not> contains ''consecutive_pass_failures:'' (a @ e)"
proof
  assume "contains ''consecutive_pass_failures:'' (a @ e)"
  then have "CHR ''u'' \<in> set (a @ e)" using contains_set by force
  then show False using assms by (auto simp: stamp_word_def is_digit_def)
qed

lemma expires_skip:
  "\<not> contains ''expires_at:'' line \<Longrightarrow> search1 expires_rx (line @ nl # s) = search1 expires_rx s"
  unfolding expires_rx_def by (rule search1_skip_line) simp_all

lemma cpf_skip:
  "\<not> contains ''consecutive_pass_failures:'' line \<Longrightarrow> search1 cpf_rx (line @ nl # s) = search1 cpf_rx s"
  unfolding cpf_rx_def by (rule search1_skip_line) simp_all

lemma expires_of_locked_body:
  assumes "lock_word h" "lock_word r" "stamp_word e"
  shows "search1 expires_rx (locked_body h r (fmt_z t) e n) = Some e"
proof -
  have fixed: "\<not> contains ''expires_at:'' ''# LOCK''" "\<not> contains ''expires_at:'' []"
    "\<not> contains ''expires_at:'' ''```yaml''" "\<not> contains ''expires_at:'' ''status: locked''"
    by code_simp+
  have hd: "\<not> contains ''expires_at:'' (''holder: '' @ h)"
    using key_not_in_word [OF assms(1), of "''holder''" "''expires_at''"] by (simp add: endswith_def)
  have rn: "\<not> contains ''expires_at:'' (''run_id: '' @ r)"
    using key_not_in_word [OF assms(2), of "''run_id''" "''expires_at''"] by (simp add: endswith_def)
  define rest where "rest = nl # (''consecutive_pass_failures: '' @ nat_str n) @ nl # ''```'' @ [nl]"
  have "search1 expires_rx (''expires_at:'' @ '' '' @ e @ rest) = Some e"
    unfolding expires_rx_def using assms(3) stamp_word_nospace [OF assms(3)]
    by (intro search1_key_hit) (auto simp: stamp_word_def rest_def is_space_def)
  then have "search1 expires_rx ((''expires_at: '' @ e) @ rest) = Some e" by simp
  then show ?thesis
    unfolding locked_body_def rest_def
    by (simp only: expires_skip [OF fixed(1)] expires_skip [OF fixed(2)] expires_skip [OF fixed(3)]
        expires_skip [OF fixed(4)] expires_skip [OF hd] expires_skip [OF rn]
        expires_skip [OF expires_not_in_stamp])
qed

lemma cpf_of_locked_body:
  assumes "lock_word h" "lock_word r" "stamp_word e"
  shows "lock_cpf (locked_body h r (fmt_z t) e n) = n"
proof -
  let ?l = "''consecutive_pass_failures:''"
  have fixed: "\<not> contains ?l ''# LOCK''" "\<not> contains ?l []"
    "\<not> contains ?l ''```yaml''" "\<not> contains ?l ''status: locked''"
    by code_simp+
  have hd: "\<not> contains ?l (''holder: '' @ h)"
    using key_not_in_word [OF assms(1), of "''holder''" "''consecutive_pass_failures''"]
    by (simp add: endswith_def)
  have rn: "\<not> contains ?l (''run_id: '' @ r)"
    using key_not_in_word [OF assms(2), of "''run_id''" "''consecutive_pass_failures''"]
    by (simp add: endswith_def)
  have st: "\<not> contains ?l (''locked_at: '' @ fmt_z t)" "\<not> contains ?l (''expires_at: '' @ e)"
    using cpf_not_in_stamp [OF stamp_word_fmt_z, of "''locked_at: ''"]
      cpf_not_in_stamp [OF assms(3), of "''expires_at: ''"] by simp_all
  define rest where "rest = nl # ''```'' @ [nl]"
  have "search1 cpf_rx (?l @ '' '' @ nat_str n @ rest) = Some (nat_str n)"
    unfolding cpf_rx_def using nat_str_digits [of n] digit_not_space [of "hd (nat_str n)"]
    by (intro search1_key_hit) (auto simp: rest_def is_digit_def [of nl] is_space_def [of "CHR '' ''"])
  then have "search1 cpf_rx ((''consecutive_pass_failures: '' @ nat_str n) @ rest) = Some (nat_str n)"
    by simp
  then show ?thesis
    unfolding lock_cpf_def locked_body_def rest_def
    by (simp only: cpf_skip [OF fixed(1)] cpf_skip [OF fixed(2)] cpf_skip [OF fixed(3)]
        cpf_skip [OF fixed(4)] cpf_skip [OF hd] cpf_skip [OF rn] cpf_skip [OF st(1)]
        cpf_skip [OF st(2)]) simp
qed

lemma says_locked_body: "says_locked (locked_body h r t e n)"
proof -
  have "locked_body h r t e n = (''# LOCK'' @ nl # nl # ''```yaml'' @ [nl]) @ ''status: locked'' @
      (nl # (''holder: '' @ h) @ nl # (''run_id: '' @ r) @ nl # (''locked_at: '' @ t) @ nl #
       (''expires_at: '' @ e) @ nl # (''consecutive_pass_failures: '' @ nat_str n) @ nl # ''```'' @ [nl])"
    by (simp add: locked_body_def)
  then have "contains ''status: locked'' (locked_body h r t e n)" by (metis contains_iff)
  then show ?thesis by (simp add: says_locked_def)
qed

lemma says_locked_released: "\<not> says_locked released_body"
  by code_simp

lemma lock_cpf_released: "lock_cpf released_body = 0"
  by code_simp

lemma plain_lock [simp]: "canon_path ''LOCK.md'' = ''LOCK.md''"
  by (rule canon_path_plain) code_simp

lemma locked_body_no_cr:
  assumes "lock_word h" "lock_word r" "stamp_word e"
  shows "univ_nl (locked_body h r (fmt_z t) e n) = locked_body h r (fmt_z t) e n"
proof (rule univ_nl_id)
  have sp: "is_space (CHR 0x0D)" "\<not> is_digit (CHR 0x0D)" by code_simp+
  have "CHR 0x0D \<notin> set e" "CHR 0x0D \<notin> set (fmt_z t)"
    using stamp_word_nospace [OF assms(3)] stamp_word_nospace [OF stamp_word_fmt_z, of t] sp by blast+
  moreover have "CHR 0x0D \<notin> set (nat_str n)" using nat_str_digits [of n] sp by blast
  ultimately show "CHR 0x0D \<notin> set (locked_body h r (fmt_z t) e n)"
    using lock_word_chars [OF assms(1)] lock_word_chars [OF assms(2)]
    by (simp add: locked_body_def)
qed

lemma released_body_no_cr: "univ_nl released_body = released_body"
  by code_simp

end
