(* ===== verification/LockSession.thy ===== *)
theory LockSession
  imports Lock
begin

text \<open>
  What the lock promises its sessions. The contract is a locale: a granted request is held, a held
  request refuses every other while it covers the clock, and a release frees it once. The lock file
  of \<open>Lock\<close> provides it, and \<open>lock_step\<close> runs it among the other commands of a session.
\<close>

section \<open>The contract\<close>

locale lock_service =
  fixes acq :: "'t \<Rightarrow> 'r \<Rightarrow> 's \<Rightarrow> bool \<times> 's"
    and rel :: "'s \<Rightarrow> bool \<times> 's"
    and good :: "'r \<Rightarrow> bool"
    and covers :: "'r \<Rightarrow> 't \<Rightarrow> bool"
    and holds :: "'r \<Rightarrow> 's \<Rightarrow> bool"
    and tick :: "'t \<Rightarrow> bool"
  assumes grant: "good r \<Longrightarrow> fst (acq t r s) \<Longrightarrow> holds r (snd (acq t r s))"
    and refuse: "tick t \<Longrightarrow> good r \<Longrightarrow> holds r s \<Longrightarrow> covers r t \<Longrightarrow> acq t r' s = (False, s)"
    and expire: "tick t \<Longrightarrow> good r \<Longrightarrow> holds r s \<Longrightarrow> \<not> covers r t \<Longrightarrow> fst (acq t r' s)"
    and free: "good r \<Longrightarrow> holds r s \<Longrightarrow> fst (rel s)"
    and free_once: "rel (snd (rel s)) = (False, snd (rel s))"
    and free_grants: "fst (rel s) \<Longrightarrow> fst (acq t r' (snd (rel s)))"
begin

lemma excludes:
  assumes "good r" "holds r s" "\<forall>(t, r') \<in> set reqs. tick t \<and> covers r t"
  shows "fold (\<lambda>(t, r'). snd \<circ> acq t r') reqs s = s \<and> (\<forall>(t, r') \<in> set reqs. \<not> fst (acq t r' s))"
  using assms(3)
  by (induction reqs) (auto simp: refuse [OF _ assms(1,2)])

lemma excludes_after_grant:
  assumes "good r" "fst (acq t0 r s0)" "\<forall>(t, r') \<in> set reqs. tick t \<and> covers r t"
  shows "fold (\<lambda>(t, r'). snd \<circ> acq t r') reqs (snd (acq t0 r s0)) = snd (acq t0 r s0) \<and>
    (\<forall>(t, r') \<in> set reqs. \<not> fst (acq t r' (snd (acq t0 r s0))))"
  using excludes [OF assms(1) grant [OF assms(1,2)] assms(3)] .

lemma hand_over:
  assumes "good r" "fst (acq t0 r s0)" "tick t"
  shows "fst (acq t r' (snd (acq t0 r s0))) \<longleftrightarrow> \<not> covers r t"
  using grant [OF assms(1,2)] refuse [OF assms(3,1)] expire [OF assms(3,1)] by fastforce

end

section \<open>The lock file provides it\<close>

record lock_request =
  rq_stamp :: pydt
  rq_holder :: string
  rq_run :: string
  rq_expires :: string

definition granted :: "outcome \<Rightarrow> bool" where
  "granted oc = (case oc of Exit n _ \<Rightarrow> n = 0 | Raise _ _ \<Rightarrow> False)"

definition request_lock :: "pydt \<Rightarrow> lock_request \<Rightarrow> workspace \<Rightarrow> bool \<times> workspace" where
  "request_lock now r w =
     (case lock_acquire now (rq_stamp r) [rq_holder r, rq_run r, rq_expires r] w of
        (oc, w') \<Rightarrow> (granted oc, w'))"

definition give_back :: "workspace \<Rightarrow> bool \<times> workspace" where
  "give_back w = (case lock_release [] w of (oc, w') \<Rightarrow> (granted oc, w'))"

text \<open>A request whose expiry is an instant (an aware ISO 8601 stamp).\<close>

definition expiry_of :: "lock_request \<Rightarrow> pydt option" where
  "expiry_of r = fromisoformat (z_to_offset (rq_expires r))"

definition proper_request :: "lock_request \<Rightarrow> bool" where
  "proper_request r \<longleftrightarrow> lock_word (rq_holder r) \<and> lock_word (rq_run r) \<and> stamp_word (rq_expires r) \<and>
     (case expiry_of r of None \<Rightarrow> False | Some e \<Rightarrow> dt_tz e \<noteq> None)"

text \<open>The clock of the commands is aware, \<open>datetime.now(timezone.utc)\<close>.\<close>

definition before_expiry :: "lock_request \<Rightarrow> pydt \<Rightarrow> bool" where
  "before_expiry r now \<longleftrightarrow> (case expiry_of r of None \<Rightarrow> False | Some e \<Rightarrow> instant now < instant e)"

definition owns :: "lock_request \<Rightarrow> workspace \<Rightarrow> bool" where
  "owns r w \<longleftrightarrow> (\<exists>n. read_file ''LOCK.md'' w =
     Some (locked_body (rq_holder r) (rq_run r) (fmt_z (rq_stamp r)) (rq_expires r) n))"

lemma lock_active_body:
  assumes "lock_word h" "lock_word r" "stamp_word e"
  shows "lock_active now (locked_body h r (fmt_z t) e n) =
    (case fromisoformat (z_to_offset e) of None \<Rightarrow> Inr False | Some exp \<Rightarrow> dt_less now exp)"
  by (simp add: lock_active_def says_locked_body lock_expiry_def expires_of_locked_body [OF assms])

lemma lock_active_released: "lock_active now released_body = Inr False"
  by (simp add: lock_active_def says_locked_released)

lemma request_lock_cases:
  "request_lock now r w =
     (case (case read_file ''LOCK.md'' w of None \<Rightarrow> Inr False | Some text \<Rightarrow> lock_active now text) of
        Inr False \<Rightarrow> (True, write_file ''LOCK.md'' (locked_body (rq_holder r) (rq_run r)
           (fmt_z (rq_stamp r)) (rq_expires r)
           (case read_file ''LOCK.md'' w of None \<Rightarrow> 0 | Some text \<Rightarrow> lock_cpf text)) w)
      | _ \<Rightarrow> (False, w))"
  by (simp add: request_lock_def lock_acquire_def Let_def granted_def
      split: sum.splits bool.splits option.splits)

lemma proper_requestD:
  "proper_request r \<Longrightarrow> lock_word (rq_holder r) \<and> lock_word (rq_run r) \<and> stamp_word (rq_expires r)"
  by (simp add: proper_request_def)

lemma owns_write:
  assumes "proper_request r"
  shows "owns r (write_file ''LOCK.md'' (locked_body (rq_holder r) (rq_run r)
    (fmt_z (rq_stamp r)) (rq_expires r) n) w)"
  using proper_requestD [OF assms]
  by (auto simp: owns_def read_write_same locked_body_no_cr)

lemma owns_active:
  assumes "proper_request r" "owns r w" "dt_tz now \<noteq> None"
  shows "\<exists>text. read_file ''LOCK.md'' w = Some text \<and> lock_active now text = Inr (before_expiry r now)"
proof -
  obtain n where rd: "read_file ''LOCK.md'' w =
      Some (locked_body (rq_holder r) (rq_run r) (fmt_z (rq_stamp r)) (rq_expires r) n)"
    using assms(2) by (auto simp: owns_def)
  obtain e where e: "expiry_of r = Some e" "dt_tz e \<noteq> None"
    using assms(1) by (auto simp: proper_request_def split: option.splits)
  have "fromisoformat (z_to_offset (rq_expires r)) = Some e" using e(1) by (simp add: expiry_of_def)
  then have "lock_active now (locked_body (rq_holder r) (rq_run r) (fmt_z (rq_stamp r)) (rq_expires r) n)
      = Inr (before_expiry r now)"
    using proper_requestD [OF assms(1)] e assms(3)
    by (simp add: lock_active_body dt_less_def before_expiry_def)
  with rd show ?thesis by blast
qed

interpretation ll: lock_service
  request_lock give_back proper_request before_expiry owns "\<lambda>t. dt_tz t \<noteq> None"
proof (unfold_locales, goal_cases)
  case (1 r t s)
  then show ?case
    by (auto simp: request_lock_cases owns_write split: sum.splits bool.splits option.splits)
next
  case (2 t r s r')
  then show ?case
    using owns_active [OF 2(2,3,1)] by (auto simp: request_lock_cases)
next
  case (3 t r s r')
  then show ?case
    using owns_active [OF 3(2,3,1)] by (auto simp: request_lock_cases)
next
  case (4 r s)
  then show ?case by (auto simp: give_back_def lock_release_def owns_def says_locked_body granted_def)
next
  case (5 s)
  show ?case
    by (auto simp: give_back_def lock_release_def granted_def read_write_same released_body_no_cr
        says_locked_released split: option.splits)
next
  case (6 s t r')
  then show ?case
    by (auto simp: give_back_def lock_release_def granted_def read_write_same released_body_no_cr
        request_lock_cases lock_active_released split: option.splits if_splits)
qed

text \<open>C1. Mutual exclusion. Once a proper request is granted, every sequence of further requests,
  by whomever and with whatever arguments, made while the clock is before the expiry is refused,
  and the workspace does not change.\<close>

theorem lock_mutual_exclusion:
  assumes "proper_request r" "fst (request_lock t0 r w)" "w1 = snd (request_lock t0 r w)"
    and "\<forall>(t, q) \<in> set reqs. dt_tz t \<noteq> None \<and> before_expiry r t"
  shows "fold (\<lambda>(t, q). snd \<circ> request_lock t q) reqs w1 = w1 \<and>
    (\<forall>(t, q) \<in> set reqs. \<not> fst (request_lock t q w1))"
  using ll.excludes_after_grant [OF assms(1,2,4)] assms(3) by simp

definition sample_time :: "nat \<Rightarrow> pydt" where
  "sample_time h = \<lparr>dt_y = 2026, dt_mo = 4, dt_d = 18, dt_h = h, dt_mi = 0, dt_s = 0, dt_us = 0,
                    dt_tz = Some 0\<rparr>"

definition sample_request :: lock_request where
  "sample_request = \<lparr>rq_stamp = sample_time 10, rq_holder = ''worker'', rq_run = ''RUN-20260418-001'',
                     rq_expires = fmt_z (sample_time 12)\<rparr>"

lemma sample_time_valid: "h < 24 \<Longrightarrow> valid_dt (sample_time h)"
  by (simp add: sample_time_def valid_dt_def valid_date_def valid_time_def month_len_def)

lemma sample_expiry: "expiry_of sample_request = Some (sample_time 12)"
  using fromisoformat_fmt_z [OF sample_time_valid [of 12]]
  by (simp add: expiry_of_def sample_request_def) (simp add: sample_time_def)

lemma sample_request_proper: "proper_request sample_request"
  by (simp add: proper_request_def sample_expiry)
    (simp add: sample_request_def stamp_word_fmt_z lock_word_def is_space_def sample_time_def)

lemma sample_before: "before_expiry sample_request (sample_time h) \<longleftrightarrow> h < 12"
  by (simp add: before_expiry_def sample_expiry instant_def wall_us_def)
    (simp add: sample_time_def)

lemma sample_aware: "dt_tz (sample_time h) = Some 0"
  by (simp add: sample_time_def)

theorem lock_mutual_exclusion_witness:
  "\<not> fst (request_lock (sample_time 11) sample_request
       (snd (request_lock (sample_time 10) sample_request Map.empty)))"
proof -
  have g: "fst (request_lock (sample_time 10) sample_request Map.empty)"
    by (simp add: request_lock_cases read_file_def)
  have b: "\<forall>(t, q) \<in> set [(sample_time 11, sample_request)].
      dt_tz t \<noteq> None \<and> before_expiry sample_request t"
    by (simp add: sample_before sample_aware)
  from lock_mutual_exclusion [OF sample_request_proper g refl b] show ?thesis by simp
qed

text \<open>What a granted \<open>lock-acquire\<close> leaves and what the next command reads: the whole lock
  file, locked, with the expiry and the crash-loop counter of the file it replaces; nothing else in
  the workspace changes; and a \<open>lock-release\<close> resets the counter and frees the lock for anyone.\<close>

theorem lock_acquire_release_view:
  assumes "proper_request r" "fst (request_lock t r w)" "w1 = snd (request_lock t r w)"
    and "old = (case read_file ''LOCK.md'' w of None \<Rightarrow> 0 | Some text \<Rightarrow> lock_cpf text)"
  shows "\<exists>text. read_file ''LOCK.md'' w1 = Some text \<and> says_locked text \<and>
      lock_expiry text = expiry_of r \<and> lock_cpf text = old \<and>
      (\<forall>q. q \<noteq> ''LOCK.md'' \<longrightarrow> w1 q = w q) \<and>
      give_back w1 = (True, write_file ''LOCK.md'' released_body w1) \<and>
      lock_cpf released_body = 0 \<and> (\<forall>t' r'. fst (request_lock t' r' (snd (give_back w1))))"
proof -
  let ?b = "locked_body (rq_holder r) (rq_run r) (fmt_z (rq_stamp r)) (rq_expires r) old"
  have w1: "w1 = write_file ''LOCK.md'' ?b w"
    using assms(2-4) by (simp add: request_lock_cases split: sum.splits bool.splits)
  have p: "lock_word (rq_holder r)" "lock_word (rq_run r)" "stamp_word (rq_expires r)"
    using proper_requestD [OF assms(1)] by simp_all
  have rd: "read_file ''LOCK.md'' w1 = Some ?b"
    using w1 by (simp add: read_write_same locked_body_no_cr [OF p])
  have gb: "give_back w1 = (True, write_file ''LOCK.md'' released_body w1)"
    by (simp add: give_back_def lock_release_def rd says_locked_body granted_def)
  then have "fst (request_lock t' r' (snd (give_back w1)))" for t' r'
    using ll.free_grants [of w1 t' r'] by simp
  then show ?thesis
    using rd gb cpf_of_locked_body [OF p] expires_of_locked_body [OF p]
    by (simp add: says_locked_body lock_expiry_def expiry_of_def w1 write_file_other lock_cpf_released)
qed

theorem lock_acquire_release_view_witness:
  "\<exists>text. read_file ''LOCK.md'' (snd (request_lock (sample_time 10) sample_request Map.empty)) = Some text
     \<and> says_locked text \<and> lock_cpf text = 0"
proof -
  have g: "fst (request_lock (sample_time 10) sample_request Map.empty)"
    by (simp add: request_lock_cases read_file_def)
  show ?thesis
    using lock_acquire_release_view [OF sample_request_proper g refl refl]
    by (auto simp: read_file_def [of _ Map.empty])
qed

section \<open>The lock among the other commands\<close>

text \<open>A run of the system: lock commands with clock readings, and other commands, which may change
  any other file. \<open>owner\<close> is the request granted last and not given back since.\<close>

record lock_system =
  ls_files :: workspace
  ls_owner :: "lock_request option"

inductive lock_step :: "lock_system \<Rightarrow> lock_system \<Rightarrow> bool" where
  take_lock: "proper_request r \<Longrightarrow> request_lock t r (ls_files s) = (True, w) \<Longrightarrow>
    lock_step s \<lparr>ls_files = w, ls_owner = Some r\<rparr>"
| refused: "request_lock t r (ls_files s) = (False, w) \<Longrightarrow> lock_step s (s\<lparr>ls_files := w\<rparr>)"
| give: "give_back (ls_files s) = (True, w) \<Longrightarrow> lock_step s \<lparr>ls_files = w, ls_owner = None\<rparr>"
| not_held: "give_back (ls_files s) = (False, w) \<Longrightarrow> lock_step s (s\<lparr>ls_files := w\<rparr>)"
| other: "w ''LOCK.md'' = ls_files s ''LOCK.md'' \<Longrightarrow> lock_step s (s\<lparr>ls_files := w\<rparr>)"


inductive_cases lock_stepE: "lock_step s s'"








text \<open>A lock whose expiry has no UTC offset cannot be taken over: the comparison of the aware
  clock with the naive expiry raises \<open>TypeError\<close>, at every time, also after the expiry, and leaves
  the file as it is. Only an unparseable expiry is treated as stale.\<close>

theorem lock_naive_expiry_raises:
  assumes "lock_word h" "lock_word r" "stamp_word e"
    and "fromisoformat (z_to_offset e) = Some t" "dt_tz t = None"
    and "read_file ''LOCK.md'' w = Some (locked_body h r (fmt_z st) e n)" "dt_tz now \<noteq> None"
  shows "lock_acquire now now' (h' # r' # e' # rest) w = (Raise TypeError [], w)"
proof -
  have "dt_less now t = Inl TypeError" using assms(5,7) by (simp add: dt_less_def)
  then show ?thesis
    using assms(4,6) lock_active_body [OF assms(1-3), of now st n] by (simp add: lock_acquire_def)
qed

definition naive_stamp :: string where
  "naive_stamp = fmt_day (sample_time 2) @ ''T'' @ fmt_clock (sample_time 2)"

theorem lock_naive_expiry_raises_witness:
  "\<exists>w. lock_acquire (sample_time 23) (sample_time 23) [''worker'', ''RUN-2'', ''x''] w =
     (Raise TypeError [], w)"
proof (rule exI, rule lock_naive_expiry_raises)
  let ?w = "[''LOCK.md'' \<mapsto> locked_body ''w'' ''RUN-1'' (fmt_z (sample_time 1)) naive_stamp 0]"
  show words: "lock_word ''w''" "lock_word ''RUN-1''" by (simp_all add: lock_word_def is_space_def)
  show e: "stamp_word naive_stamp"
    using stamp_chars_fmt [of "sample_time 2"] by (auto simp: naive_stamp_def stamp_word_def stamp_char_def)
  show "fromisoformat (z_to_offset naive_stamp) = Some ((sample_time 2)\<lparr>dt_tz := None\<rparr>)"
    unfolding naive_stamp_def z_to_offset_naive
    by (rule fromisoformat_naive) (simp_all add: sample_time_valid, simp add: sample_time_def)
  show "read_file ''LOCK.md'' ?w = Some (locked_body ''w'' ''RUN-1'' (fmt_z (sample_time 1)) naive_stamp 0)"
    using locked_body_no_cr [OF words e] by (simp add: read_file_def)
qed (simp_all add: sample_aware)

section \<open>Run ids\<close>

abbreviation three_digits :: "string \<Rightarrow> bool" where
  "three_digits w \<equiv> length w = 3 \<and> list_all is_digit w"

lemma three_digits_iff: "three_digits w \<longleftrightarrow> (\<exists>a b c. w = [a, b, c] \<and> is_digit a \<and> is_digit b \<and> is_digit c)"
  by (auto simp: length_Suc_conv numeral_3_eq_3)

abbreviation run_text :: "string \<Rightarrow> string \<Rightarrow> string" where
  "run_text d w \<equiv> CHR ''R'' # (''UN-'' @ d @ ''-'') @ w"

lemma rx_run_three_digits:
  "rx_run (rrep 3 rdigit) (p, s, g) =
     (if three_digits (take 3 s) then [(Some (s ! 2), drop 3 s, g)] else [])"
  by (auto simp: numeral_3_eq_3 rdigit_def split: list.splits)

lemma run_rx_run:
  "rx_run (run_rx d) (p, ''RUN-'' @ d @ ''-'' @ t, []) =
     (if three_digits (take 3 t) then [(Some (t ! 2), drop 3 t, [(1, take 3 t)])] else [])"
proof -
  have "rx_run (rlit (''RUN-'' @ d @ ''-'')) (p, (''RUN-'' @ d @ ''-'') @ t, []) =
      [(Some (CHR ''-''), t, [])]"
    unfolding rx_run_rlit by simp
  moreover have "take (length t - (length t - 3)) t = take 3 t" if "three_digits (take 3 t)"
  proof -
    have "3 \<le> length t" using that by (simp add: min_def split: if_splits)
    then show ?thesis by simp
  qed
  ultimately show ?thesis
    unfolding run_rx_def by (simp add: rx_run_three_digits)
qed

lemma run_rx_hit:
  assumes "three_digits w"
  shows "rx_at (run_rx d) p (run_text d w @ v) =
    Some \<lparr>m_before = [], m_text = run_text d w, m_after = v, m_groups = [(1, w)]\<rparr>"
proof -
  define x where "x = run_text d w"
  have "rx_run (run_rx d) (p, x @ v, []) = [(Some ((w @ v) ! 2), v, [(1, w)])]"
    using assms run_rx_run [of d p "w @ v"] by (simp add: x_def)
  then have "rx_at (run_rx d) p (x @ v) = Some \<lparr>m_before = [], m_text = x, m_after = v, m_groups = [(1, w)]\<rparr>"
    by (simp add: rx_at_def)
  then show ?thesis by (simp add: x_def)
qed

lemma run_rx_only:
  assumes "rx_at (run_rx d) p s = Some m"
  shows "\<exists>w v. s = run_text d w @ v \<and> three_digits w"
proof -
  have run: "rx_run (run_rx d) (p, s, []) \<noteq> []" using assms by (auto simp: rx_at_def)
  have "prefix (''RUN-'' @ d @ ''-'') s"
  proof (rule ccontr)
    assume "\<not> prefix (''RUN-'' @ d @ ''-'') s"
    then have "rx_run (run_rx d) (p, s, []) = []"
      unfolding run_rx_def rseq.simps rx_run.simps rx_run_rlit by simp
    with run show False ..
  qed
  then obtain t where t: "s = ''RUN-'' @ d @ ''-'' @ t" by (auto simp: prefix_def)
  then have "three_digits (take 3 t)" using run run_rx_run [of d p t] by (auto split: if_splits)
  moreover have "s = run_text d (take 3 t) @ drop 3 t" using t by simp
  ultimately show ?thesis by blast
qed

lemma fmt_day_compact_digits: "list_all is_digit (fmt_day_compact t)"
  using pad0_digits by (simp add: fmt_day_compact_def list_all_iff ball_Un)

lemma keyed_run_rx:
  assumes "list_all is_digit d"
  shows "keyed_rx (run_rx d) (CHR ''R'') (''UN-'' @ d @ ''-'') three_digits 3"
proof -
  have nR: "\<not> is_digit (CHR ''R'')" by code_simp
  then have "CHR ''R'' \<notin> set d" using assms by (auto simp: list_all_iff)
  moreover have "CHR ''R'' \<notin> set w" if "three_digits w" for w using that nR by (auto simp: list_all_iff)
  moreover have "rx_forward (run_rx d)"
    by (simp add: run_rx_def numeral_3_eq_3 rdigit_def)
  moreover have "\<exists>w. three_digits w \<and> m_text m = run_text d w \<and> m_group_or [] 1 m = w"
    if at: "rx_at (run_rx d) p s = Some m" for p s m
  proof -
    obtain w v where w: "s = run_text d w @ v" "three_digits w" using run_rx_only [OF at] by blast
    then have "m = \<lparr>m_before = [], m_text = run_text d w, m_after = v, m_groups = [(1, w)]\<rparr>"
      using at run_rx_hit [OF w(2)] by simp
    with w show ?thesis by (simp add: m_group_or_def m_group_def)
  qed
  moreover have "\<exists>m. rx_at (run_rx d) p (CHR ''R'' # (''UN-'' @ d @ ''-'') @ w @ v) = Some m"
    if "three_digits w" for p w v
    using run_rx_hit [OF that] by simp
  ultimately show ?thesis unfolding keyed_rx_def by simp
qed

lemma foldl_max_ge:
  "x \<in> f ` set xs \<or> x \<le> a \<Longrightarrow> x \<le> foldl (\<lambda>mx m. let n = f m in if n > mx then n else mx) a xs"
  for x :: nat
proof (induction xs arbitrary: a)
  case Nil
  then show ?case by simp
next
  case (Cons y xs)
  have "x \<in> f ` set xs \<or> x \<le> (if f y > a then f y else a)" using Cons.prems by auto
  from Cons.IH [OF this] show ?case by (simp add: Let_def)
qed

lemma next_run_id_out:
  assumes "read_file ''audit/SESSION-REGISTRY.md'' w = Some content"
    and "next_run_id now w = (Exit 0 [rid], w')"
  shows "rid = run_text (fmt_day_compact now) (pad0 3 (max_run (fmt_day_compact now) content + 1))"
    "w' = w"
  using assms by (simp_all add: next_run_id_def Let_def)

lemma max_run_bounds:
  assumes "list_all is_digit d" "three_digits w" "contains (run_text d w) content"
  shows "digits_val w \<le> max_run d content"
proof -
  obtain u v where c: "content = u @ CHR ''R'' # (''UN-'' @ d @ ''-'') @ w @ v"
    using assms(3) unfolding contains_iff by auto
  have "length (u @ CHR ''R'' # (''UN-'' @ d @ ''-'') @ w @ v) < Suc (length content)"
    unfolding c by simp
  from keyed_finditer_complete [OF keyed_run_rx [OF assms(1)] assms(2) this, of None]
  obtain m where "m \<in> set (rx_finditer (run_rx d) content)" "m_group_or [] 1 m = w"
    unfolding rx_finditer_def c by blast
  then have "digits_val w \<in> (\<lambda>m. digits_val (m_group_or [] 1 m)) ` set (rx_finditer (run_rx d) content)"
    by force
  then show ?thesis unfolding max_run_def by (intro foldl_max_ge) simp
qed

lemma three_digits_pad0: "k < 1000 \<Longrightarrow> three_digits (pad0 3 k)"
  using length_pad0 [of 3 k] pad0_digits [of 3 k] by (simp add: list_all_iff)

text \<open>Below 999 runs a day, \<open>next-run-id\<close> returns an id that occurs nowhere in the session
  registry: an id registered before is never handed out again.\<close>

theorem next_run_id_fresh:
  assumes "read_file ''audit/SESSION-REGISTRY.md'' w = Some content"
    and "max_run (fmt_day_compact now) content < 999"
    and "next_run_id now w = (Exit 0 [rid], w')"
  shows "\<not> contains rid content \<and> w' = w"
proof -
  let ?d = "fmt_day_compact now"
  have three: "three_digits (pad0 3 (max_run ?d content + 1))"
    using assms(2) by (intro three_digits_pad0) simp
  have "\<not> contains (run_text ?d (pad0 3 (max_run ?d content + 1))) content"
    using max_run_bounds [OF fmt_day_compact_digits three, where content = content]
    by (metis digits_val_pad0 Suc_eq_plus1 not_less_eq_eq order_refl)
  with next_run_id_out [OF assms(1,3)] show ?thesis by blast
qed

definition sample_registry :: workspace where
  "sample_registry = [''audit/SESSION-REGISTRY.md'' \<mapsto> ''| RUN-20260418-001 | worker |'']"

lemma sample_registry_read:
  "read_file ''audit/SESSION-REGISTRY.md'' sample_registry = Some ''| RUN-20260418-001 | worker |''"
  by code_simp

lemma sample_registry_next:
  "next_run_id (sample_time 10) sample_registry = (Exit 0 [''RUN-20260418-002''], sample_registry)"
proof -
  have "''RUN-'' @ fmt_day_compact (sample_time 10) @ ''-'' @
      pad0 3 (max_run (fmt_day_compact (sample_time 10)) ''| RUN-20260418-001 | worker |'' + 1) =
      ''RUN-20260418-002''"
    by code_simp
  then show ?thesis by (simp add: next_run_id_def sample_registry_read)
qed

theorem next_run_id_fresh_witness: "\<not> contains ''RUN-20260418-002'' ''| RUN-20260418-001 | worker |''"
proof -
  have "max_run (fmt_day_compact (sample_time 10)) ''| RUN-20260418-001 | worker |'' < 999"
    by code_simp
  from next_run_id_fresh [OF sample_registry_read this sample_registry_next] show ?thesis by simp
qed

text \<open>The bound of \<open>next_run_id_fresh\<close> is sharp: with run 999 and the next one registered, the
  id handed out is one the registry holds.\<close>

theorem next_run_id_repeats:
  "\<exists>content. next_run_id (sample_time 10) [''audit/SESSION-REGISTRY.md'' \<mapsto> content] =
      (Exit 0 [''RUN-20260418-1000''], [''audit/SESSION-REGISTRY.md'' \<mapsto> content]) \<and>
    contains ''RUN-20260418-1000'' content"
proof (intro exI conjI)
  let ?c = "''RUN-20260418-999 RUN-20260418-1000''"
  have "''RUN-'' @ fmt_day_compact (sample_time 10) @ ''-'' @
      pad0 3 (max_run (fmt_day_compact (sample_time 10)) ?c + 1) = ''RUN-20260418-1000''"
    by code_simp
  moreover have "read_file ''audit/SESSION-REGISTRY.md'' [''audit/SESSION-REGISTRY.md'' \<mapsto> ?c] = Some ?c"
    by code_simp
  ultimately show "next_run_id (sample_time 10) [''audit/SESSION-REGISTRY.md'' \<mapsto> ?c] =
      (Exit 0 [''RUN-20260418-1000''], [''audit/SESSION-REGISTRY.md'' \<mapsto> ?c])"
    by (simp add: next_run_id_def)
  show "contains ''RUN-20260418-1000'' ?c" by code_simp
qed

end
