(* ===== verification/Preapproval.thy ===== *)
theory Preapproval
  imports PyRe PyTime
begin

text \<open>
  \<open>nightclaw_common/preapprovals.py\<close>: when a pre-approval is active. \<open>loc\<close> is the UTC offset of
  \<open>local_tzinfo()\<close> in microseconds; an expiry is an instant in microseconds. \<open>strptime\<close> is the
  regular expression of CPython's \<open>_strptime\<close> for the formats used, which must consume the text.
\<close>

definition year_rx :: rx where "year_rx = RGrp 1 (rrep 4 rdigit)"

definition digit_in :: "string \<Rightarrow> rx" where "digit_in ds = RSet (one_of ds)"

definition month_rx :: rx where
  "month_rx = RGrp 2 (ralts [RSeq (rlit ''1'') (digit_in ''012''), RSeq (rlit ''0'') (digit_in ''123456789''),
                             digit_in ''123456789''])"

definition mday_rx :: rx where
  "mday_rx = RGrp 3 (ralts [RSeq (rlit ''3'') (digit_in ''01''), RSeq (digit_in ''12'') rdigit,
                            RSeq (rlit ''0'') (digit_in ''123456789''), digit_in ''123456789'',
                            RSeq (rlit '' '') (digit_in ''123456789'')])"

definition hour_rx :: rx where
  "hour_rx = RGrp 4 (ralts [RSeq (rlit ''2'') (digit_in ''0123''), RSeq (digit_in ''01'') rdigit, rdigit])"

definition sixty_rx :: "nat \<Rightarrow> rx" where
  "sixty_rx g = RGrp g (RAlt (RSeq (digit_in ''012345'') rdigit) rdigit)"

definition second_rx :: rx where
  "second_rx = RGrp 6 (ralts [RSeq (rlit ''6'') (digit_in ''01''), RSeq (digit_in ''012345'') rdigit, rdigit])"

definition ymd_rx :: rx where
  "ymd_rx = rseq [year_rx, rlit ''-'', month_rx, rlit ''-'', mday_rx]"

definition stamp_rxs :: "rx list" where
  "stamp_rxs =
     [rseq [ymd_rx, rplus (RSet is_space), hour_rx, rlit '':'', sixty_rx 5, rlit '':'', second_rx],
      rseq [ymd_rx, rplus (RSet is_space), hour_rx, rlit '':'', sixty_rx 5],
      rseq [ymd_rx, rlit_ci ''T'', hour_rx, rlit '':'', sixty_rx 5, rlit '':'', second_rx],
      rseq [ymd_rx, rlit_ci ''T'', hour_rx, rlit '':'', sixty_rx 5]]"

definition group_num :: "nat \<Rightarrow> rmatch \<Rightarrow> nat" where
  "group_num g m = digits_val (strip (m_group_or ''0'' g m))"

definition strptime :: "rx \<Rightarrow> string \<Rightarrow> pydt option" where
  "strptime r s =
     (case rx_match r s of
        None \<Rightarrow> None
      | Some m \<Rightarrow>
          if m_after m \<noteq> [] \<or> \<not> valid_date (group_num 1 m) (group_num 2 m) (group_num 3 m)
             \<or> \<not> valid_time (group_num 4 m) (group_num 5 m) (group_num 6 m) 0 then None
          else Some \<lparr>dt_y = group_num 1 m, dt_mo = group_num 2 m, dt_d = group_num 3 m,
                     dt_h = group_num 4 m, dt_mi = group_num 5 m, dt_s = group_num 6 m,
                     dt_us = 0, dt_tz = None\<rparr>)"

fun first_stamp :: "rx list \<Rightarrow> string \<Rightarrow> pydt option" where
  "first_stamp [] s = None"
| "first_stamp (r # rs) s = (case strptime r s of Some t \<Rightarrow> Some t | None \<Rightarrow> first_stamp rs s)"

definition zone_end_rx :: rx where
  "zone_end_rx =
     RSeq (RAlt (rlit ''Z'') (rseq [RSet (one_of ''+-''), rrep 2 rdigit, rlit '':'', rrep 2 rdigit])) REol"

definition on_zone :: "int \<Rightarrow> pydt \<Rightarrow> py_exc + int option" where
  "on_zone loc t = rbind (to_utc (t\<lparr>dt_tz := Some loc\<rparr>)) (\<lambda>i. Inr (Some i))"

definition parse_preapproval_expiry :: "int \<Rightarrow> string \<Rightarrow> py_exc + int option" where
  "parse_preapproval_expiry loc expires =
     (let raw = strip expires in
      if raw \<in> set null_stamps then Inr None
      else if startswith (lower raw) ''on-condition:'' then Inr None
      else
        (case first_stamp stamp_rxs raw of
           Some t \<Rightarrow> on_zone loc t
         | None \<Rightarrow>
             (case strptime ymd_rx raw of
                Some t \<Rightarrow> on_zone loc (t\<lparr>dt_h := 23, dt_mi := 59, dt_s := 59\<rparr>)
              | None \<Rightarrow>
                  if rx_search zone_end_rx raw \<noteq> None then
                    (case parse_iso raw of
                       None \<Rightarrow> Inr None
                     | Some t \<Rightarrow> rbind (to_utc t) (\<lambda>i. Inr (Some i)))
                  else Inr None)))"

definition preapproval_is_active :: "int \<Rightarrow> string \<Rightarrow> string \<Rightarrow> pydt \<Rightarrow> py_exc + bool" where
  "preapproval_is_active loc status expires now =
     (if upper (strip status) \<noteq> ''ACTIVE'' then Inr False
      else rbind (parse_preapproval_expiry loc expires)
             (\<lambda>e. Inr (case e of None \<Rightarrow> False | Some i \<Rightarrow> instant now \<le> i)))"

end
