(* ===== verification/PreapprovalFacts.thy ===== *)
theory PreapprovalFacts
  imports Preapproval Scan
begin

text \<open>
  When a pre-approval is active: a date alone lasts to the end of its day in the local zone, an expiry
  is final, and the last day of the calendar overflows west of Greenwich.
\<close>

section \<open>A date alone\<close>

definition month_words :: "string list" where
  "month_words = [''01'', ''02'', ''03'', ''04'', ''05'', ''06'', ''07'', ''08'', ''09'', ''10'', ''11'', ''12'']"

definition mday_words :: "string list" where
  "mday_words = month_words @ [''13'', ''14'', ''15'', ''16'', ''17'', ''18'', ''19'', ''20'', ''21'', ''22'',
     ''23'', ''24'', ''25'', ''26'', ''27'', ''28'', ''29'', ''30'', ''31'']"

lemma pad0_month: "1 \<le> m \<Longrightarrow> m \<le> 12 \<Longrightarrow> pad0 2 m \<in> set month_words"
proof -
  have "list_all (\<lambda>m. pad0 2 m \<in> set month_words) [1..<13]" by code_simp
  then show "1 \<le> m \<Longrightarrow> m \<le> 12 \<Longrightarrow> ?thesis" by (simp add: list_all_iff del: upt_rec_numeral)
qed

lemma pad0_mday: "1 \<le> d \<Longrightarrow> d \<le> 31 \<Longrightarrow> pad0 2 d \<in> set mday_words"
proof -
  have "list_all (\<lambda>m. pad0 2 m \<in> set mday_words) [1..<32]" by code_simp
  then show "1 \<le> d \<Longrightarrow> d \<le> 31 \<Longrightarrow> ?thesis" by (simp add: list_all_iff del: upt_rec_numeral)
qed

lemma run_month:
  "w \<in> set month_words \<Longrightarrow> rx_run (RSeq month_rx (rlit ''-'')) (p, w @ CHR ''-'' # s, g) =
     [(Some (CHR ''-''), s, (2, w) # g)]"
  by (auto simp: month_words_def month_rx_def digit_in_def)

lemma run_mday:
  "w \<in> set mday_words \<Longrightarrow> \<exists>q rest. rx_run mday_rx (p, w, g) = (q, [], (3, w) # g) # rest \<and>
     (\<forall>st \<in> set rest. \<exists>c. fst (snd st) = [c] \<and> is_digit c)"
  by (auto simp: mday_words_def month_words_def mday_rx_def digit_in_def rdigit_def is_digit_def)

lemma rx_run_assoc: "rx_run (RSeq a (RSeq b c)) st = rx_run (RSeq (RSeq a b) c) st"
proof -
  have "concat (map (\<lambda>x. concat (map (rx_run c) (rx_run b x))) xs) =
      concat (map (rx_run c) (concat (map (rx_run b) xs)))" for xs
    by (induction xs) simp_all
  moreover have "rx_run (RSeq b c) = (\<lambda>x. concat (map (rx_run c) (rx_run b x)))" by (rule ext) simp
  ultimately show ?thesis by simp
qed

text \<open>All runs of the date expression on a date: the whole date first, then those that leave a digit.\<close>

lemma run_ymd:
  assumes "length y = 4" "\<forall>c \<in> set y. is_digit c" "m \<in> set month_words" "d \<in> set mday_words"
  shows "\<exists>q rest. rx_run ymd_rx (None, y @ CHR ''-'' # m @ CHR ''-'' # d, []) =
       (q, [], [(3, d), (2, m), (1, y)]) # rest \<and> (\<forall>st \<in> set rest. \<exists>c. fst (snd st) = [c] \<and> is_digit c)"
proof -
  have "rx_run (rrep (length y) rdigit) (None, y @ s, g) = [(Some (last y), s, g)]" for s g
    using rx_run_rrep_set [of y is_digit None s g] assms(1,2) by (auto simp: rdigit_def)
  then have year: "rx_run year_rx (None, y @ s, []) = [(Some (last y), s, [(1, y)])]" for s
    using assms(1) by (simp add: year_rx_def)
  have "rx_run ymd_rx (None, y @ CHR ''-'' # m @ CHR ''-'' # d, []) =
      rx_run (RSeq month_rx (RSeq (rlit ''-'') mday_rx)) (Some (CHR ''-''), m @ CHR ''-'' # d, [(1, y)])"
    by (simp add: ymd_rx_def year)
  also have "\<dots> = rx_run mday_rx (Some (CHR ''-''), d, [(2, m), (1, y)])"
    unfolding rx_run_assoc using run_month [OF assms(3)] by simp
  finally show ?thesis using run_mday [OF assms(4), of "Some (CHR ''-'')" "[(2, m), (1, y)]"] by simp
qed

lemma stamp_fails_on_date:
  assumes "\<forall>st \<in> set (rx_run ymd_rx (None, s, [])). fst (snd st) = [] \<or> (\<exists>c. fst (snd st) = [c] \<and> is_digit c)"
    and "\<And>p c g. is_digit c \<Longrightarrow> rx_run r (p, [c], g) = []" "\<And>p g. rx_run r (p, [], g) = []"
  shows "strptime (RSeq ymd_rx r) s = None"
proof -
  have "rx_run r st = []" if "st \<in> set (rx_run ymd_rx (None, s, []))" for st
    using assms(1) [rule_format, OF that] assms(2,3) by (cases st) auto
  then have "rx_run (RSeq ymd_rx r) (None, s, []) = []" by simp
  then show ?thesis by (simp add: strptime_def rx_match_def rx_at_def del: rx_run.simps)
qed

lemma strptime_date:
  assumes "rx_run ymd_rx (None, s, []) = (q, [], [(3, d), (2, m), (1, y)]) # rest"
    and "valid_date (digits_val (strip y)) (digits_val (strip m)) (digits_val (strip d))"
  shows "strptime ymd_rx s = Some \<lparr>dt_y = digits_val (strip y), dt_mo = digits_val (strip m),
     dt_d = digits_val (strip d), dt_h = 0, dt_mi = 0, dt_s = 0, dt_us = 0, dt_tz = None\<rparr>"
proof -
  have "strip ''0'' = ''0''" by code_simp
  then have "digits_val (strip ''0'') = 0" by (simp add: digits_val_def digit_val_def)
  with assms show ?thesis
    by (simp add: strptime_def rx_match_def rx_at_def group_num_def m_group_or_def m_group_def valid_time_def)
qed

lemma is_digit_nospace: "is_digit c \<Longrightarrow> \<not> is_space c \<and> lower_char c \<noteq> CHR ''t'' \<and> c \<noteq> CHR ''-''"
  by (auto simp: is_digit_def is_space_def lower_char_def is_upper_def)

lemma strip_pad0 [simp]: "strip (pad0 w n) = pad0 w n"
  using pad0_digits is_digit_nospace by (intro strip_of_id) (meson hd_in_set last_in_set pad0_ne)

lemma stamps_fail_on_date:
  assumes "\<forall>st \<in> set (rx_run ymd_rx (None, s, [])). fst (snd st) = [] \<or> (\<exists>c. fst (snd st) = [c] \<and> is_digit c)"
  shows "first_stamp stamp_rxs s = None"
proof -
  note fail = stamp_fails_on_date [OF assms]
  have sp: "rx_run (RSeq (rplus (RSet is_space)) r) (p, [c], g) = []" if "is_digit c" for r p c g
    using that is_digit_nospace by (simp add: rplus_def)
  have sp0: "rx_run (RSeq (rplus (RSet is_space)) r) (p, [], g) = []" for r p g by (simp add: rplus_def)
  have lt: "rx_run (RSeq (rlit_ci ''T'') r) (p, [c], g) = []" if "is_digit c" for r p c g
  proof -
    have "lower_char (CHR ''T'') = CHR ''t''" by code_simp
    then show ?thesis using is_digit_nospace [OF that] by simp
  qed
  have lt0: "rx_run (RSeq (rlit_ci ''T'') r) (p, [], g) = []" for r p g by simp
  show ?thesis
    using fail [OF sp sp0] fail [OF lt lt0] by (simp add: stamp_rxs_def)
qed

lemma fmt_day_words:
  assumes "valid_date (dt_y t) (dt_mo t) (dt_d t)"
  shows "pad0 2 (dt_mo t) \<in> set month_words" "pad0 2 (dt_d t) \<in> set mday_words" "length (pad0 4 (dt_y t)) = 4"
proof -
  have "month_len y m \<le> 31" for y m by (simp add: month_len_def)
  with assms have "dt_d t \<le> 31" unfolding valid_date_def using order_trans by blast
  then show "pad0 2 (dt_mo t) \<in> set month_words" "pad0 2 (dt_d t) \<in> set mday_words"
    using assms pad0_month pad0_mday by (simp_all add: valid_date_def)
  show "length (pad0 4 (dt_y t)) = 4" using assms by (intro length_pad0) (simp_all add: valid_date_def)
qed

lemma run_fmt_day:
  assumes "valid_date (dt_y t) (dt_mo t) (dt_d t)"
  shows "\<exists>q rest. rx_run ymd_rx (None, fmt_day t, []) =
      (q, [], [(3, pad0 2 (dt_d t)), (2, pad0 2 (dt_mo t)), (1, pad0 4 (dt_y t))]) # rest \<and>
    (\<forall>st \<in> set rest. \<exists>c. fst (snd st) = [c] \<and> is_digit c)"
  using run_ymd [OF fmt_day_words(3) [OF assms] pad0_digits fmt_day_words(1,2) [OF assms]]
  by (simp add: fmt_day_def)

lemma fmt_day_chars: "c \<in> set (fmt_day t) \<Longrightarrow> is_digit c \<or> c = CHR ''-''"
  using pad0_digits by (auto simp: fmt_day_def)

lemma strip_fmt_day: "strip (fmt_day t) = fmt_day t"
proof -
  have "\<not> is_space c" if "c \<in> set (fmt_day t)" for c
    using fmt_day_chars [OF that] is_digit_nospace [of c] by (auto simp: is_space_def)
  moreover have "fmt_day t \<noteq> []" by (simp add: fmt_day_def)
  ultimately show ?thesis using hd_in_set last_in_set by (intro strip_of_id) blast
qed

lemma fmt_day_plain:
  "fmt_day t \<notin> set null_stamps" "\<not> startswith (lower (fmt_day t)) ''on-condition:''"
proof -
  have "CHR ''-'' \<in> set (fmt_day t)" "2 \<le> length (fmt_day t)" by (simp_all add: fmt_day_def)
  then show "fmt_day t \<notin> set null_stamps" by (auto simp: null_stamps_def em_dash_def)
  have ne: "fmt_day t \<noteq> []" by (simp add: fmt_day_def)
  then have "is_digit (hd (fmt_day t)) \<or> hd (fmt_day t) = CHR ''-''" using fmt_day_chars hd_in_set by blast
  then have "lower_char (hd (fmt_day t)) \<noteq> CHR ''o''"
    by (auto simp: is_digit_def lower_char_def is_upper_def)
  with ne show "\<not> startswith (lower (fmt_day t)) ''on-condition:''"
    by (cases "fmt_day t") (auto simp: lower_def)
qed

text \<open>A date alone is the last second of that day on the local clock.\<close>

lemma date_only_expiry:
  assumes "valid_dt t"
  shows "parse_preapproval_expiry loc (fmt_day t) =
     on_zone loc (t\<lparr>dt_h := 23, dt_mi := 59, dt_s := 59, dt_us := 0, dt_tz := None\<rparr>)"
proof -
  have v: "valid_date (dt_y t) (dt_mo t) (dt_d t)" using assms by (simp add: valid_dt_def)
  from run_fmt_day [OF v] obtain q rest where
    run: "rx_run ymd_rx (None, fmt_day t, []) =
        (q, [], [(3, pad0 2 (dt_d t)), (2, pad0 2 (dt_mo t)), (1, pad0 4 (dt_y t))]) # rest"
      "\<forall>st \<in> set rest. \<exists>c. fst (snd st) = [c] \<and> is_digit c" by blast
  have "first_stamp stamp_rxs (fmt_day t) = None"
    by (rule stamps_fail_on_date) (use run in auto)
  moreover have "strptime ymd_rx (fmt_day t) = Some \<lparr>dt_y = dt_y t, dt_mo = dt_mo t, dt_d = dt_d t,
      dt_h = 0, dt_mi = 0, dt_s = 0, dt_us = 0, dt_tz = None\<rparr>"
    using strptime_date [OF run(1)] v by simp
  ultimately have "parse_preapproval_expiry loc (fmt_day t) = on_zone loc \<lparr>dt_y = dt_y t, dt_mo = dt_mo t,
      dt_d = dt_d t, dt_h = 23, dt_mi = 59, dt_s = 59, dt_us = 0, dt_tz = None\<rparr>"
    by (simp add: parse_preapproval_expiry_def Let_def strip_fmt_day fmt_day_plain)
  moreover have "\<lparr>dt_y = dt_y t, dt_mo = dt_mo t, dt_d = dt_d t, dt_h = 23, dt_mi = 59, dt_s = 59, dt_us = 0,
      dt_tz = None\<rparr> = t\<lparr>dt_h := 23, dt_mi := 59, dt_s := 59, dt_us := 0, dt_tz := None\<rparr>"
    by (cases t) simp
  ultimately show ?thesis by (simp only:)
qed

definition day_end :: "pydt \<Rightarrow> int \<Rightarrow> pydt" where
  "day_end t loc = t\<lparr>dt_h := 23, dt_mi := 59, dt_s := 59, dt_us := 0, dt_tz := Some loc\<rparr>"

lemma date_only_status:
  assumes "valid_dt t" "upper (strip status) = ''ACTIVE''"
  shows "preapproval_is_active loc status (fmt_day t) now =
     rbind (to_utc (day_end t loc)) (\<lambda>e. Inr (instant now \<le> e))"
  using assms date_only_expiry [OF assms(1), of loc]
  by (simp add: preapproval_is_active_def on_zone_def day_end_def rbind_def split: sum.splits)

lemmas wall_calc = instant_def wall_us_def day_end_def ordinal_def days_before_year_def days_before_month_def
  month_len_def leap_def day_us_def max_us_def upt_rec

text \<open>A date alone: a pre-approval that is marked active and expires on a day holds up to and
  including the last second of that day on the local clock, whatever the day, the local offset and the
  moment of the question.\<close>

theorem preapproval_lasts_its_day:
  assumes "valid_dt t" "upper (strip status) = ''ACTIVE''"
    and "0 \<le> instant (day_end t loc)" "instant (day_end t loc) \<le> max_us"
  shows "preapproval_is_active loc status (fmt_day t) now = Inr (instant now \<le> instant (day_end t loc))"
  using date_only_status [OF assms(1,2)] assms(3,4) by (simp add: to_utc_def)

lemma preapproval_lasts_its_day_witness:
  "preapproval_is_active 7200000000 '' active '' ''2024-02-29''
     \<lparr>dt_y = 2024, dt_mo = 2, dt_d = 29, dt_h = 21, dt_mi = 59, dt_s = 59, dt_us = 0, dt_tz = Some 0\<rparr> = Inr True"
proof -
  define t where "t = \<lparr>dt_y = 2024, dt_mo = 2, dt_d = 29, dt_h = 0, dt_mi = 0, dt_s = 0, dt_us = 0, dt_tz = None\<rparr>"
  define now where "now = \<lparr>dt_y = 2024, dt_mo = 2, dt_d = 29, dt_h = 21, dt_mi = 59, dt_s = 59, dt_us = 0, dt_tz = Some (0 :: int)\<rparr>"
  have v: "valid_dt t" unfolding t_def by (simp add: valid_dt_def valid_date_def valid_time_def month_len_def leap_def)
  have st: "upper (strip '' active '') = ''ACTIVE''" by code_simp
  have r: "0 \<le> instant (day_end t 7200000000)" "instant (day_end t 7200000000) \<le> max_us"
    unfolding t_def by (simp_all add: wall_calc)
  have "instant now \<le> instant (day_end t 7200000000)" unfolding t_def now_def by (simp add: wall_calc)
  moreover have "fmt_day t = ''2024-02-29''" unfolding t_def by code_simp
  ultimately show ?thesis
    using preapproval_lasts_its_day [OF v st r, of now] by (simp add: now_def)
qed

text \<open>The last day of the calendar: west of Greenwich a pre-approval that expires on 9999-12-31, the
  usual way to write one that never does, raises \<open>OverflowError\<close> whenever it is asked for.\<close>

theorem preapproval_last_day_overflows:
  assumes "loc \<le> - 1000000"
  shows "preapproval_is_active loc ''ACTIVE'' ''9999-12-31'' now = Inl OverflowError"
proof -
  define t where "t = \<lparr>dt_y = 9999, dt_mo = 12, dt_d = 31, dt_h = 0, dt_mi = 0, dt_s = 0, dt_us = 0, dt_tz = None\<rparr>"
  have v: "valid_dt t" unfolding t_def by (simp add: valid_dt_def valid_date_def valid_time_def month_len_def leap_def)
  have st: "upper (strip ''ACTIVE'') = ''ACTIVE''" by code_simp
  have "digit_char 1 = CHR ''1''" "digit_char 2 = CHR ''2''" "digit_char 3 = CHR ''3''" "digit_char 9 = CHR ''9''"
    by code_simp+
  then have d: "fmt_day t = ''9999-12-31''"
    unfolding t_def fmt_day_def by (simp add: pad0_def Let_def nat_str.simps numeral_eq_Suc [symmetric])
  have "wall_us (day_end t 0) = max_us - 999999" unfolding t_def by (simp add: wall_calc)
  then have "max_us < instant (day_end t loc)"
    using assms by (simp add: instant_def day_end_def wall_us_def)
  then have "to_utc (day_end t loc) = Inl OverflowError" by (simp add: to_utc_def)
  with date_only_status [OF v st, of loc now] show ?thesis by (simp add: d rbind_def)
qed

lemma preapproval_last_day_overflows_witness:
  "preapproval_is_active (- 18000000000) ''ACTIVE'' ''9999-12-31''
     \<lparr>dt_y = 2026, dt_mo = 1, dt_d = 1, dt_h = 0, dt_mi = 0, dt_s = 0, dt_us = 0, dt_tz = Some 0\<rparr> =
   Inl OverflowError"
  by (rule preapproval_last_day_overflows) simp

end
