(* ===== verification/Gates.thy ===== *)
theory Gates
  imports PyRe Schema
begin

text \<open>
  \<open>nightclaw_engine/engine/gates.py\<close>: the pure validators over the schema model (R2 field
  contracts, R3 routing and CL5 protection, R4 cascades, tool policy), and the commands of
  \<open>commands/validate.py\<close> that print their results. \<open>re.match\<close> anchors at the start of the text by
  itself, so a leading \<open>^\<close> adds nothing and is left out of the expressions.
\<close>

record gate_result =
  gr_ok :: bool
  gr_code :: string
  gr_detail :: string

abbreviation gate_ok :: gate_result where
  "gate_ok \<equiv> \<lparr>gr_ok = True, gr_code = ''OK'', gr_detail = []\<rparr>"

definition gate_fail :: "string \<Rightarrow> string \<Rightarrow> gate_result" where
  "gate_fail c d = \<lparr>gr_ok = False, gr_code = c, gr_detail = d\<rparr>"

definition as_line :: "gate_result \<Rightarrow> string" where
  "as_line g =
     join '':'' ([if gr_ok g then ''OK'' else ''VIOLATION'', gr_code g] @
                 (if gr_detail g = [] then [] else [gr_detail g]))"

section \<open>R2: field contracts\<close>

definition is_hex :: "char \<Rightarrow> bool" where
  "is_hex c \<longleftrightarrow> is_digit c \<or> (97 \<le> code c \<and> code c \<le> 102) \<or> (65 \<le> code c \<and> code c \<le> 70)"

lemma is_hex_Char [code]:
  "is_hex (Char b0 b1 b2 b3 b4 b5 b6 b7) \<longleftrightarrow> \<not> b7 \<and>
     (if b6 then \<not> b4 \<and> \<not> b3 \<and> (b2 \<or> b1 \<or> b0) \<and> \<not> (b2 \<and> b1 \<and> b0)
      else b5 \<and> b4 \<and> (b3 \<longrightarrow> \<not> b2 \<and> \<not> b1))"
  unfolding is_hex_def is_digit_Char
  by (cases b0; cases b1; cases b2; cases b3; cases b4; cases b5; cases b6; cases b7) simp_all

definition hash_rx :: rx where "hash_rx = rrep 64 (RSet is_hex)"

definition date_rx :: rx where
  "date_rx = rseq [rrep 4 rdigit, rlit ''-'', rrep 2 rdigit, rlit ''-'', rrep 2 rdigit]"

text \<open>\<open>[+-]\d{2}:?\d{2}\<close>.\<close>

definition offset_rx :: rx where
  "offset_rx = rseq [RSet (one_of ''+-''), rrep 2 rdigit, ropt (rlit '':''), rrep 2 rdigit]"

definition datetime_rx :: rx where
  "datetime_rx =
     rseq [date_rx,
           ropt (rseq [RSet (one_of '' T''), rrep 2 rdigit, rlit '':'', rrep 2 rdigit,
                       ropt (rseq [rlit '':'', rrep 2 rdigit])]),
           ropt (ralts [RSeq (rplus (RSet is_space)) rnonspaces, offset_rx, rlit ''Z''])]"

definition iso8601z_rx :: rx where
  "iso8601z_rx =
     rseq [date_rx, rlit ''T'', rrep 2 rdigit, rlit '':'', rrep 2 rdigit,
           ropt (rseq [rlit '':'', rrep 2 rdigit, ropt (RSeq (rlit ''.'') (rplus rdigit))]),
           RAlt (rlit ''Z'') offset_rx]"

definition token_rx :: rx where
  "token_rx = rplus (RSet (\<lambda>c. is_alnum c \<or> c \<in> set ''_.:-''))"

definition path_rx :: rx where
  "path_rx = rplus (RSet (\<lambda>c. is_alnum c \<or> c \<in> set ''_./{}[]-''))"

definition type_ok :: "string \<Rightarrow> string \<Rightarrow> bool" where
  "type_ok kind value =
     (let k = upper (strip kind); v = strip value in
      if v = [] then True
      else if k = ''INT'' then py_int v \<noteq> None
      else if k = ''HASH'' then rx_matches (RSeq hash_rx REol) v
      else if k = ''DATE'' then rx_matches (RSeq date_rx REol) v
      else if k = ''DATETIME'' then rx_matches (RSeq datetime_rx REol) v
      else if k = ''ISO8601Z'' then rx_matches (RSeq iso8601z_rx REol) v
      else if k = ''TOKEN'' then rx_matches (RSeq token_rx REol) v
      else if k = ''PATH'' then rx_matches (RSeq path_rx REol) v
      else True)"

definition null_markers :: "string list" where
  "null_markers = [em_dash, ''-'', ''--'', ''none'', ''n/a'', ''na'']"

definition is_null_marker :: "string \<Rightarrow> bool" where
  "is_null_marker v \<longleftrightarrow> lower (strip v) \<in> set null_markers"

definition enum_tok_rx :: rx where
  "enum_tok_rx = RSeq (RSet is_upper) (rplus (RSet (\<lambda>c. is_upper c \<or> is_digit c \<or> c \<in> set ''_-'')))"

definition enum_rx :: rx where
  "enum_rx = RSeq enum_tok_rx (rplus (RSeq (rlit ''|'') enum_tok_rx))"

fun first_enum :: "string list \<Rightarrow> string list option" where
  "first_enum [] = None"
| "first_enum (chunk # chunks) =
     (let toks = filter (\<lambda>t. t \<noteq> []) (map strip (rx_split (rseq [rspaces, rlit ''|'', rspaces]) chunk))
      in if length toks \<ge> 2 then Some toks else first_enum chunks)"

definition parse_enum :: "string \<Rightarrow> string list option" where
  "parse_enum constraint =
     (if constraint = [] then None else first_enum (map m_text (rx_finditer enum_rx constraint)))"

definition find_field :: "schema_model \<Rightarrow> string \<Rightarrow> string \<Rightarrow> field_spec option" where
  "find_field model obj fld = find (\<lambda>f. fs_obj f = obj \<and> fs_field f = fld) (sm_fields model)"

definition validate_field :: "schema_model \<Rightarrow> string \<Rightarrow> string \<Rightarrow> string \<Rightarrow> gate_result" where
  "validate_field model obj fld value =
     (case find_field model obj fld of
        None \<Rightarrow> gate_fail ''R2_UNKNOWN_FIELD'' (obj @ ''.'' @ fld)
      | Some spec \<Rightarrow>
          (let raw = strip value; required = (lower (fs_req spec) = ''y'') in
           if required \<and> raw = [] then gate_fail ''R2_REQUIRED_EMPTY'' (obj @ ''.'' @ fld)
           else if \<not> required \<and> raw \<noteq> [] \<and> is_null_marker raw then gate_ok
           else if raw \<noteq> [] \<and> \<not> type_ok (fs_type spec) raw
             then gate_fail ''R2_TYPE''
                    (obj @ ''.'' @ fld @ '' type='' @ fs_type spec @ '' value='' @ utake 40 raw)
           else if upper (strip (fs_type spec)) = ''ENUM'' then
             (case parse_enum (fs_constraint spec) of
                None \<Rightarrow> gate_ok
              | Some enum \<Rightarrow>
                  if raw \<noteq> [] \<and> upper raw \<notin> set (map upper enum)
                  then gate_fail ''R2_ENUM''
                         (obj @ ''.'' @ fld @ '' value='' @ raw @ '' expected='' @ join ''|'' enum)
                  else gate_ok)
           else gate_ok))"

section \<open>R3: routing and protection\<close>

definition note_rx :: rx where
  "note_rx = rseq [rspaces, rlit ''('', RStar (RSet (\<lambda>c. c \<noteq> CHR '')'')), rlit '')'', rspaces, REol]"

definition strip_note :: "string \<Rightarrow> string" where
  "strip_note s = rx_sub note_rx (\<lambda>_. []) s"

definition path_norm :: "string \<Rightarrow> string" where
  "path_norm s = lstrip_of (one_of ''./'') (strip (replace_char (CHR 0x5C) ''/'' (strip_note s)))"

text \<open>Each \<open>*\<close> becomes \<open>[^/]+\<close>, every other character itself.\<close>

definition glob_char :: "char \<Rightarrow> rx" where
  "glob_char c = (if c = CHR ''*'' then rplus (RSet (\<lambda>x. x \<noteq> CHR ''/'')) else RSet (\<lambda>x. x = c))"

definition glob_to_regex :: "string \<Rightarrow> rx" where
  "glob_to_regex p = rseq (map glob_char p)"

definition path_matches :: "string \<Rightarrow> string \<Rightarrow> bool" where
  "path_matches schema_path query_path =
     (let s = path_norm schema_path; q = path_norm query_path in
      if CHR ''*'' \<notin> set s then s = q else rx_matches (RSeq (glob_to_regex s) REol) q)"

definition route_for :: "schema_model \<Rightarrow> string \<Rightarrow> route_rule option" where
  "route_for model rel_path =
     (if rel_path = [] then None
      else find (\<lambda>r. path_matches (rr_file r) rel_path) (sm_routes model))"

definition is_protected :: "schema_model \<Rightarrow> string \<Rightarrow> bool" where
  "is_protected model rel_path =
     (let norm = path_norm rel_path in
      if model_is_protected model norm then True
      else (case route_for model norm of
              None \<Rightarrow> False
            | Some r \<Rightarrow> upper (rr_tier r) = ''PROTECTED''))"


section \<open>R4: cascades; tool policy; batches\<close>

definition cascade_for :: "schema_model \<Rightarrow> string \<Rightarrow> edge list" where
  "cascade_for model rel_path = filter (\<lambda>e. path_matches (e_source e) rel_path) (sm_edges model)"

definition cascade_upstream :: "schema_model \<Rightarrow> string \<Rightarrow> edge list" where
  "cascade_upstream model rel_path = filter (\<lambda>e. path_matches (e_target e) rel_path) (sm_edges model)"

definition allowed_tool :: "string list \<Rightarrow> string \<Rightarrow> gate_result" where
  "allowed_tool allowed tool =
     (let allowed_set = map (\<lambda>t. lower (strip t)) (filter (\<lambda>t. t \<noteq> [] \<and> strip t \<noteq> []) allowed);
          t = lower (strip tool)
      in if allowed_set = [] then gate_ok
         else if t \<in> set allowed_set then gate_ok
         else gate_fail ''C_TOOL_DENIED'' (''tool='' @ tool))"

definition summarise :: "gate_result list \<Rightarrow> bool \<times> string list" where
  "summarise results = (\<forall>r \<in> set results. gr_ok r, map as_line results)"

section \<open>The commands over the gates (\<open>commands/validate.py\<close>)\<close>

text \<open>A command's effect on its caller: the lines it prints and its exit code. The arguments are
  those after the command's name; the model is the one the schema loader returned.\<close>

definition cmd_validate_field :: "schema_model \<Rightarrow> string list \<Rightarrow> string list \<times> nat" where
  "cmd_validate_field model argv =
     (case argv of
        obj # fld # v # vs \<Rightarrow>
          (let res = validate_field model obj fld (join '' '' (v # vs)) in
           if gr_ok res then ([''OK:'' @ obj @ ''.'' @ fld], 0) else ([as_line res], 1))
      | _ \<Rightarrow> ([], 2))"

definition cmd_cascade_read :: "schema_model \<Rightarrow> string list \<Rightarrow> string list \<times> nat" where
  "cmd_cascade_read model argv =
     (case argv of
        [] \<Rightarrow> ([], 2)
      | rel # _ \<Rightarrow>
          (let edges = cascade_for model rel in
           if edges = [] then ([''CASCADE:NONE''], 0)
           else (map (\<lambda>e. ''CASCADE:'' @ e_type e @ '':'' @ e_target e) edges, 0)))"

definition cmd_registry_route :: "schema_model \<Rightarrow> string list \<Rightarrow> string list \<times> nat" where
  "cmd_registry_route model argv =
     (case argv of
        [] \<Rightarrow> ([], 2)
      | rel # _ \<Rightarrow>
          if is_protected model rel then ([''ROUTE:PROTECTED''], 0)
          else (case route_for model rel of
                  None \<Rightarrow> ([''ROUTE:UNKNOWN''], 0)
                | Some r \<Rightarrow>
                    (let b = strip (if rr_bundle r = [] then ''-'' else rr_bundle r) in
                     ([''ROUTE:'' @ rr_tier r @ '':'' @ (if b = [] then ''-'' else b)], 0))))"

section \<open>What the expressions accept\<close>

lemma strip_no_nl: "strip v \<noteq> [] \<Longrightarrow> last (strip v) \<noteq> nl"
  using strip_of_last [of is_space v] by (auto simp: is_space_def)

lemma hash_rx_accepts:
  "rx_matches (RSeq hash_rx REol) (strip v) \<longleftrightarrow> length (strip v) = 64 \<and> (\<forall>c \<in> set (strip v). is_hex c)"
proof -
  have "strip v \<noteq> w @ [nl]" for w
    by (metis last_snoc snoc_eq_iff_butlast strip_no_nl)
  then show ?thesis by (auto simp: rx_matches_eol_iff hash_rx_def)
qed

lemma lang_glob_Nil [simp]: "lang (glob_to_regex []) = {[]}"
  by (simp add: glob_to_regex_def)

lemma lang_glob_Cons:
  "lang (glob_to_regex (c # p)) =
     (if c = CHR ''*'' then {u @ v | u v. u \<noteq> [] \<and> CHR ''/'' \<notin> set u \<and> v \<in> lang (glob_to_regex p)}
      else {c # v | v. v \<in> lang (glob_to_regex p)})"
  by (auto simp: glob_to_regex_def lang_rseq_Cons glob_char_def)

lemma rx_plain_glob [simp]: "rx_plain (glob_to_regex p)"
  by (auto simp: glob_to_regex_def list_all_iff glob_char_def split: if_splits)

lemma glob_slashes: "w \<in> lang (glob_to_regex p) \<Longrightarrow> count_list w (CHR ''/'') = count_list p (CHR ''/'')"
  by (induction p arbitrary: w) (auto simp: lang_glob_Cons split: if_splits)

lemma glob_literal: "CHR ''*'' \<notin> set p \<Longrightarrow> lang (glob_to_regex p) = {p}"
  by (induction p) (auto simp: lang_glob_Cons)

lemma glob_prefix:
  "CHR ''*'' \<notin> set u \<Longrightarrow> lang (glob_to_regex (u @ p)) = {u @ v | v. v \<in> lang (glob_to_regex p)}"
  by (induction u) (auto simp: lang_glob_Cons)

lemma glob_one_star:
  assumes "CHR ''*'' \<notin> set u" "CHR ''*'' \<notin> set v"
  shows "lang (glob_to_regex (u @ CHR ''*'' # v)) = {u @ seg @ v | seg. seg \<noteq> [] \<and> CHR ''/'' \<notin> set seg}"
  using assms by (auto simp: glob_prefix lang_glob_Cons glob_literal)

lemma path_norm_no_nl: "path_norm s \<noteq> w @ [nl]"
proof
  let ?t = "strip (replace_char (CHR 0x5C) ''/'' (strip_note s))"
  assume eq: "path_norm s = w @ [nl]"
  obtain u where "?t = u @ path_norm s"
    using lstrip_decomp [of ?t "one_of ''./''"] by (auto simp: path_norm_def)
  with eq have "?t \<noteq> []" "last ?t = nl" by simp_all
  then show False using strip_of_last [of is_space "replace_char (CHR 0x5C) ''/'' (strip_note s)"]
    by (simp add: is_space_def)
qed

lemma path_matches_iff:
  "path_matches s q \<longleftrightarrow> path_norm q \<in> lang (glob_to_regex (path_norm s))"
  by (auto simp: path_matches_def Let_def rx_matches_eol_iff path_norm_no_nl glob_literal)

section \<open>Properties\<close>

text \<open>A small model on which the properties' hypotheses hold.\<close>

definition sample_model :: schema_model where
  "sample_model =
     \<lparr>sm_objects = [],
      sm_fields = [\<lparr>fs_obj = ''OBJ:F'', fs_field = ''sha'', fs_type = ''HASH'', fs_req = ''y'',
                    fs_constraint = [], fs_fk = []\<rparr>,
                   \<lparr>fs_obj = ''OBJ:F'', fs_field = ''status'', fs_type = ''ENUM'', fs_req = ''y'',
                    fs_constraint = ''ACTIVE|BLOCKED'', fs_fk = []\<rparr>],
      sm_routes = [\<lparr>rr_file = ''LOCK.md'', rr_tier = ''STANDARD'', rr_bundle = ''standalone'', rr_note = []\<rparr>,
                   \<lparr>rr_file = ''memory/*.md (daily)'', rr_tier = ''APPEND'', rr_bundle = [], rr_note = []\<rparr>],
      sm_edges = [], sm_bundles = [], sm_protected = [''SOUL.md'', ''USER.md''],
      sm_schema_paths = [], sm_scr_rules = [], sm_source_dir = [], sm_fingerprint = []\<rparr>"












text \<open>A required HASH field accepts exactly the values that are 64 hexadecimal digits once
  stripped; the expression's \<open>$\<close>, which lets a trailing newline pass, cannot be reached.\<close>

theorem validate_field_required_hash:
  assumes "find_field m obj fld = Some spec"
    and "lower (fs_req spec) = ''y''" and "upper (strip (fs_type spec)) = ''HASH''"
  shows "gr_ok (validate_field m obj fld v) \<longleftrightarrow>
     length (strip v) = 64 \<and> (\<forall>c \<in> set (strip v). is_hex c)"
proof (cases "strip v = []")
  case True
  with assms show ?thesis by (simp add: validate_field_def Let_def gate_fail_def)
next
  case False
  with assms hash_rx_accepts [of v] show ?thesis
    by (simp add: validate_field_def Let_def gate_fail_def type_ok_def)
qed

theorem validate_field_required_hash_witness:
  "gr_ok (validate_field sample_model ''OBJ:F'' ''sha'' (replicate 64 (CHR ''a'')))"
proof -
  have "find_field sample_model ''OBJ:F'' ''sha'' =
      Some \<lparr>fs_obj = ''OBJ:F'', fs_field = ''sha'', fs_type = ''HASH'', fs_req = ''y'',
            fs_constraint = [], fs_fk = []\<rparr>"
    by (simp add: find_field_def sample_model_def)
  from validate_field_required_hash [OF this, of "replicate 64 (CHR ''a'')"]
  have "gr_ok (validate_field sample_model ''OBJ:F'' ''sha'' (replicate 64 (CHR ''a''))) \<longleftrightarrow>
      length (strip (replicate 64 (CHR ''a''))) = 64 \<and> (\<forall>c \<in> set (strip (replicate 64 (CHR ''a''))). is_hex c)"
    by code_simp
  moreover have "strip (replicate 64 (CHR ''a'')) = replicate 64 (CHR ''a'')"
    by code_simp
  ultimately show ?thesis by (simp add: is_hex_def)
qed

text \<open>A required ENUM field accepts exactly the non-empty values that equal one of the tokens
  parsed from its constraint, whatever the case of either.\<close>

theorem validate_field_required_enum:
  assumes "find_field m obj fld = Some spec"
    and "lower (fs_req spec) = ''y''" and "upper (strip (fs_type spec)) = ''ENUM''"
    and "parse_enum (fs_constraint spec) = Some toks"
  shows "gr_ok (validate_field m obj fld v) \<longleftrightarrow>
     strip v \<noteq> [] \<and> upper (strip v) \<in> set (map upper toks)"
  using assms
  by (auto simp: validate_field_def Let_def gate_fail_def type_ok_def)

theorem validate_field_required_enum_witness:
  "gr_ok (validate_field sample_model ''OBJ:F'' ''status'' '' active'')"
proof -
  have "find_field sample_model ''OBJ:F'' ''status'' =
      Some \<lparr>fs_obj = ''OBJ:F'', fs_field = ''status'', fs_type = ''ENUM'', fs_req = ''y'',
            fs_constraint = ''ACTIVE|BLOCKED'', fs_fk = []\<rparr>"
    by (simp add: find_field_def sample_model_def)
  moreover have "parse_enum ''ACTIVE|BLOCKED'' = Some [''ACTIVE'', ''BLOCKED'']" by code_simp
  moreover have "strip '' active'' \<noteq> [] \<and> upper (strip '' active'') \<in> set (map upper [''ACTIVE'', ''BLOCKED''])"
    by code_simp
  moreover have "lower ''y'' = ''y''" "upper (strip ''ENUM'') = ''ENUM''" by code_simp+
  ultimately show ?thesis
    using validate_field_required_enum [of sample_model "''OBJ:F''" "''status''" _ _ "'' active''"] by simp
qed

text \<open>A schema path with one \<open>*\<close> matches exactly the paths that have one non-empty segment,
  without a slash, in its place: a glob never reaches into a subdirectory.\<close>

theorem path_matches_one_star:
  assumes "path_norm s = u @ CHR ''*'' # v" "CHR ''*'' \<notin> set u" "CHR ''*'' \<notin> set v"
  shows "path_matches s q \<longleftrightarrow>
     (\<exists>seg. seg \<noteq> [] \<and> CHR ''/'' \<notin> set seg \<and> path_norm q = u @ seg @ v)"
  using assms by (auto simp: path_matches_iff glob_one_star)

theorem path_matches_one_star_witness:
  "path_matches ''PROJECTS/*/LONGRUNNER.md (T6)'' ''PROJECTS/demo/LONGRUNNER.md''
   \<and> \<not> path_matches ''PROJECTS/*/LONGRUNNER.md (T6)'' ''PROJECTS/a/b/LONGRUNNER.md''"
proof -
  have n: "path_norm ''PROJECTS/*/LONGRUNNER.md (T6)'' = ''PROJECTS/'' @ CHR ''*'' # ''/LONGRUNNER.md''"
    by code_simp
  have q: "path_norm ''PROJECTS/demo/LONGRUNNER.md'' = ''PROJECTS/'' @ ''demo'' @ ''/LONGRUNNER.md''"
    "path_norm ''PROJECTS/a/b/LONGRUNNER.md'' = ''PROJECTS/a/b/LONGRUNNER.md''"
    by code_simp+
  have "path_matches ''PROJECTS/*/LONGRUNNER.md (T6)'' ''PROJECTS/demo/LONGRUNNER.md''"
    using q(1) by (subst path_matches_one_star [OF n]) (auto intro!: exI [of _ "''demo''"])
  moreover have "seg = ''a/b''" if "''PROJECTS/a/b/LONGRUNNER.md'' = ''PROJECTS/'' @ seg @ ''/LONGRUNNER.md''" for seg
  proof -
    have "''PROJECTS/'' @ seg @ ''/LONGRUNNER.md'' = ''PROJECTS/'' @ ''a/b'' @ ''/LONGRUNNER.md''"
      using that by simp
    then show ?thesis by (simp only: append_same_eq same_append_eq)
  qed
  then have "\<not> path_matches ''PROJECTS/*/LONGRUNNER.md (T6)'' ''PROJECTS/a/b/LONGRUNNER.md''"
    using q(2) by (subst path_matches_one_star [OF n]) auto
  ultimately show ?thesis by simp
qed

text \<open>Every outcome of \<open>validate_field\<close> is one of the five codes its documentation lists, and
  it passes exactly with the code \<open>OK\<close> and no detail.\<close>

theorem validate_field_codes:
  "gr_code (validate_field m obj fld v)
     \<in> {''OK'', ''R2_UNKNOWN_FIELD'', ''R2_REQUIRED_EMPTY'', ''R2_TYPE'', ''R2_ENUM''}
   \<and> gr_ok (validate_field m obj fld v) = (gr_code (validate_field m obj fld v) = ''OK'')"
  by (simp add: validate_field_def gate_fail_def Let_def split: option.split)


end
