(* ===== verification/Shared.thy ===== *)
theory Shared
  imports Workspace Preapproval PyVal
begin

text \<open>
  \<open>nightclaw_engine/commands/_shared.py\<close>: the slug test, the pre-approval check, and the parsers of
  the dispatch table \<open>ACTIVE-PROJECTS.md\<close> and of the \<open>LONGRUNNER.md\<close> of a project. A Python dict
  with string keys is the list of its items in insertion order.
\<close>

type_synonym fields = "(string \<times> string) list"

section \<open>Constants\<close>

definition protected_paths :: "string list" where
  "protected_paths =
     [''SOUL.md'', ''USER.md'', ''IDENTITY.md'', ''MEMORY.md'', ''AGENTS-CORE.md'',
      ''orchestration-os/CRON-WORKER-PROMPT.md'', ''orchestration-os/CRON-MANAGER-PROMPT.md'',
      ''orchestration-os/OPS-PREAPPROVAL.md'', ''orchestration-os/OPS-AUTONOMOUS-SAFETY.md'',
      ''orchestration-os/CRON-HARDLINES.md'', ''orchestration-os/REGISTRY.md'']"

definition append_allowed :: "string list" where
  "append_allowed =
     [''audit/AUDIT-LOG.md'', ''audit/SESSION-REGISTRY.md'', ''audit/CHANGE-LOG.md'',
      ''audit/APPROVAL-CHAIN.md'', ''NOTIFICATIONS.md'', ''NOTIFICATIONS-ARCHIVE.md'',
      ''AGENTS-LESSONS.md'', ''orchestration-os/OPS-FAILURE-MODES-ARCHIVE.md'',
      ''AGENTS-LESSONS-ARCHIVE.md'', ''orchestration-os/OPS-TOOL-REGISTRY-ARCHIVE.md'']"

definition nulls :: "string list" where
  "nulls = [''~'', ''null'', ''None'', ''none'', []]"

section \<open>Slugs\<close>

definition slug_end :: "char \<Rightarrow> bool" where
  "slug_end c \<longleftrightarrow> is_lower c \<or> is_digit c"

definition slug_mid :: "char \<Rightarrow> bool" where
  "slug_mid c \<longleftrightarrow> slug_end c \<or> c = CHR ''-''"

text \<open>\<open>^[a-z0-9]([a-z0-9-]*[a-z0-9])?$\<close>.\<close>

definition slug_rx :: rx where
  "slug_rx = rseq [RSet slug_end, ropt (RGrp 1 (RSeq (RStar (RSet slug_mid)) (RSet slug_end)))]"

definition is_valid_slug :: "string \<Rightarrow> bool" where
  "is_valid_slug slug \<longleftrightarrow> rx_matches (RSeq slug_rx REol) slug"

section \<open>Pre-approvals\<close>

definition pa_header_rx :: rx where
  "pa_header_rx =
     rseq [RBolM, rlit ''## '', RGrp 1 (RSeq (rlit ''PA-'') (rplus rdigit)), rspaces, rlit ''|'', rspaces,
           rlit ''Status:'', rspaces, RGrp 2 rnonspaces, rspaces, rlit ''|'', rspaces, rlit ''Expires:'',
           rspaces, RGrp 3 (rplus rdot)]"

definition pa_action_rx :: rx where
  "pa_action_rx = rseq [rlit ''**Action class:**'', rspaces, RGrp 1 rnonspaces]"

text \<open>\<open>re.split(r'(?=^## PA-\d+)', content)\<close>: a block starts at the beginning of the text and at
  every line start where \<open>## PA-\<close> and a digit follow; the split at position 0 yields an empty first
  block.\<close>

definition at_pa :: "char option \<Rightarrow> string \<Rightarrow> bool" where
  "at_pa p s \<longleftrightarrow> (p = None \<or> p = Some nl) \<and> startswith s ''## PA-'' \<and>
     (case drop 6 s of [] \<Rightarrow> False | c # _ \<Rightarrow> is_digit c)"

fun pa_blocks :: "char option \<Rightarrow> string \<Rightarrow> string \<Rightarrow> string list" where
  "pa_blocks p acc [] = [rev acc]"
| "pa_blocks p acc (c # s) =
     (if at_pa p (c # s) then rev acc # pa_blocks (Some c) [c] s else pa_blocks (Some c) (c # acc) s)"

text \<open>The loop over the blocks; an expiry that overflows ends the check with the exception.\<close>

fun any_active :: "int \<Rightarrow> string \<Rightarrow> pydt \<Rightarrow> string list \<Rightarrow> py_exc + bool" where
  "any_active loc action now [] = Inr False"
| "any_active loc action now (block # blocks) =
     (case rx_search pa_header_rx block of
        None \<Rightarrow> any_active loc action now blocks
      | Some header \<Rightarrow>
          (let status = upper (m_group_or [] 2 header); expires = strip (m_group_or [] 3 header) in
           if status \<noteq> ''ACTIVE'' then any_active loc action now blocks
           else (case rx_search pa_action_rx block of
               None \<Rightarrow> any_active loc action now blocks
             | Some act \<Rightarrow>
                 if strip (m_group_or [] 1 act) \<noteq> action then any_active loc action now blocks
                 else rbind (preapproval_is_active loc status expires now)
                        (\<lambda>active. if active then Inr True else any_active loc action now blocks))))"

definition check_pa_active :: "int \<Rightarrow> string \<Rightarrow> pydt \<Rightarrow> workspace \<Rightarrow> py_exc + bool" where
  "check_pa_active loc action now w =
     (case read_file ''orchestration-os/OPS-PREAPPROVAL.md'' w of
        None \<Rightarrow> Inr False
      | Some content \<Rightarrow> any_active loc action now (pa_blocks None [] content))"

section \<open>The dispatch table\<close>

text \<open>\<open>[c.strip() for c in line.split("|")[1:-1]]\<close>.\<close>

definition table_cells :: "string \<Rightarrow> string list" where
  "table_cells line = map strip (butlast (tl (split_on (CHR ''|'') line)))"

definition is_separator :: "string list \<Rightarrow> bool" where
  "is_separator cells \<longleftrightarrow> cells \<noteq> [] \<and> list_all (\<lambda>c. set (strip c) \<subseteq> {CHR ''-'', CHR '':''}) cells"

definition header_key :: "string \<Rightarrow> string" where
  "header_key c = replace_char (CHR '' '') ''_'' (lower c)"

definition row_dict :: "string list \<Rightarrow> string list \<Rightarrow> fields" where
  "row_dict headers cells = foldl (\<lambda>d (k, v). dput k v d) [] (zip headers cells)"

fun dispatch_rows :: "string list option \<Rightarrow> string list \<Rightarrow> fields list" where
  "dispatch_rows headers [] = []"
| "dispatch_rows headers (line # lines) =
     (let cells = table_cells (strip line) in
      if \<not> startswith (strip line) ''|'' then dispatch_rows headers lines
      else case headers of
          None \<Rightarrow> dispatch_rows (Some (map header_key cells)) lines
        | Some hs \<Rightarrow>
            if is_separator cells then dispatch_rows headers lines
            else if length cells \<ge> length hs then row_dict hs cells # dispatch_rows headers lines
            else dispatch_rows headers lines)"

definition parse_dispatch_table :: "workspace \<Rightarrow> fields list" where
  "parse_dispatch_table w =
     (case read_file ''ACTIVE-PROJECTS.md'' w of
        None \<Rightarrow> []
      | Some content \<Rightarrow> dispatch_rows None (splitlines content))"

text \<open>\<open>row.get("project_slug", row.get("slug", ""))\<close>.\<close>

definition row_slug :: "fields \<Rightarrow> string" where
  "row_slug row = dget_or (dget_or [] ''slug'' row) ''project_slug'' row"

section \<open>The LONGRUNNER of a project\<close>

definition section_map :: "(string \<times> string) list" where
  "section_map = [(''## Current Phase'', ''phase''), (''## Last Pass'', ''last_pass''),
                  (''## Next Pass'', ''next_pass'')]"

definition yaml_line_rx :: rx where
  "yaml_line_rx =
     rseq [RGrp 1 rspaces,
           RGrp 2 (RSeq (RSet is_word) (RStar (RSet (\<lambda>c. is_word c \<or> c = CHR ''.'')))),
           RStar (rlit '' ''), rlit '':'', RStar (rlit '' ''), RGrp 3 (RStar rdot)]"

definition quote :: char where "quote = CHR 0x22"
definition apos :: char where "apos = CHR 0x27"

text \<open>Quotes and comments around a value; \<open>None\<close> where the value is only a comment.\<close>

definition clean_value :: "string \<Rightarrow> string option" where
  "clean_value val =
     (if startswith val [quote] \<and> quote \<in> set (tl val) then Some (takeWhile (\<lambda>c. c \<noteq> quote) (tl val))
      else if startswith val [apos] \<and> apos \<in> set (tl val) then Some (takeWhile (\<lambda>c. c \<noteq> apos) (tl val))
      else (case cut_at ''  #'' val of
          Some (before, _) \<Rightarrow> Some (strip before)
        | None \<Rightarrow> if startswith val ''#'' then None else Some val))"

definition strip_quotes :: "string \<Rightarrow> string" where
  "strip_quotes val = strip_of (\<lambda>c. c = apos) (strip_of (\<lambda>c. c = quote) val)"

record lr_scan =
  ls_section :: "string option"
  ls_yaml :: bool
  ls_indent :: nat
  ls_fields :: fields

definition dotted_key :: "string \<Rightarrow> string \<Rightarrow> nat \<Rightarrow> nat \<Rightarrow> string" where
  "dotted_key section key indent yaml_indent =
     (if section = ''phase'' then
        (if startswith key ''transition_'' \<or> startswith key ''phase.'' then key
         else if indent > yaml_indent then ''phase.'' @ key else key)
      else if indent > yaml_indent then section @ ''.'' @ key else key)"

text \<open>One line inside a YAML block of a known section.\<close>

definition scan_field :: "string \<Rightarrow> string \<Rightarrow> lr_scan \<Rightarrow> lr_scan" where
  "scan_field section line st =
     (case rx_match yaml_line_rx line of
        None \<Rightarrow> st
      | Some m \<Rightarrow>
          (let indent = ulen (m_group_or [] 1 m); key = m_group_or [] 2 m; val = strip (m_group_or [] 3 m) in
           if val = [] then st\<lparr>ls_indent := indent\<rparr>
           else (case clean_value val of
               None \<Rightarrow> st
             | Some v \<Rightarrow>
                 (let dk = dotted_key section key indent (ls_indent st) in
                  if map_of (ls_fields st) dk = None \<and> v \<notin> set nulls
                  then st\<lparr>ls_fields := ls_fields st @ [(dk, strip (strip_quotes v))]\<rparr>
                  else st))))"

text \<open>One line of the file. A section header switches the section and, where it starts no longer
  section title, its line goes on to the tests below.\<close>

definition scan_line :: "string \<Rightarrow> lr_scan \<Rightarrow> lr_scan" where
  "scan_line line st0 =
     (let stripped = strip line;
          known = find (\<lambda>(h, _). startswith stripped h) section_map;
          st = (case known of None \<Rightarrow> st0
                | Some (_, section) \<Rightarrow> st0\<lparr>ls_section := Some section, ls_yaml := False\<rparr>)
      in if startswith stripped ''## '' \<and> known = None
           then st\<lparr>ls_section := None, ls_yaml := False\<rparr>
         else if stripped = ''```yaml'' then st\<lparr>ls_yaml := True\<rparr>
         else if stripped = ''```'' \<and> ls_yaml st then st\<lparr>ls_yaml := False\<rparr>
         else (case ls_section st of
             None \<Rightarrow> st
           | Some section \<Rightarrow> if ls_yaml st then scan_field section line st else st))"

text \<open>The table under \<open>## Blockers\<close>: \<open>None\<close> before the header.\<close>

fun has_blockers :: "bool \<Rightarrow> string list \<Rightarrow> bool" where
  "has_blockers inside [] = False"
| "has_blockers inside (line # lines) =
     (if contains ''## Blockers'' line then has_blockers True lines
      else if inside then
        (if startswith (strip line) ''## '' then False
         else if startswith (strip line) ''|'' \<and> \<not> startswith (strip line) ''| Blocker''
              \<and> \<not> list_all (one_of ''|- :'') (strip line)
              \<and> (case table_cells line of [] \<Rightarrow> False | c # _ \<Rightarrow> c \<noteq> [])
           then True
         else has_blockers inside lines)
      else has_blockers inside lines)"

definition bool_str :: "bool \<Rightarrow> string" where
  "bool_str b = (if b then ''true'' else ''false'')"

definition project_file :: "string \<Rightarrow> string \<Rightarrow> string" where
  "project_file slug name = ''PROJECTS/'' @ slug @ ''/'' @ name"

definition parse_longrunner_text :: "string \<Rightarrow> bool \<Rightarrow> string \<Rightarrow> fields" where
  "parse_longrunner_text slug is_draft content =
     (let lines = splitlines content;
          st = fold scan_line lines
                 \<lparr>ls_section = None, ls_yaml = False, ls_indent = 0,
                  ls_fields = [(''slug'', slug), (''is_draft'', bool_str is_draft)]\<rparr>
      in dput ''has_blockers'' (bool_str (has_blockers False lines)) (ls_fields st))"

definition parse_longrunner :: "string \<Rightarrow> workspace \<Rightarrow> fields option" where
  "parse_longrunner slug w =
     (case read_file (project_file slug ''LONGRUNNER.md'') w of
        Some content \<Rightarrow> Some (parse_longrunner_text slug False content)
      | None \<Rightarrow> map_option (parse_longrunner_text slug True)
                  (read_file (project_file slug ''LONGRUNNER-DRAFT.md'') w))"

definition read_longrunner_successor :: "string \<Rightarrow> workspace \<Rightarrow> string" where
  "read_longrunner_successor slug w =
     (case parse_longrunner slug w of
        None \<Rightarrow> []
      | Some fs \<Rightarrow> (let val = dget_or [] ''phase.successor'' fs in if val \<notin> set nulls then val else []))"

end
