(* ===== verification/Append.thy ===== *)
theory Append
  imports Gates Shared
begin

text \<open>
  \<open>nightclaw_engine/commands/append.py\<close> and \<open>do_append\<close> of \<open>bundle_mutators.py\<close>: appending lines to
  the append-only files. \<open>model\<close> is the schema model, \<open>None\<close> where loading it raises. The allow-list
  is tested on the normalised path, the file is opened at the path as given.
\<close>

definition to_slashes :: "string \<Rightarrow> string" where
  "to_slashes s = map (\<lambda>c. if c = CHR 0x5C then CHR ''/'' else c) s"

definition append_norm :: "string \<Rightarrow> string" where
  "append_norm rel = strip_of (\<lambda>c. c = CHR ''/'') (to_slashes rel)"

definition memory_rx :: rx where
  "memory_rx = rseq [rlit ''memory/'', rrep 4 rdigit, rlit ''-'', rrep 2 rdigit, rlit ''-'',
                     rrep 2 rdigit, rlit ''.md'']"

definition is_allowed_append_target :: "schema_model option \<Rightarrow> string \<Rightarrow> bool" where
  "is_allowed_append_target model rel \<longleftrightarrow>
     append_norm rel \<in> set append_allowed \<or>
     rx_matches (RSeq memory_rx REol) (append_norm rel) \<or>
     (case model of
        None \<Rightarrow> False
      | Some m \<Rightarrow>
          (case route_for m (append_norm rel) of
             None \<Rightarrow> False
           | Some r \<Rightarrow> upper (rr_tier r) \<in> {''APPEND'', ''APPEND-ONLY''}))"

definition cmd_append :: "schema_model option \<Rightarrow> string list \<Rightarrow> workspace \<Rightarrow> outcome \<times> workspace" where
  "cmd_append model args w =
     (case args of
        rel # word # words \<Rightarrow>
          (let line = join '' '' (word # words) in
           if \<not> is_allowed_append_target model rel then
             (Exit 1 [''ERROR:DENIED '' @ em_dash @ '' '' @ rel @ '' is not an allowed append target'',
                      ''ALLOWED: '' @ join '', '' (sort append_allowed) @ '' + memory/YYYY-MM-DD.md''], w)
           else (Exit 0 [''APPENDED:'' @ rel], append_file rel (line @ [nl]) w))
      | _ \<Rightarrow> (Exit 2 [], w))"

definition batch_lines :: "string \<Rightarrow> string list" where
  "batch_lines raw = filter (\<lambda>l. l \<noteq> []) (map strip (split_str ''|||'' raw))"

definition cmd_append_batch ::
  "schema_model option \<Rightarrow> string list \<Rightarrow> workspace \<Rightarrow> outcome \<times> workspace" where
  "cmd_append_batch model args w =
     (case args of
        rel # word # words \<Rightarrow>
          (let lines = batch_lines (join '' '' (word # words)) in
           if lines = [] then
             (Exit 1 [''ERROR:NO_LINES '' @ em_dash @ '' no non-empty lines found after splitting on |||''], w)
           else if \<not> is_allowed_append_target model rel then
             (Exit 1 [''ERROR:DENIED '' @ em_dash @ '' '' @ rel @ '' is not an allowed append target''], w)
           else (Exit 0 [''APPENDED:'' @ rel @ '':LINES='' @ nat_str (length lines)],
                 append_file rel (concat (map (\<lambda>l. l @ [nl]) lines)) w))
      | _ \<Rightarrow> (Exit 2 [], w))"

definition do_append :: "schema_model option \<Rightarrow> string \<Rightarrow> string \<Rightarrow> workspace \<Rightarrow> workspace" where
  "do_append model rel line w =
     (if \<not> is_allowed_append_target model rel then w
      else append_file rel (rstrip_of (\<lambda>c. c = nl) line @ [nl]) w)"

section \<open>What appending can touch\<close>

datatype append_request = One string string | Many string "string list" | Bundle string string

definition run_append :: "schema_model option \<Rightarrow> append_request \<Rightarrow> workspace \<Rightarrow> workspace" where
  "run_append model r w =
     (case r of
        One rel line \<Rightarrow> snd (cmd_append model [rel, line] w)
      | Many rel args \<Rightarrow> snd (cmd_append_batch model (rel # args) w)
      | Bundle rel line \<Rightarrow> do_append model rel line w)"

fun append_target :: "append_request \<Rightarrow> string" where
  "append_target (One rel line) = rel"
| "append_target (Many rel args) = rel"
| "append_target (Bundle rel line) = rel"

definition append_targets :: "schema_model option \<Rightarrow> append_request \<Rightarrow> string set" where
  "append_targets model r =
     (if is_allowed_append_target model (append_target r) then {canon_path (append_target r)} else {})"

lemma cmd_append_cases:
  "snd (cmd_append model args w) =
     (if 2 \<le> length args \<and> is_allowed_append_target model (hd args)
      then append_file (hd args) (join '' '' (tl args) @ [nl]) w else w)"
  by (auto simp: cmd_append_def split: list.splits)

lemma cmd_append_batch_cases:
  "snd (cmd_append_batch model args w) =
     (if 2 \<le> length args \<and> is_allowed_append_target model (hd args) \<and> batch_lines (join '' '' (tl args)) \<noteq> []
      then append_file (hd args) (concat (map (\<lambda>l. l @ [nl]) (batch_lines (join '' '' (tl args))))) w else w)"
  by (auto simp: cmd_append_batch_def Let_def split: list.splits)

interpretation al: append_only_op "run_append model" "append_targets model" for model
proof (unfold_locales, goal_cases)
  case (1 q a w)
  then show ?case
    by (cases a) (auto simp: run_append_def append_targets_def cmd_append_cases cmd_append_batch_cases
        do_append_def append_file_other split: if_splits)
next
  case (2 w a)
  then show ?case
    by (cases a) (auto simp: run_append_def cmd_append_cases cmd_append_batch_cases do_append_def
        grows_append_file)
qed

text \<open>C36. However many appends run, with whatever arguments: no file loses a byte, and a file that
  changes is the file an allowed target names.\<close>

theorem appends_only_grow:
  "grows w (fold (run_append model) rs w) \<and>
   {q. fold (run_append model) rs w q \<noteq> w q}
     \<subseteq> (canon_path \<circ> append_target) ` {r \<in> set rs. is_allowed_append_target model (append_target r)}"
proof (intro conjI subsetI)
  show "grows w (fold (run_append model) rs w)" by (rule al.grows_seq)
next
  fix q
  assume "q \<in> {q. fold (run_append model) rs w q \<noteq> w q}"
  then obtain r where "r \<in> set rs" "q \<in> append_targets model r" using al.changed_in_targets by blast
  then show "q \<in> (canon_path \<circ> append_target) `
      {r \<in> set rs. is_allowed_append_target model (append_target r)}"
    by (auto simp: append_targets_def split: if_splits)
qed

text \<open>The allow-list is tested after stripping slashes but the path is opened as given: the
  target \<open>/NOTIFICATIONS.md\<close> passes, and the line goes to a file outside the workspace.\<close>

theorem append_escapes_workspace:
  "is_allowed_append_target model ''/NOTIFICATIONS.md'' \<and> \<not> in_workspace ''/NOTIFICATIONS.md'' \<and>
   snd (cmd_append model [''/NOTIFICATIONS.md'', line] w) =
     w(''/NOTIFICATIONS.md'' \<mapsto> (case w ''/NOTIFICATIONS.md'' of None \<Rightarrow> [] | Some t \<Rightarrow> t) @ line @ [nl])"
proof -
  have "append_norm ''/NOTIFICATIONS.md'' \<in> set append_allowed" by code_simp
  then have allowed: "is_allowed_append_target model ''/NOTIFICATIONS.md''"
    by (simp add: is_allowed_append_target_def)
  moreover have "\<not> in_workspace ''/NOTIFICATIONS.md''" by code_simp
  moreover have "canon_path ''/NOTIFICATIONS.md'' = ''/NOTIFICATIONS.md''" by code_simp
  ultimately show ?thesis by (simp add: cmd_append_cases append_file_def)
qed

end
