(* ===== verification/SharedFacts.thy ===== *)
theory SharedFacts
  imports Shared Scan
begin

text \<open>
  What the helpers of \<open>Shared\<close> promise: which slugs are legal and where the files of a project lie,
  and that the tables the engine writes are read back cell by cell.
\<close>

section \<open>Slugs and project files\<close>

definition slug_body :: "string \<Rightarrow> bool" where
  "slug_body s \<longleftrightarrow> s \<noteq> [] \<and> (\<forall>c \<in> set s. slug_mid c) \<and> slug_end (hd s) \<and> slug_end (last s)"

lemma slug_rx_plain: "rx_plain slug_rx"
  by (simp add: slug_rx_def)

lemma slug_body_Cons:
  "slug_body (c # t) \<longleftrightarrow> slug_end c \<and> (t = [] \<or> (\<exists>m d. t = m @ [d] \<and> (\<forall>x \<in> set m. slug_mid x) \<and> slug_end d))"
proof (cases t rule: rev_cases)
  case Nil
  then show ?thesis by (auto simp: slug_body_def slug_mid_def)
next
  case (snoc m d)
  then show ?thesis by (auto simp: slug_body_def slug_mid_def)
qed

lemma lang_slug_rx: "lang slug_rx = {s. slug_body s}"
proof -
  have "lang (RSeq (RStar (RSet slug_mid)) (RSet slug_end)) =
      {m @ [d] | m d. (\<forall>x \<in> set m. slug_mid x) \<and> slug_end d}"
    by auto
  then have "lang slug_rx = {c # t | c t. slug_end c \<and>
      (t = [] \<or> (\<exists>m d. t = m @ [d] \<and> (\<forall>x \<in> set m. slug_mid x) \<and> slug_end d))}"
    by (auto simp: slug_rx_def lang_cons_set simp del: lang.simps(3))
  also have "\<dots> = {s. slug_body s}"
    by (auto simp: slug_body_Cons) (metis list.exhaust slug_body_Cons slug_body_def)
  finally show ?thesis .
qed

text \<open>Exactly which texts pass as a slug: those of the documented form, and those followed by
  one newline, because \<open>$\<close> also matches before a final newline.\<close>

theorem is_valid_slug_iff:
  "is_valid_slug s \<longleftrightarrow> slug_body s \<or> (\<exists>t. slug_body t \<and> s = t @ [nl])"
  unfolding is_valid_slug_def rx_matches_eol_iff [OF slug_rx_plain] lang_slug_rx by auto

lemma slug_mid_chars: "slug_mid c \<Longrightarrow> c \<noteq> CHR ''/'' \<and> c \<noteq> CHR ''.'' \<and> c \<noteq> CHR 0x5C \<and> \<not> is_space c"
  by (auto simp: slug_mid_def slug_end_def is_lower_def is_digit_def is_space_def)

lemma valid_slug_chars:
  assumes "is_valid_slug s"
  shows "s \<noteq> []" "CHR ''/'' \<notin> set s" "CHR ''.'' \<notin> set s" "CHR 0x5C \<notin> set s"
proof -
  have c: "\<forall>c \<in> set s. slug_mid c \<or> c = nl"
    using assms by (auto simp: is_valid_slug_iff slug_body_def)
  then show "CHR ''/'' \<notin> set s" "CHR ''.'' \<notin> set s" "CHR 0x5C \<notin> set s"
    using slug_mid_chars by fastforce+
  show "s \<noteq> []" using assms by (auto simp: is_valid_slug_iff slug_body_def)
qed

lemma plain_seg_slug: "is_valid_slug s \<Longrightarrow> plain_seg s"
  using valid_slug_chars [of s] by (auto simp: plain_seg_def)

lemma project_file_plain:
  assumes "is_valid_slug slug" "CHR ''/'' \<notin> set name" "plain_seg name"
  shows "plain_path (project_file slug name)"
proof -
  have "plain_path ''PROJECTS''" by code_simp
  moreover have "plain_path slug" using plain_seg_slug valid_slug_chars assms(1) by (simp add: plain_path_seg)
  moreover have "plain_path name" using assms(2,3) by (simp add: plain_path_seg)
  ultimately have "plain_path (''PROJECTS'' @ ''/'' @ slug @ ''/'' @ name)"
    using plain_path_join by blast
  then show ?thesis by (simp add: project_file_def)
qed

lemma project_file_inj:
  assumes "is_valid_slug s" "is_valid_slug t" "project_file s n = project_file t k"
  shows "s = t" "n = k"
proof -
  have eq: "s @ CHR ''/'' # n = t @ CHR ''/'' # k" using assms(3) by (simp add: project_file_def)
  have tw: "takeWhile (\<lambda>c. c \<noteq> CHR ''/'') (u @ CHR ''/'' # v) = u" if "is_valid_slug u" for u v
    using valid_slug_chars(2) [OF that] by (induction u) auto
  show "s = t" using arg_cong [OF eq, of "takeWhile (\<lambda>c. c \<noteq> CHR ''/'')"] tw assms(1,2) by simp
  with eq show "n = k" by simp
qed

text \<open>A legal slug names one directory under \<open>PROJECTS\<close>: the file of a project is the path as
  spelled, it lies in the workspace, and different slugs never share a file.\<close>

theorem project_file_confined:
  assumes "is_valid_slug slug"
  shows "canon_path (project_file slug ''LONGRUNNER.md'') = project_file slug ''LONGRUNNER.md'' \<and>
    in_workspace (project_file slug ''LONGRUNNER.md'') \<and>
    (\<forall>slug'. is_valid_slug slug' \<longrightarrow>
       canon_path (project_file slug' ''LONGRUNNER.md'') = canon_path (project_file slug ''LONGRUNNER.md'') \<longrightarrow>
       slug' = slug)"
proof -
  have name: "CHR ''/'' \<notin> set ''LONGRUNNER.md''" "plain_seg ''LONGRUNNER.md''"
    by (simp_all add: plain_seg_def)
  have pp: "plain_path (project_file s ''LONGRUNNER.md'')" if "is_valid_slug s" for s
    using project_file_plain [OF that name] .
  have starts: "\<not> startswith (project_file slug ''LONGRUNNER.md'') ''..''"
    by (simp add: project_file_def)
  have "in_workspace (project_file slug ''LONGRUNNER.md'')"
    unfolding in_workspace_def canon_path_plain [OF pp [OF assms]]
    using plain_path_relative [OF pp [OF assms]] starts by blast
  moreover have "slug' = slug" if "is_valid_slug slug'"
    "canon_path (project_file slug' ''LONGRUNNER.md'') = canon_path (project_file slug ''LONGRUNNER.md'')"
    for slug'
    using that(2) unfolding canon_path_plain [OF pp [OF assms]] canon_path_plain [OF pp [OF that(1)]]
    by (rule project_file_inj(1) [OF that(1) assms])
  ultimately show ?thesis using canon_path_plain [OF pp [OF assms]] by blast
qed

theorem project_file_confined_witness: "in_workspace ''PROJECTS/demo-1/LONGRUNNER.md''"
proof -
  have "slug_body ''demo-1''"
    by (simp add: slug_body_def slug_mid_def slug_end_def is_lower_def is_digit_def)
  then have "is_valid_slug ''demo-1''" by (simp add: is_valid_slug_iff)
  from project_file_confined [OF this] show ?thesis by (simp add: project_file_def)
qed

section \<open>Lines\<close>

text \<open>A text without line ends is one line, and the lines the engine writes are read back.\<close>

lemma lines_acc_run:
  assumes "\<forall>c \<in> set l. \<not> is_eol c"
  shows "lines_acc cr w (l @ s) =
     (if l = [] then lines_acc cr w s else lines_acc False (rev l @ w) s)"
  using assms
proof (induction l arbitrary: cr w)
  case Nil
  then show ?case by simp
next
  case (Cons c l)
  have "\<not> is_eol c" "code c \<noteq> 10" using Cons.prems by (auto simp: is_eol_def)
  then show ?case using Cons.IH [of False "c # w"] Cons.prems by (simp split: if_splits)
qed

lemma lines_acc_line:
  assumes "\<forall>c \<in> set l. \<not> is_eol c"
  shows "lines_acc False w (l @ nl # s) = (rev w @ l) # lines_acc False [] s"
  using lines_acc_run [OF assms, of False w "nl # s"] by (cases l) (simp_all add: is_eol_def)

definition one_line :: "string \<Rightarrow> bool" where
  "one_line l \<longleftrightarrow> (\<forall>c \<in> set l. \<not> is_eol c)"

lemma unlines_Cons: "ls \<noteq> [] \<Longrightarrow> unlines (l # ls) = l @ nl # unlines ls"
  by (simp add: unlines_def join_Cons)

lemma unlines_single: "unlines [l] = l @ [nl]"
  by (simp add: unlines_def)

lemma splitlines_unlines:
  assumes "list_all one_line ls" "ls \<noteq> []"
  shows "splitlines (unlines ls) = ls"
proof -
  have "lines_acc False [] (unlines ls) = ls"
    using assms
  proof (induction ls)
    case Nil
    then show ?case by simp
  next
    case (Cons l ls)
    then have l: "\<forall>c \<in> set l. \<not> is_eol c" by (simp add: one_line_def)
    show ?case
    proof (cases "ls = []")
      case True
      then show ?thesis using lines_acc_line [OF l, of "[]" "[]"] by (simp add: unlines_single)
    next
      case False
      then show ?thesis using lines_acc_line [OF l, of "[]"] Cons by (simp add: unlines_Cons)
    qed
  qed
  then show ?thesis by (simp add: splitlines_def)
qed

lemma lines_acc_one_line:
  "\<forall>c \<in> set w. \<not> is_eol c \<Longrightarrow> l \<in> set (lines_acc cr w s) \<Longrightarrow> one_line l"
proof (induction s arbitrary: cr w)
  case Nil
  then show ?case by (simp add: one_line_def split: if_splits)
next
  case (Cons c s)
  consider "cr \<and> code c = 10" | "\<not> (cr \<and> code c = 10)" "is_eol c" | "\<not> (cr \<and> code c = 10)" "\<not> is_eol c"
    by blast
  then show ?case
  proof cases
    case 1
    then show ?thesis using Cons.IH [of w False] Cons.prems by simp
  next
    case 2
    then have "l = rev w \<or> l \<in> set (lines_acc (code c = 13) [] s)"
      using Cons.prems(2) by (simp split: if_splits)
    then show ?thesis using Cons.IH [of "[]"] Cons.prems(1) by (auto simp: one_line_def)
  next
    case 3
    then have "l \<in> set (lines_acc False (c # w) s)" using Cons.prems(2) by (simp split: if_splits)
    then show ?thesis using 3(2) Cons.IH [of "c # w" False] Cons.prems(1) by simp
  qed
qed

lemma splitlines_one_line: "l \<in> set (splitlines s) \<Longrightarrow> one_line l"
  unfolding splitlines_def by (rule lines_acc_one_line) simp_all

lemma one_line_univ: "list_all one_line ls \<Longrightarrow> univ_nl (unlines ls) = unlines ls"
proof (rule univ_nl_id)
  assume ls: "list_all one_line ls"
  have cr: "is_eol (CHR 0x0D)" by code_simp
  have "CHR 0x0D \<notin> set (join [nl] ls)" if "list_all one_line ls" for ls
    using that cr by (induction ls rule: induct_list012) (auto simp: one_line_def)
  with ls show "CHR 0x0D \<notin> set (unlines ls)" by (simp add: unlines_def)
qed

section \<open>Table rows\<close>

text \<open>\<open>"| " + " | ".join(cells) + " |"\<close>, the way the mutators write a row.\<close>

definition row_line :: "string list \<Rightarrow> string" where
  "row_line cells = ''| '' @ join '' | '' cells @ '' |''"

text \<open>A cell as the parser leaves it: stripped, without a bar or a line end.\<close>

definition clean_cell :: "string \<Rightarrow> bool" where
  "clean_cell c \<longleftrightarrow> strip c = c \<and> CHR ''|'' \<notin> set c \<and> one_line c"

lemma split_row_join:
  assumes "cells \<noteq> []" "\<forall>c \<in> set cells. CHR ''|'' \<notin> set c"
  shows "split_on (CHR ''|'') ('' '' @ join '' | '' cells @ '' |'') =
    map (\<lambda>c. '' '' @ c @ '' '') cells @ [[]]"
  using assms
proof (induction cells)
  case Nil
  then show ?case by simp
next
  case (Cons c cells)
  have step: "split_on (CHR ''|'') ((CHR '' '' # c @ '' '') @ CHR ''|'' # s) =
      (CHR '' '' # c @ '' '') # split_on (CHR ''|'') s" for s
    by (rule split_on_append) (use Cons.prems in simp)
  show ?case
  proof (cases "cells = []")
    case True
    then show ?thesis using step [of "[]"] by simp
  next
    case False
    then have "split_on (CHR ''|'') ('' '' @ join '' | '' (c # cells) @ '' |'') =
        (CHR '' '' # c @ '' '') # split_on (CHR ''|'') ('' '' @ join '' | '' cells @ '' |'')"
      using step [of "'' '' @ join '' | '' cells @ '' |''"] by (simp add: join_Cons)
    then show ?thesis using Cons False by simp
  qed
qed

lemma strip_pad: "strip ('' '' @ c @ '' '') = strip c"
proof -
  have "dropWhile is_space (rev (dropWhile is_space (c @ '' ''))) =
      dropWhile is_space (rev (dropWhile is_space c))"
  proof (cases "\<forall>x \<in> set c. is_space x")
    case True
    then have c: "dropWhile is_space c = []" by simp
    have l: "dropWhile is_space (c @ '' '') = []" using True by (simp add: is_space_def [of "CHR '' ''"])
    show ?thesis unfolding l c ..
  next
    case False
    then show ?thesis by (auto simp: dropWhile_append is_space_def [of "CHR '' ''"])
  qed
  then show ?thesis
    by (simp add: strip_of_def lstrip_of_def rstrip_of_def is_space_def [of "CHR '' ''"])
qed

lemma table_cells_row_line:
  assumes "cells \<noteq> []" "\<forall>c \<in> set cells. clean_cell c"
  shows "table_cells (row_line cells) = cells"
proof -
  have "split_on (CHR ''|'') (row_line cells) = [] # split_on (CHR ''|'') ('' '' @ join '' | '' cells @ '' |'')"
    by (simp add: row_line_def)
  also have "\<dots> = [] # map (\<lambda>c. '' '' @ c @ '' '') cells @ [[]]"
    using split_row_join [OF assms(1)] assms(2) by (simp add: clean_cell_def)
  finally have "table_cells (row_line cells) = map strip (map (\<lambda>c. '' '' @ c @ '' '') cells)"
    by (simp add: table_cells_def)
  also have "\<dots> = map strip cells" unfolding map_map comp_def strip_pad ..
  also have "\<dots> = cells" using assms(2) by (simp add: clean_cell_def map_idI)
  finally show ?thesis .
qed

lemma strip_row_line: "strip (row_line cells) = row_line cells"
  by (rule strip_of_id) (simp add: row_line_def is_space_def)

lemma startswith_row_line: "startswith (row_line cells) ''|''"
  by (simp add: row_line_def)

lemma one_line_simps [simp]:
  "one_line []" "one_line (c # l) \<longleftrightarrow> \<not> is_eol c \<and> one_line l"
  "one_line (a @ b) \<longleftrightarrow> one_line a \<and> one_line b"
  by (auto simp: one_line_def)

lemma is_eol_bar [simp]: "\<not> is_eol (CHR '' '')" "\<not> is_eol (CHR ''|'')"
  by (simp_all add: is_eol_def)

lemma one_line_join:
  "one_line sep \<Longrightarrow> \<forall>c \<in> set cells. one_line c \<Longrightarrow> one_line (join sep cells)"
  by (induction sep cells rule: join.induct) simp_all

lemma one_line_row_line:
  assumes "\<forall>c \<in> set cells. one_line c"
  shows "one_line (row_line cells)"
  using assms by (simp add: row_line_def one_line_join)

lemma table_cells_part:
  assumes "c \<in> set (table_cells l)"
  shows "\<exists>p \<in> set (split_on (CHR ''|'') l). c = strip p"
proof -
  obtain p where p: "p \<in> set (butlast (tl (split_on (CHR ''|'') l)))" "c = strip p"
    using assms unfolding table_cells_def by auto
  have "p \<in> set (tl (split_on (CHR ''|'') l))" using in_set_butlastD [OF p(1)] .
  then have "p \<in> set (split_on (CHR ''|'') l)" by (rule list.set_sel(2) [rotated]) simp
  with p(2) show ?thesis by blast
qed

lemma table_cells_clean:
  assumes "one_line l" "c \<in> set (table_cells l)"
  shows "clean_cell c"
proof -
  obtain p where p: "p \<in> set (split_on (CHR ''|'') l)" "c = strip p"
    using table_cells_part [OF assms(2)] by (elim bexE)
  have bar: "CHR ''|'' \<notin> set p" and pl: "set p \<subseteq> set l"
    using split_on_parts [OF p(1)] by (auto simp only:)
  have cp: "set c \<subseteq> set p" unfolding p(2) by (rule set_strip_of)
  have "strip c = c" unfolding p(2) by (rule strip_of_idem)
  moreover have "CHR ''|'' \<notin> set c" using bar cp by (rule contra_subsetD [rotated])
  moreover have "one_line c" using assms(1) subset_trans [OF cp pl] unfolding one_line_def by fast
  ultimately show ?thesis unfolding clean_cell_def by (intro conjI)
qed

end
