(* ===== verification/Mutators.thy ===== *)
theory Mutators
  imports SharedFacts
begin

text \<open>
  \<open>nightclaw_engine/commands/bundle_mutators.py\<close>: writing one field of a LONGRUNNER, of a dispatch
  row, of the integrity manifest or of the lock file. A mutator returns the old value (\<open>None\<close> as in
  the code) and the workspace. \<open>workspace_root()\<close> is the root of the workspace, as for
  \<open>_shared.ROOT\<close>; standard error is not modelled.
\<close>

section \<open>LONGRUNNER fields\<close>

definition lr_sections :: "(string \<times> string) list" where
  "lr_sections = [(''phase.'', ''## Current Phase''), (''next_pass.'', ''## Next Pass''),
                  (''last_pass.'', ''## Last Pass''), (''transition_'', ''## Current Phase'')]"

definition target_section :: "string \<Rightarrow> string option" where
  "target_section field = map_option snd (find (\<lambda>(p, _). startswith field p) lr_sections)"

definition yaml_key :: "string \<Rightarrow> string" where
  "yaml_key field =
     (case find (\<lambda>p. startswith field p) [''phase.'', ''next_pass.'', ''last_pass.''] of
        None \<Rightarrow> field | Some p \<Rightarrow> drop (length p) field)"

text \<open>\<open>rf'^(\s*){re.escape(key)}\s*:\s*(.*)'\<close>.\<close>

definition key_line_rx :: "string \<Rightarrow> rx" where
  "key_line_rx key = rseq [RGrp 1 rspaces, rlit key, rspaces, rlit '':'', rspaces, RGrp 2 (RStar rdot)]"

definition render_value :: "string \<Rightarrow> string" where
  "render_value value =
     (if value = ''~'' then ''~''
      else if value = [] \<or> value = [quote, quote] then [quote, quote]
      else if list_all is_digit value then value
      else if CHR '' '' \<in> set value \<or> CHR '':'' \<in> set value \<or> startswith value ''[''
        then [quote] @ value @ [quote]
      else value)"

text \<open>The comment kept and the old value, of the text after the colon.\<close>

definition split_comment :: "string \<Rightarrow> string \<times> string" where
  "split_comment old_raw =
     (case cut_at ''  #'' old_raw of
        None \<Rightarrow> ([], strip_quotes old_raw)
      | Some (v, c) \<Rightarrow> (''  #'' @ c, strip_quotes (strip v)))"

fun mutate_lines ::
  "string option \<Rightarrow> string \<Rightarrow> string \<Rightarrow> bool \<Rightarrow> bool \<Rightarrow> string list \<Rightarrow> string list \<times> string option" where
  "mutate_lines sect key value in_sec in_yaml [] = ([], None)"
| "mutate_lines sect key value in_sec in_yaml (line # lines) =
     (let keep = (\<lambda>s y. case mutate_lines sect key value s y lines of (ls, old) \<Rightarrow> (line # ls, old));
          st = strip line
      in if (case sect of None \<Rightarrow> False | Some h \<Rightarrow> startswith st h) then keep True in_yaml
         else if in_sec \<and> startswith st ''## '' then keep False in_yaml
         else if st = ''```yaml'' then keep in_sec (in_yaml \<or> in_sec \<or> sect = None)
         else if st = ''```'' \<and> in_yaml then keep in_sec False
         else if in_yaml \<and> in_sec then
           (case rx_match (key_line_rx key) line of
              None \<Rightarrow> keep in_sec in_yaml
            | Some m \<Rightarrow>
                (case split_comment (strip (m_group_or [] 2 m)) of
                   (comment, old) \<Rightarrow>
                     ((m_group_or [] 1 m @ key @ '': '' @ render_value value @ comment) # lines, Some old)))
         else keep in_sec in_yaml)"

definition mutate_longrunner_field ::
  "string \<Rightarrow> string \<Rightarrow> string \<Rightarrow> workspace \<Rightarrow> string option \<times> workspace" where
  "mutate_longrunner_field slug field value w =
     (if \<not> is_valid_slug slug then (None, w)
      else (case read_file (project_file slug ''LONGRUNNER.md'') w of
          None \<Rightarrow> (None, w)
        | Some content \<Rightarrow>
            (case mutate_lines (target_section field) (yaml_key field) value False False (splitlines content) of
               (lines, old) \<Rightarrow>
                 (Some (case old of None \<Rightarrow> [] | Some v \<Rightarrow> v),
                  write_file (project_file slug ''LONGRUNNER.md'') (unlines lines) w))))"

section \<open>Dispatch rows\<close>

fun index_of :: "'a \<Rightarrow> 'a list \<Rightarrow> nat option" where
  "index_of x [] = None"
| "index_of x (y # ys) = (if y = x then Some 0 else map_option Suc (index_of x ys))"

text \<open>The new lines and the old value, \<open>None\<close> where no row of the slug has the column.\<close>

fun dispatch_set ::
  "string \<Rightarrow> string \<Rightarrow> string \<Rightarrow> string list option \<Rightarrow> string list \<Rightarrow> (string list \<times> string) option" where
  "dispatch_set slug field value headers [] = None"
| "dispatch_set slug field value headers (line # lines) =
     (let keep = (\<lambda>hs. map_option (\<lambda>(ls, old). (line # ls, old)) (dispatch_set slug field value hs lines));
          cells = table_cells (strip line)
      in if \<not> startswith (strip line) ''|'' then keep headers
         else (case headers of
             None \<Rightarrow> keep (Some (map header_key cells))
           | Some hs \<Rightarrow>
               if is_separator cells then keep headers
               else if length cells \<ge> length hs \<and> strip (row_slug (row_dict hs cells)) = slug then
                 (case index_of (header_key field) hs of
                    None \<Rightarrow> keep headers
                  | Some i \<Rightarrow> Some (row_line (cells[i := value]) # lines, cells ! i))
               else keep headers))"

definition mutate_dispatch_field ::
  "string \<Rightarrow> string \<Rightarrow> string \<Rightarrow> workspace \<Rightarrow> string option \<times> workspace" where
  "mutate_dispatch_field slug field value w =
     (case read_file ''ACTIVE-PROJECTS.md'' w of
        None \<Rightarrow> (None, w)
      | Some content \<Rightarrow>
          (case dispatch_set slug field value None (splitlines content) of
             None \<Rightarrow> (None, w)
           | Some (lines, old) \<Rightarrow> (Some old, write_file ''ACTIVE-PROJECTS.md'' (unlines lines) w)))"

section \<open>The integrity manifest\<close>

definition manifest_header :: "string \<Rightarrow> string" where
  "manifest_header field =
     dget_or (lower field) (lower field)
       [(''last_verified'', ''last verified''), (''verified_by'', ''verified by'')]"

fun manifest_set ::
  "string \<Rightarrow> string \<Rightarrow> string list option \<Rightarrow> string option \<Rightarrow> string list \<Rightarrow> string list \<times> string option" where
  "manifest_set target value headers old [] = ([], old)"
| "manifest_set target value headers old (line # lines) =
     (let keep = (\<lambda>hs. case manifest_set target value hs old lines of (ls, o') \<Rightarrow> (line # ls, o'));
          cells = table_cells (strip line)
      in if \<not> startswith (strip line) ''|'' then keep headers
         else (case headers of
             None \<Rightarrow> keep (Some (map (\<lambda>c. strip (lower c)) cells))
           | Some hs \<Rightarrow>
               if is_separator cells then keep headers
               else (case index_of target hs of
                   None \<Rightarrow> keep headers
                 | Some i \<Rightarrow>
                     if length cells \<ge> length hs then
                       (case manifest_set target value headers
                               (case old of None \<Rightarrow> Some (strip (cells ! i)) | Some v \<Rightarrow> Some v) lines of
                          (ls, o') \<Rightarrow> (row_line (map strip (cells[i := value])) # ls, o'))
                     else keep headers)))"

definition manifest_path :: string where "manifest_path = ''audit/INTEGRITY-MANIFEST.md''"

definition mutate_manifest_field :: "string \<Rightarrow> string \<Rightarrow> workspace \<Rightarrow> string option \<times> workspace" where
  "mutate_manifest_field field value w =
     (case read_file manifest_path w of
        None \<Rightarrow> (None, w)
      | Some content \<Rightarrow>
          (case manifest_set (manifest_header field) value None None (splitlines content) of
             (lines, old) \<Rightarrow>
               (Some (case old of None \<Rightarrow> [] | Some v \<Rightarrow> v), write_file manifest_path (unlines lines) w)))"

section \<open>The lock file\<close>

fun lock_set :: "string \<Rightarrow> string \<Rightarrow> string list \<Rightarrow> string list \<times> string option" where
  "lock_set field value [] = ([], None)"
| "lock_set field value (line # lines) =
     (case rx_match (key_line_rx field) line of
        Some m \<Rightarrow> ((m_group_or [] 1 m @ field @ '': '' @ value) # lines, Some (strip (m_group_or [] 2 m)))
      | None \<Rightarrow> (case lock_set field value lines of (ls, old) \<Rightarrow> (line # ls, old)))"

definition mutate_lock_field :: "string \<Rightarrow> string \<Rightarrow> workspace \<Rightarrow> string option \<times> workspace" where
  "mutate_lock_field field value w =
     (case read_file ''LOCK.md'' w of
        None \<Rightarrow> (None, w)
      | Some content \<Rightarrow>
          (case lock_set field value (splitlines content) of
             (lines, old) \<Rightarrow> (old, write_file ''LOCK.md'' (unlines lines) w)))"

end
