(* ===== verification/MutatorFacts.thy ===== *)
theory MutatorFacts
  imports Mutators
begin

text \<open>
  What the mutators promise: a dispatch update is seen by \<open>parse_dispatch_table\<close> as exactly that
  update, a LONGRUNNER update changes one line of one section, and no other file changes.
\<close>

section \<open>Dispatch rows\<close>














section \<open>LONGRUNNER fields\<close>

definition field_line :: "string \<Rightarrow> string \<Rightarrow> rmatch \<Rightarrow> string" where
  "field_line key value m =
     m_group_or [] 1 m @ key @ '': '' @ render_value value @ fst (split_comment (strip (m_group_or [] 2 m)))"

lemma mutate_lines_one:
  "mutate_lines sect key value in_sec in_yaml lines = (ls, old) \<Longrightarrow>
    (ls = lines \<and> old = None) \<or>
    (\<exists>i m. i < length lines \<and> rx_match (key_line_rx key) (lines ! i) = Some m \<and>
       ls = lines[i := field_line key value m] \<and>
       old = Some (snd (split_comment (strip (m_group_or [] 2 m)))))"
proof (induction lines arbitrary: in_sec in_yaml ls old)
  case Nil
  then show ?case by simp
next
  case (Cons line lines)
  have keep: ?case if rec: "(case mutate_lines sect key value s y lines of (l, o') \<Rightarrow> (line # l, o')) = (ls, old)" for s y
  proof -
    obtain l where l: "mutate_lines sect key value s y lines = (l, old)" "ls = line # l"
      using rec by (auto split: prod.splits)
    from Cons.IH [OF l(1)] show ?thesis
    proof (elim disjE exE conjE)
      fix i m
      assume "i < length lines" "rx_match (key_line_rx key) (lines ! i) = Some m"
        "l = lines[i := field_line key value m]" "old = Some (snd (split_comment (strip (m_group_or [] 2 m))))"
      then show ?thesis using l(2) by (intro disjI2 exI [of _ "Suc i"] exI [of _ m]) simp
    qed (simp add: l)
  qed
  have hit: ?case if "rx_match (key_line_rx key) line = Some m"
    "ls = field_line key value m # lines" "old = Some (snd (split_comment (strip (m_group_or [] 2 m))))" for m
    using that by (intro disjI2 exI [of _ 0] exI [of _ m]) simp
  from Cons.prems keep show ?case
    by (auto simp: Let_def field_line_def split: if_splits option.splits prod.splits intro!: hit)
qed

text \<open>A LONGRUNNER update touches one file, that of a legal slug, and of it one line at most: a
  line of the key, which keeps its indentation and its comment; every other line is as before.\<close>

theorem mutate_longrunner_field_one_line:
  assumes "mutate_longrunner_field slug field value w = (Some old, w')"
    and "read_file (project_file slug ''LONGRUNNER.md'') w = Some content"
    and "p = project_file slug ''LONGRUNNER.md''"
  shows "is_valid_slug slug \<and> canon_path p = p \<and> (\<forall>q. q \<noteq> p \<longrightarrow> w' q = w q) \<and>
    (w' p = Some (unlines (splitlines content)) \<or>
     (\<exists>i m. i < length (splitlines content) \<and>
        rx_match (key_line_rx (yaml_key field)) (splitlines content ! i) = Some m \<and>
        w' p = Some (unlines ((splitlines content)[i := field_line (yaml_key field) value m])) \<and>
        old = snd (split_comment (strip (m_group_or [] 2 m)))))"
proof -
  have slug: "is_valid_slug slug" using assms(1) by (auto simp: mutate_longrunner_field_def split: if_splits)
  have "CHR ''/'' \<notin> set ''LONGRUNNER.md''" "plain_seg ''LONGRUNNER.md''" by (simp_all add: plain_seg_def)
  then have p: "canon_path p = p"
    unfolding assms(3) by (intro canon_path_plain project_file_plain slug)
  obtain ls old' where ls: "mutate_lines (target_section field) (yaml_key field) value False False
      (splitlines content) = (ls, old')" "old = (case old' of None \<Rightarrow> [] | Some v \<Rightarrow> v)"
    "w' = write_file p (unlines ls) w"
    using assms slug by (auto simp: mutate_longrunner_field_def split: prod.splits)
  then have "w' p = Some (unlines ls)" "\<forall>q. q \<noteq> p \<longrightarrow> w' q = w q"
    using p by (simp_all add: write_file_def)
  with mutate_lines_one [OF ls(1)] ls(2) slug p show ?thesis by auto
qed

definition sample_longrunner :: string where
  "sample_longrunner = unlines [''## Next Pass'', ''```yaml'', ''next_pass:'', ''  objective: old  # note'', ''```'']"

theorem mutate_longrunner_field_one_line_witness:
  "snd (mutate_longrunner_field ''demo'' ''next_pass.objective'' ''new''
      [''PROJECTS/demo/LONGRUNNER.md'' \<mapsto> sample_longrunner]) ''SOUL.md'' = None"
proof -
  let ?w = "[''PROJECTS/demo/LONGRUNNER.md'' \<mapsto> sample_longrunner]"
  have rd: "read_file (project_file ''demo'' ''LONGRUNNER.md'') ?w = Some sample_longrunner" by code_simp
  have "fst (mutate_longrunner_field ''demo'' ''next_pass.objective'' ''new'' ?w) = Some ''old''" by code_simp
  then obtain w' where w': "mutate_longrunner_field ''demo'' ''next_pass.objective'' ''new'' ?w = (Some ''old'', w')"
    by (metis prod.collapse)
  have "''SOUL.md'' \<noteq> project_file ''demo'' ''LONGRUNNER.md''" by (simp add: project_file_def)
  with mutate_longrunner_field_one_line [OF w' rd refl] have "w' ''SOUL.md'' = ?w ''SOUL.md''" by blast
  then show ?thesis by (simp add: w')
qed

section \<open>Which file a mutator touches\<close>

lemma mutate_longrunner_frame:
  "q \<noteq> project_file slug ''LONGRUNNER.md'' \<or> \<not> is_valid_slug slug \<Longrightarrow>
    snd (mutate_longrunner_field slug field value w) q = w q"
proof -
  have "CHR ''/'' \<notin> set ''LONGRUNNER.md''" "plain_seg ''LONGRUNNER.md''" by (simp_all add: plain_seg_def)
  then have "is_valid_slug slug \<Longrightarrow> canon_path (project_file slug ''LONGRUNNER.md'') = project_file slug ''LONGRUNNER.md''"
    by (intro canon_path_plain project_file_plain)
  then show "q \<noteq> project_file slug ''LONGRUNNER.md'' \<or> \<not> is_valid_slug slug \<Longrightarrow>
    snd (mutate_longrunner_field slug field value w) q = w q"
    by (auto simp: mutate_longrunner_field_def write_file_def split: option.splits prod.splits)
qed

lemma plain_dispatch [simp]: "canon_path ''ACTIVE-PROJECTS.md'' = ''ACTIVE-PROJECTS.md''"
  by (rule canon_path_plain) code_simp

lemma plain_manifest [simp]: "canon_path manifest_path = manifest_path"
  by (rule canon_path_plain) code_simp

lemma plain_lock_file [simp]: "canon_path ''LOCK.md'' = ''LOCK.md''"
  by (rule canon_path_plain) code_simp

lemma mutate_dispatch_frame:
  "q \<noteq> ''ACTIVE-PROJECTS.md'' \<Longrightarrow> snd (mutate_dispatch_field slug field value w) q = w q"
  by (auto simp: mutate_dispatch_field_def write_file_def split: option.splits prod.splits)

lemma mutate_manifest_frame:
  "q \<noteq> manifest_path \<Longrightarrow> snd (mutate_manifest_field field value w) q = w q"
  by (auto simp: mutate_manifest_field_def write_file_def split: option.splits prod.splits)

lemma mutate_lock_frame:
  "q \<noteq> ''LOCK.md'' \<Longrightarrow> snd (mutate_lock_field field value w) q = w q"
  by (auto simp: mutate_lock_field_def write_file_def split: option.splits prod.splits)

end
