(* ===== verification/Bundle.thy ===== *)
theory Bundle
  imports Append MutatorFacts
begin

text \<open>
  \<open>nightclaw_engine/commands/bundle.py\<close>: the generic transition executor. The schema model is
  loaded (the deprecated regex parser over REGISTRY.md, reached only without a model, is in
  \<open>Legacy\<close>), the arguments are the \<open>key=value\<close> words of the command line, \<open>now\<close> is the clock
  reading of the command. A command that raises midway keeps the writes it has made.
\<close>

section \<open>Bundle specs\<close>

record run_spec =
  rs_args :: "string list"
  rs_validates :: "string list"
  rs_writes :: "(pyval \<times> fields) list"     \<comment> \<open>target and fields; \<open>write_targets\<close> is its first column\<close>
  rs_appends :: fields                       \<comment> \<open>file and line template\<close>
  rs_notify :: "(pyval \<times> pyval) list option"
  rs_returns :: string

text \<open>\<open>{str(k): str(v) for k, v in (fields or {}).items()}\<close>.\<close>

definition str_fields :: "pyval \<Rightarrow> py_exc + fields" where
  "str_fields v =
     (if \<not> py_truth v then Inr []
      else (case v of
          VDict kvs \<Rightarrow> Inr (foldl (\<lambda>d (k, x). dput (py_str k) (py_str x) d) [] kvs)
        | _ \<Rightarrow> Inl AttributeError))"

definition spec_of_bundle :: "bundle_spec \<Rightarrow> py_exc + run_spec" where
  "spec_of_bundle b =
     rbind (rmap (\<lambda>(t, fs). rbind (str_fields fs) (\<lambda>d. Inr (t, d))) (bs_writes b)) (\<lambda>writes.
       Inr \<lparr>rs_args = bs_args b, rs_validates = bs_validates b, rs_writes = writes,
            rs_appends = map (\<lambda>(f, l). (py_str f, py_str l)) (bs_append b),
            rs_notify = bs_notify b,
            rs_returns = (case split_ws (strip (bs_returns b)) of [] \<Rightarrow> ''SUCCESS'' | t # _ \<Rightarrow> t)\<rparr>)"

definition spec_from_model :: "schema_model \<Rightarrow> string \<Rightarrow> py_exc + run_spec option" where
  "spec_from_model model name =
     (case model_bundle model name of
        None \<Rightarrow> Inr None
      | Some b \<Rightarrow> rbind (spec_of_bundle b) (\<lambda>s. Inr (Some s)))"

section \<open>Expressions\<close>

definition ref_rx :: rx where
  "ref_rx = rseq [rlit ''{'', RGrp 1 (RAlt (RSeq (rlit ''NOW+'') rwords) rwords), rlit ''}'', REol]"

definition embedded_rx :: rx where
  "embedded_rx = rseq [rlit ''{'', RGrp 1 rwords, rlit ''}'']"

text \<open>The day count of \<open>{NOW+field}\<close>: the LONGRUNNER field, 3 where it cannot be read.\<close>

definition timeout_days :: "fields \<Rightarrow> string \<Rightarrow> workspace \<Rightarrow> int" where
  "timeout_days args field w =
     (let slug = dget_or [] ''slug'' args;
          lr = (if slug = [] then None else parse_longrunner slug w);
          raw = (case lr of None \<Rightarrow> ''3'' | Some fs \<Rightarrow> dget_or ''3'' field fs)
      in case py_int (strip raw) of None \<Rightarrow> 3 | Some n \<Rightarrow> n)"

definition resolve_ref :: "pydt \<Rightarrow> fields \<Rightarrow> workspace \<Rightarrow> string \<Rightarrow> py_exc + string" where
  "resolve_ref now args w key =
     (if key = ''NOW'' then Inr (fmt_z now)
      else if key = ''TODAY'' then Inr (fmt_day now)
      else if startswith key ''NOW+'' then
        rbind (add_days (timeout_days args (drop 4 key) w) now) (\<lambda>t. Inr (fmt_z t))
      else Inr (dget_or (''UNRESOLVED:'' @ key) key args))"

definition replace_ref :: "pydt \<Rightarrow> fields \<Rightarrow> rmatch \<Rightarrow> string" where
  "replace_ref now args m =
     (let key = m_group_or [] 1 m in
      if key = ''NOW'' then fmt_z now
      else if key = ''TODAY'' then fmt_day now
      else dget_or (''UNRESOLVED:'' @ key) key args)"

definition resolve_expression ::
  "pydt \<Rightarrow> fields \<Rightarrow> workspace \<Rightarrow> bool \<Rightarrow> pyval \<Rightarrow> py_exc + string" where
  "resolve_expression now args w template v =
     (if v = VNone then Inr []
      else
        (let expr = strip (py_str v) in
         if expr = ''~'' then Inr ''~''
         else (case rx_match ref_rx expr of
             Some m \<Rightarrow> resolve_ref now args w (m_group_or [] 1 m)
           | None \<Rightarrow>
               if template then Inr (rx_sub embedded_rx (replace_ref now args) expr)
               else Inr expr)))"

section \<open>Guards\<close>

definition guard_field_rx :: "string \<Rightarrow> rx" where
  "guard_field_rx kind =
     rseq [rlit (kind @ '':''), ropt (rlit ''{''), rwords, ropt (rlit ''}''), rlit ''.'']"

definition guard_field :: "string \<Rightarrow> string \<Rightarrow> string" where
  "guard_field kind ref = rx_sub (guard_field_rx kind) (\<lambda>_. []) ref"

text \<open>The value a guard tests; \<open>None\<close> where the LONGRUNNER is missing.\<close>

definition guard_value :: "fields \<Rightarrow> workspace \<Rightarrow> string \<Rightarrow> string option" where
  "guard_value args w ref =
     (let slug = dget_or [] ''slug'' args in
      if contains ''LONGRUNNER'' ref then
        map_option (\<lambda>lr. dget_or [] (guard_field ''LONGRUNNER'' ref) lr) (parse_longrunner slug w)
      else if contains ''DISPATCH'' ref then
        Some (case find (\<lambda>row. strip (row_slug row) = slug) (parse_dispatch_table w) of
                None \<Rightarrow> []
              | Some row \<Rightarrow> dget_or [] (guard_field ''DISPATCH'' ref) row)
      else Some (dget_or [] ref args))"

definition guard_holds :: "string \<Rightarrow> string option \<Rightarrow> string \<Rightarrow> bool" where
  "guard_holds condition expected actual =
     (let exp = (case expected of None \<Rightarrow> ''None'' | Some e \<Rightarrow> e) in
      if condition = ''NOT_EMPTY'' then actual \<notin> set (nulls @ [[quote, quote]])
      else if condition \<in> {''=='', ''EQUALS''} then upper actual = upper exp
      else if condition = ''IN''
        then upper actual \<in> set (map (\<lambda>v. upper (strip v)) (split_on (CHR '','') exp))
      else True)"

text \<open>The verdict and what is printed.\<close>

definition evaluate_guard :: "fields \<Rightarrow> workspace \<Rightarrow> string \<Rightarrow> bool \<times> string list" where
  "evaluate_guard args w guard =
     (case split_ws guard of
        ref # condition # rest \<Rightarrow>
          (case guard_value args w ref of
             None \<Rightarrow> (False, [''ERROR:LONGRUNNER_NOT_FOUND:'' @ dget_or [] ''slug'' args])
           | Some v \<Rightarrow>
               (guard_holds condition (case rest of [] \<Rightarrow> None | e # _ \<Rightarrow> Some e) (strip v), []))
      | _ \<Rightarrow> (True, []))"

text \<open>The loop over the guards, up to the first that fails: what it printed, and that guard.\<close>

fun run_guards :: "fields \<Rightarrow> workspace \<Rightarrow> string list \<Rightarrow> string list \<times> string option" where
  "run_guards args w [] = ([], None)"
| "run_guards args w (g # gs) =
     (case evaluate_guard args w g of
        (ok, out) \<Rightarrow>
          if \<not> ok then (out, Some g)
          else (case run_guards args w gs of (out', f) \<Rightarrow> (out @ out', f)))"

section \<open>Writes\<close>

definition apply_mutate ::
  "fields \<Rightarrow> string \<Rightarrow> string \<Rightarrow> string \<Rightarrow> workspace \<Rightarrow> string option \<times> workspace" where
  "apply_mutate args target field value w =
     (let slug = dget_or [] ''slug'' args in
      if contains ''LONGRUNNER'' target then mutate_longrunner_field slug field value w
      else if contains ''DISPATCH'' target then mutate_dispatch_field slug field value w
      else if contains ''LOCK'' target then mutate_lock_field field value w
      else if contains ''MANIFEST'' target then mutate_manifest_field field value w
      else (None, w))"

record change =
  ch_target :: string
  ch_field :: string
  ch_old :: string
  ch_new :: string

text \<open>The changes recorded before the loop ended, the exception that ended it, the workspace.\<close>

fun apply_writes ::
  "pydt \<Rightarrow> fields \<Rightarrow> (string \<times> string \<times> string) list \<Rightarrow> workspace \<Rightarrow> (py_exc + change list) \<times> workspace" where
  "apply_writes now args [] w = (Inr [], w)"
| "apply_writes now args ((target, field, expr) # rest) w =
     (case resolve_expression now args w False (VStr expr) of
        Inl e \<Rightarrow> (Inl e, w)
      | Inr resolved \<Rightarrow>
          (case apply_mutate args target field resolved w of
             (old, w') \<Rightarrow>
               (case apply_writes now args rest w' of
                  (r, w'') \<Rightarrow>
                    (rbind r (\<lambda>cs. Inr
                       (if old \<noteq> None \<and> old \<noteq> Some resolved
                        then \<lparr>ch_target = target, ch_field = field, ch_old = the old, ch_new = resolved\<rparr> # cs
                        else cs)), w''))))"

definition write_list :: "(string \<times> fields) list \<Rightarrow> (string \<times> string \<times> string) list" where
  "write_list groups = concat (map (\<lambda>(t, fs). map (\<lambda>(f, e). (t, f, e)) fs) groups)"

section \<open>Protection\<close>

text \<open>\<open>target.split(":", 1)[-1] if ":" in target else target\<close>.\<close>

definition rel_of_target :: "string \<Rightarrow> string" where
  "rel_of_target t = (case cut_at '':'' t of None \<Rightarrow> t | Some (_, rest) \<Rightarrow> rest)"

fun as_text :: "pyval \<Rightarrow> py_exc + string" where
  "as_text (VStr s) = Inr s"
| "as_text _ = Inl TypeError"

text \<open>\<open>any("{slug}" in ... for t in targets)\<close>, lazily: a target that is no string raises.\<close>

fun needs_slug :: "pyval list \<Rightarrow> py_exc + bool" where
  "needs_slug [] = Inr False"
| "needs_slug (t # ts) =
     rbind (as_text t) (\<lambda>s. if contains ''{slug}'' (rel_of_target s) then Inr True else needs_slug ts)"

definition write_blocked :: "schema_model \<Rightarrow> string \<Rightarrow> bool" where
  "write_blocked model rel \<longleftrightarrow>
     is_protected model rel \<or> list_ex (\<lambda>pp. rel = pp \<or> endswith rel pp) protected_paths"

definition target_rel :: "fields \<Rightarrow> string \<Rightarrow> string" where
  "target_rel args t = replace_str ''{slug}'' (dget_or [] ''slug'' args) (rel_of_target t)"

text \<open>The first blocked target, if any.\<close>

fun blocked_target :: "schema_model \<Rightarrow> fields \<Rightarrow> pyval list \<Rightarrow> py_exc + string option" where
  "blocked_target model args [] = Inr None"
| "blocked_target model args (t # ts) =
     rbind (as_text t) (\<lambda>s.
       if write_blocked model (target_rel args s) then Inr (Some (target_rel args s))
       else blocked_target model args ts)"

section \<open>Audit rows\<close>

definition change_log :: string where "change_log = ''audit/CHANGE-LOG.md''"

definition row_tail :: "pydt \<Rightarrow> string \<Rightarrow> string \<Rightarrow> string" where
  "row_tail now run_id name =
     ''|worker|'' @ run_id @ ''|'' @ fmt_z now @ ''|'' @ fmt_z now @ ''|bundle-'' @ name @ ''|BUNDLE:'' @ name"

definition cascade_rows :: "schema_model \<Rightarrow> pydt \<Rightarrow> string \<Rightarrow> fields \<Rightarrow> change list \<Rightarrow> string list" where
  "cascade_rows model now name args changes =
     (let sources = sort (remdups (map (\<lambda>c. replace_str ''{slug}'' (dget_or [] ''slug'' args) (ch_target c)) changes))
      in concat (map (\<lambda>src. map (\<lambda>e. ''FILE:'' @ src @ ''#CASCADE_CHECK|'' @ e_type e @ ''|'' @ e_target e @
                                   row_tail now (dget_or ''UNKNOWN'' ''run_id'' args) name)
                       (cascade_for model src)) sources))"

definition change_path :: "fields \<Rightarrow> change \<Rightarrow> string" where
  "change_path args c =
     (let slug = dget_or [] ''slug'' args; t = ch_target c; f = ch_field c in
      if contains ''LONGRUNNER'' t then ''FILE:PROJECTS/'' @ slug @ ''/LONGRUNNER.md#'' @ f
      else if contains ''DISPATCH'' t then ''FILE:ACTIVE-PROJECTS.md#'' @ slug @ ''.'' @ f
      else if contains ''LOCK'' t then ''FILE:LOCK.md#'' @ f
      else ''FILE:'' @ t @ ''#'' @ f)"

definition change_rows :: "pydt \<Rightarrow> string \<Rightarrow> fields \<Rightarrow> change list \<Rightarrow> string list" where
  "change_rows now name args changes =
     map (\<lambda>c. change_path args c @ ''|'' @ ch_old c @ ''|'' @ ch_new c @
              row_tail now (dget_or ''UNKNOWN'' ''run_id'' args) name)
       (filter (\<lambda>c. \<not> contains ''MANIFEST'' (ch_target c)) changes)"

section \<open>Appends and notification\<close>

fun run_appends ::
  "schema_model \<Rightarrow> pydt \<Rightarrow> fields \<Rightarrow> (string \<times> string) list \<Rightarrow> workspace \<Rightarrow> (py_exc + unit) \<times> workspace" where
  "run_appends model now args [] w = (Inr (), w)"
| "run_appends model now args ((file, line) # rest) w =
     (case rbind (resolve_expression now args w True (VStr file))
             (\<lambda>f. rbind (resolve_expression now args w True (VStr line)) (\<lambda>l. Inr (f, l))) of
        Inl e \<Rightarrow> (Inl e, w)
      | Inr (f, l) \<Rightarrow> run_appends model now args rest (do_append (Some model) f l w))"

definition notify_line :: "pydt \<Rightarrow> fields \<Rightarrow> workspace \<Rightarrow> (pyval \<times> pyval) list \<Rightarrow> py_exc + string" where
  "notify_line now args w notify =
     (let get = (\<lambda>k d. resolve_expression now args w True (vget_or (VStr d) k (VDict notify))) in
      rbind (get ''priority'' ''MEDIUM'') (\<lambda>priority.
      rbind (get ''action_text'' []) (\<lambda>action.
      rbind (get ''context'' []) (\<lambda>ctx.
      rbind (get ''status'' ''ESCALATION'') (\<lambda>status.
        Inr (fmt_z now @ '' | Priority: '' @ priority @ '' | Project: '' @ dget_or ''system'' ''slug'' args @
             '' | Status: '' @ status @
             (if ctx = [] then [] else nl # ctx) @
             (if action = [] then [] else nl # ''Action required: '' @ action)))))))"

section \<open>\<open>bundle-exec\<close>\<close>

text \<open>Past the checks: mutations, audit rows, appends, notification.\<close>

definition bundle_effects ::
  "schema_model \<Rightarrow> pydt \<Rightarrow> string \<Rightarrow> fields \<Rightarrow> run_spec \<Rightarrow> (string \<times> fields) list \<Rightarrow> workspace \<Rightarrow>
   outcome \<times> workspace" where
  "bundle_effects model now name args spec groups w =
     (case apply_writes now args (write_list groups) w of
        (Inl e, w1) \<Rightarrow> (Raise e [], w1)
      | (Inr changes, w1) \<Rightarrow>
          (let w2 = fold (do_append (Some model) change_log)
                      (cascade_rows model now name args changes @ change_rows now name args changes) w1
           in case run_appends model now args (rs_appends spec) w2 of
               (Inl e, w3) \<Rightarrow> (Raise e [], w3)
             | (Inr _, w3) \<Rightarrow>
                 (let done = Exit 0 [''RETURNS:'' @ rs_returns spec,
                        ''BUNDLE:'' @ name @ '' completed. '' @ nat_str (length changes) @ '' field(s) changed.'']
                  in case rs_notify spec of
                      None \<Rightarrow> (done, w3)
                    | Some notify \<Rightarrow>
                        if notify = [] then (done, w3)
                        else (case notify_line now args w3 notify of
                            Inl e \<Rightarrow> (Raise e [], w3)
                          | Inr line \<Rightarrow> (done, do_append (Some model) ''NOTIFICATIONS.md'' line w3)))))"

definition bundle_run ::
  "schema_model \<Rightarrow> pydt \<Rightarrow> string \<Rightarrow> fields \<Rightarrow> run_spec \<Rightarrow> workspace \<Rightarrow> outcome \<times> workspace" where
  "bundle_run model now name args spec w =
     (let targets = map fst (rs_writes spec) in
      case find (\<lambda>a. map_of args a = None) (rs_args spec) of
        Some a \<Rightarrow> (Exit 1 [''ERROR:MISSING_ARG:'' @ a @ '' for BUNDLE:'' @ name], w)
      | None \<Rightarrow>
          (case needs_slug targets of
             Inl e \<Rightarrow> (Raise e [], w)
           | Inr ns \<Rightarrow>
               if ns \<and> \<not> is_valid_slug (dget_or [] ''slug'' args) then
                 (Exit 1 [''ERROR:INVALID_SLUG:'' @ str_repr (dget_or [] ''slug'' args) @
                          '' for BUNDLE:'' @ name], w)
               else (case blocked_target model args targets of
                   Inl e \<Rightarrow> (Raise e [], w)
                 | Inr (Some rel) \<Rightarrow> (Exit 1 [''ERROR:PROTECTED_WRITE_BLOCKED:'' @ rel], w)
                 | Inr None \<Rightarrow>
                     (case run_guards args w (rs_validates spec) of
                        (out, Some g) \<Rightarrow> (Exit 1 (out @ [''ERROR:GUARD_FAILED:'' @ g]), w)
                      | (out, None) \<Rightarrow>
                          bundle_effects model now name args spec
                            (map (\<lambda>(t, fs). (py_str t, fs)) (rs_writes spec)) w))))"

definition bundle_exec ::
  "schema_model \<Rightarrow> pydt \<Rightarrow> string \<Rightarrow> fields \<Rightarrow> workspace \<Rightarrow> outcome \<times> workspace" where
  "bundle_exec model now name args w =
     (case spec_from_model model name of
        Inl e \<Rightarrow> (Raise e [], w)
      | Inr None \<Rightarrow> (Exit 1 [''ERROR:BUNDLE_NOT_FOUND:'' @ name], w)
      | Inr (Some spec) \<Rightarrow> bundle_run model now name args spec w)"

text \<open>The words of the command line after the bundle name; \<open>None\<close> for a word without \<open>=\<close>.\<close>

definition parse_args :: "string list \<Rightarrow> fields option" where
  "parse_args words =
     foldl (\<lambda>acc w. case acc of None \<Rightarrow> None
              | Some d \<Rightarrow> (case cut_at ''='' w of None \<Rightarrow> None | Some (k, v) \<Rightarrow> Some (dput k v d)))
       (Some []) words"

definition help_flags :: "string list" where "help_flags = [''--help'', ''-h'']"

definition usage_lines :: "schema_model \<Rightarrow> string list" where
  "usage_lines model =
     (let names = sort (map bs_name (sm_bundles model)) in
      [''Usage: bundle-exec <bundle_name> [key=value ...] [--stdin] [--file=PATH]'',
       ''       bundle-exec <bundle_name> --help      # show that bundle'' @ [apos] @ ''s args/writes'',
       ''       bundle-exec --help                    # this message + list bundles''] @
      (if names = [] then [] else [[], ''Available bundles:''] @ map (\<lambda>n. ''  - '' @ n) names))"

text \<open>The spec has no key \<open>guards\<close> and no key \<open>append_targets\<close>, so only arguments and write targets
  are shown.\<close>

definition bundle_help :: "string \<Rightarrow> run_spec \<Rightarrow> string list" where
  "bundle_help name spec =
     [''Bundle: '' @ name,
      ''  args:    '' @ (if rs_args spec = [] then ''(none)'' else join '', '' (rs_args spec))] @
     (if rs_writes spec = [] then []
      else ''  writes:'' # map (\<lambda>(t, _). ''    - '' @ py_str t) (rs_writes spec))"

text \<open>\<open>argv\<close> is \<open>sys.argv[2:]\<close>; \<open>external\<close> is the JSON object of strings read from standard input or
  from the file where \<open>--stdin\<close> or \<open>--file=\<close> is given.\<close>

definition cmd_bundle_exec ::
  "schema_model \<Rightarrow> pydt \<Rightarrow> fields \<Rightarrow> string list \<Rightarrow> workspace \<Rightarrow> outcome \<times> workspace" where
  "cmd_bundle_exec model now external argv w =
     (case argv of
        [] \<Rightarrow> (Exit 2 (usage_lines model), w)
      | name # words \<Rightarrow>
          if name \<in> set help_flags then (Exit 0 (usage_lines model), w)
          else if words \<noteq> [] \<and> hd words \<in> set help_flags then
            (case spec_from_model model name of
               Inl e \<Rightarrow> (Raise e [], w)
             | Inr None \<Rightarrow> (Exit 1 [''ERROR:BUNDLE_NOT_FOUND:'' @ name], w)
             | Inr (Some spec) \<Rightarrow> (Exit 0 (bundle_help name spec), w))
          else if ''--stdin'' \<in> set argv \<or> list_ex (\<lambda>a. startswith a ''--file='') argv
            then bundle_exec model now name external w
          else (case parse_args words of
             None \<Rightarrow> (Exit 2 [], w)
           | Some args \<Rightarrow> bundle_exec model now name args w))"

section \<open>\<open>validate-bundles\<close>\<close>

definition word_refs :: "string \<Rightarrow> string list" where
  "word_refs s = map (m_group_or [] 1) (rx_finditer embedded_rx s)"

definition undeclared :: "string list \<Rightarrow> string \<Rightarrow> bool" where
  "undeclared declared ref \<longleftrightarrow>
     ref \<notin> set declared \<and> ref \<notin> {''NOW'', ''TODAY''} \<and> \<not> startswith ref ''NOW+''"

definition guard_errors :: "string \<Rightarrow> run_spec \<Rightarrow> string list" where
  "guard_errors name spec =
     concat (map (\<lambda>g. case split_ws g of
          _ # c # _ \<Rightarrow>
            if c \<notin> {''NOT_EMPTY'', ''EQUALS'', ''=='', ''IN''}
            then [''BUNDLE:'' @ name @ '' '' @ em_dash @ '' validates predicate has unknown condition: '' @
                  str_repr c @ '' in '' @ str_repr g]
            else []
        | _ \<Rightarrow> []) (rs_validates spec))"

definition ref_errors :: "string \<Rightarrow> run_spec \<Rightarrow> string list" where
  "ref_errors name spec =
     concat (map (\<lambda>(f, e). map (\<lambda>r. ''BUNDLE:'' @ name @ '' '' @ em_dash @
             '' WRITES references undeclared arg {'' @ r @ ''} in '' @ f)
          (filter (undeclared (rs_args spec)) (word_refs e)))
        (concat (map snd (rs_writes spec)))) @
     concat (map (\<lambda>(f, l). map (\<lambda>r. ''BUNDLE:'' @ name @ '' '' @ em_dash @
             '' APPEND references undeclared arg {'' @ r @ ''}'')
          (filter (undeclared (rs_args spec)) (word_refs l)))
        (rs_appends spec))"

definition protect_errors :: "string \<Rightarrow> string list \<Rightarrow> string list" where
  "protect_errors name targets =
     concat (map (\<lambda>t. map (\<lambda>_. ''BUNDLE:'' @ name @ '' '' @ em_dash @ '' writes to PROTECTED path: '' @ t)
          (filter (\<lambda>pp. contains pp t) protected_paths)) targets)"

text \<open>The errors of one bundle name, in the order they are found. The name is looked up again, so
  of two bundles with one name the first is checked twice.\<close>

definition errors_of_name :: "schema_model \<Rightarrow> string \<Rightarrow> py_exc + string list" where
  "errors_of_name model name =
     rbind (spec_from_model model name) (\<lambda>found. case found of
         None \<Rightarrow> Inr [''BUNDLE:'' @ name @ '' '' @ em_dash @ '' failed to parse'']
       | Some spec \<Rightarrow>
           rbind (rmap as_text (map fst (rs_writes spec))) (\<lambda>targets.
             Inr (protect_errors name targets @ guard_errors name spec @ ref_errors name spec)))"

definition bundle_errors :: "schema_model \<Rightarrow> py_exc + string list" where
  "bundle_errors model =
     rbind (rmap (errors_of_name model) (map bs_name (sm_bundles model))) (\<lambda>ess. Inr (concat ess))"

text \<open>The verdict; the progress line of each bundle in order, which prints a Python set, is left
  out.\<close>

definition cmd_validate_bundles :: "schema_model option \<Rightarrow> outcome" where
  "cmd_validate_bundles model =
     (case model of
        None \<Rightarrow> Exit 1 [''ERROR: cannot load schema model'']
      | Some m \<Rightarrow>
          (case bundle_errors m of
             Inl e \<Rightarrow> Raise e []
           | Inr es \<Rightarrow>
               if es \<noteq> [] then
                 Exit 1 (map (\<lambda>e. ''ERROR: '' @ e) es @
                         [[], ''RESULT:FAIL ('' @ nat_str (length es) @ '' errors)''])
               else Exit 0 [[], ''RESULT:PASS ('' @ nat_str (length (sm_bundles m)) @ '' bundles validated)'']))"

end
