(* ===== verification/BundleFacts.thy ===== *)
theory BundleFacts
  imports Bundle LockSession
begin

text \<open>
  What the bundle executor promises: a rejected bundle changes nothing, an executed one changes the
  files of its four mutators and only appends elsewhere, and which checks do not hold.
\<close>

section \<open>What a bundle can touch\<close>

definition mutable_files :: "fields \<Rightarrow> string set" where
  "mutable_files args =
     {''LOCK.md'', ''ACTIVE-PROJECTS.md'', manifest_path} \<union>
     (if is_valid_slug (dget_or [] ''slug'' args)
      then {project_file (dget_or [] ''slug'' args) ''LONGRUNNER.md''} else {})"

text \<open>Outside the mutable files \<open>F\<close>: only appends, and only to allowed targets.\<close>

definition log_step :: "string set \<Rightarrow> schema_model \<Rightarrow> workspace \<Rightarrow> workspace \<Rightarrow> bool" where
  "log_step F model w w' \<longleftrightarrow>
     (\<forall>q. q \<notin> F \<longrightarrow> (\<forall>t. w q = Some t \<longrightarrow> (\<exists>u. w' q = Some (t @ u))) \<and>
        (w' q \<noteq> w q \<longrightarrow> (\<exists>rel. is_allowed_append_target (Some model) rel \<and> q = canon_path rel)))"

lemma log_step_refl [simp]: "log_step F model w w"
  by (simp add: log_step_def)

lemma log_step_trans: "log_step F model u v \<Longrightarrow> log_step F model v w \<Longrightarrow> log_step F model u w"
  unfolding log_step_def by (metis append_assoc)

lemma log_step_frame: "(\<And>q. q \<notin> F \<Longrightarrow> w' q = w q) \<Longrightarrow> log_step F model w w'"
  by (simp add: log_step_def)

lemma log_step_do_append: "log_step F model w (do_append (Some model) rel line w)"
proof -
  have "grows w (do_append (Some model) rel line w)"
    using al.growing [of w "Some model" "Bundle rel line"] by (simp add: run_append_def)
  moreover have "do_append (Some model) rel line w q \<noteq> w q \<Longrightarrow>
      is_allowed_append_target (Some model) rel \<and> q = canon_path rel" for q
    by (auto simp: do_append_def append_file_def split: if_splits)
  ultimately show ?thesis unfolding log_step_def grows_def by blast
qed

lemma log_step_do_appends: "log_step F model w (fold (do_append (Some model) rel) lines w)"
  by (induction lines arbitrary: w) (auto intro: log_step_trans log_step_do_append)

lemma log_step_apply_mutate:
  "log_step (mutable_files args) model w (snd (apply_mutate args target field value w))"
  by (rule log_step_frame)
    (auto simp: mutable_files_def apply_mutate_def Let_def mutate_longrunner_frame mutate_dispatch_frame
      mutate_lock_frame mutate_manifest_frame split: if_splits)

lemma log_step_apply_writes:
  "apply_writes now args ws w = (r, w') \<Longrightarrow> log_step (mutable_files args) model w w'"
proof (induction now args ws w arbitrary: r w' rule: apply_writes.induct)
  case (1 now args w)
  then show ?case by simp
next
  case (2 now args target field expr rest w)
  show ?case
  proof (cases "resolve_expression now args w False (VStr expr)")
    case (Inl e)
    then show ?thesis using 2(2) by simp
  next
    case (Inr resolved)
    obtain old w1 where m: "apply_mutate args target field resolved w = (old, w1)" by force
    obtain r2 w2 where rec: "apply_writes now args rest w1 = (r2, w2)" by force
    have "w2 = w'" using 2(2) Inr m rec by simp
    moreover have "log_step (mutable_files args) model w w1"
      using log_step_apply_mutate [of args model w target field resolved] m by simp
    ultimately show ?thesis using 2(1) [OF Inr m [symmetric] rec] log_step_trans by blast
  qed
qed

lemma log_step_run_appends: "run_appends model now args xs w = (r, w') \<Longrightarrow> log_step F model w w'"
proof (induction model now args xs w arbitrary: r w' rule: run_appends.induct)
  case (1 model now args w)
  then show ?case by simp
next
  case (2 model now args f0 line rest w)
  show ?case
  proof (cases "rbind (resolve_expression now args w True (VStr f0))
             (\<lambda>f. rbind (resolve_expression now args w True (VStr line)) (\<lambda>l. Inr (f, l)))")
    case (Inl e)
    then show ?thesis using 2(2) by simp
  next
    case (Inr fl)
    obtain f l where fl: "fl = (f, l)" by force
    have rec: "run_appends model now args rest (do_append (Some model) f l w) = (r, w')"
      using 2(2) Inr fl by simp
    show ?thesis
      using log_step_trans [OF log_step_do_append 2(1) [OF Inr fl [symmetric] rec]] .
  qed
qed

lemma log_step_effects:
  assumes "bundle_effects model now name args spec groups w = (oc, w')"
  shows "log_step (mutable_files args) model w w'"
proof -
  let ?F = "mutable_files args"
  obtain r w1 where w1: "apply_writes now args (write_list groups) w = (r, w1)" by force
  have s1: "log_step ?F model w w1" by (rule log_step_apply_writes [OF w1])
  show ?thesis
  proof (cases r)
    case (Inl e)
    then show ?thesis using assms w1 s1 by (simp add: bundle_effects_def)
  next
    case (Inr changes)
    define w2 where "w2 = fold (do_append (Some model) change_log)
        (cascade_rows model now name args changes @ change_rows now name args changes) w1"
    obtain r3 w3 where w3: "run_appends model now args (rs_appends spec) w2 = (r3, w3)" by force
    have "log_step ?F model w1 w2" unfolding w2_def by (rule log_step_do_appends)
    then have s3: "log_step ?F model w w3"
      using log_step_trans [OF s1] log_step_trans log_step_run_appends [OF w3] by blast
    have "w' = w3 \<or> (\<exists>line. w' = do_append (Some model) ''NOTIFICATIONS.md'' line w3)"
      using assms w1 Inr w3
      by (auto simp: bundle_effects_def Let_def w2_def [symmetric] simp del: fold_append
          split: sum.splits option.splits if_splits)
    then show ?thesis using s3 log_step_trans [OF s3 log_step_do_append] by blast
  qed
qed

lemma bundle_exec_cases:
  assumes "bundle_exec model now name args w = (oc, w')"
  shows "(w' = w \<and> (\<forall>ls. oc \<noteq> Exit 0 ls)) \<or>
    (\<exists>spec groups. bundle_effects model now name args spec groups w = (oc, w'))"
  using assms
  by (auto simp: bundle_exec_def bundle_run_def Let_def split: sum.splits option.splits if_splits prod.splits)

text \<open>C3. Confinement. Whatever the bundle, its arguments and the schema: outside the lock, the
  dispatch table, the integrity manifest and the LONGRUNNER of a legal slug, no file loses a byte,
  and a file changes only if it is an allowed append target.\<close>

theorem bundle_exec_confined:
  assumes "bundle_exec model now name args w = (oc, w')" "q \<notin> mutable_files args"
  shows "(\<forall>t. w q = Some t \<longrightarrow> (\<exists>u. w' q = Some (t @ u))) \<and>
    (w' q \<noteq> w q \<longrightarrow> (\<exists>rel. is_allowed_append_target (Some model) rel \<and> q = canon_path rel))"
proof -
  have "log_step (mutable_files args) model w w'"
    using bundle_exec_cases [OF assms(1)] log_step_effects by auto
  then show ?thesis using assms(2) unfolding log_step_def by blast
qed



section \<open>A concrete bundle\<close>

definition lock_bundle :: bundle_spec where
  "lock_bundle = \<lparr>bs_name = ''b'', bs_trigger = [], bs_args = [''run_id''],
     bs_validates = [''run_id NOT_EMPTY''],
     bs_writes = [(VStr ''LOCK'', VDict [(VStr ''status'', VStr ''released'')])], bs_append = [],
     bs_notify = None, bs_returns = [], bs_inline = False, bs_extras = []\<rparr>"

definition lock_model :: schema_model where
  "lock_model = \<lparr>sm_objects = [], sm_fields = [], sm_routes = [], sm_edges = [],
     sm_bundles = [lock_bundle], sm_protected = [''LOCK.md''], sm_schema_paths = [], sm_scr_rules = [],
     sm_source_dir = [], sm_fingerprint = []\<rparr>"

definition lock_spec :: run_spec where
  "lock_spec = \<lparr>rs_args = [''run_id''], rs_validates = [''run_id NOT_EMPTY''],
     rs_writes = [(VStr ''LOCK'', [(''status'', ''released'')])], rs_appends = [], rs_notify = None,
     rs_returns = ''SUCCESS''\<rparr>"

lemma lock_spec_of_model: "spec_from_model lock_model ''b'' = Inr (Some lock_spec)"
  by code_simp

theorem bundle_exec_confined_witness:
  "\<exists>oc w'. bundle_exec lock_model (sample_time 10) ''b'' [(''run_id'', ''R'')] [''SOUL.md'' \<mapsto> ''soul''] = (oc, w') \<and>
     (\<exists>u. w' ''SOUL.md'' = Some (''soul'' @ u))"
proof -
  obtain oc w' where e: "bundle_exec lock_model (sample_time 10) ''b'' [(''run_id'', ''R'')]
      [''SOUL.md'' \<mapsto> ''soul''] = (oc, w')"
    by force
  have "''SOUL.md'' \<notin> mutable_files [(''run_id'', ''R'')]" by code_simp
  from bundle_exec_confined [OF e this] e show ?thesis by auto
qed


section \<open>Checks that do not hold\<close>

text \<open>The protection check looks at the text behind the colon of the write target, not at the
  file that is written: a bundle that writes \<open>LOCK.md\<close>, declared protected by the schema, passes the
  check and changes the lock.\<close>

theorem bundle_protection_bypass:
  "model_is_protected lock_model ''LOCK.md'' \<and>
   (\<exists>out w'. bundle_exec lock_model now ''b'' [(''run_id'', ''R'')] [''LOCK.md'' \<mapsto> ''status: locked''] =
      (Exit 0 out, w') \<and> read_file ''LOCK.md'' w' = Some (unlines [''status: released'']))"
proof
  show "model_is_protected lock_model ''LOCK.md''" by code_simp
  let ?w = "[''LOCK.md'' \<mapsto> ''status: locked'']" and ?args = "[(''run_id'', ''R'')]"
  let ?w1 = "write_file ''LOCK.md'' (unlines [''status: released'']) ?w"
  have args: "find (\<lambda>a. map_of ?args a = None) (rs_args lock_spec) = None" by code_simp
  have ns: "needs_slug (map fst (rs_writes lock_spec)) = Inr False" by code_simp
  have bt: "blocked_target lock_model ?args (map fst (rs_writes lock_spec)) = Inr None" by code_simp
  have "run_guards ?args w0 (rs_validates lock_spec) = ([], None)" for w0
  proof -
    have "split_ws ''run_id NOT_EMPTY'' = [''run_id'', ''NOT_EMPTY'']" by code_simp
    moreover have "\<not> contains ''LONGRUNNER'' ''run_id'' \<and> \<not> contains ''DISPATCH'' ''run_id''" by code_simp
    moreover have "guard_holds ''NOT_EMPTY'' None (strip ''R'')" by code_simp
    ultimately show ?thesis by (simp add: lock_spec_def evaluate_guard_def guard_value_def dget_or_def)
  qed
  then have run: "bundle_exec lock_model now ''b'' ?args ?w =
      bundle_effects lock_model now ''b'' ?args lock_spec [(''LOCK'', [(''status'', ''released'')])] ?w"
    using args ns bt by (simp add: bundle_exec_def lock_spec_of_model bundle_run_def) (simp add: lock_spec_def)
  have res: "resolve_expression now ?args ?w False (VStr ''released'') = Inr ''released''"
  proof -
    have "strip ''released'' = ''released''" "rx_match ref_rx ''released'' = None" by code_simp+
    then show ?thesis by (simp add: resolve_expression_def)
  qed
  have read: "read_file ''LOCK.md'' ?w = Some ''status: locked''" by code_simp
  have set: "lock_set ''status'' ''released'' (splitlines ''status: locked'') = ([''status: released''], Some ''locked'')"
    by code_simp
  have kind: "\<not> contains ''LONGRUNNER'' ''LOCK''" "\<not> contains ''DISPATCH'' ''LOCK''" "contains ''LOCK'' ''LOCK''"
    by code_simp+
  have mut: "apply_mutate ?args ''LOCK'' ''status'' ''released'' ?w = (Some ''locked'', ?w1)"
    using read set kind by (simp add: apply_mutate_def mutate_lock_field_def)
  define changes where
    "changes = [\<lparr>ch_target = ''LOCK'', ch_field = ''status'', ch_old = ''locked'', ch_new = ''released''\<rparr>]"
  have aw: "apply_writes now ?args (write_list [(''LOCK'', [(''status'', ''released'')])]) ?w = (Inr changes, ?w1)"
    using res mut by (simp add: write_list_def changes_def)
  define w2 where "w2 = fold (do_append (Some lock_model) change_log)
      (cascade_rows lock_model now ''b'' ?args changes @ change_rows now ''b'' ?args changes) ?w1"
  have other: "do_append m change_log line w0 ''LOCK.md'' = w0 ''LOCK.md''" for m line w0
  proof -
    have "canon_path change_log \<noteq> ''LOCK.md''" by code_simp
    then show ?thesis by (auto simp: do_append_def append_file_def)
  qed
  have "fold (do_append (Some lock_model) change_log) ls w0 ''LOCK.md'' = w0 ''LOCK.md''" for ls w0
    by (induction ls arbitrary: w0) (simp_all add: other)
  then have "w2 ''LOCK.md'' = ?w1 ''LOCK.md''" unfolding w2_def .
  then have "read_file ''LOCK.md'' w2 = Some (unlines [''status: released''])"
    by (simp add: read_file_def write_file_def) code_simp
  moreover have "bundle_effects lock_model now ''b'' ?args lock_spec [(''LOCK'', [(''status'', ''released'')])] ?w =
      (Exit 0 [''RETURNS:SUCCESS'', ''BUNDLE:b completed. '' @ nat_str 1 @ '' field(s) changed.''], w2)"
    using aw by (simp add: bundle_effects_def w2_def [symmetric] lock_spec_def del: fold_append)
      (simp add: changes_def)
  ultimately show "\<exists>out w'. bundle_exec lock_model now ''b'' ?args ?w = (Exit 0 out, w') \<and>
      read_file ''LOCK.md'' w' = Some (unlines [''status: released''])"
    using run by auto
qed

text \<open>A guard of one word always passes, whatever the workspace and the arguments, and
  \<open>validate-bundles\<close> reports nothing about it.\<close>

theorem one_word_guard_passes:
  "length (split_ws g) < 2 \<longrightarrow>
     evaluate_guard args w g = (True, []) \<and>
     guard_errors name (spec\<lparr>rs_validates := gs @ [g]\<rparr>) = guard_errors name (spec\<lparr>rs_validates := gs\<rparr>)"
  by (auto simp: evaluate_guard_def guard_errors_def split: list.splits)

theorem one_word_guard_passes_witness: "evaluate_guard [] Map.empty ''LONGRUNNER:{slug}.phase.nameNOT_EMPTY'' = (True, [])"
proof -
  have "length (split_ws ''LONGRUNNER:{slug}.phase.nameNOT_EMPTY'') < 2" by code_simp
  then show ?thesis using one_word_guard_passes by blast
qed

section \<open>Computed values\<close>

text \<open>\<open>{NOW+field}\<close> is the clock plus the number of days of the LONGRUNNER field (three where
  it is missing or no number): what is written is read back as exactly that instant.\<close>

theorem resolve_now_plus_days:
  assumes "resolve_ref now args w (''NOW+'' @ field) = Inr s" "valid_dt now" "dt_us now = 0"
    and "dt_tz now = Some 0" "0 \<le> timeout_days args field w"
  shows "\<exists>t. parse_iso s = Some t \<and> instant t = instant now + timeout_days args field w * day_us"
proof -
  obtain t where t: "add_days (timeout_days args field w) now = Inr t" "s = fmt_z t"
    using assms(1) by (auto simp: resolve_ref_def rbind_Inr_iff)
  have v: "valid_dt t" "instant t = instant now + timeout_days args field w * day_us" "dt_us t = 0"
    "dt_tz t = Some 0"
    using add_days_instant [OF assms(2) t(1) assms(5)] assms(3,4) by simp_all
  have "parse_iso s = Some (t\<lparr>dt_tz := Some 0\<rparr>)" using parse_iso_fmt_z [OF v(1,3)] t(2) by simp
  moreover have "instant (t\<lparr>dt_tz := Some 0\<rparr>) = instant t" using v(4) by (simp add: instant_def wall_us_def)
  ultimately show ?thesis using v(2) by auto
qed

theorem resolve_now_plus_days_witness:
  "\<exists>t s. resolve_ref (sample_time 10) [] Map.empty ''NOW+timeout'' = Inr s \<and> parse_iso s = Some t \<and>
     instant t = instant (sample_time 10) + 3 * day_us"
proof -
  have d: "timeout_days [] ''timeout'' Map.empty = 3" by code_simp
  have "step_days next_day 3 (sample_time 10) = Some ((sample_time 10)\<lparr>dt_d := 21\<rparr>)"
    by (simp add: numeral_3_eq_3 next_day_def sample_time_def month_len_def)
  then have s: "resolve_ref (sample_time 10) [] Map.empty (''NOW+'' @ ''timeout'') =
      Inr (fmt_z ((sample_time 10)\<lparr>dt_d := 21\<rparr>))"
    using d by (simp add: resolve_ref_def add_days_def)
  have "dt_us (sample_time 10) = 0" by (simp add: sample_time_def)
  from resolve_now_plus_days [OF s sample_time_valid this sample_aware] d s show ?thesis by auto
qed

end
