(* ===== verification/Render.thy ===== *)
theory Render
  imports Shared Schema
begin

text \<open>
  \<open>nightclaw_engine/engine/render.py\<close>, the Markdown projection of the schema, and the commands
  \<open>schema-render\<close>, \<open>schema-sync\<close> and \<open>schema-lint\<close> of \<open>commands/bundle.py\<close>. \<open>loaded\<close> is what loading
  the schema directory returned.
\<close>

section \<open>The sections\<close>

text \<open>\<open>f"{s:ns}"\<close> pads to \<open>n\<close> characters.\<close>

definition pad :: "nat \<Rightarrow> string \<Rightarrow> string" where
  "pad n s = s @ replicate (n - ulen s) (CHR '' '')"

definition bar :: string where "bar = '' | ''"

definition render_r1 :: "schema_model \<Rightarrow> string list" where
  "render_r1 model =
     [''## R1 '' @ em_dash @ '' OBJECT REGISTRY'',
      ''# Every object type: what it is, where it lives, who reads it, who writes it.'',
      ''# Format: OBJ | FILE | PK | READER | WRITER | APPEND-ONLY'', []] @
     map (\<lambda>ob. pad 15 (ob_obj ob) @ bar @ pad 43 (ob_file ob) @ bar @ pad 17 (ob_pk ob) @ bar @
               ob_reader ob @ bar @ ob_writer ob @ bar @ (if ob_append_only ob then ''YES'' else ''NO''))
       (sm_objects model)"

definition field_row :: "field_spec \<Rightarrow> string" where
  "field_row f =
     pad 12 (fs_obj f) @ bar @ pad 35 (fs_field f) @ bar @ pad 9 (fs_type f) @ bar @
     pad 1 (upper (fs_req f)) @ bar @ fs_constraint f @ bar @ (if fs_fk f = [] then ''-'' else fs_fk f)"

text \<open>A blank line stands between the fields of different objects.\<close>

fun field_rows :: "string option \<Rightarrow> field_spec list \<Rightarrow> string list" where
  "field_rows cur [] = []"
| "field_rows cur (f # fs) =
     (if cur \<noteq> None \<and> cur \<noteq> Some (fs_obj f) then [[]] else []) @
     field_row f # field_rows (Some (fs_obj f)) fs"

definition render_r2 :: "schema_model \<Rightarrow> string list" where
  "render_r2 model =
     [''## R2 '' @ em_dash @ '' FIELD CONTRACTS'',
      ''# Per-object field definitions. Format: OBJ | FIELD | TYPE | REQ | ENUM/FORMAT | FK/CONSTRAINT'',
      ''# REQ: Y=required N=nullable. Enum values UPPERCASE for attention efficiency.'', []] @
     field_rows None (sm_fields model)"

definition render_r3 :: "schema_model \<Rightarrow> string list" where
  "render_r3 model =
     [''## R3 '' @ em_dash @ '' WRITE ROUTING'',
      ''# File '' @ right_arrow @ '' tier '' @ right_arrow @
        '' bundle. The complete routing table for all write decisions.'',
      ''# Format: FILE-PATTERN | TIER | BUNDLE | NOTE'',
      ''# TIER: APPEND=write immediately | STANDARD=scope+gate | PROTECTED={OWNER}-auth | '' @
        ''MANIFEST-VERIFY=manager-timestamp-only'', []] @
     map (\<lambda>r. pad 45 (rr_file r) @ bar @ pad 16 (rr_tier r) @ bar @ pad 28 (rr_bundle r) @ bar @ rr_note r)
       (sm_routes model)"

definition render_r4 :: "schema_model \<Rightarrow> string list" where
  "render_r4 model =
     [''## R4 '' @ em_dash @ '' DEPENDENCY EDGES'',
      ''# Typed edges for impact traversal. Format: SOURCE '' @ right_arrow @ '' TYPE '' @ right_arrow @ '' TARGET'',
      ''# Types: READS|WRITES|VALIDATES|TRIGGERS|REFERENCES|AUTHORIZES'',
      ''# Read forward (grep SOURCE) to find what a change affects.'',
      ''# Read reverse (grep TARGET) to find what depends on a file.'', []] @
     map (\<lambda>e. pad 55 (e_source e) @ '' '' @ right_arrow @ '' '' @ pad 11 (e_type e) @ '' '' @ right_arrow @ '' '' @
              e_target e)
       (sm_edges model)"

text \<open>\<open>"; ".join(v)\<close> raises \<open>TypeError\<close> unless \<open>v\<close> can be iterated and yields strings.\<close>

fun as_str :: "pyval \<Rightarrow> py_exc + string" where
  "as_str (VStr s) = Inr s"
| "as_str _ = Inl TypeError"

definition join_py :: "string \<Rightarrow> pyval \<Rightarrow> py_exc + string" where
  "join_py sep v = rbind (py_iter v) (\<lambda>xs. rbind (rmap as_str xs) (\<lambda>ss. Inr (join sep ss)))"

definition if_valid_lines :: "pyval \<Rightarrow> py_exc + string list" where
  "if_valid_lines v =
     rbind (if is_dict v then py_iter (vget_or (VList []) ''writes'' v) else Inr []) (\<lambda>es.
       Inr (''  IF VALID:'' # map (\<lambda>e. ''    WRITES: '' @ py_str e) es))"

definition write_rows :: "pyval \<times> pyval \<Rightarrow> string list" where
  "write_rows kv =
     (case kv of (target, flds) \<Rightarrow>
        (''    '' @ py_str target @ '':'') #
        (if is_dict flds then map (\<lambda>(k, v). ''      '' @ py_str k @ '' = '' @ py_str v) (items flds)
         else [''      '' @ py_str flds]))"

definition pair_rows :: "string \<Rightarrow> (pyval \<times> pyval) list \<Rightarrow> string list" where
  "pair_rows title kvs =
     (if kvs = [] then [] else title # map (\<lambda>(k, v). ''    '' @ py_str k @ '': '' @ py_str v) kvs)"

definition extra :: "string \<Rightarrow> bundle_spec \<Rightarrow> pyval option" where
  "extra k b = map_of (bs_extras b) (VStr k)"

definition render_bundle :: "bundle_spec \<Rightarrow> py_exc + string list" where
  "render_bundle b =
     rbind (case extra ''if_valid'' b of None \<Rightarrow> Inr [] | Some v \<Rightarrow> if_valid_lines v) (\<lambda>valid.
     rbind (case extra ''if_invalid'' b of None \<Rightarrow> Inr []
            | Some v \<Rightarrow> rbind (join_py ''; '' v) (\<lambda>t. Inr [''  IF INVALID: '' @ t])) (\<lambda>invalid.
       Inr ([''BUNDLE:'' @ bs_name b] @
         (if bs_inline b then
            [''  # STAYS INLINE '' @ em_dash @ '' requires LLM judgment for scope/boundary evaluation.'',
             ''  # Not handled by bundle-exec. The LLM reads OPS-PREAPPROVAL.md and evaluates.''] else []) @
         (if bs_trigger b \<noteq> [] then [''  TRIGGER: '' @ bs_trigger b] else []) @
         (if bs_args b \<noteq> [] then [''  ARGS: '' @ join '', '' (bs_args b)] else []) @
         (case extra ''validates_first'' b of None \<Rightarrow> [] | Some v \<Rightarrow> [''  VALIDATES FIRST: '' @ py_str v]) @
         valid @ invalid @
         (if bs_validates b \<noteq> [] then ''  VALIDATES:'' # map (\<lambda>v. ''    - '' @ v) (bs_validates b) else []) @
         (if bs_writes b \<noteq> [] then ''  WRITES:'' # concat (map write_rows (bs_writes b)) else []) @
         pair_rows ''  APPEND:'' (bs_append b) @
         (case bs_notify b of None \<Rightarrow> [] | Some kvs \<Rightarrow> pair_rows ''  NOTIFY:'' kvs) @
         (case extra ''authority'' b of None \<Rightarrow> [] | Some v \<Rightarrow> [''  AUTHORITY: '' @ py_str v]) @
         (if bs_returns b \<noteq> [] then [''  RETURNS: '' @ bs_returns b] else []))))"

definition not_equal :: string where "not_equal = [CHR 0xE2, CHR 0x89, CHR 0xA0]"

definition render_r5 :: "schema_model \<Rightarrow> py_exc + string list" where
  "render_r5 model =
     rbind (rmap render_bundle (sm_bundles model)) (\<lambda>bs.
       Inr ([''## R5 '' @ em_dash @ '' BUNDLE SPECIFICATIONS'',
             ''# Named multi-file write operations. The executor (bundle-exec) reads these at runtime.'',
             ''# Expression types (exactly four): LITERAL (bare), ARG ({name}), COMPUTED ({NOW}/{TODAY}/{NOW+field}), NULL (~).'',
             ''# No TEMPLATE interpolation. LLM constructs full strings and passes as ARGs.'',
             ''# CHANGE-LOG entries are emitted automatically by the executor for every MUTATE where old '' @
               not_equal @ '' new.'',
             ''# Format: BUNDLE:[name] '' @ right_arrow @
               '' TRIGGER, ARGS, VALIDATES, WRITES (MUTATE), APPEND, NOTIFY, RETURNS.'', []] @
            (case bs of [] \<Rightarrow> [] | r # rs \<Rightarrow> r @ concat (map (\<lambda>l. [] # l) rs))))"

definition render_r6 :: "schema_model \<Rightarrow> string list" where
  "render_r6 model =
     [''## R6 '' @ em_dash @ '' SELF-CONSISTENCY RULES (index)'',
      ''# Rule IDs, severities and predicate names. Narrative bodies remain in REGISTRY.md doctrine.'',
      ''# Format: ID | SEVERITY | PREDICATE | TITLE'', []] @
     map (\<lambda>r. pad 6 (sr_id r) @ bar @ pad 8 (sr_severity r) @ bar @ pad 42 (sr_predicate r) @ bar @ sr_title r)
       (sm_scr_rules model)"

definition render_cl5 :: "schema_model \<Rightarrow> string list" where
  "render_cl5 model =
     [''## CL5 '' @ em_dash @ '' PROTECTED PATHS (index)'',
      ''# Files requiring {OWNER} authorization. Enforced by the route gate and audited by manager T8.'', []] @
     map (\<lambda>p. ''FILE:'' @ p) (sm_protected model)"

definition section_ids :: "string list" where
  "section_ids = [''R1'', ''R2'', ''R3'', ''R4'', ''R5'', ''R6'', ''CL5'']"

text \<open>The rendered sections by their ids, in the order of \<open>section_ids\<close>.\<close>

definition rendered :: "schema_model \<Rightarrow> py_exc + (string \<times> string list) list" where
  "rendered model =
     rbind (render_r5 model) (\<lambda>r5.
       Inr [(''R1'', render_r1 model), (''R2'', render_r2 model), (''R3'', render_r3 model),
            (''R4'', render_r4 model), (''R5'', r5), (''R6'', render_r6 model), (''CL5'', render_cl5 model)])"

fun with_rules :: "string list list \<Rightarrow> string list" where
  "with_rules [] = []"
| "with_rules [s] = s"
| "with_rules (s # t # ss) = s @ [[], ''---'', []] @ with_rules (t # ss)"

definition render_sections :: "schema_model \<Rightarrow> py_exc + string list" where
  "render_sections model = rbind (rendered model) (\<lambda>secs. Inr (with_rules (map snd secs)))"

definition render_footer_mark :: string where "render_footer_mark = ''<!-- /nightclaw:render -->''"

definition render_markdown :: "schema_model \<Rightarrow> py_exc + string" where
  "render_markdown model =
     rbind (render_sections model) (\<lambda>secs.
       Inr (unlines
         ([''# REGISTRY.md '' @ em_dash @ '' Rendered Sections (R1-R6 + CL5)'',
           ''<!-- nightclaw:render '' @ ''schema_fingerprint='' @ sm_fingerprint model @ '' -->'',
           ''<!-- Generated by nightclaw_engine.engine.render. DO NOT HAND-EDIT. -->'',
           ''<!-- Source of truth: orchestration-os/schema/*.yaml -->'',
           ''<!-- Regenerate with: python3 scripts/nightclaw-ops.py schema-render -->'', []] @
          secs @ [[], render_footer_mark])))"

text \<open>The headings \<open>iter_rendered_section_titles\<close> yields.\<close>

definition rendered_section_titles :: "string list" where
  "rendered_section_titles =
     [''## R1 '' @ em_dash @ '' OBJECT REGISTRY'', ''## R2 '' @ em_dash @ '' FIELD CONTRACTS'',
      ''## R3 '' @ em_dash @ '' WRITE ROUTING'', ''## R4 '' @ em_dash @ '' DEPENDENCY EDGES'',
      ''## R5 '' @ em_dash @ '' BUNDLE SPECIFICATIONS'',
      ''## R6 '' @ em_dash @ '' SELF-CONSISTENCY RULES (index)'',
      ''## CL5 '' @ em_dash @ '' PROTECTED PATHS (index)'']"

section \<open>\<open>schema-render\<close> and \<open>schema-lint\<close>\<close>

definition generated_file :: string where "generated_file = ''REGISTRY.generated.md''"

definition cmd_schema_render :: "py_exc + schema_model \<Rightarrow> workspace \<Rightarrow> outcome \<times> workspace" where
  "cmd_schema_render loaded w =
     (case loaded of
        Inl (SchemaError e) \<Rightarrow> (Exit 1 [''SCHEMA-RENDER:ERROR:'' @ e], w)
      | Inl e \<Rightarrow> (Raise e [], w)
      | Inr model \<Rightarrow>
          (case render_markdown model of
             Inl e \<Rightarrow> (Raise e [], w)
           | Inr body \<Rightarrow>
               (Exit 0 [''SCHEMA-RENDER:OK:'' @ sm_fingerprint model @ '':BYTES='' @ nat_str (length body) @
                        '':PATH='' @ generated_file],
                write_file generated_file body w)))"

definition cmd_schema_lint :: "py_exc + schema_model \<Rightarrow> workspace \<Rightarrow> outcome" where
  "cmd_schema_lint loaded w =
     (case loaded of
        Inl (SchemaError e) \<Rightarrow> Exit 1 [''SCHEMA-LINT:ERROR:'' @ e]
      | Inl e \<Rightarrow> Raise e []
      | Inr model \<Rightarrow>
          (case render_markdown model of
             Inl e \<Rightarrow> Raise e []
           | Inr fresh \<Rightarrow>
               (case read_file generated_file w of
                  None \<Rightarrow> Exit 0 [''SCHEMA-LINT:OK:'' @ sm_fingerprint model @ '':NOTE=no_prior_render'']
                | Some prior \<Rightarrow>
                    if prior = fresh then Exit 0 [''SCHEMA-LINT:OK:'' @ sm_fingerprint model]
                    else Exit 1 [''SCHEMA-LINT:DRIFT:'' @ sm_fingerprint model @ '':DELTA_BYTES='' @
                                 nat_str (nat \<bar>int (length fresh) - int (length prior)\<bar>)])))"

section \<open>\<open>schema-sync\<close>\<close>

definition section_bodies :: "schema_model \<Rightarrow> py_exc + (string \<times> string) list" where
  "section_bodies model =
     rbind (rendered model) (\<lambda>secs. Inr (map (\<lambda>(sid, ls). (sid, nl # join [nl] (drop 1 ls) @ [nl])) secs))"

definition open_lit :: "string \<Rightarrow> string" where
  "open_lit sid = ''<!-- nightclaw:render section='' @ [quote] @ sid @ [quote]"

definition open_rest :: string where
  "open_rest = '' source='' @ [quote] @ ''orchestration-os/schema'' @ [quote] @ '' schema_fingerprint='' @ [quote]"

definition open_end :: string where "open_end = quote # '' -->''"

definition is_lower_hex :: "char \<Rightarrow> bool" where
  "is_lower_hex c \<longleftrightarrow> is_digit c \<or> 97 \<le> code c \<and> code c \<le> 102"

lemma is_lower_hex_Char [code]:
  "is_lower_hex (Char b0 b1 b2 b3 b4 b5 b6 b7) \<longleftrightarrow> \<not> b7 \<and> b5 \<and>
     (if b6 then \<not> b4 \<and> \<not> b3 \<and> (b2 \<or> b1 \<or> b0) \<and> \<not> (b2 \<and> b1 \<and> b0)
      else b4 \<and> (b3 \<longrightarrow> \<not> b2 \<and> \<not> b1))"
  unfolding is_lower_hex_def is_digit_Char
  by (cases b0; cases b1; cases b2; cases b3; cases b4; cases b5; cases b6; cases b7) simp_all

definition open_rx :: "string \<Rightarrow> rx" where
  "open_rx sid = rseq [rlit (open_lit sid), rlit open_rest, rrep 64 (RSet is_lower_hex), rlit open_end]"

text \<open>The new text and the sizes of the old and the new body.\<close>

definition splice_section :: "string \<Rightarrow> string \<Rightarrow> string \<Rightarrow> string + (string \<times> nat \<times> nat)" where
  "splice_section text sid body =
     (case rx_search (open_rx sid) text of
        None \<Rightarrow> Inl (''schema-sync: open marker for section '' @ sid @ '' not found'')
      | Some m \<Rightarrow>
          (case cut_at render_footer_mark (m_after m) of
             None \<Rightarrow> Inl (''schema-sync: close marker for section '' @ sid @ '' not found'')
           | Some (prior, rest) \<Rightarrow>
               Inr (m_before m @ m_text m @ body @ render_footer_mark @ rest, length prior, length body)))"

fun splice_all :: "(string \<times> string) list \<Rightarrow> string \<Rightarrow> string + string" where
  "splice_all [] text = Inr text"
| "splice_all ((sid, body) # bs) text =
     rbind (splice_section text sid body) (\<lambda>(text', _). splice_all bs text')"

text \<open>The second pass, which counts the sections whose body differs; it repeats the same splices.\<close>

fun count_changed :: "(string \<times> string) list \<Rightarrow> string \<Rightarrow> nat" where
  "count_changed [] text = 0"
| "count_changed ((sid, body) # bs) text =
     (case rx_search (open_rx sid) text of
        None \<Rightarrow> 0
      | Some m \<Rightarrow>
          (case cut_at render_footer_mark (m_after m) of
             None \<Rightarrow> 0
           | Some (prior, rest) \<Rightarrow>
               (if prior \<noteq> body then 1 else 0) +
               count_changed bs (m_before m @ m_text m @ body @ render_footer_mark @ rest)))"

definition registry_file :: string where "registry_file = ''orchestration-os/REGISTRY.md''"

definition cmd_schema_sync :: "py_exc + schema_model \<Rightarrow> workspace \<Rightarrow> outcome \<times> workspace" where
  "cmd_schema_sync loaded w =
     (case loaded of
        Inl (SchemaError e) \<Rightarrow> (Exit 1 [''SCHEMA-SYNC:ERROR:'' @ e], w)
      | Inl e \<Rightarrow> (Raise e [], w)
      | Inr model \<Rightarrow>
          (case read_file registry_file w of
             None \<Rightarrow> (Raise FileNotFoundError [], w)
           | Some text \<Rightarrow>
               (case section_bodies model of
                  Inl e \<Rightarrow> (Raise e [], w)
                | Inr bodies \<Rightarrow>
                    (case splice_all bodies text of
                       Inl e \<Rightarrow> (Exit 1 [''SCHEMA-SYNC:ERROR:'' @ e], w)
                     | Inr text' \<Rightarrow>
                         if text' = text then
                           (Exit 0 [''SCHEMA-SYNC:NOOP:'' @ sm_fingerprint model @ '':SECTIONS='' @ nat_str (length section_ids)], w)
                         else
                           (case render_markdown model of
                              Inl e \<Rightarrow> (Raise e [], write_file registry_file text' w)
                            | Inr body \<Rightarrow>
                                (Exit 0 [''SCHEMA-SYNC:OK:'' @ sm_fingerprint model @ '':SECTIONS='' @ nat_str (length section_ids) @ '':CHANGED='' @
                                         nat_str (count_changed bodies text)],
                                 write_file generated_file body (write_file registry_file text' w)))))))"

end
