(* ===== verification/RenderFacts.thy ===== *)
theory RenderFacts
  imports Render Scan
begin

text \<open>
  Properties of \<open>schema-render\<close>, \<open>schema-sync\<close> and \<open>schema-lint\<close>. A registry is described by its
  blocks: the text before a marker pair, the section id and fingerprint of the opening marker, and
  the body. On that description \<open>schema-sync\<close> replaces the bodies and nothing else.
\<close>

section \<open>Markers\<close>

definition open_marker :: "string \<Rightarrow> string \<Rightarrow> string" where
  "open_marker sid fp = open_lit sid @ open_rest @ fp @ open_end"















section \<open>The registry as blocks\<close>

record block =
  bk_doc :: string      \<comment> \<open>the hand-written text before the opening marker\<close>
  bk_sid :: string
  bk_fp :: string       \<comment> \<open>the fingerprint in the opening marker\<close>
  bk_body :: string

definition block_line :: "block \<Rightarrow> string" where
  "block_line b =
     bk_doc b @ nl # open_marker (bk_sid b) (bk_fp b) @ nl # bk_body b @ nl # render_footer_mark"

definition registry_text :: "block list \<Rightarrow> string \<Rightarrow> string" where
  "registry_text bs tail = concat (map (\<lambda>b. block_line b @ [nl]) bs) @ tail"





definition put_body :: "string \<Rightarrow> string \<Rightarrow> block \<Rightarrow> block" where
  "put_body sid x b = (if bk_sid b = sid then b\<lparr>bk_body := x\<rparr> else b)"


lemma registry_text_simps [simp]:
  "registry_text [] tail = tail"
  "registry_text (b # bs) tail = block_line b @ nl # registry_text bs tail"
  by (simp_all add: registry_text_def)




lemma put_body_sid [simp]: "bk_sid (put_body sid x b) = bk_sid b"
  by (simp add: put_body_def)





section \<open>The commands\<close>










lemma sync_paths [simp]:
  "canon_path registry_file = registry_file" "canon_path generated_file = generated_file"
  "registry_file \<noteq> generated_file" "generated_file \<noteq> registry_file"
  by code_simp+

lemma render_markdown_rendered: "rendered model = Inr secs \<Longrightarrow> \<exists>body. render_markdown model = Inr body"
  by (simp add: render_markdown_def render_sections_def)


text \<open>After \<open>schema-render\<close>, \<open>schema-lint\<close> finds the rendering up to date exactly where the
  rendered text has no carriage return: the file is read back with the line ends translated, so a
  schema text with a carriage return is reported as drift for ever.\<close>

theorem schema_lint_after_render:
  assumes "render_markdown model = Inr body"
  shows "cmd_schema_lint (Inr model) (snd (cmd_schema_render (Inr model) w)) =
      Exit 0 [''SCHEMA-LINT:OK:'' @ sm_fingerprint model] \<longleftrightarrow> CHR 0x0D \<notin> set body"
proof -
  have "univ_nl body = body \<longleftrightarrow> CHR 0x0D \<notin> set body" using univ_nl_id univ_nl_no_cr by metis
  then show ?thesis
    using assms by (auto simp: cmd_schema_lint_def cmd_schema_render_def read_write_same)
qed

definition sync_model :: schema_model where
  "sync_model = \<lparr>sm_objects = [], sm_fields = [], sm_routes = [], sm_edges = [], sm_bundles = [],
     sm_protected = [''SOUL.md''], sm_schema_paths = [], sm_scr_rules = [], sm_source_dir = ''schema'',
     sm_fingerprint = replicate 64 (CHR ''a'')\<rparr>"





definition sync_sections :: "(string \<times> string list) list" where
  "sync_sections = (case rendered sync_model of Inr secs \<Rightarrow> secs | Inl _ \<Rightarrow> [])"

lemma sync_rendered: "rendered sync_model = Inr sync_sections"
  by (simp add: sync_sections_def rendered_def render_r5_def sync_model_def)



lemma sync_lines_plain:
  "list_all (\<lambda>(sid, ls). list_all (\<lambda>l. CHR ''<'' \<notin> set l \<and> CHR 0x0D \<notin> set l) ls) sync_sections"
  by code_simp




definition sync_rendering :: string where
  "sync_rendering = (case render_markdown sync_model of Inr body \<Rightarrow> body | Inl _ \<Rightarrow> [])"

lemma sync_rendering: "render_markdown sync_model = Inr sync_rendering"
  using render_markdown_rendered [OF sync_rendered] by (auto simp: sync_rendering_def)

lemma unlines_no_char: "c \<noteq> nl \<Longrightarrow> \<forall>l \<in> set ls. c \<notin> set l \<Longrightarrow> c \<notin> set (unlines ls)"
  unfolding unlines_def by (induction "[nl]" ls rule: join.induct) auto

lemma with_rules_set: "\<Union> (set ` set (with_rules ss)) \<subseteq> \<Union> (set ` \<Union> (set ` set ss)) \<union> set ''---''"
  by (induction ss rule: with_rules.induct) auto

lemma sync_rendering_no_cr: "CHR 0x0D \<notin> set sync_rendering"
proof -
  have "CHR 0x0D \<notin> \<Union> (set ` \<Union> (set ` set (map snd sync_sections)))"
    using sync_lines_plain by (fastforce simp: list_all_iff)
  then have "CHR 0x0D \<notin> \<Union> (set ` set (with_rules (map snd sync_sections)))"
    using with_rules_set [of "map snd sync_sections"] by auto
  moreover have "CHR 0x0D \<notin> set (sm_fingerprint sync_model)" by (simp add: sync_model_def)
  ultimately have "CHR 0x0D \<notin> set (unlines
      ([''# REGISTRY.md '' @ em_dash @ '' Rendered Sections (R1-R6 + CL5)'',
        ''<!-- nightclaw:render '' @ ''schema_fingerprint='' @ sm_fingerprint sync_model @ '' -->'',
        ''<!-- Generated by nightclaw_engine.engine.render. DO NOT HAND-EDIT. -->'',
        ''<!-- Source of truth: orchestration-os/schema/*.yaml -->'',
        ''<!-- Regenerate with: python3 scripts/nightclaw-ops.py schema-render -->'', []] @
       with_rules (map snd sync_sections) @ [[], render_footer_mark]))"
    by (intro unlines_no_char) (auto simp: em_dash_def render_footer_mark_def)
  then show ?thesis
    by (simp add: sync_rendering_def render_markdown_def render_sections_def sync_rendered)
qed

theorem schema_lint_after_render_witness:
  "cmd_schema_lint (Inr sync_model) (snd (cmd_schema_render (Inr sync_model) Map.empty)) =
     Exit 0 [''SCHEMA-LINT:OK:'' @ sm_fingerprint sync_model]"
  using schema_lint_after_render [OF sync_rendering] sync_rendering_no_cr by blast

end
