(* ===== verification/Telemetry.thy ===== *)
theory Telemetry
  imports Shared
begin

text \<open>
  From a command line to the events the bridge receives: the command table and \<open>main\<close> of
  \<open>nightclaw_engine/commands/__init__.py\<close>, \<open>nightclaw_ops/lifecycle.py\<close>, the payload and the queue of
  \<open>nightclaw_ops/telemetry.py\<close>, \<open>nightclaw_common/tiers.py\<close> and the validators of
  \<open>nightclaw_bridge/protocol.py\<close>. An event is a dict with string keys, in insertion order.
\<close>

type_synonym event = "(string \<times> pyval) list"

section \<open>Tiers and commands\<close>

definition allowed_tiers :: "string list" where
  "allowed_tiers =
     [''startup'', ''T0'', ''T1'', ''T1.5'', ''T2'', ''T2.5'', ''T2.7'', ''T3'', ''T3.5'', ''T4'', ''T5'', ''T5.5'',
      ''T6'', ''T7'', ''T7a'', ''T7b'', ''T7c'', ''T7d'', ''T8'', ''T8.3'', ''T8.5'', ''T9'']"

definition command_names :: "string list" where
  "command_names =
     [''integrity-check'', ''next-run-id'', ''dispatch'', ''scan-notifications'', ''timing-check'',
      ''crash-detect'', ''crash-recover'', ''transition-expiry'', ''change-detect'', ''audit-spine'',
      ''audit-anomalies'', ''prune-candidates'', ''os-file-sizes'', ''scr-verify'', ''dispatch-validate'',
      ''longrunner-extract'', ''idle-triage'', ''strategic-context'', ''t7-dedup'', ''crash-context'',
      ''append'', ''append-batch'', ''bundle-exec'', ''validate-bundles'', ''schema-render'',
      ''schema-sync'', ''schema-lint'', ''validate-field'', ''cascade-read'', ''registry-route'',
      ''lock-acquire'', ''lock-release'', ''phase-validate'', ''longrunner-render'', ''bootstrap'',
      ''set-model-tier'', ''preflight-import'', ''syntax-check'', ''replay'']"

definition step_cmd_map :: "(string \<times> string) list" where
  "step_cmd_map =
     [(''integrity-check'', ''startup''), (''next-run-id'', ''startup''),
      (''dispatch'', ''T1''), (''scan-notifications'', ''T1''), (''idle-triage'', ''T1''),
      (''longrunner-extract'', ''T2''), (''transition-expiry'', ''T2''), (''dispatch-validate'', ''T2''),
      (''crash-detect'', ''T0''), (''crash-context'', ''T0''), (''crash-recover'', ''startup''),
      (''timing-check'', ''T0''), (''change-detect'', ''T3''), (''strategic-context'', ''T3''),
      (''bundle-exec'', ''T6''), (''append'', ''T6''), (''append-batch'', ''T6''),
      (''audit-spine'', ''T8''), (''audit-anomalies'', ''T8''), (''scr-verify'', ''T8''),
      (''prune-candidates'', ''T8''), (''validate-bundles'', ''T8''), (''os-file-sizes'', ''T8''),
      (''schema-render'', ''T8''), (''schema-sync'', ''T8''), (''schema-lint'', ''T8''),
      (''t7-dedup'', ''T7''), (''validate-field'', ''T6''), (''cascade-read'', ''T6''),
      (''registry-route'', ''T6''), (''lock-acquire'', ''T0''), (''lock-release'', ''T9''),
      (''phase-validate'', ''T6''), (''longrunner-render'', ''T6''), (''bootstrap'', ''T0''),
      (''set-model-tier'', ''T9''), (''preflight-import'', ''startup''), (''syntax-check'', ''startup''),
      (''replay'', ''startup'')]"

definition tier_of_cmd :: "string \<Rightarrow> string" where
  "tier_of_cmd cmd = dget_or ''T4'' cmd step_cmd_map"

text \<open>\<open>_infer_telemetry_slug\<close>; \<open>args\<close> is \<open>argv[2:]\<close>.\<close>

definition infer_telemetry_slug :: "string \<Rightarrow> string list \<Rightarrow> string option" where
  "infer_telemetry_slug cmd args =
     (case find (\<lambda>a. startswith a ''slug='') args of
        Some a \<Rightarrow> (let slug = strip (drop 5 a) in if is_valid_slug slug then Some slug else None)
      | None \<Rightarrow>
          if cmd \<in> {''longrunner-extract'', ''phase-validate'', ''longrunner-render''} \<and> args \<noteq> [] then
            (let slug = strip (hd args) in if is_valid_slug slug then Some slug else None)
          else None)"

section \<open>Emission\<close>

text \<open>\<open>NIGHTCLAW_NO_TELEMETRY\<close>, \<open>NIGHTCLAW_RUN_ID\<close> and \<open>NIGHTCLAW_SESSION\<close>.\<close>

record telemetry_env =
  te_off :: bool
  te_run_id :: "string option"
  te_session :: "string option"

definition env_run_id :: "telemetry_env \<Rightarrow> string" where
  "env_run_id env = (case te_run_id env of None \<Rightarrow> ''UNKNOWN'' | Some r \<Rightarrow> r)"

definition opt_key :: "string \<Rightarrow> ('a \<Rightarrow> pyval) \<Rightarrow> 'a option \<Rightarrow> event" where
  "opt_key k f x = (case x of None \<Rightarrow> [] | Some v \<Rightarrow> [(k, f v)])"

definition emit_step ::
  "telemetry_env \<Rightarrow> pydt \<Rightarrow> string \<Rightarrow> string \<Rightarrow> string \<Rightarrow> string option \<Rightarrow> string option \<Rightarrow> int option \<Rightarrow>
   event list" where
  "emit_step env now tier cmd run_id slug session exit_code =
     (if te_off env then []
      else [[(''type'', VStr ''opsstepevent''),
             (''run_id'', VStr (if run_id = [] then env_run_id env else run_id)),
             (''tier'', VStr tier), (''cmd'', VStr cmd), (''t_emitted'', VStr (fmt_z now))] @
            opt_key ''slug'' VStr slug @ opt_key ''session'' VStr session @ opt_key ''exit_code'' VInt exit_code])"

text \<open>\<open>lifecycle.step\<close> around a command that ends with an outcome: an event when it starts and one
  with the exit code when it ends, however it ends.\<close>

fun exit_code_of :: "outcome \<Rightarrow> int" where
  "exit_code_of (Exit n out) = int n"
| "exit_code_of (Raise e out) = 1"

definition lifecycle_step ::
  "telemetry_env \<Rightarrow> pydt \<Rightarrow> pydt \<Rightarrow> string \<Rightarrow> string \<Rightarrow> string option \<Rightarrow> string option \<Rightarrow> outcome \<Rightarrow>
   event list" where
  "lifecycle_step env t0 t1 tier cmd slug session oc =
     (let rid = env_run_id env in
      emit_step env t0 tier cmd rid slug session None @
      emit_step env t1 tier cmd rid slug session (Some (exit_code_of oc)))"

text \<open>The bounded queue: a full queue loses its oldest payload.\<close>

definition queue_max :: nat where "queue_max = 512"

definition enqueue :: "event \<Rightarrow> event list \<Rightarrow> event list" where
  "enqueue p q = (if length q < queue_max then q @ [p] else drop 1 q @ [p])"

section \<open>\<open>main\<close>\<close>

text \<open>\<open>run\<close> runs a command of the table on its arguments; \<open>t0\<close> and \<open>t1\<close> are the clock when it starts and
  ends. The help text is \<open>help\<close>.\<close>

definition main ::
  "string list \<Rightarrow> (string \<Rightarrow> string list \<Rightarrow> workspace \<Rightarrow> outcome \<times> workspace) \<Rightarrow> telemetry_env \<Rightarrow>
   pydt \<Rightarrow> pydt \<Rightarrow> string list \<Rightarrow> workspace \<Rightarrow> outcome \<times> workspace \<times> event list" where
  "main help run env t0 t1 argv w =
     (case argv of
        [] \<Rightarrow> (Exit 0 help, w, [])
      | cmd # args \<Rightarrow>
          if cmd \<in> {''-h'', ''--help''} then (Exit 0 help, w, [])
          else if cmd \<notin> set command_names then (Exit 2 [], w, [])
          else
            (let (oc, w') = run cmd args w;
                 session = (case te_session env of None \<Rightarrow> None | Some s \<Rightarrow> if s = [] then None else Some s)
             in (oc, w', lifecycle_step env t0 t1 (tier_of_cmd cmd) cmd (infer_telemetry_slug cmd args) session oc)))"

section \<open>The bridge's contract\<close>

definition build_opsstepevent ::
  "string \<Rightarrow> string \<Rightarrow> string \<Rightarrow> string \<Rightarrow> string option \<Rightarrow> int option \<Rightarrow> string option \<Rightarrow> int option \<Rightarrow>
   py_exc + event" where
  "build_opsstepevent run_id tier cmd t_emitted slug pid session exit_code =
     (if run_id = [] \<or> cmd = [] \<or> tier \<notin> set allowed_tiers \<or> t_emitted = [] then Inl ValueError
      else Inr ([(''type'', VStr ''opsstepevent''), (''run_id'', VStr run_id), (''tier'', VStr tier),
                 (''cmd'', VStr cmd), (''t_emitted'', VStr t_emitted)] @
                opt_key ''slug'' VStr slug @ opt_key ''pid'' VInt pid @
                opt_key ''session'' VStr session @ opt_key ''exit_code'' VInt exit_code))"

definition ev_get :: "string \<Rightarrow> event \<Rightarrow> pyval" where
  "ev_get k ev = dget_or VNone k ev"

text \<open>A tier that cannot be hashed raises in the membership test; the handler returns \<open>False\<close>.\<close>

definition is_opsstepevent :: "event \<Rightarrow> bool" where
  "is_opsstepevent ev \<longleftrightarrow>
     ev_get ''type'' ev = VStr ''opsstepevent'' \<and> py_truth (ev_get ''run_id'' ev) \<and>
     py_truth (ev_get ''cmd'' ev) \<and> ev_get ''tier'' ev \<in> set (map VStr allowed_tiers) \<and>
     py_truth (ev_get ''t_emitted'' ev)"

end
