(* ===== verification/EventLog.thy ===== *)
theory EventLog
  imports Telemetry
begin

text \<open>
  Folding the event log: \<open>fold_eventlog_views\<close> of \<open>nightclaw_bridge/state.py\<close>, the monitor's
  \<open>MonitorStore\<close> (\<open>nightclaw_monitor/store.py\<close>), \<open>client_handlers.py\<close> and \<open>selectors.py\<close>. A dict with
  arbitrary keys is an association list whose keys are compared by \<^const>\<open>py_eq\<close>. A step that two
  structures of the code share is one entry of a timeline, and \<open>open_steps\<close> holds its position.
\<close>

section \<open>Dictionaries of the views\<close>

fun plookup :: "pyval \<Rightarrow> (pyval \<times> 'a) list \<Rightarrow> 'a option" where
  "plookup k [] = None"
| "plookup k ((k', v) # d) = (if py_eq k' k then Some v else plookup k d)"

text \<open>\<open>d.setdefault(k, d0)\<close> followed by the update \<open>f\<close> of the value.\<close>

fun pupd :: "pyval \<Rightarrow> 'a \<Rightarrow> ('a \<Rightarrow> 'a) \<Rightarrow> (pyval \<times> 'a) list \<Rightarrow> (pyval \<times> 'a) list" where
  "pupd k d0 f [] = [(k, f d0)]"
| "pupd k d0 f ((k', v) # d) = (if py_eq k' k then (k', f v) # d else (k', v) # pupd k d0 f d)"

type_synonym timeline = "event list"

definition step_of :: "event \<Rightarrow> event" where
  "step_of ev = filter (\<lambda>(k, v). k \<noteq> ''type'') ev"

definition is_closed :: "event \<Rightarrow> bool" where
  "is_closed st \<longleftrightarrow> map_of st ''exit_code'' \<noteq> None"

definition close_step :: "pyval \<Rightarrow> event \<Rightarrow> event" where
  "close_step v st = dput ''exit_code'' v st"

text \<open>The keys \<open>(cmd, slug)\<close> of two steps of a run are equal.\<close>

definition same_step :: "event \<Rightarrow> event \<Rightarrow> bool" where
  "same_step a b \<longleftrightarrow> py_eq (ev_get ''cmd'' a) (ev_get ''cmd'' b) \<and> py_eq (ev_get ''slug'' a) (ev_get ''slug'' b)"

section \<open>\<open>fold_eventlog_views\<close>\<close>

record run_row =
  rw_runid :: pyval
  rw_agenttype :: pyval
  rw_mutationcount :: int
  rw_ts :: pyval
  rw_has_t0 :: bool
  rw_saw_t9 :: bool
  rw_last_exit_code :: pyval
  rw_project_slug :: "pyval option"

record views =
  vw_sessions :: "(pyval \<times> pyval list) list"
  vw_timeline :: "(pyval \<times> timeline) list"
  vw_runs :: "(pyval \<times> run_row) list"
  vw_times :: "(pyval \<times> pyval list) list"
  vw_open :: "((pyval \<times> pyval \<times> pyval) \<times> nat) list"

definition no_views :: views where
  "no_views = \<lparr>vw_sessions = [], vw_timeline = [], vw_runs = [], vw_times = [], vw_open = []\<rparr>"

definition step_key :: "event \<Rightarrow> pyval \<times> pyval \<times> pyval" where
  "step_key ev = (ev_get ''run_id'' ev, ev_get ''cmd'' ev, ev_get ''slug'' ev)"

definition key_eq :: "pyval \<times> pyval \<times> pyval \<Rightarrow> pyval \<times> pyval \<times> pyval \<Rightarrow> bool" where
  "key_eq a b = (case (a, b) of ((r, c, s), (r', c', s')) \<Rightarrow> py_eq r r' \<and> py_eq c c' \<and> py_eq s s')"

fun open_pos :: "pyval \<times> pyval \<times> pyval \<Rightarrow> ((pyval \<times> pyval \<times> pyval) \<times> nat) list \<Rightarrow> nat option" where
  "open_pos k [] = None"
| "open_pos k ((k', i) # d) = (if key_eq k' k then Some i else open_pos k d)"

fun open_put :: "pyval \<times> pyval \<times> pyval \<Rightarrow> nat \<Rightarrow> ((pyval \<times> pyval \<times> pyval) \<times> nat) list \<Rightarrow>
    ((pyval \<times> pyval \<times> pyval) \<times> nat) list" where
  "open_put k i [] = [(k, i)]"
| "open_put k i ((k', j) # d) = (if key_eq k' k then (k', i) # d else (k', j) # open_put k i d)"

definition run_timeline :: "pyval \<Rightarrow> (pyval \<times> timeline) list \<Rightarrow> timeline" where
  "run_timeline run tls = (case plookup run tls of None \<Rightarrow> [] | Some ts \<Rightarrow> ts)"

definition fold_times :: "pyval \<Rightarrow> pyval \<Rightarrow> (pyval \<times> pyval list) list \<Rightarrow> (pyval \<times> pyval list) list" where
  "fold_times run t seen =
     (if py_truth t then pupd run [] (\<lambda>es. if list_ex (py_eq t) es then es else es @ [t]) seen else seen)"

definition fold_step :: "event \<Rightarrow> views \<Rightarrow> views" where
  "fold_step ev v =
     (let run = ev_get ''run_id'' ev; key = step_key ev; ts = run_timeline run (vw_timeline v) in
      case (open_pos key (vw_open v), map_of ev ''exit_code'') of
        (Some i, Some ec) \<Rightarrow>
          if \<not> is_closed (ts ! i) then
            v\<lparr>vw_timeline := pupd run [] (\<lambda>ts. ts[i := close_step ec (ts ! i)]) (vw_timeline v)\<rparr>
          else v\<lparr>vw_timeline := pupd run [] (\<lambda>ts. ts @ [step_of ev]) (vw_timeline v)\<rparr>
      | (_, Some ec) \<Rightarrow> v\<lparr>vw_timeline := pupd run [] (\<lambda>ts. ts @ [step_of ev]) (vw_timeline v)\<rparr>
      | (_, None) \<Rightarrow>
          v\<lparr>vw_timeline := pupd run [] (\<lambda>ts. ts @ [step_of ev]) (vw_timeline v),
            vw_open := open_put key (length ts) (vw_open v)\<rparr>)"

definition new_row :: "event \<Rightarrow> run_row" where
  "new_row ev =
     \<lparr>rw_runid = ev_get ''run_id'' ev,
      rw_agenttype = (if py_truth (ev_get ''session'' ev) then ev_get ''session'' ev else VStr ''worker''),
      rw_mutationcount = 0, rw_ts = dget_or (VStr []) ''t_emitted'' ev, rw_has_t0 = False,
      rw_saw_t9 = False, rw_last_exit_code = VNone, rw_project_slug = None\<rparr>"

definition fold_row :: "event \<Rightarrow> run_row \<Rightarrow> run_row" where
  "fold_row ev row =
     (let t = dget_or (VStr []) ''t_emitted'' ev;
          tier = dget_or (VStr []) ''tier'' ev;
          has_slug = (case rw_project_slug row of None \<Rightarrow> False | Some s \<Rightarrow> py_truth s);
          row1 = (if py_truth (ev_get ''slug'' ev) \<and> \<not> has_slug
                  then row\<lparr>rw_project_slug := Some (ev_get ''slug'' ev)\<rparr> else row);
          row2 = (if tier = VStr ''T0'' then row1\<lparr>rw_has_t0 := True, rw_ts := t\<rparr>
                  else if py_truth t then row1\<lparr>rw_ts := t\<rparr> else row1)
      in if tier = VStr ''T9'' then row2\<lparr>rw_saw_t9 := True, rw_last_exit_code := ev_get ''exit_code'' ev\<rparr>
         else row2)"

text \<open>One event. A run id, command or slug that cannot be hashed raises \<open>TypeError\<close>.\<close>

definition fold_event :: "event \<Rightarrow> views \<Rightarrow> py_exc + views" where
  "fold_event ev v =
     (let run = ev_get ''run_id'' ev; t = dget_or (VStr []) ''t_emitted'' ev in
      if \<not> py_truth run then Inr v
      else if ev_get ''type'' ev = VStr ''sessionsevent'' then
        (if \<not> hashable run then Inl TypeError
         else Inr (v\<lparr>vw_sessions := pupd run [] (\<lambda>ks. ks @ [ev_get ''kind'' ev]) (vw_sessions v)\<rparr>))
      else if ev_get ''type'' ev \<noteq> VStr ''opsstepevent'' then Inr v
      else if \<not> hashable run \<or> \<not> hashable (ev_get ''cmd'' ev) \<or> \<not> hashable (ev_get ''slug'' ev) then Inl TypeError
      else Inr ((fold_step ev v)\<lparr>vw_times := fold_times run t (vw_times v),
                                 vw_runs := pupd run (new_row ev) (fold_row ev) (vw_runs v)\<rparr>))"

text \<open>\<open>for ev in events: ...\<close> over a step that may raise.\<close>

fun run_log :: "('e \<Rightarrow> 's \<Rightarrow> 'x + 's) \<Rightarrow> 'e list \<Rightarrow> 's \<Rightarrow> 'x + 's" where
  "run_log f [] s = Inr s"
| "run_log f (e # es) s = rbind (f e s) (run_log f es)"

definition fold_eventlog_views :: "event list \<Rightarrow> py_exc + views" where
  "fold_eventlog_views evs = run_log fold_event evs no_views"

section \<open>\<open>MonitorStore\<close> and \<open>client_handlers\<close>\<close>

text \<open>The last step of the timeline that has the key of the event and no exit code is closed.\<close>

fun close_last :: "event \<Rightarrow> pyval \<Rightarrow> timeline \<Rightarrow> timeline option" where
  "close_last ev ec [] = None"
| "close_last ev ec (st # ts) =
     (case close_last ev ec ts of
        Some ts' \<Rightarrow> Some (st # ts')
      | None \<Rightarrow> if same_step st ev \<and> \<not> is_closed st then Some (close_step ec st # ts) else None)"

definition store_step :: "event \<Rightarrow> timeline \<Rightarrow> timeline" where
  "store_step ev ts =
     (case map_of ev ''exit_code'' of
        None \<Rightarrow> ts @ [step_of ev]
      | Some ec \<Rightarrow> (case close_last ev ec ts of Some ts' \<Rightarrow> ts' | None \<Rightarrow> ts @ [step_of ev]))"

definition apply_opsstepevent :: "event \<Rightarrow> (pyval \<times> timeline) list \<Rightarrow> py_exc + (pyval \<times> timeline) list" where
  "apply_opsstepevent ev tls =
     (let run = ev_get ''run_id'' ev in
      if \<not> py_truth run then Inr tls
      else if \<not> hashable run then Inl TypeError
      else Inr (pupd run [] (store_step ev) tls))"

text \<open>\<open>HandlerRouter.dispatch\<close> of \<open>nightclaw_monitor/handlers.py\<close> with its default handlers, for payloads
  that are no snapshot: an unknown type is ignored, one that cannot be hashed raises.\<close>

definition route_payload :: "event \<Rightarrow> (pyval \<times> timeline) list \<Rightarrow> py_exc + (pyval \<times> timeline) list" where
  "route_payload ev tls =
     (if \<not> hashable (ev_get ''type'' ev) then Inl TypeError
      else if ev_get ''type'' ev = VStr ''opsstepevent'' then apply_opsstepevent ev tls
      else Inr tls)"

definition route_all :: "event list \<Rightarrow> (pyval \<times> timeline) list \<Rightarrow> py_exc + (pyval \<times> timeline) list" where
  "route_all = run_log route_payload"

text \<open>\<open>on_opsstepevent\<close> of \<open>client_handlers.py\<close> also counts the notifications.\<close>

definition on_opsstepevent ::
  "event \<Rightarrow> (pyval \<times> timeline) list \<times> nat \<Rightarrow> py_exc + (pyval \<times> timeline) list \<times> nat" where
  "on_opsstepevent ev s =
     (if \<not> py_truth (ev_get ''run_id'' ev) then Inr s
      else rbind (apply_opsstepevent ev (fst s)) (\<lambda>tls. Inr (tls, Suc (snd s))))"

section \<open>\<open>selectors.py\<close>\<close>

definition timeline_for_run :: "pyval \<Rightarrow> (pyval \<times> timeline) list \<Rightarrow> timeline" where
  "timeline_for_run run tls = run_timeline run tls"

text \<open>\<open>{"run_id": run, **s}\<close>: the step's own run id, if any, replaces the first entry's value.\<close>

definition open_steps :: "(pyval \<times> timeline) list \<Rightarrow> event list" where
  "open_steps tls =
     concat (map (\<lambda>(run, ts). map (\<lambda>st. foldl (\<lambda>d (k, v). dput k v d) [(''run_id'', run)] st)
                                (filter (\<lambda>st. \<not> is_closed st) ts)) tls)"

end
