(* ===== verification/EventFacts.thy ===== *)
theory EventFacts
  imports EventLog
begin

text \<open>
  Properties of the event log: what \<open>main\<close> emits is what the bridge accepts; the bridge's fold and
  the monitor's store agree as long as no step is started twice, and disagree otherwise.
\<close>

section \<open>Lookup and update\<close>

lemma plookup_cong: "py_eq k k' \<Longrightarrow> plookup k d = plookup k' d"
  by (induction d) (auto simp: py_eq_def)

lemma plookup_pupd:
  "plookup k (pupd k' d0 f d) =
     (if py_eq k' k then Some (f (case plookup k d of None \<Rightarrow> d0 | Some v \<Rightarrow> v)) else plookup k d)"
proof (induction d)
  case (Cons e d)
  then show ?case by (cases e) (auto simp: py_eq_def)
qed simp

lemma run_timeline_pupd:
  "run_timeline k (pupd k' [] f tls) = (if py_eq k' k then f (run_timeline k tls) else run_timeline k tls)"
  by (simp add: run_timeline_def plookup_pupd)

lemma pupd_cong: "f (run_timeline run d) = g (run_timeline run d) \<Longrightarrow> pupd run [] f d = pupd run [] g d"
  by (induction d) (auto simp: run_timeline_def)

lemma run_timeline_cong: "py_eq k k' \<Longrightarrow> run_timeline k tls = run_timeline k' tls"
  by (simp add: run_timeline_def plookup_cong)

lemma key_eq_trans: "key_eq a b \<Longrightarrow> key_eq c a \<longleftrightarrow> key_eq c b"
  by (auto simp: key_eq_def py_eq_def split: prod.splits)

lemma open_pos_cong: "key_eq a b \<Longrightarrow> open_pos a d = open_pos b d"
  by (induction d) (auto simp: key_eq_trans)

lemma open_pos_put: "open_pos a (open_put b i d) = (if key_eq b a then Some i else open_pos a d)"
proof (induction d)
  case (Cons e d)
  obtain k j where e: "e = (k, j)" by (cases e)
  show ?case
  proof (cases "key_eq k b")
    case True
    then have "key_eq k a \<longleftrightarrow> key_eq b a"
      by (auto simp: key_eq_def py_eq_def split: prod.splits)
    with True show ?thesis by (simp add: e)
  next
    case False
    then have "key_eq k a \<Longrightarrow> \<not> key_eq b a"
      by (auto simp: key_eq_def py_eq_def split: prod.splits)
    with False Cons show ?thesis by (auto simp: e)
  qed
qed simp

section \<open>Closing a step\<close>

lemma close_last_None: "close_last ev ec ts = None \<longleftrightarrow> (\<forall>st \<in> set ts. same_step st ev \<longrightarrow> is_closed st)"
  by (induction ts) (auto split: option.splits)

lemma close_last_Some:
  "close_last ev ec ts = Some ts' \<Longrightarrow>
    \<exists>i < length ts. same_step (ts ! i) ev \<and> \<not> is_closed (ts ! i) \<and> ts' = ts[i := close_step ec (ts ! i)]"
proof (induction ts arbitrary: ts')
  case (Cons st ts)
  show ?case
  proof (cases "close_last ev ec ts")
    case None
    with Cons.prems show ?thesis by (intro exI [of _ 0]) (auto split: if_splits)
  next
    case (Some ts1)
    with Cons obtain i where "i < length ts" "same_step (ts ! i) ev" "\<not> is_closed (ts ! i)"
      "ts1 = ts[i := close_step ec (ts ! i)]" by blast
    with Some Cons.prems show ?thesis by (intro exI [of _ "Suc i"]) auto
  qed
qed simp

lemma map_of_step_of: "k \<noteq> ''type'' \<Longrightarrow> map_of (step_of ev) k = map_of ev k"
  by (induction ev) (auto simp: step_of_def)

lemma ev_get_step_of [simp]:
  "ev_get ''cmd'' (step_of ev) = ev_get ''cmd'' ev" "ev_get ''slug'' (step_of ev) = ev_get ''slug'' ev"
  by (simp_all add: ev_get_def dget_or_def map_of_step_of)

lemma close_step_facts [simp]:
  "ev_get ''cmd'' (close_step ec st) = ev_get ''cmd'' st"
  "ev_get ''slug'' (close_step ec st) = ev_get ''slug'' st"
  "is_closed (close_step ec st)"
  by (simp_all add: ev_get_def dget_or_def close_step_def is_closed_def)

section \<open>The simulation\<close>

text \<open>\<open>open_steps\<close> finds exactly the open steps: every open step of a run is the entry of its key, and an
  entry points to a step of its key.\<close>

definition step_key_of :: "pyval \<Rightarrow> event \<Rightarrow> pyval \<times> pyval \<times> pyval" where
  "step_key_of run st = (run, ev_get ''cmd'' st, ev_get ''slug'' st)"

definition open_inv :: "views \<Rightarrow> bool" where
  "open_inv v \<longleftrightarrow>
     (\<forall>run i. i < length (run_timeline run (vw_timeline v)) \<longrightarrow>
        \<not> is_closed (run_timeline run (vw_timeline v) ! i) \<longrightarrow>
        open_pos (step_key_of run (run_timeline run (vw_timeline v) ! i)) (vw_open v) = Some i) \<and>
     (\<forall>run c s i. open_pos (run, c, s) (vw_open v) = Some i \<longrightarrow>
        i < length (run_timeline run (vw_timeline v)) \<and>
        key_eq (run, c, s) (step_key_of run (run_timeline run (vw_timeline v) ! i)))"

text \<open>No step is started while one of the same run, command and slug is open.\<close>

definition may_start :: "event \<Rightarrow> (pyval \<times> timeline) list \<Rightarrow> bool" where
  "may_start ev tls \<longleftrightarrow>
     is_closed ev \<or> (\<forall>st \<in> set (run_timeline (ev_get ''run_id'' ev) tls). same_step st ev \<longrightarrow> is_closed st)"

lemma same_step_key: "same_step st ev \<Longrightarrow> key_eq (step_key_of (ev_get ''run_id'' ev) st) (step_key ev)"
  by (simp add: same_step_def key_eq_def step_key_of_def step_key_def)

lemma key_same_step: "key_eq (step_key ev) (step_key_of run st) \<Longrightarrow> same_step st ev"
  by (simp add: same_step_def key_eq_def step_key_of_def step_key_def py_eq_sym)

lemma open_inv_open:
  assumes "open_inv v" "st \<in> set (run_timeline (ev_get ''run_id'' ev) (vw_timeline v))"
    and "same_step st ev" "\<not> is_closed st"
  shows "\<exists>i. open_pos (step_key ev) (vw_open v) = Some i \<and> i < length (run_timeline (ev_get ''run_id'' ev) (vw_timeline v))
    \<and> run_timeline (ev_get ''run_id'' ev) (vw_timeline v) ! i = st"
proof -
  obtain i where "i < length (run_timeline (ev_get ''run_id'' ev) (vw_timeline v))"
    "run_timeline (ev_get ''run_id'' ev) (vw_timeline v) ! i = st"
    using assms(2) by (auto simp: in_set_conv_nth)
  moreover from this have "open_pos (step_key_of (ev_get ''run_id'' ev) st) (vw_open v) = Some i"
    using assms(1,4) unfolding open_inv_def by blast
  ultimately show ?thesis using open_pos_cong [OF same_step_key [OF assms(3)]] by auto
qed

lemma open_inv_entry:
  assumes "open_inv v" "open_pos (step_key ev) (vw_open v) = Some i"
  shows "i < length (run_timeline (ev_get ''run_id'' ev) (vw_timeline v)) \<and>
    same_step (run_timeline (ev_get ''run_id'' ev) (vw_timeline v) ! i) ev"
  using assms key_same_step unfolding open_inv_def by (metis step_key_def)

text \<open>On the timeline of its run, the fold does what the store does.\<close>

lemma fold_step_store:
  assumes "open_inv v"
  shows "vw_timeline (fold_step ev v) = pupd (ev_get ''run_id'' ev) [] (store_step ev) (vw_timeline v)"
    (is "_ = pupd ?run [] _ ?tls")
proof -
  define ts where "ts = run_timeline ?run ?tls"
  have upd: "pupd ?run [] f ?tls = pupd ?run [] g ?tls" if "f ts = g ts" for f g
    using that by (intro pupd_cong) (simp add: ts_def)
  show ?thesis
  proof (cases "map_of ev ''exit_code''")
    case None
    then have "vw_timeline (fold_step ev v) = pupd ?run [] (\<lambda>ts. ts @ [step_of ev]) ?tls"
      by (simp add: fold_step_def Let_def split: option.split)
    with None show ?thesis by (simp add: store_step_def [abs_def])
  next
    case ec: (Some ec)
    show ?thesis
    proof (cases "close_last ev ec ts")
      case None
      have "is_closed (ts ! i)" if "open_pos (step_key ev) (vw_open v) = Some i" for i
        using open_inv_entry [OF assms that] None nth_mem unfolding ts_def close_last_None by metis
      then have "vw_timeline (fold_step ev v) = pupd ?run [] (\<lambda>ts. ts @ [step_of ev]) ?tls"
        using ec by (simp add: fold_step_def Let_def ts_def split: option.split)
      also have "\<dots> = pupd ?run [] (store_step ev) ?tls"
        by (rule upd) (simp add: store_step_def ec None)
      finally show ?thesis .
    next
      case (Some ts')
      then obtain i where i: "i < length ts" "same_step (ts ! i) ev" "\<not> is_closed (ts ! i)"
        "ts' = ts[i := close_step ec (ts ! i)]" using close_last_Some by blast
      have "open_pos (step_key_of ?run (ts ! i)) (vw_open v) = Some i"
        using assms i(1,3) unfolding open_inv_def ts_def by blast
      then have pos: "open_pos (step_key ev) (vw_open v) = Some i"
        using open_pos_cong [OF same_step_key [OF i(2)]] by simp
      have "vw_timeline (fold_step ev v) = pupd ?run [] (\<lambda>ts. ts[i := close_step ec (ts ! i)]) ?tls"
        using i(3) by (simp add: fold_step_def Let_def pos ec ts_def)
      also have "\<dots> = pupd ?run [] (store_step ev) ?tls"
        by (rule upd) (simp add: store_step_def ec Some i(4))
      finally show ?thesis .
    qed
  qed
qed

text \<open>The invariant survives an event whose step may start.\<close>

lemma store_step_length: "length (store_step ev ts) = length ts \<or> store_step ev ts = ts @ [step_of ev]"
  by (auto simp: store_step_def dest!: close_last_Some split: option.splits)

lemma store_step_nth:
  assumes "i < length ts"
  shows "i < length (store_step ev ts) \<and> step_key_of run (store_step ev ts ! i) = step_key_of run (ts ! i) \<and>
    (is_closed (ts ! i) \<longrightarrow> is_closed (store_step ev ts ! i))"
proof (cases "store_step ev ts = ts @ [step_of ev]")
  case True
  with assms show ?thesis by (simp add: nth_append)
next
  case False
  then obtain ec where ec: "map_of ev ''exit_code'' = Some ec" by (auto simp: store_step_def split: option.splits)
  with False obtain ts' where "close_last ev ec ts = Some ts'" "store_step ev ts = ts'"
    by (auto simp: store_step_def split: option.splits)
  from close_last_Some [OF this(1)] this(2) assms show ?thesis
    by (auto simp: step_key_of_def nth_list_update)
qed

lemma store_step_new:
  assumes "i < length (store_step ev ts)" "\<not> i < length ts"
  shows "i = length ts \<and> store_step ev ts ! i = step_of ev \<and> store_step ev ts = ts @ [step_of ev]"
proof -
  have "store_step ev ts = ts @ [step_of ev]" using assms store_step_length [of ev ts] by auto
  moreover from this assms have "i = length ts" by simp
  ultimately show ?thesis by simp
qed

lemma is_closed_step_of [simp]: "is_closed (step_of ev) = is_closed ev"
  by (simp add: map_of_step_of is_closed_def)

lemma fold_step_open:
  "vw_open (fold_step ev v) =
     (if is_closed ev then vw_open v
      else open_put (step_key ev) (length (run_timeline (ev_get ''run_id'' ev) (vw_timeline v))) (vw_open v))"
  by (auto simp: fold_step_def Let_def is_closed_def split: option.splits)

lemma fold_step_inv:
  assumes "open_inv v" "may_start ev (vw_timeline v)"
  shows "open_inv (fold_step ev v)"
  unfolding open_inv_def
proof (intro conjI allI impI)
  fix run i
  let ?ts = "run_timeline run (vw_timeline v)" and ?ts' = "run_timeline run (vw_timeline (fold_step ev v))"
  assume i: "i < length ?ts'" and op: "\<not> is_closed (?ts' ! i)"
  show "open_pos (step_key_of run (?ts' ! i)) (vw_open (fold_step ev v)) = Some i"
  proof (cases "py_eq (ev_get ''run_id'' ev) run")
    case False
    then have "?ts' = ?ts" by (simp add: fold_step_store [OF assms(1)] run_timeline_pupd)
    moreover have "\<not> key_eq (step_key ev) (step_key_of run st)" for st
      using False by (simp add: key_eq_def step_key_def step_key_of_def)
    ultimately show ?thesis
      using assms(1) i op by (simp add: fold_step_open open_pos_put open_inv_def)
  next
    case True
    then have ts': "?ts' = store_step ev ?ts" by (simp add: fold_step_store [OF assms(1)] run_timeline_pupd)
    have run: "run_timeline (ev_get ''run_id'' ev) (vw_timeline v) = ?ts" by (rule run_timeline_cong [OF True])
    show ?thesis
    proof (cases "i < length ?ts")
      case old: True
      from store_step_nth [OF old, of ev run] have
        k: "step_key_of run (?ts' ! i) = step_key_of run (?ts ! i)" "\<not> is_closed (?ts ! i)"
        using op unfolding ts' by auto
      then have pos: "open_pos (step_key_of run (?ts ! i)) (vw_open v) = Some i"
        using assms(1) old unfolding open_inv_def by blast
      show ?thesis
      proof (cases "is_closed ev")
        case True
        with k pos show ?thesis by (simp add: fold_step_open)
      next
        case False
        then have "\<not> same_step (?ts ! i) ev" using assms(2) k(2) old unfolding may_start_def run by auto
        then have "\<not> key_eq (step_key ev) (step_key_of run (?ts ! i))" using key_same_step by blast
        with False k pos show ?thesis by (simp add: fold_step_open open_pos_put)
      qed
    next
      case new: False
      from store_step_new [of i ev ?ts] i new have
        n: "i = length ?ts" "?ts' ! i = step_of ev" unfolding ts' by auto
      have "\<not> is_closed ev" using op n(2) by simp
      moreover have "key_eq (step_key ev) (step_key_of run (step_of ev))"
        using True by (simp add: key_eq_def step_key_def step_key_of_def)
      ultimately show ?thesis using n by (simp add: fold_step_open open_pos_put run)
    qed
  qed
next
  fix run c s i
  let ?ts = "run_timeline run (vw_timeline v)" and ?ts' = "run_timeline run (vw_timeline (fold_step ev v))"
  assume pos: "open_pos (run, c, s) (vw_open (fold_step ev v)) = Some i"
  have old: "i < length ?ts' \<and> key_eq (run, c, s) (step_key_of run (?ts' ! i))"
    if "open_pos (run, c, s) (vw_open v) = Some i"
  proof -
    have "i < length ?ts" "key_eq (run, c, s) (step_key_of run (?ts ! i))"
      using that assms(1) unfolding open_inv_def by blast+
    then show ?thesis
      using store_step_nth [of i ?ts ev run]
      by (simp add: fold_step_store [OF assms(1)] run_timeline_pupd)
  qed
  show "i < length ?ts'" "key_eq (run, c, s) (step_key_of run (?ts' ! i))"
  proof (atomize (full), cases "\<not> is_closed ev \<and> key_eq (step_key ev) (run, c, s)")
    case False
    with pos have "open_pos (run, c, s) (vw_open v) = Some i" by (auto simp: fold_step_open open_pos_put split: if_splits)
    with old show "i < length ?ts' \<and> key_eq (run, c, s) (step_key_of run (?ts' ! i))" by blast
  next
    case True
    then have eq: "py_eq (ev_get ''run_id'' ev) run" by (simp add: key_eq_def step_key_def)
    have "i = length ?ts"
      using True pos run_timeline_cong [OF eq, of "vw_timeline v"] by (simp add: fold_step_open open_pos_put)
    moreover have "?ts' = ?ts @ [step_of ev]"
      using True eq by (simp add: fold_step_store [OF assms(1)] run_timeline_pupd store_step_def is_closed_def)
    moreover have "key_eq (run, c, s) (step_key_of run (step_of ev))"
      using True by (simp add: key_eq_def step_key_def step_key_of_def py_eq_sym)
    ultimately show "i < length ?ts' \<and> key_eq (run, c, s) (step_key_of run (?ts' ! i))" by simp
  qed
qed

section \<open>Simulation of one log reader by another\<close>

text \<open>Along a log, each event is allowed in the state it meets.\<close>

fun along :: "('e \<Rightarrow> 's \<Rightarrow> bool) \<Rightarrow> ('e \<Rightarrow> 's \<Rightarrow> 'x + 's) \<Rightarrow> 'e list \<Rightarrow> 's \<Rightarrow> bool" where
  "along ok f [] s = True"
| "along ok f (e # es) s = (ok e s \<and> (case f e s of Inl x \<Rightarrow> True | Inr s' \<Rightarrow> along ok f es s'))"

text \<open>A detailed reader \<open>fstep\<close> implements \<open>gstep\<close> by the view \<open>view\<close> as long as \<open>inv\<close> holds.\<close>

locale log_simulation =
  fixes fstep :: "'e \<Rightarrow> 's \<Rightarrow> 'x + 's"
    and gstep :: "'e \<Rightarrow> 't \<Rightarrow> 'x + 't"
    and view :: "'s \<Rightarrow> 't"
    and inv :: "'s \<Rightarrow> bool"
    and ok :: "'e \<Rightarrow> 't \<Rightarrow> bool"
  assumes sim: "inv s \<Longrightarrow> ok e (view s) \<Longrightarrow> fstep e s = Inr s' \<Longrightarrow> gstep e (view s) = Inr (view s') \<and> inv s'"
begin

lemma run_simulates:
  assumes "inv s" "along ok gstep es (view s)" "run_log fstep es s = Inr s'"
  shows "run_log gstep es (view s) = Inr (view s') \<and> inv s'"
  using assms
proof (induction es arbitrary: s)
  case Nil
  then show ?case by simp
next
  case (Cons e es)
  from Cons.prems(3) obtain s1 where s1: "fstep e s = Inr s1" "run_log fstep es s1 = Inr s'"
    by (auto simp: rbind_Inr_iff)
  from sim [OF Cons.prems(1) _ s1(1)] Cons.prems(2) have g: "gstep e (view s) = Inr (view s1)" "inv s1" by auto
  with Cons.IH [OF g(2) _ s1(2)] Cons.prems(2) show ?case by simp
qed

end

text \<open>The payload may be applied: its type can be hashed, and it starts no step that is open.\<close>

definition routable :: "event \<Rightarrow> (pyval \<times> timeline) list \<Rightarrow> bool" where
  "routable ev tls \<longleftrightarrow> hashable (ev_get ''type'' ev) \<and>
     (ev_get ''type'' ev = VStr ''opsstepevent'' \<longrightarrow> may_start ev tls)"

lemma open_inv_cong:
  "vw_timeline v = vw_timeline u \<Longrightarrow> vw_open v = vw_open u \<Longrightarrow> open_inv v = open_inv u"
  by (simp add: open_inv_def)

interpretation monitor: log_simulation fold_event route_payload vw_timeline open_inv routable
proof
  fix v v' ev
  assume inv: "open_inv v" and ok: "routable ev (vw_timeline v)" and step: "fold_event ev v = Inr v'"
  show "route_payload ev (vw_timeline v) = Inr (vw_timeline v') \<and> open_inv v'"
  proof (cases "ev_get ''type'' ev = VStr ''opsstepevent'' \<and> py_truth (ev_get ''run_id'' ev)")
    case True
    then have "hashable (ev_get ''run_id'' ev)" and v': "vw_timeline v' = vw_timeline (fold_step ev v)"
      "vw_open v' = vw_open (fold_step ev v)"
      using step by (auto simp: fold_event_def Let_def split: if_splits)
    then have "route_payload ev (vw_timeline v) = Inr (vw_timeline v')"
      using True by (simp add: route_payload_def apply_opsstepevent_def Let_def fold_step_store [OF inv])
    moreover have "open_inv v'"
      using fold_step_inv [OF inv] ok True open_inv_cong [OF v'] by (simp add: routable_def)
    ultimately show ?thesis by blast
  next
    case False
    then have v': "vw_timeline v' = vw_timeline v" "vw_open v' = vw_open v"
      using step by (auto simp: fold_event_def Let_def split: if_splits)
    moreover have "route_payload ev (vw_timeline v) = Inr (vw_timeline v)"
      using False ok by (auto simp: route_payload_def apply_opsstepevent_def Let_def routable_def)
    ultimately show ?thesis using inv open_inv_cong [OF v'] by simp
  qed
qed

lemma open_inv_no_views [simp]: "open_inv no_views"
  by (simp add: open_inv_def no_views_def run_timeline_def)

text \<open>C22. Refinement. On a log in which no step is started while one of the same run, command and slug
  is open, the timelines of the bridge's fold, which closes steps through a table of references, are
  those of the monitor, which searches its timeline from the end.\<close>

theorem monitor_refines_fold:
  assumes "fold_eventlog_views evs = Inr v" "along routable route_payload evs []"
  shows "route_all evs [] = Inr (vw_timeline v)"
proof -
  have "vw_timeline no_views = []" by (simp add: no_views_def)
  with assms monitor.run_simulates [OF open_inv_no_views, of evs v] show ?thesis
    by (simp add: fold_eventlog_views_def route_all_def)
qed

definition step_event :: "string \<Rightarrow> int option \<Rightarrow> event" where
  "step_event cmd ec =
     [(''type'', VStr ''opsstepevent''), (''run_id'', VStr ''R''), (''tier'', VStr ''T6''), (''cmd'', VStr cmd),
      (''t_emitted'', VStr ''t'')] @ opt_key ''exit_code'' VInt ec"

definition sample_log :: "event list" where
  "sample_log = [step_event ''append'' None, step_event ''dispatch'' None, step_event ''append'' (Some 0),
     step_event ''dispatch'' (Some 1), step_event ''append'' None]"

lemma sample_log_fold:
  "map_sum id vw_timeline (fold_eventlog_views sample_log) = Inr
     [(VStr ''R'', [step_of (step_event ''append'' (Some 0)), step_of (step_event ''dispatch'' (Some 1)),
       step_of (step_event ''append'' None)])]"
  by code_simp

lemma sample_log_routable: "along routable route_payload sample_log []"
  by code_simp

theorem monitor_refines_fold_witness:
  "\<exists>v. fold_eventlog_views sample_log = Inr v \<and> route_all sample_log [] = Inr (vw_timeline v)"
proof -
  obtain v where "fold_eventlog_views sample_log = Inr v"
    using sample_log_fold by (cases "fold_eventlog_views sample_log") auto
  with monitor_refines_fold [OF _ sample_log_routable] show ?thesis by blast
qed

text \<open>Outside that discipline the two disagree: a command started twice and ended twice leaves an
  open step and an extra one in the bridge's fold, and two closed steps in the monitor.\<close>

theorem monitor_and_fold_disagree:
  "map_sum id vw_timeline (fold_eventlog_views (map (step_event ''append'') [None, None, Some 0, Some 1])) =
     Inr [(VStr ''R'', [step_of (step_event ''append'' None), step_of (step_event ''append'' (Some 0)),
                      step_of (step_event ''append'' (Some 1))])] \<and>
   route_all (map (step_event ''append'') [None, None, Some 0, Some 1]) [] =
     Inr [(VStr ''R'', [step_of (step_event ''append'' (Some 1)), step_of (step_event ''append'' (Some 0))])]"
  by (rule conjI; code_simp)

section \<open>A session of commands\<close>

definition is_call :: "string list \<Rightarrow> bool" where
  "is_call argv \<longleftrightarrow> argv \<noteq> [] \<and> hd argv \<in> set command_names"

text \<open>The commands of one process after the other, each with its start and end time.\<close>

fun run_session ::
  "(string \<Rightarrow> string list \<Rightarrow> workspace \<Rightarrow> outcome \<times> workspace) \<Rightarrow> telemetry_env \<Rightarrow>
   (pydt \<times> pydt \<times> string list) list \<Rightarrow> workspace \<Rightarrow> outcome list \<times> workspace \<times> event list" where
  "run_session run env [] w = ([], w, [])"
| "run_session run env ((t0, t1, argv) # calls) w =
     (case main [] run env t0 t1 argv w of (oc, w', evs) \<Rightarrow>
        (case run_session run env calls w' of (ocs, w'', evs') \<Rightarrow> (oc # ocs, w'', evs @ evs')))"

lemma command_tiers: "cmd \<in> set command_names \<Longrightarrow> tier_of_cmd cmd \<in> set allowed_tiers \<and> cmd \<noteq> [] \<and> cmd \<notin> {''-h'', ''--help''}"
proof -
  have "list_all (\<lambda>cmd. tier_of_cmd cmd \<in> set allowed_tiers \<and> cmd \<noteq> [] \<and> cmd \<notin> {''-h'', ''--help''}) command_names"
    by code_simp
  then show "cmd \<in> set command_names \<Longrightarrow> ?thesis" by (simp add: list_all_iff)
qed

text \<open>What \<open>main\<close> sends, field by field.\<close>

lemma main_event_shape:
  assumes "main help run env t0 t1 argv w = (oc, w', evs)" "ev \<in> set evs"
  shows "\<exists>cmd t slug session ec. cmd \<in> set command_names \<and> ev \<in> set (emit_step env t (tier_of_cmd cmd) cmd (env_run_id env) slug session ec) \<and>
    (case slug of None \<Rightarrow> True | Some s \<Rightarrow> is_valid_slug s) \<and> (case session of None \<Rightarrow> True | Some s \<Rightarrow> te_session env = Some s) \<and>
    ec \<in> {None, Some (exit_code_of oc)}"
proof -
  obtain cmd args where argv: "argv = cmd # args" "cmd \<in> set command_names"
    using assms by (auto simp: main_def split: list.splits if_splits prod.splits)
  define slug session where "slug = infer_telemetry_slug cmd args"
    and "session = (case te_session env of None \<Rightarrow> None | Some s \<Rightarrow> if s = [] then None else Some s)"
  have "case slug of None \<Rightarrow> True | Some s \<Rightarrow> is_valid_slug s"
    by (auto simp: slug_def infer_telemetry_slug_def Let_def split: option.splits if_splits)
  moreover have "case session of None \<Rightarrow> True | Some s \<Rightarrow> te_session env = Some s"
    by (simp add: session_def split: option.split)
  moreover have evs: "evs = lifecycle_step env t0 t1 (tier_of_cmd cmd) cmd slug session oc"
    using assms(1) argv command_tiers [OF argv(2)] by (auto simp: main_def slug_def session_def Let_def split: prod.splits)
  from evs obtain t ec where "ev \<in> set (emit_step env t (tier_of_cmd cmd) cmd (env_run_id env) slug session ec)"
    "ec \<in> {None, Some (exit_code_of oc)}" using assms(2) by (auto simp: lifecycle_step_def Let_def)
  ultimately show ?thesis using argv(2) by blast
qed

lemma emitted_accepted:
  assumes "ev \<in> set (emit_step env t (tier_of_cmd cmd) cmd run_id slug session ec)" "cmd \<in> set command_names" "run_id \<noteq> []"
  shows "is_opsstepevent ev"
  using assms command_tiers [OF assms(2)] fmt_z_ne [of t]
  by (auto simp: emit_step_def is_opsstepevent_def ev_get_def dget_or_def split: if_splits)

text \<open>C38. Every command of the table has a tier of the protocol, so each event that \<open>main\<close> emits
  passes the bridge's check - unless \<open>NIGHTCLAW_RUN_ID\<close> is set to the empty text, when none does.\<close>

theorem main_events_accepted:
  assumes "main help run env t0 t1 argv w = (oc, w', evs)" "ev \<in> set evs"
  shows "is_opsstepevent ev \<longleftrightarrow> env_run_id env \<noteq> []"
proof -
  from main_event_shape [OF assms] obtain cmd t slug session ec where cmd: "cmd \<in> set command_names"
    "ev \<in> set (emit_step env t (tier_of_cmd cmd) cmd (env_run_id env) slug session ec)" by blast
  show ?thesis
  proof (cases "env_run_id env = []")
    case True
    with cmd(2) show ?thesis by (auto simp: emit_step_def is_opsstepevent_def ev_get_def dget_or_def split: if_splits)
  next
    case False
    with emitted_accepted [OF cmd(2,1)] show ?thesis by simp
  qed
qed

definition noon :: pydt where
  "noon = \<lparr>dt_y = 2026, dt_mo = 4, dt_d = 18, dt_h = 12, dt_mi = 0, dt_s = 0, dt_us = 0, dt_tz = Some 0\<rparr>"

definition worker_env :: telemetry_env where
  "worker_env = \<lparr>te_off = False, te_run_id = Some ''RUN-20260418-001'', te_session = Some ''worker''\<rparr>"

definition quiet_run :: "string \<Rightarrow> string list \<Rightarrow> workspace \<Rightarrow> outcome \<times> workspace" where
  "quiet_run cmd args w = (if args = [] then Exit 0 [] else Exit 1 [], w)"

lemma dispatch_call:
  "main [] quiet_run worker_env noon noon [''dispatch''] Map.empty = (Exit 0 [], Map.empty,
     lifecycle_step worker_env noon noon (tier_of_cmd ''dispatch'') ''dispatch''
       (infer_telemetry_slug ''dispatch'' []) (Some ''worker'') (Exit 0 []))"
  by (simp add: main_def quiet_run_def worker_env_def command_names_def)

theorem main_events_accepted_witness:
  "is_opsstepevent (hd (emit_step worker_env noon (tier_of_cmd ''dispatch'') ''dispatch''
     (env_run_id worker_env) (infer_telemetry_slug ''dispatch'' []) (Some ''worker'') None))"
proof -
  let ?ev = "hd (emit_step worker_env noon (tier_of_cmd ''dispatch'') ''dispatch''
     (env_run_id worker_env) (infer_telemetry_slug ''dispatch'' []) (Some ''worker'') None)"
  have "?ev \<in> set (lifecycle_step worker_env noon noon (tier_of_cmd ''dispatch'') ''dispatch''
       (infer_telemetry_slug ''dispatch'' []) (Some ''worker'') (Exit 0 []))"
    by (simp add: lifecycle_step_def Let_def emit_step_def worker_env_def)
  moreover have "env_run_id worker_env \<noteq> []" by (simp add: worker_env_def env_run_id_def)
  ultimately show ?thesis using main_events_accepted [OF dispatch_call, of ?ev] by blast
qed

lemma close_last_append:
  "same_step st ev \<Longrightarrow> \<not> is_closed st \<Longrightarrow> close_last ev ec (ts @ [st]) = Some (ts @ [close_step ec st])"
  by (induction ts) auto

lemma store_pair:
  assumes "\<not> is_closed a" "map_of b ''exit_code'' = Some ec" "same_step (step_of a) b"
  shows "store_step b (store_step a ts) = ts @ [close_step ec (step_of a)]"
  using assms close_last_append [of "step_of a" b ec ts] by (simp add: store_step_def is_closed_def map_of_step_of)

lemma emit_step_fields:
  assumes "\<not> te_off env" "run_id \<noteq> []"
  shows "\<exists>ev. emit_step env now tier cmd run_id slug session ec = [ev] \<and>
     ev_get ''type'' ev = VStr ''opsstepevent'' \<and> ev_get ''run_id'' ev = VStr run_id \<and>
     ev_get ''cmd'' ev = VStr cmd \<and> ev_get ''slug'' ev = (case slug of None \<Rightarrow> VNone | Some s \<Rightarrow> VStr s) \<and>
     map_of ev ''exit_code'' = map_option VInt ec"
  using assms
  by (auto simp: emit_step_def ev_get_def dget_or_def opt_key_def split: option.split)

definition call_events :: "telemetry_env \<Rightarrow> event list \<Rightarrow> string \<Rightarrow> outcome \<Rightarrow> bool" where
  "call_events env evs cmd oc \<longleftrightarrow> (\<exists>a b slug. evs = [a, b] \<and> hashable slug \<and>
     (\<forall>ev \<in> {a, b}. ev_get ''type'' ev = VStr ''opsstepevent'' \<and> ev_get ''run_id'' ev = VStr (env_run_id env) \<and>
        ev_get ''cmd'' ev = VStr cmd \<and> ev_get ''slug'' ev = slug) \<and>
     map_of a ''exit_code'' = None \<and> map_of b ''exit_code'' = Some (VInt (exit_code_of oc)))"

lemma main_call_events:
  assumes "is_call argv" "\<not> te_off env" "env_run_id env \<noteq> []" "main help run env t0 t1 argv w = (oc, w', evs)"
  shows "call_events env evs (hd argv) oc"
proof -
  obtain cmd args where argv: "argv = cmd # args" "cmd \<in> set command_names"
    using assms(1) by (cases argv) (auto simp: is_call_def)
  from assms(4) argv command_tiers [OF argv(2)] obtain slug session where
    "evs = lifecycle_step env t0 t1 (tier_of_cmd cmd) cmd slug session oc"
    by (auto simp: main_def Let_def split: prod.splits)
  with emit_step_fields [OF assms(2,3), of t0 "tier_of_cmd cmd" cmd slug session None]
    emit_step_fields [OF assms(2,3), of t1 "tier_of_cmd cmd" cmd slug session "Some (exit_code_of oc)"]
  obtain a b where ab: "evs = [a, b]" "map_of a ''exit_code'' = None"
    "map_of b ''exit_code'' = Some (VInt (exit_code_of oc))"
    "\<forall>ev \<in> {a, b}. ev_get ''type'' ev = VStr ''opsstepevent'' \<and> ev_get ''run_id'' ev = VStr (env_run_id env) \<and>
       ev_get ''cmd'' ev = VStr cmd \<and> ev_get ''slug'' ev = (case slug of None \<Rightarrow> VNone | Some s \<Rightarrow> VStr s)"
    by (auto simp: lifecycle_step_def Let_def)
  moreover have "hashable (case slug of None \<Rightarrow> VNone | Some s \<Rightarrow> VStr s)" by (simp split: option.split)
  ultimately show ?thesis unfolding call_events_def argv(1) list.sel by blast
qed

definition step_summary :: "event \<Rightarrow> pyval \<times> pyval" where
  "step_summary st = (ev_get ''cmd'' st, ev_get ''exit_code'' st)"

abbreviation run_steps :: "telemetry_env \<Rightarrow> (pyval \<times> timeline) list \<Rightarrow> timeline" where
  "run_steps env tls \<equiv> run_timeline (VStr (env_run_id env)) tls"

lemma call_events_route:
  assumes "call_events env evs cmd oc" "env_run_id env \<noteq> []" "\<forall>st \<in> set (run_steps env tls). is_closed st"
  shows "\<exists>st tls'. run_log route_payload evs tls = Inr tls' \<and> along routable route_payload evs tls \<and>
    run_steps env tls' = run_steps env tls @ [st] \<and> is_closed st \<and>
    step_summary st = (VStr cmd, VInt (exit_code_of oc))"
proof -
  obtain a b slug where ab: "evs = [a, b]" "map_of a ''exit_code'' = None"
    "map_of b ''exit_code'' = Some (VInt (exit_code_of oc))"
    "\<forall>ev \<in> {a, b}. ev_get ''type'' ev = VStr ''opsstepevent'' \<and> ev_get ''run_id'' ev = VStr (env_run_id env) \<and>
       ev_get ''cmd'' ev = VStr cmd \<and> ev_get ''slug'' ev = slug"
    using assms(1) by (auto simp: call_events_def)
  let ?rid = "VStr (env_run_id env)"
  define tls1 where "tls1 = pupd ?rid [] (store_step a) tls"
  define tls2 where "tls2 = pupd ?rid [] (store_step b) tls1"
  have r: "route_payload a tls = Inr tls1" "route_payload b tls1 = Inr tls2"
    using ab assms(2) by (simp_all add: route_payload_def apply_opsstepevent_def Let_def tls1_def tls2_def)
  have "run_steps env tls2 = store_step b (store_step a (run_steps env tls))"
    by (simp add: tls1_def tls2_def run_timeline_pupd)
  also have "\<dots> = run_steps env tls @ [close_step (VInt (exit_code_of oc)) (step_of a)]"
    using ab by (intro store_pair) (simp_all add: is_closed_def same_step_def)
  finally have "run_steps env tls2 = run_steps env tls @ [close_step (VInt (exit_code_of oc)) (step_of a)]" .
  moreover have "may_start a tls" "may_start b tls1"
    using ab assms(3) by (simp_all add: may_start_def is_closed_def)
  moreover have "step_summary (close_step (VInt (exit_code_of oc)) (step_of a)) = (VStr cmd, VInt (exit_code_of oc))"
    using ab(4) by (simp add: step_summary_def) (simp add: close_step_def ev_get_def dget_or_def)
  ultimately show ?thesis using ab r by (auto simp: routable_def)
qed

lemma run_log_append: "run_log f (xs @ ys) s = rbind (run_log f xs s) (run_log f ys)"
  by (induction xs arbitrary: s) (simp_all add: rbind_def split: sum.split)

lemma along_append:
  "along ok f xs s \<Longrightarrow> run_log f xs s = Inr s' \<Longrightarrow> along ok f ys s' \<Longrightarrow> along ok f (xs @ ys) s"
  by (induction xs arbitrary: s) (auto simp: rbind_def split: sum.splits)

lemma session_route:
  assumes "\<not> te_off env" "env_run_id env \<noteq> []" "\<forall>(t0, t1, argv) \<in> set calls. is_call argv"
    and "run_session run env calls w = (ocs, w', evs)" "\<forall>st \<in> set (run_steps env tls). is_closed st"
  shows "\<exists>sts tls'. run_log route_payload evs tls = Inr tls' \<and> along routable route_payload evs tls \<and>
    run_steps env tls' = run_steps env tls @ sts \<and> (\<forall>st \<in> set sts. is_closed st) \<and>
    map step_summary sts = map2 (\<lambda>(t0, t1, argv) oc. (VStr (hd argv), VInt (exit_code_of oc))) calls ocs \<and>
    length ocs = length calls"
  using assms(3-5)
proof (induction calls arbitrary: w ocs evs tls)
  case Nil
  then show ?case by simp
next
  case (Cons call calls)
  obtain t0 t1 argv where call: "call = (t0, t1, argv)" by (cases call)
  obtain oc w1 evs1 where m: "main [] run env t0 t1 argv w = (oc, w1, evs1)" by (metis prod_cases3)
  obtain ocs2 w2 evs2 where s: "run_session run env calls w1 = (ocs2, w2, evs2)" by (metis prod_cases3)
  have eq: "ocs = oc # ocs2" "w' = w2" "evs = evs1 @ evs2" using Cons.prems(2) by (simp_all add: call m s)
  have "call_events env evs1 (hd argv) oc"
    using main_call_events [OF _ assms(1,2) m] Cons.prems(1) by (simp add: call)
  from call_events_route [OF this assms(2) Cons.prems(3)] obtain st tls1 where
    one: "run_log route_payload evs1 tls = Inr tls1" "along routable route_payload evs1 tls"
      "run_steps env tls1 = run_steps env tls @ [st]" "is_closed st"
      "step_summary st = (VStr (hd argv), VInt (exit_code_of oc))" by blast
  with Cons.prems(3) have closed: "\<forall>st \<in> set (run_steps env tls1). is_closed st" by simp
  from Cons.IH [OF _ s [folded eq(2)] closed] Cons.prems(1) obtain sts tls2 where
    "run_log route_payload evs2 tls1 = Inr tls2" "along routable route_payload evs2 tls1"
    "run_steps env tls2 = run_steps env tls1 @ sts" "\<forall>st \<in> set sts. is_closed st"
    "map step_summary sts = map2 (\<lambda>(t0, t1, argv) oc. (VStr (hd argv), VInt (exit_code_of oc))) calls ocs2"
    "length ocs2 = length calls" unfolding eq by auto
  with one show ?case
    by (intro exI [of _ "st # sts"] exI [of _ tls2])
      (simp add: eq call run_log_append along_append)
qed

lemma fold_event_total:
  assumes "hashable (ev_get ''run_id'' ev)" "hashable (ev_get ''cmd'' ev)" "hashable (ev_get ''slug'' ev)"
  shows "\<exists>v'. fold_event ev v = Inr v'"
  using assms by (auto simp: fold_event_def Let_def)

lemma fold_total:
  assumes "\<forall>ev \<in> set evs. hashable (ev_get ''run_id'' ev) \<and> hashable (ev_get ''cmd'' ev) \<and> hashable (ev_get ''slug'' ev)"
  shows "\<exists>v'. run_log fold_event evs v = Inr v'"
  using assms
proof (induction evs arbitrary: v)
  case Nil
  then show ?case by simp
next
  case (Cons ev evs)
  then obtain v1 where "fold_event ev v = Inr v1" using fold_event_total by (meson list.set_intros(1))
  with Cons show ?case by simp
qed

lemma session_hashable:
  assumes "\<not> te_off env" "env_run_id env \<noteq> []" "\<forall>(t0, t1, argv) \<in> set calls. is_call argv"
    and "run_session run env calls w = (ocs, w', evs)"
  shows "\<forall>ev \<in> set evs. hashable (ev_get ''run_id'' ev) \<and> hashable (ev_get ''cmd'' ev) \<and> hashable (ev_get ''slug'' ev)"
  using assms(3,4)
proof (induction calls arbitrary: w ocs evs)
  case Nil
  then show ?case by simp
next
  case (Cons call calls)
  obtain t0 t1 argv where call: "call = (t0, t1, argv)" by (cases call)
  obtain oc w1 evs1 where m: "main [] run env t0 t1 argv w = (oc, w1, evs1)" by (metis prod_cases3)
  obtain ocs2 w2 evs2 where s: "run_session run env calls w1 = (ocs2, w2, evs2)" by (metis prod_cases3)
  have "call_events env evs1 (hd argv) oc"
    using main_call_events [OF _ assms(1,2) m] Cons.prems(1) by (simp add: call)
  then have "\<forall>ev \<in> set evs1. hashable (ev_get ''run_id'' ev) \<and> hashable (ev_get ''cmd'' ev) \<and> hashable (ev_get ''slug'' ev)"
    by (auto simp: call_events_def)
  moreover have eq: "evs = evs1 @ evs2" "w' = w2" using Cons.prems(2) by (simp_all add: call m s)
  ultimately show ?case using Cons.IH [OF _ s [folded eq(2)]] Cons.prems(1) by (auto simp: call)
qed

text \<open>C19. From the command line to the monitor: after a session of commands the bridge shows, for the
  run, one step per command, in order, with the exit code the command ended with (1 where an exception
  ended it), and no step is open; the monitor, fed the same events, shows the same.\<close>

theorem session_reaches_monitor:
  assumes "\<not> te_off env" "env_run_id env \<noteq> []" "\<forall>(t0, t1, argv) \<in> set calls. is_call argv"
    and "run_session run env calls w = (ocs, w', evs)"
  shows "\<exists>v. fold_eventlog_views evs = Inr v \<and> route_all evs [] = Inr (vw_timeline v) \<and>
    map step_summary (run_steps env (vw_timeline v)) =
      map2 (\<lambda>(t0, t1, argv) oc. (VStr (hd argv), VInt (exit_code_of oc))) calls ocs \<and>
    (\<forall>st \<in> set (run_steps env (vw_timeline v)). is_closed st) \<and> length ocs = length calls"
proof -
  obtain v where v: "fold_eventlog_views evs = Inr v"
    using fold_total [OF session_hashable [OF assms]] unfolding fold_eventlog_views_def by blast
  have nil: "run_steps env [] = []" by (simp add: run_timeline_def)
  from session_route [OF assms, of "[]"] nil obtain tls where
    tls: "route_all evs [] = Inr tls" "along routable route_payload evs []"
      "\<forall>st \<in> set (run_steps env tls). is_closed st" "length ocs = length calls"
      "map step_summary (run_steps env tls) =
        map2 (\<lambda>(t0, t1, argv) oc. (VStr (hd argv), VInt (exit_code_of oc))) calls ocs"
    by (auto simp: route_all_def)
  have "vw_timeline no_views = []" by (simp add: no_views_def)
  with v tls(2) monitor.run_simulates [OF open_inv_no_views, of evs v]
  have "route_all evs [] = Inr (vw_timeline v)" by (simp add: fold_eventlog_views_def route_all_def)
  with v tls show ?thesis by auto
qed

definition two_calls :: "(pydt \<times> pydt \<times> string list) list" where
  "two_calls = [(noon, noon, [''dispatch'']), (noon, noon, [''append'', ''x''])]"

theorem session_reaches_monitor_witness:
  "\<exists>v. fold_eventlog_views (snd (snd (run_session quiet_run worker_env two_calls Map.empty))) = Inr v \<and>
    map step_summary (run_steps worker_env (vw_timeline v)) =
      [(VStr ''dispatch'', VInt 0), (VStr ''append'', VInt 1)]"
proof -
  have call: "\<forall>(t0, t1, argv) \<in> set two_calls. is_call argv"
    by (simp add: two_calls_def is_call_def command_names_def)
  obtain ocs w' evs where run: "run_session quiet_run worker_env two_calls Map.empty = (ocs, w', evs)"
    by (metis prod_cases3)
  have "ocs = [Exit 0 [], Exit 1 []]"
    using run by (auto simp: two_calls_def main_def quiet_run_def command_names_def Let_def)
  then have "map2 (\<lambda>(t0, t1, argv) oc. (VStr (hd argv), VInt (exit_code_of oc))) two_calls ocs =
      [(VStr ''dispatch'', VInt 0), (VStr ''append'', VInt 1)]" by (simp add: two_calls_def)
  moreover have "evs = snd (snd (run_session quiet_run worker_env two_calls Map.empty))" by (simp add: run)
  moreover have "\<not> te_off worker_env" "env_run_id worker_env \<noteq> []" by (simp_all add: worker_env_def env_run_id_def)
  ultimately show ?thesis using session_reaches_monitor [OF _ _ call run] by metis
qed

end
