(* ===== verification/Replay.thy ===== *)
theory Replay
  imports Bundle
begin

text \<open>
  \<open>nightclaw_engine/commands/replay.py\<close>: what a run did, read off the audit and change logs, and
  \<open>commands/model_tier.py\<close>. Step numbers are compared as hundredths; the floats of the code are exact
  for them where the numbers stay below \<open>2 ^ 40\<close>.
\<close>

section \<open>Audit events\<close>

definition run_id_rx :: rx where
  "run_id_rx = rseq [rlit ''RUN-'', rrep 8 rdigit, rlit ''-'', rrep 3 rdigit]"

definition t_step_rx :: rx where
  "t_step_rx = rseq [rlit ''T'', rplus rdigit, ropt (RSeq (rlit ''.'') (rplus rdigit)), ropt (RSet is_lower)]"

definition type_rx :: rx where
  "type_rx = RSeq (RSet (\<lambda>c. is_upper c \<or> c = CHR ''_'')) (RStar (RSet (\<lambda>c. is_upper c \<or> is_digit c \<or> c = CHR ''_'')))"

definition audit_rx :: "string \<Rightarrow> rx" where
  "audit_rx run_id =
     rseq [rlit (''TASK:'' @ run_id @ ''.''), RGrp 1 (RAlt t_step_rx (rlit ''STARTUP'')), rspaces, rlit ''|'', rspaces,
           rlit ''TYPE:'', RGrp 2 type_rx]"

definition parse_audit_events :: "string \<Rightarrow> string \<Rightarrow> (string \<times> string \<times> string) list" where
  "parse_audit_events text run_id =
     concat (map (\<lambda>line. case rx_search (audit_rx run_id) line of
         None \<Rightarrow> []
       | Some m \<Rightarrow> [(m_group_or [] 1 m, m_group_or [] 2 m, strip line)]) (splitlines text))"

section \<open>Change events\<close>

type_synonym change_event = "string \<times> string \<times> string \<times> string"  \<comment> \<open>time, field, old, new\<close>

definition change_event_of :: "string \<Rightarrow> string \<Rightarrow> change_event option" where
  "change_event_of run_id line =
     (let l = strip line in
      if l = [] \<or> startswith l ''#'' \<or> startswith l ''<!--'' then None
      else (case split_on (CHR ''|'') l of
          field # old # new # agent # rid # t # _ \<Rightarrow>
            if strip rid \<noteq> run_id then None else Some (strip t, strip field, strip old, strip new)
        | _ \<Rightarrow> None))"

definition parse_change_events :: "string \<Rightarrow> string \<Rightarrow> change_event list" where
  "parse_change_events text run_id = List.map_filter (change_event_of run_id) (splitlines text)"

section \<open>Step ranges\<close>

definition step_num_rx :: rx where
  "step_num_rx = rseq [rlit ''T'', RGrp 1 (rplus rdigit), ropt (RSeq (rlit ''.'') (RGrp 2 (rplus rdigit))),
                       ropt (RSet is_lower), REol]"

definition step_num :: "string \<Rightarrow> int" where
  "step_num s =
     (if s = ''STARTUP'' then - 100
      else (case rx_match step_num_rx s of
          None \<Rightarrow> 100000000000
        | Some m \<Rightarrow> 100 * int (digits_val (m_group_or [] 1 m)) + int (digits_val (m_group_or ''0'' 2 m))))"

definition step_in_range :: "string \<Rightarrow> string option \<Rightarrow> string option \<Rightarrow> bool" where
  "step_in_range step lo hi \<longleftrightarrow>
     (if step = ''STARTUP'' then lo = None
      else (case lo of None \<Rightarrow> True | Some l \<Rightarrow> step_num l \<le> step_num step) \<and>
           (case hi of None \<Rightarrow> True | Some h \<Rightarrow> step_num step \<le> step_num h))"

section \<open>Output\<close>

text \<open>\<open>json.dumps\<close> of a text: everything beyond ASCII is written as the UTF-16 units of its code point.\<close>

definition hex4 :: "nat \<Rightarrow> string" where
  "hex4 n = map hex_char [n div 4096 mod 16, n div 256 mod 16, n div 16 mod 16, n mod 16]"

definition json_unit :: "nat \<Rightarrow> string" where
  "json_unit n =
     (if n < 65536 then CHR 0x5C # ''u'' @ hex4 n
      else CHR 0x5C # ''u'' @ hex4 (55296 + (n - 65536) div 1024) @
           CHR 0x5C # ''u'' @ hex4 (56320 + (n - 65536) mod 1024))"

definition json_ascii :: "char \<Rightarrow> string" where
  "json_ascii c =
     (if c = quote \<or> c = CHR 0x5C then [CHR 0x5C, c]
      else if code c = 10 then CHR 0x5C # ''n'' else if code c = 13 then CHR 0x5C # ''r''
      else if code c = 9 then CHR 0x5C # ''t'' else if code c = 8 then CHR 0x5C # ''b''
      else if code c = 12 then CHR 0x5C # ''f''
      else if code c < 32 then json_unit (code c) else [c])"

text \<open>The number of bytes and the code point of the character at the start of a UTF-8 text.\<close>

definition utf8_head :: "nat list \<Rightarrow> nat \<times> nat" where
  "utf8_head s =
     (case s @ [128, 128, 128] of
        a # b # c # d # _ \<Rightarrow>
          if a < 192 then (1, a) else if a < 224 then (2, (a - 192) * 64 + (b - 128))
          else if a < 240 then (3, (a - 224) * 4096 + (b - 128) * 64 + (c - 128))
          else (4, (a - 240) * 262144 + (b - 128) * 4096 + (c - 128) * 64 + (d - 128))
      | _ \<Rightarrow> (1, 0))"

function json_body :: "string \<Rightarrow> string" where
  "json_body [] = []"
| "json_body (c # s) =
     (if code c < 128 then json_ascii c @ json_body s
      else (case utf8_head (map of_char (take 4 (c # s))) of (n, p) \<Rightarrow> json_unit p @ json_body (drop (n - 1) s)))"
  by pat_completeness auto
termination by (relation "measure length") auto

definition json_str :: "string \<Rightarrow> string" where
  "json_str s = quote # json_body s @ [quote]"

definition json_object :: "(string \<times> string) list \<Rightarrow> string" where
  "json_object kvs = ''{'' @ join '', '' (map (\<lambda>(k, v). json_str k @ '': '' @ json_str v) kvs) @ ''}''"

definition upad :: "nat \<Rightarrow> string \<Rightarrow> string" where
  "upad n s = s @ replicate (n - ulen s) (CHR '' '')"

definition type_cell_rx :: rx where
  "type_cell_rx = rseq [RBol, rlit ''TYPE:'', rplus (RSet (\<lambda>c. is_upper c \<or> c = CHR ''_'')), rspaces, rlit ''|'', rspaces]"

definition audit_line :: "string \<times> string \<times> string \<Rightarrow> string" where
  "audit_line ev =
     (case ev of (step, ty, raw) \<Rightarrow>
        (let cells = split_on (CHR ''|'') raw;
             tail = (if length cells \<ge> 3 then strip (join ''|'' (drop 2 cells)) else [])
         in ''  '' @ upad 10 step @ '' '' @ upad 22 ty @ '' '' @ rx_sub type_cell_rx (\<lambda>_. []) tail))"

definition shortened :: "string \<Rightarrow> string" where
  "shortened s = (if ulen s > 63 then utake 60 s @ ''...'' else s)"

definition change_line :: "change_event \<Rightarrow> string" where
  "change_line ev =
     (case ev of (t, field, old, new) \<Rightarrow>
        ''  '' @ upad 25 (if t = [] then ''?'' else t) @ '' CHANGE     '' @ field @ '': '' @ shortened old @ '' -> '' @
        shortened new)"

definition recovered_rx :: "string \<Rightarrow> rx" where
  "recovered_rx run_id =
     rseq [rlit ''TASK:'', RGrp 1 run_id_rx, rlit ''.STARTUP'', RStar (RSet (\<lambda>c. c \<noteq> nl)), rlit ''LOCK_RECOVERED'',
           RStar (RSet (\<lambda>c. c \<noteq> nl)), rlit (''RECOVERED_RUN:'' @ run_id)]"

text \<open>\<open>--from\<close> and \<open>--to\<close>: the last one counts; one at the end of the line has no value.\<close>

fun step_option :: "string \<Rightarrow> string list \<Rightarrow> string option" where
  "step_option name (a # b # args) =
     (case step_option name (b # args) of
        Some s \<Rightarrow> Some s
      | None \<Rightarrow> if a = name then Some b else None)"
| "step_option name _ = None"

definition file_or_empty :: "string \<Rightarrow> workspace \<Rightarrow> string" where
  "file_or_empty p w = (case read_file p w of None \<Rightarrow> [] | Some t \<Rightarrow> t)"

definition replay_events :: "bool \<Rightarrow> (string \<times> string \<times> string) list \<Rightarrow> change_event list \<Rightarrow> string list" where
  "replay_events json audits changes =
     (if json then
        map (\<lambda>(s, t, l). json_object [(''kind'', ''audit''), (''step'', s), (''type'', t), (''raw'', l)]) audits @
        map (\<lambda>(t, f, old, new). json_object [(''kind'', ''change''), (''t_written'', t), (''field'', f),
                                            (''old'', old), (''new'', new)]) changes
      else
        map audit_line audits @
        (if changes = [] then [] else ''  --- field changes ---'' # map change_line changes))"

definition cmd_replay :: "string list \<Rightarrow> workspace \<Rightarrow> outcome" where
  "cmd_replay argv w =
     (case argv of
        [] \<Rightarrow> Exit 2 []
      | arg # args \<Rightarrow>
          (let run_id = strip arg in
           if \<not> rx_matches (RSeq run_id_rx REol) run_id then Exit 2 []
           else
             (let audit_log = file_or_empty ''audit/AUDIT-LOG.md'' w;
                  audits = parse_audit_events audit_log run_id;
                  changes = parse_change_events (file_or_empty ''audit/CHANGE-LOG.md'' w) run_id;
                  chosen = filter (\<lambda>(s, t, l). step_in_range s (step_option ''--from'' args) (step_option ''--to'' args))
                             audits;
                  recovered = Option.bind (rx_search (recovered_rx run_id) audit_log) (m_group 1);
                  status = (if contains run_id (file_or_empty ''audit/SESSION-REGISTRY.md'' w) then ''yes''
                            else if recovered \<noteq> None then ''recovered'' else ''no'')
              in if audits = [] \<and> changes = [] then Exit 0 [''NO_EVENTS:'' @ run_id]
                 else Exit 0
                   (replay_events (''--json'' \<in> set args) chosen changes @
                    [''SUMMARY:steps='' @ nat_str (length audits) @ '' changes='' @ nat_str (length changes) @
                     '' completed='' @ status] @
                    (if audits = [] then []
                     else [''SUMMARY:first_step='' @ fst (hd audits) @ '' last_step='' @ fst (last audits)]) @
                    (case recovered of None \<Rightarrow> [] | Some r \<Rightarrow> [''SUMMARY:recovered_by='' @ r])))))"

section \<open>\<open>set-model-tier\<close>\<close>

definition tier_rx :: rx where
  "tier_rx = rseq [RGrp 1 (ralts [rlit_ci ''lightweight'', rlit_ci ''standard'', rlit_ci ''heavy'']), rspaces,
                   rlit '':'', rspaces, RGrp 2 (rplus rdot), REol]"

definition model_tiers :: "string list" where "model_tiers = [''lightweight'', ''standard'', ''heavy'']"

fun scan_tiers :: "bool \<Rightarrow> string list \<Rightarrow> fields \<Rightarrow> fields" where
  "scan_tiers in_yaml [] tiers = tiers"
| "scan_tiers in_yaml (line # lines) tiers =
     (let st = strip line in
      if st = ''```yaml'' then scan_tiers True lines tiers
      else if st = ''```'' \<and> in_yaml then tiers
      else if \<not> in_yaml then scan_tiers in_yaml lines tiers
      else (case rx_match tier_rx st of
          None \<Rightarrow> scan_tiers in_yaml lines tiers
        | Some m \<Rightarrow>
            (let model_id = strip (m_group_or [] 2 m) in
             if startswith model_id ''{'' \<and> endswith model_id ''}'' then scan_tiers in_yaml lines tiers
             else scan_tiers in_yaml lines (dput (lower (m_group_or [] 1 m)) model_id tiers))))"

definition parse_model_tiers :: "workspace \<Rightarrow> fields" where
  "parse_model_tiers w =
     (case read_file ''MODEL-TIERS.md'' w of None \<Rightarrow> [] | Some t \<Rightarrow> scan_tiers False (splitlines t) [])"

definition cmd_set_model_tier :: "string list \<Rightarrow> workspace \<Rightarrow> outcome" where
  "cmd_set_model_tier args w =
     (case args of
        [] \<Rightarrow> Exit 2 []
      | a # _ \<Rightarrow>
          (let tier = lower (strip a); tiers = parse_model_tiers w; model_id = dget_or [] tier tiers in
           if tier \<notin> set model_tiers then Exit 2 []
           else if tiers = [] then
             Exit 0 [''WARN:SET_MODEL_TIER:MODEL-TIERS.md missing or empty '' @ em_dash @
                     '' model tier switch skipped. Create MODEL-TIERS.md to enable.'']
           else if model_id = [] then
             Exit 0 [''WARN:SET_MODEL_TIER:tier='' @ tier @ '' not found in MODEL-TIERS.md '' @ em_dash @
                     '' model tier switch skipped'']
           else Exit 0 [''SET_MODEL_TIER:ADVISORY:tier='' @ tier @ '':model='' @ model_id @ '':platform=cowork'']))"

end
