(* ===== verification/ReplayFacts.thy ===== *)
theory ReplayFacts
  imports Replay SharedFacts
begin

text \<open>
  The change log written by \<open>bundle-exec\<close> and read by \<open>replay\<close>: what is written is read back, as long
  as no value contains the separator.
\<close>

section \<open>Lines added to a text\<close>






section \<open>Rows of the change log\<close>




lemma change_path_file: "startswith (change_path args c) ''FILE:''"
  by (simp add: change_path_def Let_def)

definition clean_change :: "fields \<Rightarrow> change \<Rightarrow> bool" where
  "clean_change args c \<longleftrightarrow>
     clean_cell (change_path args c) \<and> clean_cell (ch_old c) \<and> clean_cell (ch_new c)"

lemma change_log_allowed [simp]: "is_allowed_append_target model change_log" "canon_path change_log = change_log"
proof -
  have "append_norm change_log \<in> set append_allowed" by code_simp
  then show "is_allowed_append_target model change_log" by (simp add: is_allowed_append_target_def)
  show "canon_path change_log = change_log" by code_simp
qed




lemma change_event_shifted:
  assumes "clean_cell p" "clean_cell old" "clean_cell a" "clean_cell b" "startswith p ''FILE:''" "rid \<noteq> ''worker''"
    and "clean_cell name"
  shows "change_event_of rid (p @ ''|'' @ old @ ''|'' @ (a @ ''|'' @ b) @ row_tail now rid name) = None"
proof -
  let ?l = "p @ ''|'' @ old @ ''|'' @ (a @ ''|'' @ b) @ row_tail now rid name"
  obtain q where p: "p = CHR ''F'' # q" using assms(5) by (auto simp: prefix_def)
  have "last ?l = (if name = [] then CHR '':'' else last name)" by (simp add: row_tail_def)
  moreover have "\<not> is_space (last name)" if "name \<noteq> []"
    using assms(7) that strip_of_last [of is_space name] by (simp add: clean_cell_def)
  ultimately have "\<not> is_space (last ?l)" by (auto simp: is_space_def)
  moreover have "hd ?l = CHR ''F''" by (simp add: p)
  ultimately have "strip ?l = ?l" by (intro strip_of_id) (simp add: is_space_def)
  moreover have "\<exists>t rest. split_on (CHR ''|'') ?l = p # old # a # b # ''worker'' # t # rest"
    using assms split_on_append [of "CHR ''|''"]
    by (cases "split_on (CHR ''|'') (rid @ ''|'' @ fmt_z now @ ''|'' @ fmt_z now @ ''|bundle-'' @ name @ ''|BUNDLE:'' @ name)")
      (auto simp: row_tail_def clean_cell_def)
  moreover have "strip ''worker'' \<noteq> rid" using assms(6) by (simp add: strip_of_id is_space_def)
  ultimately show ?thesis by (auto simp: change_event_of_def Let_def p)
qed

text \<open>A value with a separator in it is lost: the row that \<open>bundle-exec\<close> appends for it is no change
  of its run for \<open>replay\<close>, which reads the columns one place off.\<close>

theorem change_with_bar_lost:
  assumes "clean_cell (change_path args c)" "clean_cell (ch_old c)" "ch_new c = a @ ''|'' @ b" "clean_cell a"
    and "clean_cell b" "clean_cell name" "rid = dget_or ''UNKNOWN'' ''run_id'' args" "rid \<noteq> ''worker''"
    and "\<not> contains ''MANIFEST'' (ch_target c)"
  shows "List.map_filter (change_event_of rid) (change_rows now name args [c]) = []"
  using change_event_shifted [OF assms(1,2,4,5) change_path_file assms(8,6), of now] assms(3,7,9)
  by (simp add: change_rows_def map_filter_simps)

definition replay_args :: fields where
  "replay_args = [(''slug'', ''demo''), (''run_id'', ''RUN-20260418-001'')]"

definition status_change :: "string \<Rightarrow> change" where
  "status_change v = \<lparr>ch_target = ''DISPATCH:{slug}'', ch_field = ''status'', ch_old = ''ACTIVE'', ch_new = v\<rparr>"

definition replay_now :: pydt where
  "replay_now = \<lparr>dt_y = 2026, dt_mo = 4, dt_d = 18, dt_h = 10, dt_mi = 0, dt_s = 0, dt_us = 0, dt_tz = Some 0\<rparr>"


lemma replay_clean:
  "clean_change replay_args (status_change ''BLOCKED'')" "clean_cell ''RUN-20260418-001''" "clean_cell ''route_block''"
  by code_simp+


theorem change_with_bar_lost_witness:
  "List.map_filter (change_event_of ''RUN-20260418-001'')
     (change_rows replay_now ''route_block'' replay_args [status_change (''wait'' @ ''|'' @ ''ask'')]) = []"
proof (rule change_with_bar_lost [where a = "''wait''" and b = "''ask''"])
  show "clean_cell (change_path replay_args (status_change (''wait'' @ ''|'' @ ''ask'')))"
    "clean_cell (ch_old (status_change (''wait'' @ ''|'' @ ''ask'')))" "clean_cell ''wait''" "clean_cell ''ask''"
    "\<not> contains ''MANIFEST'' (ch_target (status_change (''wait'' @ ''|'' @ ''ask'')))"
    by code_simp+
  show "clean_cell ''route_block''" by (rule replay_clean(3))
qed (simp_all add: status_change_def replay_args_def dget_or_def)

end
