(* ===== verification/Scope.thy ===== *)
theory Scope
  imports PyVal PyNum
begin

text \<open>
  The scope metadata of the bridge's payloads: \<open>derive_scope_context\<close> of \<open>nightclaw_bridge/state.py\<close>
  and the validators of \<open>nightclaw_bridge/snapshot_contract.py\<close>. Mappings are \<open>pyval\<close> dicts, read with
  \<open>get\<close>.
\<close>

section \<open>Texts of values\<close>

text \<open>\<open>a or b\<close>.\<close>

definition por :: "pyval \<Rightarrow> pyval \<Rightarrow> pyval" where
  "por a b = (if py_truth a then a else b)"

definition text_of :: "pyval \<Rightarrow> string" where
  "text_of v = (if py_truth v then strip (py_str v) else [])"

definition norm_of :: "pyval \<Rightarrow> string" where
  "norm_of v = replace_char (CHR ''_'') ''-'' (lower (text_of v))"

definition row_project_slug :: "pyval \<Rightarrow> string" where
  "row_project_slug row = text_of (por (por (vget0 ''slug'' row) (vget0 ''project_slug'' row)) (vget0 ''project'' row))"

definition session_run_id :: "pyval \<Rightarrow> string" where
  "session_run_id row = text_of (por (vget0 ''run_id'' row) (vget0 ''runid'' row))"

definition is_active_project :: "pyval \<Rightarrow> bool" where
  "is_active_project row \<longleftrightarrow> norm_of (vget0 ''status'' row) \<in> {''active'', ''running'', []}"

definition provenance_flag :: "pyval \<Rightarrow> string" where
  "provenance_flag v =
     (if is_dict v then text_of (por (por (vget0 ''project_slug'' v) (vget0 ''row'' v)) (vget0 ''outcome'' v))
      else text_of v)"

section \<open>\<open>derive_scope_context\<close>\<close>

record scope_input =
  si_active :: "pyval list"
  si_longrunner :: pyval         \<comment> \<open>a dict; empty for \<open>None\<close>\<close>
  si_session :: pyval            \<comment> \<open>a dict; empty for \<open>None\<close>\<close>
  si_history :: "pyval list"
  si_mode :: string
  si_partial :: bool
  si_selected :: string
  si_force_historical :: bool

text \<open>Run id, project, actor and source of the live session.\<close>

definition live_part :: "scope_input \<Rightarrow> string \<times> string \<times> string \<times> string" where
  "live_part si =
     (let sess = si_session si in
      if si_mode si = ''live'' \<and> items sess \<noteq> [] then
        (session_run_id sess, row_project_slug sess,
         text_of (por (por (vget0 ''agent_type'' sess) (vget0 ''agenttype'' sess)) (VStr ''worker'')),
         (let p = provenance_flag (vget0 ''provenance'' sess) in if p = [] then ''telemetry'' else p))
      else ([], [], ''none'', ''none''))"

text \<open>The project and where it was found.\<close>

definition project_part :: "scope_input \<Rightarrow> string \<times> string" where
  "project_part si =
     (let lr = si_longrunner si;
          slug = text_of (por (VStr (si_selected si)) (por (vget0 ''slug'' lr) (vget0 ''_slug'' lr)));
          source = (if si_selected si \<noteq> [] then ''selected_project'' else if slug \<noteq> [] then ''longrunner'' else ''none'');
          (slug1, source1) =
            (if slug = [] \<and> si_mode si = ''live'' \<and> fst (snd (live_part si)) \<noteq> []
             then (fst (snd (live_part si)), ''live_session'') else (slug, source))
      in if slug1 = [] then
           (case find is_active_project (si_active si) of
              None \<Rightarrow> (slug1, source1)
            | Some row \<Rightarrow> if items row = [] then (slug1, source1) else (row_project_slug row, ''active_project''))
         else (slug1, source1))"

definition historical :: "scope_input \<Rightarrow> bool" where
  "historical si \<longleftrightarrow> si_mode si \<in> {''replay'', ''session_replay''} \<or> si_force_historical si"

definition session_source :: "scope_input \<Rightarrow> string" where
  "session_source si =
     (let p = provenance_flag (vget0 ''provenance'' (si_session si)); s = (if p = [] then ''none'' else p)
      in if historical si \<and> s = [] then (if si_partial si then ''reconstructed'' else ''replay_payload'') else s)"

definition scope_warnings :: "scope_input \<Rightarrow> string list" where
  "scope_warnings si =
     (let project = fst (project_part si); session_project = row_project_slug (si_session si) in
      (if si_partial si then [''partial_reconstruction''] else []) @
      (if session_source si \<in> {''inferred'', ''unknown''} then [''inferred_project_slug''] else []) @
      (if project \<noteq> [] \<and> session_project \<noteq> [] \<and> project \<noteq> session_project
       then [''session_project_mismatch''] else []) @
      (if si_mode si = ''live'' \<and>
          list_ex (\<lambda>row. session_run_id row \<noteq> [] \<and> session_run_id row \<noteq> fst (live_part si) \<and>
                        norm_of (vget0 ''outcome'' row) \<in> {''running'', []}) (si_history si)
       then [''multiple_running_sessions_visible''] else []))"

definition selected_kind :: "scope_input \<Rightarrow> string" where
  "selected_kind si =
     (if si_mode si \<in> {''project'', ''project_snapshot''} then ''project''
      else if si_mode si \<in> {''replay'', ''session_replay''} then ''session''
      else if fst (project_part si) \<noteq> [] then ''project'' else ''workspace'')"

definition derive_scope_context :: "scope_input \<Rightarrow> pyval" where
  "derive_scope_context si =
     (let lr = si_longrunner si; sess = si_session si; live = (si_mode si = ''live'') in
      case (live_part si, project_part si) of ((run, lslug, actor, lsource), (slug, source)) \<Rightarrow>
      vdict
        [(''view_scope'', vdict [(''mode'', VStr (si_mode si)), (''selected_kind'', VStr (selected_kind si))]),
         (''live_context'', vdict [(''is_live'', VBool live), (''run_id'', VStr run), (''project_slug'', VStr lslug),
                                 (''actor'', VStr actor), (''source'', VStr lsource)]),
         (''project_context'', vdict
            [(''project_slug'', VStr slug),
             (''phase'', VStr (text_of (por (vget0 ''phase_name'' lr) (vget0 ''phase'' lr)))),
             (''phase_status'', VStr (text_of (por (vget0 ''phase_status'' lr) (vget0 ''status'' lr)))),
             (''routing'', VStr (text_of (vget0 ''routing'' lr))), (''source'', VStr source)]),
         (''session_context'', vdict
            [(''run_id'', VStr (session_run_id sess)), (''project_slug'', VStr (row_project_slug sess)),
             (''actor'', VStr (text_of (por (vget0 ''agent_type'' sess) (vget0 ''agenttype'' sess)))),
             (''is_historical'', VBool (historical si)), (''is_reconstructed'', VBool (si_partial si)),
             (''source'', VStr (session_source si))]),
         (''feed_policy'', vdict [(''live_events_visible'', VBool True),
                                (''live_events_mutate_selected_context'', VBool live)]),
         (''warnings'', VList (map VStr (sort (remdups (scope_warnings si)))))])"

section \<open>The payload contract\<close>

definition scoped_replay_events :: "string list" where
  "scoped_replay_events = [''state_replay'', ''project_snapshot'', ''session_replay'']"

definition expected_scope_mode :: "(string \<times> string) list" where
  "expected_scope_mode = [(''state_replay'', ''live''), (''project_snapshot'', ''project''), (''session_replay'', ''replay'')]"

text \<open>\<open>validate_scoped_replay_payload\<close>: the payload itself, \<open>ValueError\<close>, or \<open>TypeError\<close> for an event type
  that cannot be hashed.\<close>

definition validate_scoped_replay_payload :: "pyval \<Rightarrow> py_exc + pyval" where
  "validate_scoped_replay_payload p =
     (if \<not> is_dict p then Inl ValueError
      else if \<not> hashable (vget0 ''event_type'' p) then Inl TypeError
      else (case vget0 ''event_type'' p of
          VStr t \<Rightarrow>
            if t \<notin> set scoped_replay_events then Inl ValueError
            else
              (let ctx = vget0 ''scope_context'' p; view = vget0 ''view_scope'' ctx;
                   feed = vget0 ''feed_policy'' ctx; session = vget0 ''session_context'' ctx;
                   mutate = vget0 ''live_events_mutate_selected_context'' feed
               in if \<not> is_dict ctx \<or> \<not> is_dict view \<or> \<not> is_dict feed \<or> \<not> is_dict session then Inl ValueError
                  else if vget0 ''mode'' view \<noteq> VStr (dget_or [] t expected_scope_mode) then Inl ValueError
                  else if mutate \<noteq> VBool (t = ''state_replay'') then Inl ValueError
                  else if t = ''session_replay'' \<and> vget0 ''is_historical'' session \<noteq> VBool True then Inl ValueError
                  else Inr p)
        | _ \<Rightarrow> Inl ValueError))"

definition build_sessionssnapshot_payload :: "pyval \<Rightarrow> pyval \<Rightarrow> pyval" where
  "build_sessionssnapshot_payload snapshot t =
     vdict [(''type'', VStr ''sessionssnapshot''), (''snapshot'', snapshot), (''t_emitted'', t)]"

definition validate_sessionssnapshot_payload :: "pyval \<Rightarrow> py_exc + pyval" where
  "validate_sessionssnapshot_payload p =
     (let snap = vget0 ''snapshot'' p in
      if \<not> is_dict p \<or> \<not> vhas ''type'' p \<or> \<not> vhas ''snapshot'' p \<or> \<not> vhas ''t_emitted'' p then Inl ValueError
      else if vget0 ''type'' p \<noteq> VStr ''sessionssnapshot'' then Inl ValueError
      else if \<not> is_dict snap \<or> \<not> vhas ''sessions'' snap \<or> \<not> vhas ''ops_timeline'' snap then Inl ValueError
      else if \<not> is_dict (vget0 ''sessions'' snap) \<or> \<not> is_dict (vget0 ''ops_timeline'' snap) then Inl ValueError
      else Inr p)"

section \<open>The two agree\<close>

lemma vget_or_vdict [simp]: "vget_or d k (vdict kvs) = (case map_of kvs k of None \<Rightarrow> d | Some v \<Rightarrow> v)"
  by (simp add: vget_or_def)

lemma is_dict_vdict [simp]: "is_dict (vdict kvs)"
  by (simp add: vdict_def)

definition scope_payload :: "string \<Rightarrow> scope_input \<Rightarrow> (string \<times> pyval) list \<Rightarrow> pyval" where
  "scope_payload t si rest = vdict ((''event_type'', VStr t) # (''scope_context'', derive_scope_context si) # rest)"

text \<open>C37. The contract separates the scopes: a payload whose scope \<open>derive_scope_context\<close> built is accepted
  exactly if its event type goes with the mode of the context - live state, project or replay -
  whatever the rest of the input. In particular no replayed session passes for the live state.\<close>

theorem scope_contract_iff:
  "validate_scoped_replay_payload (scope_payload t si rest) = Inr (scope_payload t si rest) \<longleftrightarrow>
     (t, si_mode si) \<in> set expected_scope_mode"
proof -
  obtain run lslug actor lsource where live: "live_part si = (run, lslug, actor, lsource)" by (metis prod_cases4)
  obtain slug source where proj: "project_part si = (slug, source)" by (metis prod.exhaust)
  show ?thesis
    by (auto simp: validate_scoped_replay_payload_def scope_payload_def derive_scope_context_def Let_def live
        proj scoped_replay_events_def expected_scope_mode_def dget_or_def historical_def)
qed

end
