(* ===== verification/Scr.thy ===== *)
theory Scr
  imports Gates Shared
begin

text \<open>
  Self-consistency: the predicates and the driver of \<open>nightclaw_engine/protocol/integrity.py\<close>,
  \<open>scr-verify\<close> (\<open>commands/scr.py\<close>) and \<open>integrity-check\<close> (\<open>commands/integrity.py\<close>).

  \<open>files\<close> is the listing of the workspace, the relative paths of its files; a directory is what a
  listed file lies in. \<open>sha\<close> stands for SHA-256 in hexadecimal. No predicate raises on values of the
  model's types, so the handler around a predicate has no branch here.
\<close>

section \<open>Results\<close>

record scr_result =
  sc_status :: string
  sc_detail :: string
  sc_extra :: "string list"

definition scr_row :: "string \<Rightarrow> string \<Rightarrow> scr_result" where
  "scr_row status detail = \<lparr>sc_status = status, sc_detail = detail, sc_extra = []\<rparr>"

text \<open>\<open>f"{sorted(s)}"\<close> of a set of texts.\<close>

definition show_set :: "string list \<Rightarrow> string" where
  "show_set xs = py_str (VList (map VStr (sort (remdups xs))))"

definition set_minus :: "string list \<Rightarrow> string list \<Rightarrow> string list" where
  "set_minus xs ys = filter (\<lambda>x. x \<notin> set ys) xs"

definition show_count :: "string list \<Rightarrow> string" where
  "show_count xs = nat_str (length (remdups xs))"

text \<open>A \<open>FAIL\<close> row that names what is missing, or a \<open>PASS\<close> row with the size of the set.\<close>

definition subset_row :: "string \<Rightarrow> string list \<Rightarrow> string list \<Rightarrow> scr_result" where
  "subset_row what xs ys =
     (if set_minus xs ys \<noteq> [] then scr_row ''FAIL'' (what @ ''='' @ show_set (set_minus xs ys))
      else scr_row ''PASS'' (''count='' @ show_count xs))"

definition findall :: "rx \<Rightarrow> string \<Rightarrow> string list" where
  "findall r s = map (m_group_or [] 1) (rx_finditer r s)"

text \<open>\<open>(root / rel).exists()\<close>.\<close>

definition on_disk :: "string list \<Rightarrow> string \<Rightarrow> bool" where
  "on_disk files rel \<longleftrightarrow>
     (let p = canon_path rel in p = [] \<or> list_ex (\<lambda>f. f = p \<or> startswith f (p @ ''/'')) files)"

section \<open>The predicates\<close>

definition bundle_ref_rx :: rx where
  "bundle_ref_rx = RSeq (rlit ''BUNDLE:'') (RGrp 1 rwords)"

definition pred_r3_bundles_exist_in_r5 :: "schema_model \<Rightarrow> scr_result list" where
  "pred_r3_bundles_exist_in_r5 model =
     [subset_row ''missing_from_R5''
        (concat (map (\<lambda>r. findall bundle_ref_rx (rr_bundle r)) (sm_routes model)))
        (map bs_name (sm_bundles model))]"

definition obj_token_rx :: rx where
  "obj_token_rx = rseq [rlit ''OBJ:'', RSet is_upper, RStar (RSet (\<lambda>c. is_upper c \<or> is_digit c \<or> c = CHR ''_'' \<or> c = CHR ''-''))]"

definition obj_token :: "string \<Rightarrow> string" where
  "obj_token name = (if startswith name ''OBJ:'' then name else ''OBJ:'' @ name)"

definition pred_r2_fks_exist_in_r1 :: "schema_model \<Rightarrow> scr_result list" where
  "pred_r2_fks_exist_in_r1 model =
     [subset_row ''missing_from_R1''
        (concat (map (\<lambda>f. map m_text (rx_finditer obj_token_rx (fs_fk f)) @
                          map m_text (rx_finditer obj_token_rx (fs_constraint f))) (sm_fields model)))
        (map (\<lambda>ob. obj_token (ob_obj ob)) (sm_objects model))]"

definition route_suffix_rx :: rx where
  "route_suffix_rx = rseq [rlit ''('', rplus (RSet (\<lambda>c. c \<noteq> CHR '')'')), rlit '')'', rspaces, REol]"

definition route_file_canonical :: "string \<Rightarrow> string" where
  "route_file_canonical f = strip (rx_sub route_suffix_rx (\<lambda>_. []) f)"

definition tier_is :: "string \<Rightarrow> route_rule \<Rightarrow> bool" where
  "tier_is tier r \<longleftrightarrow> upper (rr_tier r) = tier"

definition protected_routes :: "schema_model \<Rightarrow> string list" where
  "protected_routes model =
     map (\<lambda>r. route_file_canonical (rr_file r)) (filter (tier_is ''PROTECTED'') (sm_routes model))"

definition pred_protected_has_validates_edge :: "schema_model \<Rightarrow> scr_result list" where
  "pred_protected_has_validates_edge model =
     [subset_row ''missing_validates_edge'' (protected_routes model)
        (map e_target (filter (\<lambda>e. upper (e_type e) = ''VALIDATES'') (sm_edges model)))]"

definition pred_change_log_exists :: "string list \<Rightarrow> scr_result list" where
  "pred_change_log_exists files =
     [if on_disk files ''audit/CHANGE-LOG.md'' then scr_row ''PASS'' []
      else scr_row ''FAIL'' ''audit/CHANGE-LOG.md_not_found'']"

definition run_row_rx :: rx where
  "run_row_rx = rseq [RBolM, rspaces, ropt (rlit ''|''), rspaces,
     RGrp 1 (rseq [rlit ''RUN-'', rrep 8 rdigit, rlit ''-'', rrep 3 rdigit]), rspaces, rlit ''|'']"

definition repeated :: "string list \<Rightarrow> string list" where
  "repeated xs = filter (\<lambda>x. count_list xs x > 1) xs"

definition pred_session_registry_unique_runs :: "workspace \<Rightarrow> scr_result list" where
  "pred_session_registry_unique_runs w =
     (case read_file ''audit/SESSION-REGISTRY.md'' w of
        None \<Rightarrow> [scr_row ''SKIP'' ''file_not_found'']
      | Some content \<Rightarrow>
          (let run_ids = findall run_row_rx content in
           if repeated run_ids \<noteq> [] then [scr_row ''FAIL'' (''duplicate_run_ids='' @ show_set (repeated run_ids))]
           else [scr_row ''PASS'' (''unique_count='' @ show_count run_ids)]))"

definition edge_texts :: "edge \<Rightarrow> string list" where
  "edge_texts e = [e_source e, e_target e, e_type e]"

definition pred_r4_bundles_exist_in_r5 :: "schema_model \<Rightarrow> scr_result list" where
  "pred_r4_bundles_exist_in_r5 model =
     [subset_row ''missing_from_R5''
        (concat (map (findall bundle_ref_rx) (filter (contains ''BUNDLE:'') (concat (map edge_texts (sm_edges model))))))
        (map bs_name (sm_bundles model))]"

definition pred_reference_edges :: "schema_model \<Rightarrow> scr_result list" where
  "pred_reference_edges model =
     (let refs = filter (\<lambda>e. upper (e_type e) = ''REFERENCES'') (sm_edges model) in
      [\<lparr>sc_status = ''INFO'', sc_detail = ''reference_edges='' @ nat_str (length refs),
        sc_extra = map (\<lambda>e. ''  REF: '' @ e_source e @ '' '' @ right_arrow @ '' '' @ e_target e) refs\<rparr>])"

definition pred_lock_structural :: "workspace \<Rightarrow> scr_result list" where
  "pred_lock_structural w =
     (case read_file ''LOCK.md'' w of
        None \<Rightarrow> [scr_row ''SKIP'' ''LOCK.md_not_found'']
      | Some content \<Rightarrow>
          (let st = contains ''status:'' content; ex = contains ''expires_at:'' content in
           if st \<and> ex then [scr_row ''PASS'' []]
           else [scr_row ''FAIL'' (''status='' @ py_str (VBool st) @ '' expires_at='' @ py_str (VBool ex))]))"

section \<open>Bundle calls in the prompts\<close>

definition name_head :: "char \<Rightarrow> bool" where "name_head c \<longleftrightarrow> is_lower c \<or> c = CHR ''_''"

definition name_rx :: rx where
  "name_rx = RSeq (RSet name_head) (RStar (RSet (\<lambda>c. name_head c \<or> is_digit c)))"

definition bundle_invoke_rx :: rx where
  "bundle_invoke_rx = rseq [rlit ''python3'', rplus (RSet is_space), rlit ''scripts/nightclaw-ops.py'',
     rplus (RSet is_space), rlit ''bundle-exec'', rplus (RSet is_space), RGrp 1 (rplus (RSet name_head)),
     RGrp 2 (RStar (RSet (\<lambda>c. c \<noteq> nl \<and> c \<noteq> CHR 0x60)))]"

definition file_arg_rx :: rx where
  "file_arg_rx = RSeq (rlit ''--file='') (RGrp 1 rnonspaces)"

definition containing_rx :: rx where
  "containing_rx = rseq [rlit ''containing'', rspaces, rlit ''{'', RGrp 1 (RStar (RSet (\<lambda>c. c \<noteq> CHR ''}''))), rlit ''}'']"

definition json_key_rx :: rx where
  "json_key_rx = rseq [rlit [CHR 0x22], RGrp 1 name_rx, rlit [CHR 0x22], rspaces, rlit '':'']"

definition key_arg_rx :: rx where
  "key_arg_rx = RSeq (RGrp 1 name_rx) (rlit ''='')"

text \<open>\<open>preceding\<close> is the text before the call; the window is its last 400 characters.\<close>

definition declared_file_keys :: "string \<Rightarrow> string list" where
  "declared_file_keys preceding =
     (let window = drop (length (utake (ulen preceding - 400) preceding)) preceding;
          matches = findall containing_rx window
      in if matches = [] then [] else findall json_key_rx (last matches))"

definition provided_args :: "rmatch \<Rightarrow> string list" where
  "provided_args m =
     (let rest = m_group_or [] 2 m; inline = findall key_arg_rx rest in
      if rx_search file_arg_rx rest = None then inline
      else filter (\<lambda>k. k \<noteq> ''file'') (inline @ declared_file_keys (m_before m)))"

definition prompt_files :: "string list" where
  "prompt_files = [''orchestration-os/CRON-MANAGER-PROMPT.md'', ''orchestration-os/CRON-WORKER-PROMPT.md'',
     ''orchestration-os/START-HERE.md'']"

text \<open>The calls of known bundles in a text: name and arguments that are not given. \<open>m_before\<close> of a match
  starts where the previous one ended, so the text before the call is put together again.\<close>

fun whole_before :: "string \<Rightarrow> rmatch list \<Rightarrow> rmatch list" where
  "whole_before acc [] = []"
| "whole_before acc (m # ms) =
     m\<lparr>m_before := acc @ m_before m\<rparr> # whole_before (acc @ m_before m @ m_text m) ms"

definition bundle_calls :: "schema_model \<Rightarrow> string \<Rightarrow> (string \<times> string list) list" where
  "bundle_calls model text =
     List.map_filter
       (\<lambda>m. map_option (\<lambda>spec. (m_group_or [] 1 m, set_minus (bs_args spec) (provided_args m)))
          (find (\<lambda>b. bs_name b = m_group_or [] 1 m) (rev (sm_bundles model))))
       (whole_before [] (rx_finditer bundle_invoke_rx text))"

definition call_gaps :: "string \<Rightarrow> (string \<times> string list) list \<Rightarrow> string list" where
  "call_gaps rel calls =
     map (\<lambda>(name, missing). rel @ '':'' @ name @ '':missing='' @ show_set missing)
       (filter (\<lambda>(name, missing). missing \<noteq> []) calls)"

definition pred_prompt_bundle_args_match_r5 :: "schema_model \<Rightarrow> workspace \<Rightarrow> scr_result list" where
  "pred_prompt_bundle_args_match_r5 model w =
     (let calls = map (\<lambda>rel. (rel, case read_file rel w of None \<Rightarrow> [] | Some t \<Rightarrow> bundle_calls model t)) prompt_files;
          checked = ''checked='' @ nat_str (length (concat (map snd calls)));
          failures = concat (map (\<lambda>(rel, cs). call_gaps rel cs) calls)
      in if failures \<noteq> [] then
           [scr_row ''FAIL'' (checked @ '' gaps='' @ py_str (VList (map VStr (take 5 failures))) @
              (if length failures > 5 then '' +more'' else []))]
         else [scr_row ''PASS'' checked])"

section \<open>Code files\<close>

definition code_routes :: "schema_model \<Rightarrow> route_rule list" where
  "code_routes model = filter (tier_is ''CODE'') (sm_routes model)"

definition pred_r3_code_rows_exist_on_disk :: "schema_model \<Rightarrow> string list \<Rightarrow> scr_result list" where
  "pred_r3_code_rows_exist_on_disk model files =
     (let rels = map (\<lambda>r. route_file_canonical (rr_file r)) (code_routes model);
          missing = filter (\<lambda>rel. \<not> on_disk files rel) rels
      in if code_routes model = [] then [scr_row ''SKIP'' ''no_CODE_rows'']
         else if missing \<noteq> [] then
           [scr_row ''FAIL'' (''missing_on_disk='' @ py_str (VList (map VStr (sort missing))))]
         else [scr_row ''PASS'' (''count='' @ nat_str (length rels))])"

definition code_packages :: "string list" where
  "code_packages = [''nightclaw_engine'', ''nightclaw_bridge'', ''nightclaw_monitor'', ''nightclaw_ops'']"

definition is_code_file :: "string \<Rightarrow> bool" where
  "is_code_file f \<longleftrightarrow>
     (endswith f ''.py'' \<and> list_ex (\<lambda>pkg. startswith f (pkg @ ''/'')) code_packages) \<or>
     (endswith f ''.html'' \<and> startswith f ''apps/monitor/'' \<and> CHR ''/'' \<notin> set (drop (length ''apps/monitor/'') f))"

definition pred_code_files_have_r3_rows :: "schema_model \<Rightarrow> string list \<Rightarrow> scr_result list" where
  "pred_code_files_have_r3_rows model files =
     (let expected = filter is_code_file files; declared = map rr_file (code_routes model);
          results =
            (if set_minus expected declared \<noteq> []
             then [scr_row ''FAIL'' (''missing_r3_rows='' @ show_set (set_minus expected declared))] else []) @
            (if set_minus declared expected \<noteq> []
             then [scr_row ''FAIL'' (''r3_rows_without_files='' @ show_set (set_minus declared expected))] else [])
      in if results = [] then [scr_row ''PASS'' (''code_files='' @ show_count expected)] else results)"

section \<open>The registry and the driver\<close>

type_synonym predicate = "schema_model \<Rightarrow> workspace \<Rightarrow> string list \<Rightarrow> scr_result list"

definition predicate_registry :: "(string \<times> predicate) list" where
  "predicate_registry =
     [(''r3_bundles_exist_in_r5'', \<lambda>m w fs. pred_r3_bundles_exist_in_r5 m),
      (''r2_foreign_keys_resolve_to_r1'', \<lambda>m w fs. pred_r2_fks_exist_in_r1 m),
      (''r2_fks_exist_in_r1'', \<lambda>m w fs. pred_r2_fks_exist_in_r1 m),
      (''r3_protected_files_are_in_manifest'', \<lambda>m w fs. pred_protected_has_validates_edge m),
      (''protected_has_validates_edge'', \<lambda>m w fs. pred_protected_has_validates_edge m),
      (''changelog_file_exists'', \<lambda>m w fs. pred_change_log_exists fs),
      (''change_log_exists'', \<lambda>m w fs. pred_change_log_exists fs),
      (''session_registry_run_ids_unique'', \<lambda>m w fs. pred_session_registry_unique_runs w),
      (''session_registry_unique_runs'', \<lambda>m w fs. pred_session_registry_unique_runs w),
      (''r4_bundle_refs_resolve_to_r5'', \<lambda>m w fs. pred_r4_bundles_exist_in_r5 m),
      (''r4_bundles_exist_in_r5'', \<lambda>m w fs. pred_r4_bundles_exist_in_r5 m),
      (''references_cross_doc_consistency'', \<lambda>m w fs. pred_reference_edges m),
      (''reference_edges'', \<lambda>m w fs. pred_reference_edges m),
      (''session_close_releases_lock'', \<lambda>m w fs. pred_lock_structural w),
      (''lock_structural'', \<lambda>m w fs. pred_lock_structural w),
      (''prompt_bundle_args_match_r5'', \<lambda>m w fs. pred_prompt_bundle_args_match_r5 m w),
      (''code_files_have_r3_rows'', \<lambda>m w fs. pred_code_files_have_r3_rows m fs),
      (''r3_code_rows_exist_on_disk'', \<lambda>m w fs. pred_r3_code_rows_exist_on_disk m fs)]"

record scr_report =
  rp_passed :: "string list"
  rp_failed :: "string list"
  rp_lines :: "string list"

definition add_result :: "string \<Rightarrow> scr_result \<Rightarrow> scr_report \<Rightarrow> scr_report" where
  "add_result rid r rep =
     \<lparr>rp_passed = rp_passed rep @ (if sc_status r = ''PASS'' then [rid] else []),
      rp_failed = rp_failed rep @ (if sc_status r = ''FAIL'' then [rid] else []),
      rp_lines = rp_lines rep @
        (rid @ '':'' @ sc_status r @ (if sc_detail r = [] then [] else '' '' @ sc_detail r)) # sc_extra r\<rparr>"

definition run_rule :: "schema_model \<Rightarrow> workspace \<Rightarrow> string list \<Rightarrow> scr_rule \<Rightarrow> scr_report \<Rightarrow> scr_report" where
  "run_rule model w files rule rep =
     (case map_of predicate_registry (sr_predicate rule) of
        None \<Rightarrow> rep\<lparr>rp_failed := rp_failed rep @ [sr_id rule],
                   rp_lines := rp_lines rep @ [sr_id rule @ '':FAIL predicate_unknown='' @ sr_predicate rule]\<rparr>
      | Some pred \<Rightarrow> fold (add_result (sr_id rule)) (pred model w files) rep)"

text \<open>The check of the protected paths behind the rules.\<close>

definition cl5_check :: "schema_model \<Rightarrow> scr_report \<Rightarrow> scr_report" where
  "cl5_check model rep =
     (let missing = set_minus (protected_routes model) (sm_protected model) in
      if missing \<noteq> [] then
        rep\<lparr>rp_failed := rp_failed rep @ [''CL5''],
            rp_lines := rp_lines rep @ [''CL5:FAIL missing_from_protected_paths='' @ show_set missing]\<rparr>
      else rep\<lparr>rp_lines := rp_lines rep @ [''CL5:PASS count='' @ show_count (sm_protected model)]\<rparr>)"

definition run_scr_verify :: "schema_model \<Rightarrow> workspace \<Rightarrow> string list \<Rightarrow> scr_report" where
  "run_scr_verify model w files =
     (let rep = cl5_check model
            (fold (run_rule model w files) (sort_key sr_id (sm_scr_rules model))
               \<lparr>rp_passed = [], rp_failed = [], rp_lines = []\<rparr>)
      in rep\<lparr>rp_lines := rp_lines rep @
           [if rp_failed rep = [] then ''RESULT:PASS''
            else ''RESULT:FAIL rules='' @ py_str (VList (map VStr (rp_failed rep)))]\<rparr>)"

definition cmd_scr_verify :: "py_exc + schema_model \<Rightarrow> workspace \<Rightarrow> string list \<Rightarrow> outcome" where
  "cmd_scr_verify loaded w files =
     (case loaded of
        Inl (SchemaError e) \<Rightarrow> Exit 1 [''ERROR: schema_load_failed: '' @ e]
      | Inl e \<Rightarrow> Raise e []
      | Inr model \<Rightarrow>
          (let rep = run_scr_verify model w files
           in Exit (if rp_failed rep = [] then 0 else 1) (rp_lines rep)))"

section \<open>\<open>integrity-check\<close>\<close>

definition hex_digest :: "string \<Rightarrow> bool" where
  "hex_digest h \<longleftrightarrow> length h = 64 \<and> list_all (one_of ''0123456789abcdef'') h"

abbreviation unquoted :: "string \<Rightarrow> string" where
  "unquoted s \<equiv> strip (strip_of (one_of [CHR 0x60]) s)"

text \<open>File and hash of a manifest row; rows without a verifiable hash only cause a warning on the error
  stream.\<close>

definition manifest_entry :: "string \<Rightarrow> (string \<times> string) option" where
  "manifest_entry line =
     (if \<not> startswith (strip line) ''|'' then None
      else (case table_cells line of
          c # d # _ \<Rightarrow>
            (let f = unquoted c; h = unquoted d in
             if f = [] \<or> lower f = ''file'' \<or> set f \<subseteq> {CHR ''-'', CHR '' ''} then None
             else if hex_digest h then Some (f, h) else None)
        | _ \<Rightarrow> None))"

definition manifest_hashes :: "string \<Rightarrow> (string \<times> string) list" where
  "manifest_hashes manifest =
     foldl (\<lambda>d (f, h). dput f h d) [] (List.map_filter manifest_entry (splitlines manifest))"

text \<open>One line per file, and whether it passes.\<close>

definition check_entry :: "(string \<Rightarrow> string) \<Rightarrow> workspace \<Rightarrow> string \<times> string \<Rightarrow> bool \<times> string" where
  "check_entry sha w fh =
     (case fh of (f, h) \<Rightarrow>
        (case w (canon_path f) of
           None \<Rightarrow> (False, ''MISSING '' @ f)
         | Some bytes \<Rightarrow>
             if sha bytes = h then (True, ''PASS '' @ f)
             else (False, ''FAIL '' @ f @ '' computed='' @ sha bytes @ '' expected='' @ h)))"

definition cmd_integrity_check :: "(string \<Rightarrow> string) \<Rightarrow> workspace \<Rightarrow> outcome" where
  "cmd_integrity_check sha w =
     (case read_file ''audit/INTEGRITY-MANIFEST.md'' w of
        None \<Rightarrow> Exit 1 [''ERROR: audit/INTEGRITY-MANIFEST.md not found'']
      | Some manifest \<Rightarrow>
          (let hashes = manifest_hashes manifest;
               rows = map (check_entry sha w) (sort_key fst hashes);
               passed = nat_str (length (filter fst rows));
               failed = length (filter (\<lambda>r. \<not> fst r) rows)
           in if hashes = [] then Exit 1 [''ERROR: No hash entries found in manifest'']
              else if failed > 0 then
                Exit 1 (map snd rows @ [''RESULT:FAIL pass='' @ passed @ '' fail='' @ nat_str failed])
              else Exit 0 (map snd rows @ [''RESULT:PASS files='' @ passed])))"

end
