(* ===== verification/ScrFacts.thy ===== *)
theory ScrFacts
  imports Scr Lock
begin

text \<open>
  What a passing \<open>scr-verify\<close> and \<open>integrity-check\<close> guarantee: the references of the schema resolve,
  the gates refuse the files of the PROTECTED routes, the files have the hashes of the manifest.
\<close>

section \<open>The driver\<close>

definition no_fail :: "scr_result list \<Rightarrow> bool" where
  "no_fail rs \<longleftrightarrow> (\<forall>r \<in> set rs. sc_status r \<noteq> ''FAIL'')"

lemma no_fail_simps [simp]: "no_fail []" "no_fail (r # rs) \<longleftrightarrow> sc_status r \<noteq> ''FAIL'' \<and> no_fail rs"
  by (auto simp: no_fail_def)

definition rule_ok :: "schema_model \<Rightarrow> workspace \<Rightarrow> string list \<Rightarrow> scr_rule \<Rightarrow> bool" where
  "rule_ok model w files rule \<longleftrightarrow>
     (\<exists>pred. map_of predicate_registry (sr_predicate rule) = Some pred \<and> no_fail (pred model w files))"

lemma fold_add_result_failed:
  "rp_failed (fold (add_result rid) rs rep) = [] \<longleftrightarrow> rp_failed rep = [] \<and> no_fail rs"
  by (induction rs arbitrary: rep) (auto simp: add_result_def)

lemma run_rule_failed:
  "rp_failed (run_rule model w files rule rep) = [] \<longleftrightarrow> rp_failed rep = [] \<and> rule_ok model w files rule"
  by (auto simp: run_rule_def rule_ok_def fold_add_result_failed split: option.splits)

lemma fold_run_rule_failed:
  "rp_failed (fold (run_rule model w files) rules rep) = [] \<longleftrightarrow>
     rp_failed rep = [] \<and> (\<forall>rule \<in> set rules. rule_ok model w files rule)"
  by (induction rules arbitrary: rep) (auto simp: run_rule_failed)

lemma set_minus_Nil [simp]: "set_minus xs ys = [] \<longleftrightarrow> set xs \<subseteq> set ys"
  by (auto simp: set_minus_def filter_empty_conv)

lemma scr_verify_ok:
  assumes "cmd_scr_verify (Inr model) w files = Exit 0 out"
  shows "\<forall>rule \<in> set (sm_scr_rules model). rule_ok model w files rule"
    and "set (protected_routes model) \<subseteq> set (sm_protected model)"
  using assms
  by (auto simp: cmd_scr_verify_def run_scr_verify_def cl5_check_def Let_def fold_run_rule_failed split: if_splits)

lemma subset_row_status [simp]: "sc_status (subset_row what xs ys) \<noteq> ''FAIL'' \<longleftrightarrow> set xs \<subseteq> set ys"
  by (simp add: subset_row_def scr_row_def)

section \<open>Protected routes\<close>


section \<open>References\<close>

text \<open>A text names \<open>w\<close> behind the literal \<open>l\<close>: the name is a whole run of \<open>P\<close>, and no letter of \<open>l\<close> or
  \<open>P\<close> stands before the literal.\<close>

definition names :: "string \<Rightarrow> (char \<Rightarrow> bool) \<Rightarrow> string \<Rightarrow> string \<Rightarrow> bool" where
  "names l P text w \<longleftrightarrow>
     (\<exists>u v. text = u @ l @ w @ v \<and> w \<noteq> [] \<and> (\<forall>c \<in> set w. P c) \<and> (v = [] \<or> \<not> P (hd v)) \<and>
       (u = [] \<or> last u \<notin> set l \<and> \<not> P (last u)))"

lemma names_found: "names ''BUNDLE:'' is_word text b \<Longrightarrow> b \<in> set (findall bundle_ref_rx text)"
  using findall_literal_run [of b is_word _ "''BUNDLE:''"]
  unfolding names_def findall_def bundle_ref_rx_def rwords_def by fastforce

definition obj_char :: "char \<Rightarrow> bool" where
  "obj_char c \<longleftrightarrow> is_upper c \<or> is_digit c \<or> c = CHR ''_'' \<or> c = CHR ''-''"

lemma obj_token_found:
  assumes "names ''OBJ:'' obj_char text n" "is_upper (hd n)"
  shows "''OBJ:'' @ n \<in> m_text ` set (rx_finditer obj_token_rx text)"
proof -
  from assms(1) obtain u v where tx: "text = u @ ''OBJ:'' @ n @ v" and n: "n \<noteq> []" "\<forall>c \<in> set n. obj_char c"
    and v: "v = [] \<or> \<not> obj_char (hd v)" and u: "u = [] \<or> last u \<notin> set ''OBJ:'' \<and> \<not> obj_char (last u)"
    unfolding names_def by blast
  obtain c t where nc: "n = c # t" using n(1) by (cases n) auto
  have star: "obj_token_rx = rseq [rlit ''OBJ:'', RSet is_upper, RStar (RSet obj_char)]"
    by (simp add: obj_token_rx_def obj_char_def [abs_def])
  have "dropWhile obj_char (t @ v) = v" using n(2) v nc by (cases v) auto
  then obtain p' rest where "rx_run (RStar (RSet obj_char)) (Some c, t @ v, []) = (p', v, []) # rest"
    using rx_run_star_set [of obj_char "Some c" "t @ v" "[]"] by auto
  then have "rx_run obj_token_rx (None, ''OBJ:'' @ n @ v, []) = (p', v, []) # rest"
    using assms(2) nc unfolding star by (simp add: rx_run_rlit del: rlit.simps)
  then have at: "rx_at obj_token_rx None (''OBJ:'' @ n @ v) =
      Some \<lparr>m_before = [], m_text = ''OBJ:'' @ n, m_after = v, m_groups = []\<rparr>"
    by (simp add: rx_at_def eval_nat_numeral del: rx_run.simps)
  have "\<forall>x \<in> lang obj_token_rx. x \<noteq> [] \<and> (\<forall>c \<in> set x. c \<in> set ''OBJ:'' \<or> obj_char c)"
    unfolding star by (auto simp: obj_char_def)
  from finditer_fenced [OF _ this at, of u "Suc (length text)" None] u tx
  obtain m where "m \<in> set (rx_finditer obj_token_rx text)" "m_text m = ''OBJ:'' @ n"
    by (auto simp: rx_finditer_def star)
  then show ?thesis by force
qed

text \<open>The rules of \<open>orchestration-os/schema/scr_rules.yaml\<close>.\<close>

definition schema_rules :: "string list" where
  "schema_rules = [''r3_bundles_exist_in_r5'', ''r2_foreign_keys_resolve_to_r1'', ''r3_protected_files_are_in_manifest'',
     ''r4_bundle_refs_resolve_to_r5'', ''session_registry_run_ids_unique'']"

lemma model_bundle_ne: "model_bundle model b \<noteq> None \<longleftrightarrow> b \<in> set (map bs_name (sm_bundles model))"
  by (auto simp: model_bundle_def find_None_iff)

lemma registry_rules:
  "map_of predicate_registry ''r3_bundles_exist_in_r5'' = Some (\<lambda>m w fs. pred_r3_bundles_exist_in_r5 m)"
  "map_of predicate_registry ''r2_foreign_keys_resolve_to_r1'' = Some (\<lambda>m w fs. pred_r2_fks_exist_in_r1 m)"
  "map_of predicate_registry ''r3_protected_files_are_in_manifest'' =
     Some (\<lambda>m w fs. pred_protected_has_validates_edge m)"
  "map_of predicate_registry ''r4_bundle_refs_resolve_to_r5'' = Some (\<lambda>m w fs. pred_r4_bundles_exist_in_r5 m)"
  "map_of predicate_registry ''session_registry_run_ids_unique'' =
     Some (\<lambda>m w fs. pred_session_registry_unique_runs w)"
  by (simp_all add: predicate_registry_def)

lemma rules_pass:
  assumes "cmd_scr_verify (Inr model) w files = Exit 0 out"
    and "set schema_rules \<subseteq> sr_predicate ` set (sm_scr_rules model)"
  shows "no_fail (pred_r3_bundles_exist_in_r5 model)" "no_fail (pred_r2_fks_exist_in_r1 model)"
    "no_fail (pred_protected_has_validates_edge model)" "no_fail (pred_r4_bundles_exist_in_r5 model)"
    "no_fail (pred_session_registry_unique_runs w)"
proof -
  have "no_fail (pred model w files)"
    if "name \<in> set schema_rules" "map_of predicate_registry name = Some pred" for name pred
  proof -
    from that(1) assms(2) obtain rule where "rule \<in> set (sm_scr_rules model)" "sr_predicate rule = name" by blast
    with scr_verify_ok(1) [OF assms(1)] that(2) show ?thesis by (auto simp: rule_ok_def)
  qed
  from this [OF _ registry_rules(1)] this [OF _ registry_rules(2)] this [OF _ registry_rules(3)]
    this [OF _ registry_rules(4)] this [OF _ registry_rules(5)]
  show "no_fail (pred_r3_bundles_exist_in_r5 model)" "no_fail (pred_r2_fks_exist_in_r1 model)"
    "no_fail (pred_protected_has_validates_edge model)" "no_fail (pred_r4_bundles_exist_in_r5 model)"
    "no_fail (pred_session_registry_unique_runs w)"
    by (simp_all add: schema_rules_def)
qed

lemma count_list_distinct: "distinct xs \<longleftrightarrow> (\<forall>x \<in> set xs. count_list xs x \<le> 1)"
  by (induction xs) (auto simp: count_list_0_iff Suc_le_eq)

lemma repeated_Nil: "repeated xs = [] \<longleftrightarrow> distinct xs"
  by (auto simp: repeated_def filter_empty_conv not_less count_list_distinct)

text \<open>C23. A schema that passes \<open>scr-verify\<close> under its own rules is closed: the bundles named by routes and
  edges can be executed, the objects named as foreign keys exist, every PROTECTED file is validated by
  an edge, and no two rows of the session registry open with the same run.\<close>

theorem scr_verify_sound:
  assumes "cmd_scr_verify (Inr model) w files = Exit 0 out"
    and "set schema_rules \<subseteq> sr_predicate ` set (sm_scr_rules model)"
  shows "(\<forall>r \<in> set (sm_routes model). \<forall>b. names ''BUNDLE:'' is_word (rr_bundle r) b \<longrightarrow> model_bundle model b \<noteq> None) \<and>
    (\<forall>e \<in> set (sm_edges model). \<forall>t \<in> {e_source e, e_target e, e_type e}. \<forall>b.
       names ''BUNDLE:'' is_word t b \<longrightarrow> model_bundle model b \<noteq> None) \<and>
    (\<forall>f \<in> set (sm_fields model). \<forall>t \<in> {fs_fk f, fs_constraint f}. \<forall>n. names ''OBJ:'' obj_char t n \<longrightarrow>
       is_upper (hd n) \<longrightarrow> (\<exists>ob \<in> set (sm_objects model). obj_token (ob_obj ob) = ''OBJ:'' @ n)) \<and>
    (\<forall>r \<in> set (sm_routes model). upper (rr_tier r) = ''PROTECTED'' \<longrightarrow> (\<exists>e \<in> set (sm_edges model).
       upper (e_type e) = ''VALIDATES'' \<and> e_target e = route_file_canonical (rr_file r))) \<and>
    (\<forall>content. read_file ''audit/SESSION-REGISTRY.md'' w = Some content \<longrightarrow> distinct (findall run_row_rx content))"
proof (intro conjI ballI allI impI)
  note pass = rules_pass [OF assms]
  show "model_bundle model b \<noteq> None"
    if "r \<in> set (sm_routes model)" "names ''BUNDLE:'' is_word (rr_bundle r) b" for r b
    using pass(1) names_found [OF that(2)] that(1) unfolding model_bundle_ne
    by (auto simp: pred_r3_bundles_exist_in_r5_def)
  show "model_bundle model b \<noteq> None"
    if "e \<in> set (sm_edges model)" "t \<in> {e_source e, e_target e, e_type e}" "names ''BUNDLE:'' is_word t b" for e t b
  proof -
    have "contains ''BUNDLE:'' t" using that(3) by (auto simp: names_def contains_iff)
    then show ?thesis
      using pass(4) names_found [OF that(3)] that(1,2) unfolding model_bundle_ne
      by (fastforce simp: pred_r4_bundles_exist_in_r5_def edge_texts_def)
  qed
  show "\<exists>ob \<in> set (sm_objects model). obj_token (ob_obj ob) = ''OBJ:'' @ n"
    if "f \<in> set (sm_fields model)" "t \<in> {fs_fk f, fs_constraint f}" "names ''OBJ:'' obj_char t n" "is_upper (hd n)" for f t n
    using pass(2) obj_token_found [OF that(3,4)] that(1,2)
    by (fastforce simp: pred_r2_fks_exist_in_r1_def)
  show "\<exists>e \<in> set (sm_edges model). upper (e_type e) = ''VALIDATES'' \<and> e_target e = route_file_canonical (rr_file r)"
    if "r \<in> set (sm_routes model)" "upper (rr_tier r) = ''PROTECTED''" for r
    using pass(3) that
    by (fastforce simp: pred_protected_has_validates_edge_def protected_routes_def tier_is_def)
  show "distinct (findall run_row_rx content)" if "read_file ''audit/SESSION-REGISTRY.md'' w = Some content" for content
    using pass(5) that
    by (auto simp: pred_session_registry_unique_runs_def Let_def repeated_Nil scr_row_def split: if_splits)
qed

definition closed_model :: schema_model where
  "closed_model = \<lparr>sm_objects = [\<lparr>ob_obj = ''RUN'', ob_file = [], ob_pk = [], ob_reader = [], ob_writer = [],
       ob_append_only = False\<rparr>],
     sm_fields = [\<lparr>fs_obj = ''RUN'', fs_field = ''prev'', fs_type = ''FK'', fs_req = ''N'', fs_constraint = [],
       fs_fk = ''OBJ:RUN (when locked)''\<rparr>],
     sm_routes = [\<lparr>rr_file = ''*.md'', rr_tier = ''STANDARD'', rr_bundle = ''BUNDLE:close'', rr_note = []\<rparr>,
       \<lparr>rr_file = ''SOUL.md(structural)'', rr_tier = ''Protected'', rr_bundle = [], rr_note = []\<rparr>],
     sm_edges = [\<lparr>e_source = ''T8'', e_type = ''VALIDATES'', e_target = ''SOUL.md''\<rparr>],
     sm_bundles = [\<lparr>bs_name = ''close'', bs_trigger = [], bs_args = [], bs_validates = [], bs_writes = [],
       bs_append = [], bs_notify = None, bs_returns = [], bs_inline = False, bs_extras = []\<rparr>],
     sm_protected = [''SOUL.md''], sm_schema_paths = [],
     sm_scr_rules = map (\<lambda>p. \<lparr>sr_id = ''SCR'', sr_severity = [], sr_predicate = p, sr_title = []\<rparr>) schema_rules,
     sm_source_dir = [], sm_fingerprint = []\<rparr>"

definition run_rows :: workspace where
  "run_rows = [''audit/SESSION-REGISTRY.md'' \<mapsto>
     ''| RUN-20260418-001 | worker |'' @ nl # ''| RUN-20260418-002 | after RUN-20260418-001 |'']"

lemma closed_model_passes: "\<exists>out. cmd_scr_verify (Inr closed_model) run_rows [] = Exit 0 out"
proof -
  have "rp_failed (run_scr_verify closed_model run_rows []) = []" by code_simp
  then show ?thesis by (simp add: cmd_scr_verify_def Let_def)
qed


theorem scr_verify_sound_witness:
  "model_bundle closed_model ''close'' \<noteq> None \<and>
   distinct (findall run_row_rx (the (read_file ''audit/SESSION-REGISTRY.md'' run_rows)))"
proof -
  obtain out where ok: "cmd_scr_verify (Inr closed_model) run_rows [] = Exit 0 out" using closed_model_passes by blast
  have rules: "set schema_rules \<subseteq> sr_predicate ` set (sm_scr_rules closed_model)"
    by (auto simp: closed_model_def image_image)
  have "names ''BUNDLE:'' is_word ''BUNDLE:close'' ''close''"
    unfolding names_def by (intro exI [of _ "[]"]) (simp add: char_class_defs)
  moreover have "\<exists>r \<in> set (sm_routes closed_model). rr_bundle r = ''BUNDLE:close''" by (simp add: closed_model_def)
  moreover have "read_file ''audit/SESSION-REGISTRY.md'' run_rows \<noteq> None"
    by code_simp
  ultimately show ?thesis using scr_verify_sound [OF ok rules] by fastforce
qed

section \<open>The lock rule\<close>

lemma univ_nl_append: "a = [] \<or> last a \<noteq> CHR 0x0D \<Longrightarrow> univ_nl (a @ b) = univ_nl a @ univ_nl b"
proof (induction a rule: univ_nl.induct)
  case (2 c)
  then show ?case by (cases b) (auto simp: code_cr_iff)
qed (auto simp: code_cr_iff split: if_splits)

text \<open>The rule SCR-08, whose title says that the lock must be released at the end of a session, passes
  directly after a granted \<open>lock-acquire\<close>: it looks for the two field names only.\<close>

theorem scr_lock_rule_passes_held_lock:
  assumes "lock_acquire now stamp args w = (Exit 0 out, w')"
  shows "pred_lock_structural w' = [scr_row ''PASS'' []]"
proof -
  from assms obtain holder run_id expires_at rest cpf where
    w': "w' = write_file ''LOCK.md'' (locked_body holder run_id (fmt_z stamp) expires_at cpf) w"
    by (auto simp: lock_acquire_def Let_def split: list.splits sum.splits if_splits)
  define a where "a = ''# LOCK'' @ nl # nl # ''```yaml'' @ nl # ''status: locked'' @ [nl]"
  define b where "b = (''holder: '' @ holder) @ nl # (''run_id: '' @ run_id) @ nl # ''locked_at: '' @ fmt_z stamp"
  define c where "c = nl # ''expires_at: ''"
  define d where "d = expires_at @ nl # (''consecutive_pass_failures: '' @ nat_str cpf) @ nl # ''```'' @ [nl]"
  have body: "locked_body holder run_id (fmt_z stamp) expires_at cpf = a @ b @ c @ d"
    by (simp add: locked_body_def a_def b_def c_def d_def)
  have "last a \<noteq> CHR 0x0D" "last b \<noteq> CHR 0x0D" "last c \<noteq> CHR 0x0D" by (simp_all add: a_def b_def c_def fmt_z_def)
  then have "univ_nl (a @ b @ c @ d) = univ_nl a @ univ_nl b @ univ_nl c @ univ_nl d"
    by (simp add: univ_nl_append)
  moreover have "univ_nl a = a" "univ_nl c = c" by (simp_all add: univ_nl_id a_def c_def)
  ultimately have rd: "read_file ''LOCK.md'' w' = Some (a @ univ_nl b @ c @ univ_nl d)"
    by (simp add: w' read_write_same body)
  have st: "contains ''status:'' (a @ x)" for x
    unfolding contains_iff a_def by (rule exI [of _ "''# LOCK'' @ nl # nl # ''```yaml'' @ [nl]"]) simp
  have ex: "contains ''expires_at:'' (x @ c @ y)" for x y
    unfolding contains_iff c_def by (rule exI [of _ "x @ [nl]"]) simp
  show ?thesis
    using st [of "univ_nl b @ c @ univ_nl d"] ex [of "a @ univ_nl b" "univ_nl d"]
    unfolding pred_lock_structural_def rd Let_def option.case append_assoc by (simp only: if_True simp_thms)
qed

section \<open>The manifest\<close>




definition acquired_at :: pydt where
  "acquired_at = \<lparr>dt_y = 2026, dt_mo = 4, dt_d = 18, dt_h = 10, dt_mi = 0, dt_s = 0, dt_us = 0, dt_tz = Some 0\<rparr>"

theorem scr_lock_rule_passes_held_lock_witness:
  "\<exists>out w'. lock_acquire acquired_at acquired_at [''cron'', ''RUN-20260418-001'', ''2026-04-18T12:00:00Z''] Map.empty = (Exit 0 out, w') \<and>
     pred_lock_structural w' = [scr_row ''PASS'' []]"
proof -
  have "\<exists>out w'. lock_acquire acquired_at acquired_at [''cron'', ''RUN-20260418-001'', ''2026-04-18T12:00:00Z''] Map.empty = (Exit 0 out, w')"
    by (simp add: lock_acquire_def read_file_def Let_def)
  then show ?thesis using scr_lock_rule_passes_held_lock by blast
qed

end
