(* ===== verification/PyFloat.thy ===== *)
theory PyFloat
  imports PyNum
begin

text \<open>
  Floating point as far as the reports print it: a quotient of integers rounded to a double
  (53 bits, ties to even), and \<open>f"{x:.nf}"\<close>. A double is a fraction whose denominator is a power of two;
  one that is \<open>2 ^ 1024\<close> or more stands for the infinity. Exponents stay far from the lower end of the range.
\<close>

text \<open>\<open>p / q\<close> to the nearest integer, ties to even.\<close>

definition round_even :: "int \<Rightarrow> int \<Rightarrow> int" where
  "round_even p q =
     (let d = p div q; r = 2 * (p mod q) in
      if r < q \<or> (r = q \<and> even d) then d else d + 1)"

function bit_length :: "int \<Rightarrow> nat" where
  "bit_length n = (if n \<le> 0 then 0 else Suc (bit_length (n div 2)))"
  by pat_completeness auto
termination by (relation "measure nat") auto

declare bit_length.simps [simp del]

text \<open>The double nearest to \<open>p / q\<close>, \<open>q > 0\<close>: numerator and denominator, a power of two.\<close>

definition double :: "int \<times> int \<Rightarrow> int \<times> int" where
  "double x =
     (case x of (p, q) \<Rightarrow>
        if p = 0 then (0, 1)
        else if \<bar>p\<bar> \<ge> q * 2 ^ 53 then
          (let a = \<bar>p\<bar>; k0 = bit_length a - bit_length q - 53;
               k = (if a \<ge> q * 2 ^ (k0 + 53) then Suc k0 else k0); m = round_even a (q * 2 ^ k) * 2 ^ k
           in (if p < 0 then - m else m, 1))
        else
          (let a = \<bar>p\<bar>; e0 = 53 + bit_length q - bit_length a;
               e = (if a * 2 ^ e0 \<ge> q * 2 ^ 53 then e0 - 1 else e0);
               m = round_even (a * 2 ^ e) q
           in (if p < 0 then - m else m, 2 ^ e)))"

definition float_inf :: "int \<times> int \<Rightarrow> bool" where
  "float_inf x \<longleftrightarrow> \<bar>fst x\<bar> \<ge> 2 ^ 1024 * snd x"

text \<open>\<open>float(s)\<close> for digits with, perhaps, a point between them.\<close>

definition decimal :: "string \<Rightarrow> int \<times> int" where
  "decimal s =
     (case cut_at ''.'' s of
        None \<Rightarrow> double (int (digits_val s), 1)
      | Some (a, b) \<Rightarrow> double (int (digits_val (a @ b)), 10 ^ length b))"

text \<open>\<open>x / y\<close> of a double and an integer.\<close>

definition fdiv :: "int \<times> int \<Rightarrow> int \<Rightarrow> int \<times> int" where
  "fdiv x y = double (fst x, snd x * y)"

text \<open>\<open>f"{x:.nf}"\<close>: the exact value of the double, rounded to \<open>n\<close> places; the sign is kept on a zero.\<close>

definition fixed :: "nat \<Rightarrow> int \<times> int \<Rightarrow> string" where
  "fixed n x =
     (let k = nat (round_even (\<bar>fst x\<bar> * 10 ^ n) (snd x));
          digits = pad0 (Suc n) k; w = length digits - n
      in (if fst x < 0 then ''-'' else []) @ take w digits @ (if n = 0 then [] else CHR ''.'' # drop w digits))"

text \<open>The result is a nearest integer.\<close>

lemma round_even_near:
  assumes "0 < q"
  shows "2 * \<bar>p - round_even p q * q\<bar> \<le> q"
proof -
  have p: "p div q * q = p - p mod q" by (simp add: minus_mod_eq_div_mult)
  have m: "0 \<le> p mod q" "p mod q < q" using assms by simp_all
  show ?thesis
    unfolding round_even_def Let_def using m by (auto simp: distrib_right p abs_if)
qed

lemma round_even_exact [simp]: "0 < q \<Longrightarrow> round_even (k * q) q = k"
  by (simp add: round_even_def)

end
