(* ===== verification/AuditLog.thy ===== *)
theory AuditLog
  imports Replay Scr Lock PyFloat
begin

text \<open>
  \<open>commands/audit.py\<close>: the reports over the audit log, the session registry and the notifications, and
  \<open>crash-recover\<close>, which releases the lock of a crashed session. \<open>now\<close> is \<open>now_utc()\<close>. Where the code
  compares seconds or days held as a double with a bound, the comparison is that of the exact numbers: a
  microsecond is above the precision of the doubles concerned.
\<close>

section \<open>Times in reports\<close>

definition age_us :: "pydt \<Rightarrow> pydt \<Rightarrow> int" where
  "age_us now t = instant now - instant t"

text \<open>\<open>total_seconds()\<close>.\<close>

definition seconds_of :: "int \<Rightarrow> int \<times> int" where
  "seconds_of us = double (us, 1000000)"

text \<open>The UTC offset, the time of day and \<open>str\<close> of an aware datetime.\<close>

definition fmt_micros :: "nat \<Rightarrow> string" where
  "fmt_micros us = (if us = 0 then [] else CHR ''.'' # pad0 6 us)"

definition fmt_offset :: "int \<Rightarrow> string" where
  "fmt_offset off =
     (let a = nat \<bar>off\<bar>; secs = a div 1000000; us = a mod 1000000 in
      (if off < 0 then ''-'' else ''+'') @ pad0 2 (secs div 3600) @ '':'' @ pad0 2 (secs div 60 mod 60) @
      (if secs mod 60 = 0 \<and> us = 0 then [] else CHR '':'' # pad0 2 (secs mod 60) @ fmt_micros us))"

definition dt_text :: "char \<Rightarrow> pydt \<Rightarrow> string" where
  "dt_text sep t =
     fmt_day t @ sep # fmt_clock t @ fmt_micros (dt_us t) @
     (case dt_tz t of None \<Rightarrow> [] | Some off \<Rightarrow> fmt_offset off)"

section \<open>\<open>timing-check\<close>\<close>

definition stamp_rx :: rx where
  "stamp_rx = RGrp 1 (rseq [rrep 4 rdigit, rlit ''-'', rrep 2 rdigit, rlit ''-'', rrep 2 rdigit, rlit ''T'',
     rplus (RSet (\<lambda>c. is_digit c \<or> c = CHR '':'')), ropt (rlit ''Z'')])"

definition day_rx :: rx where
  "day_rx = RGrp 1 (rseq [rrep 4 rdigit, rlit ''-'', rrep 2 rdigit, rlit ''-'', rrep 2 rdigit])"

definition outcome_rx :: rx where
  "outcome_rx = rseq [rlit_ci ''outcome'', RSet (one_of ''=:''), rspaces, RGrp 1 rnonspaces]"

text \<open>Time and outcome of a line about a worker.\<close>

definition worker_entry :: "string \<Rightarrow> (pydt \<times> string) option" where
  "worker_entry line =
     (if \<not> contains ''worker'' (lower line) then None
      else (case rx_search stamp_rx line of
          None \<Rightarrow> None
        | Some m \<Rightarrow>
            map_option
              (\<lambda>t. (t, case rx_search outcome_rx line of None \<Rightarrow> [] | Some om \<Rightarrow> m_group_or [] 1 om))
              (parse_iso (m_group_or [] 1 m))))"

definition cmd_timing_check :: "pydt \<Rightarrow> workspace \<Rightarrow> outcome" where
  "cmd_timing_check now w =
     (case read_file ''audit/SESSION-REGISTRY.md'' w of
        None \<Rightarrow> Exit 0 [''CONTINUE reason=no_session_registry'']
      | Some content \<Rightarrow>
          (case sort_key (\<lambda>e. - instant (fst e)) (List.map_filter worker_entry (splitlines content)) of
             [] \<Rightarrow> Exit 0 [''CONTINUE reason=no_worker_sessions_found'']
           | (t, oc) # _ \<Rightarrow>
               (let us = age_us now t; age = '' age='' @ fixed 0 (seconds_of us) @ ''s'' in
                if oc \<in> {[], em_dash, ''-''} then Exit 1 [''DEFER:worker_in_progress'' @ age]
                else if us < 300 * 1000000 then Exit 1 [''DEFER:worker_too_recent'' @ age]
                else Exit 0 [''CONTINUE last_worker='' @ dt_text (CHR ''T'') t @ age])))"

section \<open>\<open>crash-detect\<close>\<close>

text \<open>Sets of texts are printed in the order of the hash table: \<open>order\<close> is that order.\<close>

definition run_any_rx :: rx where
  "run_any_rx = RGrp 1 run_id_rx"

definition checkpoint_rx :: rx where
  "checkpoint_rx = rseq [rlit ''TASK:'', RGrp 1 run_id_rx, rlit ''.T4'', rspaces, rlit ''|'', RStar rdot,
     rlit ''TYPE:CHECKPOINT'']"

definition started_rx :: rx where
  "started_rx = rseq [rlit ''TASK:'', RGrp 1 run_id_rx, rlit ''.'', RGrp 2 (RAlt (rlit ''T0'') (rlit ''STARTUP''))]"

definition project_rx :: rx where
  "project_rx = RSeq (rlit ''PROJECT:'') (RGrp 1 rnonspaces)"

definition checkpoint_of :: "string \<Rightarrow> (string \<times> string) option" where
  "checkpoint_of line =
     map_option
       (\<lambda>m. (m_group_or [] 1 m,
             case rx_search project_rx line of None \<Rightarrow> ''unknown'' | Some p \<Rightarrow> m_group_or [] 1 p))
       (rx_search checkpoint_rx line)"

definition checkpoint_runs :: "string \<Rightarrow> fields" where
  "checkpoint_runs log = foldl (\<lambda>d (r, s). dput r s d) [] (List.map_filter checkpoint_of (splitlines log))"

definition started_runs :: "string \<Rightarrow> string list" where
  "started_runs log =
     List.map_filter (\<lambda>line. map_option (m_group_or [] 1) (rx_search started_rx line)) (splitlines log)"

definition registered_runs :: "string \<Rightarrow> string list" where
  "registered_runs registry = map (m_group_or [] 1) (rx_finditer run_any_rx registry)"

definition cmd_crash_detect :: "(string list \<Rightarrow> string list) \<Rightarrow> workspace \<Rightarrow> outcome" where
  "cmd_crash_detect order w =
     (case (read_file ''audit/SESSION-REGISTRY.md'' w, read_file ''audit/AUDIT-LOG.md'' w) of
        (Some registry, Some log) \<Rightarrow>
          (let known = registered_runs registry; checkpoints = checkpoint_runs log;
               crashes = filter (\<lambda>(r, s). r \<notin> set known) checkpoints;
               halts = filter (\<lambda>r. r \<notin> set known \<and> r \<notin> fst ` set checkpoints) (order (remdups (started_runs log)))
           in Exit 0
                ((if crashes = [] then [''CLEAN'']
                  else map (\<lambda>(r, s). ''CRASH:'' @ r @ '':project='' @ s) crashes @
                       [''TOTAL_CRASHES:'' @ nat_str (length crashes)]) @
                 map (\<lambda>r. ''ROUTING_HALT:'' @ r) halts))
      | _ \<Rightarrow> Exit 0 [''CLEAN reason=files_not_found''])"

section \<open>\<open>transition-expiry\<close> and \<open>change-detect\<close>\<close>

definition opt_text :: "string option \<Rightarrow> string" where
  "opt_text x = (case x of None \<Rightarrow> ''None'' | Some s \<Rightarrow> s)"

definition expiry_instant :: "string option \<Rightarrow> string option \<Rightarrow> py_exc + pydt option" where
  "expiry_instant expires triggered =
     (case (Option.bind expires parse_iso, Option.bind triggered parse_iso) of
        (None, Some t) \<Rightarrow> rbind (add_days 3 t) (\<lambda>e. Inr (Some e))
      | (e, _) \<Rightarrow> Inr e)"

text \<open>The lines of one row, and whether its hold has expired.\<close>

definition expiry_row :: "pydt \<Rightarrow> workspace \<Rightarrow> fields \<Rightarrow> py_exc + string list \<times> bool" where
  "expiry_row now w row =
     (let slug = strip (row_slug row) in
      if upper (strip (dget_or [] ''status'' row)) \<noteq> ''TRANSITION-HOLD'' then Inr ([], False)
      else (case parse_longrunner slug w of
          None \<Rightarrow> Inr ([''MISSING_LONGRUNNER:'' @ slug], False)
        | Some lr \<Rightarrow>
            (let expires = map_of lr ''transition_expires''; triggered = map_of lr ''transition_triggered_at'';
                 reesc = dget_or ''0'' ''transition_reescalation_count'' lr
             in case py_int (if reesc = [] then ''0'' else reesc) of
                  None \<Rightarrow> Inl ValueError
                | Some n \<Rightarrow>
                    rbind (expiry_instant expires triggered) (\<lambda>e. Inr
                      (case e of
                         None \<Rightarrow> ([''SKIP:'' @ slug @ '' reason=no_transition_dates''], False)
                       | Some t \<Rightarrow>
                           if age_us now t > 0 then
                             ([''EXPIRED:'' @ slug @ '' reescalation_count='' @ int_str n @ '' expires='' @
                                 opt_text expires @ '' triggered='' @ opt_text triggered,
                               if n \<ge> 3 then ''  ACTION:AUTO_PAUSE '' @ slug
                               else ''  ACTION:REESCALATE '' @ slug @ '' next_count='' @ int_str (n + 1)], True)
                           else ([''CURRENT:'' @ slug @ '' expires_in='' @
                                    fixed 1 (fdiv (seconds_of (- age_us now t)) 3600) @ ''h''], False))))))"

fun expiry_rows :: "pydt \<Rightarrow> workspace \<Rightarrow> fields list \<Rightarrow> py_exc option \<times> string list \<times> bool" where
  "expiry_rows now w [] = (None, [], False)"
| "expiry_rows now w (row # rows) =
     (case expiry_row now w row of
        Inl e \<Rightarrow> (Some e, [], False)
      | Inr (ls, found) \<Rightarrow> (case expiry_rows now w rows of (e, ls', found') \<Rightarrow> (e, ls @ ls', found \<or> found')))"

definition cmd_transition_expiry :: "pydt \<Rightarrow> workspace \<Rightarrow> outcome" where
  "cmd_transition_expiry now w =
     (if parse_dispatch_table w = [] then Exit 0 [''ALL_CURRENT reason=file_not_found'']
      else (case expiry_rows now w (parse_dispatch_table w) of
          (Some e, ls, _) \<Rightarrow> Raise e ls
        | (None, ls, found) \<Rightarrow> Exit 0 (ls @ (if found then [] else [''ALL_CURRENT'']))))"

definition active_passes :: "fields list \<Rightarrow> (string \<times> pydt option) list" where
  "active_passes rows =
     foldl (\<lambda>d row. dput (strip (row_slug row)) (parse_iso (strip (dget_or [] ''last_worker_pass'' row))) d) []
       (filter (\<lambda>row. upper (strip (dget_or [] ''status'' row)) = ''ACTIVE'') rows)"

definition review_of :: "string \<Rightarrow> (string \<times> pydt) option" where
  "review_of line =
     (case table_cells line of
        date # slug # _ \<Rightarrow>
          if CHR ''|'' \<notin> set line \<or> slug = [] then None else map_option (\<lambda>t. (slug, t)) (parse_iso date)
      | _ \<Rightarrow> None)"

definition last_reviews :: "string option \<Rightarrow> (string \<times> pydt) list" where
  "last_reviews mrr =
     (case mrr of
        None \<Rightarrow> []
      | Some content \<Rightarrow>
          foldl (\<lambda>d (slug, t). case map_of d slug of
                     None \<Rightarrow> dput slug t d
                   | Some t' \<Rightarrow> if instant t > instant t' then dput slug t d else d) []
            (List.map_filter review_of (splitlines content)))"

definition pass_line :: "(string \<times> pydt) list \<Rightarrow> string \<times> pydt option \<Rightarrow> bool \<times> string" where
  "pass_line reviews p =
     (case p of
        (slug, None) \<Rightarrow> (False, ''SKIP:'' @ slug @ '' reason=no_worker_pass_timestamp'')
      | (slug, Some t) \<Rightarrow>
          (let review = map_of reviews slug;
               new = (case review of None \<Rightarrow> True | Some t' \<Rightarrow> instant t > instant t')
           in (new, (if new then ''NEW_ACTIVITY:'' else ''CURRENT:'') @ slug @ '' worker_pass='' @ dt_text (CHR '' '') t @
                    '' last_review='' @ opt_text (map_option (dt_text (CHR '' '')) review))))"

definition cmd_change_detect :: "workspace \<Rightarrow> outcome" where
  "cmd_change_detect w =
     (let rows = parse_dispatch_table w; active = active_passes rows;
          lines = map (pass_line (last_reviews (read_file ''PROJECTS/MANAGER-REVIEW-REGISTRY.md'' w))) active
      in if rows = [] then Exit 0 [''NO_CHANGES reason=ACTIVE-PROJECTS_not_found'']
         else if active = [] then Exit 0 [''NO_ACTIVE_PROJECTS'']
         else Exit 0 (map snd lines @ (if list_ex fst lines then [] else [''NO_CHANGES''])))"

section \<open>\<open>audit-spine\<close> and \<open>audit-anomalies\<close>\<close>

definition spine_rx :: rx where
  "spine_rx = rseq [rlit ''TASK:'', RGrp 1 run_id_rx, rlit ''.'',
     RGrp 2 (rseq [rlit ''T'', rplus rdigit, RStar (RSet (\<lambda>c. \<not> is_space c))])]"

definition worker_line :: "string \<Rightarrow> bool" where
  "worker_line line \<longleftrightarrow>
     (let l = lower line in
      contains ''session=worker'' l \<or> contains ''session:nightclaw-worker'' l \<or>
      \<not> (contains ''session=manager'' l \<or> contains ''session:nightclaw-manager'' l))"

text \<open>Run and step of a line.\<close>

definition spine_step :: "string \<Rightarrow> (string \<times> string) option" where
  "spine_step line = map_option (\<lambda>m. (m_group_or [] 1 m, m_group_or [] 2 m)) (rx_search spine_rx line)"

definition spine_events :: "string \<Rightarrow> (string \<times> string) list" where
  "spine_events log = List.map_filter spine_step (filter worker_line (splitlines log))"

definition spine_slug :: "string \<Rightarrow> (string \<times> string) option" where
  "spine_slug line =
     (case spine_step line of
        None \<Rightarrow> None
      | Some (run, step) \<Rightarrow>
          if contains ''T4'' step \<and> contains ''CHECKPOINT'' line then
            map_option (\<lambda>m. (run, rstrip_of (one_of ''|'') (m_group_or [] 1 m))) (rx_search project_rx line)
          else None)"

definition spine_slugs :: "string \<Rightarrow> fields" where
  "spine_slugs log = foldl (\<lambda>d (r, s). dput r s d) [] (List.map_filter spine_slug (splitlines log))"

datatype verdict = Clean_pass | Crashed | Routing_halt | Unknown_run

definition run_verdict :: "string list \<Rightarrow> verdict" where
  "run_verdict steps =
     (let t0 = list_ex (\<lambda>e. startswith e ''T0'' \<or> e = ''STARTUP'') steps;
          t4 = list_ex (\<lambda>e. startswith e ''T4'') steps; t9 = list_ex (\<lambda>e. startswith e ''T9'') steps
      in if t0 \<and> t4 \<and> t9 then Clean_pass else if t0 \<and> t4 \<and> \<not> t9 then Crashed
         else if t0 \<and> \<not> t4 then Routing_halt else Unknown_run)"

definition steps_of_run :: "string \<Rightarrow> string \<Rightarrow> string list" where
  "steps_of_run log run = map snd (filter (\<lambda>(r, s). r = run) (spine_events log))"

definition spine_line :: "string \<Rightarrow> string \<Rightarrow> string" where
  "spine_line log run =
     (case run_verdict (steps_of_run log run) of
        Clean_pass \<Rightarrow> ''CLEAN_PASS:'' @ run
      | Crashed \<Rightarrow> ''CRASH:'' @ run @ '':project='' @ dget_or ''none'' run (spine_slugs log)
      | Routing_halt \<Rightarrow> ''ROUTING_HALT:'' @ run
      | Unknown_run \<Rightarrow> ''UNKNOWN:'' @ run @ '' events='' @ show_set (steps_of_run log run))"

definition cmd_audit_spine :: "workspace \<Rightarrow> outcome" where
  "cmd_audit_spine w =
     (case read_file ''audit/AUDIT-LOG.md'' w of
        None \<Rightarrow> Exit 0 [''SKIP reason=AUDIT-LOG_not_found'']
      | Some log \<Rightarrow>
          (let runs = sort (remdups (map fst (spine_events log)));
               count = (\<lambda>v. length (filter (\<lambda>r. run_verdict (steps_of_run log r) = v) runs))
           in if runs = [] then Exit 0 [''NO_SESSIONS_FOUND'']
              else Exit (if count Crashed > 0 then 1 else 0)
                (map (spine_line log) runs @
                 [''SUMMARY: clean='' @ nat_str (count Clean_pass) @ '' crashes='' @ nat_str (count Crashed) @
                  '' routing_halts='' @ nat_str (count Routing_halt)])))"

definition protected_prefixes :: "string list" where
  "protected_prefixes =
     [''SOUL.md'', ''USER.md'', ''IDENTITY.md'', ''MEMORY.md'', ''AGENTS-CORE.md'',
      ''orchestration-os/CRON-WORKER-PROMPT.md'', ''orchestration-os/CRON-MANAGER-PROMPT.md'',
      ''orchestration-os/OPS-PREAPPROVAL.md'', ''orchestration-os/OPS-AUTONOMOUS-SAFETY.md'',
      ''orchestration-os/CRON-HARDLINES.md'', ''orchestration-os/REGISTRY.md'']"

definition pa_rx :: rx where "pa_rx = RSeq (rlit ''PA-'') (RGrp 1 (rrep 3 rdigit))"

definition tokens_rx :: rx where
  "tokens_rx = rseq [rlit_ci ''tokens'', RSet (one_of ''=:''), rspaces, RGrp 1 (rplus rdigit)]"

definition line_anomalies :: "nat \<Rightarrow> string \<Rightarrow> string list" where
  "line_anomalies n line =
     (let at = '':line='' @ nat_str n in
      (if contains ''TYPE:FILE_WRITE'' line then
         map (\<lambda>pf. ''ANOMALY:CRITICAL:PROTECTED_WRITE_NO_AUTH'' @ at @ '':file='' @ pf)
           (filter (\<lambda>pf. (contains (''FILE:'' @ pf) line \<or> contains (''FILE: '' @ pf) line) \<and>
                         \<not> contains ''{OWNER}'' line \<and> \<not> contains ''owner'' (lower line)) protected_prefixes)
       else []) @
      (if contains ''INTEGRITY_CHECK'' line \<and> contains ''RESULT:FAIL'' line
       then [''ANOMALY:CRITICAL:INTEGRITY_FAIL'' @ at @ '':verify_notification_exists''] else []) @
      (if contains ''pa_invoke'' (lower line) \<and> contains ''RESULT:SUCCESS'' line then
         (case rx_search pa_rx line of
            None \<Rightarrow> []
          | Some m \<Rightarrow> [''ANOMALY:HIGH:PA_INVOKE_VERIFY'' @ at @ '':pa=PA-'' @ m_group_or [] 1 m @ '':check_approval_chain''])
       else []) @
      (case rx_search tokens_rx line of
         None \<Rightarrow> []
       | Some m \<Rightarrow>
           (let tokens = digits_val (m_group_or [] 1 m) in
            if tokens > 80000 then
              [''ANOMALY:MEDIUM:HIGH_TOKEN_SESSION'' @ at @ '':run='' @
                 (case rx_search run_any_rx line of None \<Rightarrow> ''unknown'' | Some r \<Rightarrow> m_group_or [] 1 r) @
                 '':tokens='' @ nat_str tokens]
            else [])) @
      (if contains ''CONSTRAINT_VIOLATION'' line then [''ANOMALY:HIGH:CONSTRAINT_VIOLATION'' @ at] else []))"

definition cmd_audit_anomalies :: "workspace \<Rightarrow> outcome" where
  "cmd_audit_anomalies w =
     (case read_file ''audit/AUDIT-LOG.md'' w of
        None \<Rightarrow> Exit 0 [''CLEAN reason=AUDIT-LOG_not_found'']
      | Some log \<Rightarrow>
          (let anomalies = concat (map (\<lambda>(i, line). line_anomalies (i + 1) line) (enumerate 0 (splitlines log)))
           in if anomalies = [] then Exit 0 [''CLEAN'']
              else Exit 1 (anomalies @ [''TOTAL_ANOMALIES:'' @ nat_str (length anomalies)])))"

section \<open>\<open>prune-candidates\<close>\<close>

definition note_priority_rx :: rx where
  "note_priority_rx = rseq [rlit_ci ''Priority:'', rspaces,
     RGrp 1 (ralts (map rlit_ci [''INFO'', ''LOW'', ''MEDIUM'', ''HIGH'', ''CRITICAL'']))]"

definition day :: int where "day = 86400 * 1000000"

definition prune_reason :: "int \<Rightarrow> string \<Rightarrow> string option" where
  "prune_reason us priority =
     (let age = '' ('' @ fixed 0 (fdiv (seconds_of us) 86400) @ ''d)'' in
      if us > 90 * day then Some (''age>90d'' @ age)
      else if priority = ''INFO'' \<and> us > 7 * day then Some (''INFO>7d'' @ age)
      else if priority = ''LOW'' \<and> us > 14 * day then Some (''LOW>14d'' @ age)
      else if priority \<in> {''MEDIUM'', ''HIGH'', ''CRITICAL''} \<and> us > 30 * day then Some (priority @ ''>30d'' @ age)
      else None)"

definition entry_time :: "string \<Rightarrow> pydt option" where
  "entry_time s =
     (case rx_search stamp_rx s of
        Some m \<Rightarrow> parse_iso (m_group_or [] 1 m)
      | None \<Rightarrow> (case rx_search day_rx s of Some m \<Rightarrow> parse_iso (m_group_or [] 1 m) | None \<Rightarrow> None))"

definition entry_priority :: "string \<Rightarrow> string" where
  "entry_priority s =
     (case rx_search note_priority_rx s of None \<Rightarrow> ''UNKNOWN'' | Some m \<Rightarrow> upper (m_group_or [] 1 m))"

definition prune_entry :: "pydt \<Rightarrow> string \<Rightarrow> string option" where
  "prune_entry now s =
     (if startswith s ''[DONE'' then Some ''done_marker''
      else Option.bind (entry_time s) (\<lambda>t. prune_reason (age_us now t) (entry_priority s)))"

fun prune_lines :: "pydt \<Rightarrow> nat \<Rightarrow> bool \<Rightarrow> string list \<Rightarrow> (nat \<times> string \<times> string) list" where
  "prune_lines now n in_alerts [] = []"
| "prune_lines now n in_alerts (line # lines) =
     (let s = strip line in
      if contains ''## Current Alerts'' line \<or> contains ''## current alerts'' (lower line)
      then prune_lines now (n + 1) True lines
      else if \<not> in_alerts then prune_lines now (n + 1) in_alerts lines
      else if startswith s ''##'' then []
      else if s = [] \<or> startswith s ''---'' then prune_lines now (n + 1) in_alerts lines
      else (case prune_entry now s of None \<Rightarrow> [] | Some reason \<Rightarrow> [(n, reason, utake 80 s)]) @
           prune_lines now (n + 1) in_alerts lines)"

definition prune_candidates :: "pydt \<Rightarrow> string \<Rightarrow> (nat \<times> string \<times> string) list" where
  "prune_candidates now content = prune_lines now 1 False (splitlines content)"

definition cmd_prune_candidates :: "pydt \<Rightarrow> workspace \<Rightarrow> outcome" where
  "cmd_prune_candidates now w =
     (case read_file ''NOTIFICATIONS.md'' w of
        None \<Rightarrow> Exit 0 [''NONE reason=file_not_found'']
      | Some content \<Rightarrow>
          (let cs = prune_candidates now content in
           Exit 0 (if cs = [] then [''NONE'']
             else map (\<lambda>(n, reason, preview). ''PRUNE:line='' @ nat_str n @ '':reason='' @ reason @ '':'' @ preview) cs @
                  [''TOTAL_CANDIDATES:'' @ nat_str (length cs)])))"

section \<open>\<open>os-file-sizes\<close>\<close>

definition size_targets :: "(string \<times> nat) list" where
  "size_targets =
     [(''orchestration-os/OPS-FAILURE-MODES.md'', 1500), (''orchestration-os/OPS-KNOWLEDGE-EXECUTION.md'', 600),
      (''orchestration-os/OPS-TOOL-REGISTRY.md'', 400), (''AGENTS-LESSONS.md'', 400)]"

definition size_lines :: "workspace \<Rightarrow> string \<Rightarrow> nat option" where
  "size_lines w rel = map_option (\<lambda>t. length (splitlines t)) (read_file rel w)"

definition exceeds :: "workspace \<Rightarrow> string \<times> nat \<Rightarrow> bool" where
  "exceeds w rt = (case rt of (rel, threshold) \<Rightarrow> case size_lines w rel of None \<Rightarrow> False | Some n \<Rightarrow> n > threshold)"

definition cmd_os_file_sizes :: "workspace \<Rightarrow> outcome" where
  "cmd_os_file_sizes w =
     Exit 0
       (map (\<lambda>(rel, threshold).
            case size_lines w rel of
              None \<Rightarrow> ''SIZE:'' @ rel @ '':MISSING:MISSING''
            | Some n \<Rightarrow> ''SIZE:'' @ rel @ '':'' @ nat_str n @ '':'' @
                (if n \<le> threshold then ''OK'' else ''THRESHOLD_EXCEEDED'')) size_targets @
        [if filter (exceeds w) size_targets = [] then ''RESULT:OK''
         else ''RESULT:THRESHOLD_EXCEEDED:'' @ join ''|'' (map fst (filter (exceeds w) size_targets))])"

section \<open>\<open>crash-context\<close>\<close>

definition objective_rx :: rx where
  "objective_rx = rseq [rlit ''OBJECTIVE:'', RGrp 1 (RSeq rdot (RLazy rdot)), RAlt (rlit ''|'') REol]"

definition run_step_rx :: "string \<Rightarrow> rx" where
  "run_step_rx run = rseq [rlit (''TASK:'' @ run @ ''.''), RGrp 1 (RSeq (rlit ''T'') rnonspaces)]"

definition word_rx :: "string \<Rightarrow> rx" where
  "word_rx key = RSeq (rlit key) (RGrp 1 rnonspaces)"

text \<open>The last match among the lines of a run.\<close>

definition last_found :: "rx \<Rightarrow> (string \<Rightarrow> string) \<Rightarrow> string list \<Rightarrow> string" where
  "last_found r f entries =
     (case List.map_filter (\<lambda>line. map_option (\<lambda>m. f (m_group_or [] 1 m)) (rx_search r line)) entries of
        [] \<Rightarrow> ''unknown''
      | vs \<Rightarrow> last vs)"

definition is_memory_file :: "string \<Rightarrow> bool" where
  "is_memory_file f \<longleftrightarrow>
     (let name = drop 7 f in startswith f ''memory/'' \<and> CHR ''/'' \<notin> set name \<and> length name = 13 \<and>
        name ! 4 = CHR ''-'' \<and> name ! 7 = CHR ''-'' \<and> drop 10 name = ''.md'')"

definition memory_notes :: "string \<Rightarrow> workspace \<Rightarrow> string list \<Rightarrow> string list" where
  "memory_notes run w files =
     (case find (\<lambda>f. contains run (file_or_empty f w)) (take 3 (rev (sort (filter is_memory_file files)))) of
        None \<Rightarrow> []
      | Some f \<Rightarrow> map (\<lambda>l. ''MEMORY_NOTE:'' @ drop 7 f @ '':'' @ utake 200 (strip l))
                    (filter (contains run) (splitlines (file_or_empty f w))))"

definition cmd_crash_context :: "string list \<Rightarrow> string list \<Rightarrow> workspace \<Rightarrow> outcome" where
  "cmd_crash_context files args w =
     (case args of
        [] \<Rightarrow> Exit 2 []
      | run # _ \<Rightarrow>
          (case read_file ''audit/AUDIT-LOG.md'' w of
             None \<Rightarrow> Exit 1 [''ERROR: audit/AUDIT-LOG.md not found'']
           | Some log \<Rightarrow>
               (let entries = filter (contains run) (splitlines log);
                    project = last_found project_rx (rstrip_of (one_of ''|'')) entries;
                    crashes = length (filter (\<lambda>l. contains ''LOCK_STALE'' l \<and> contains project l) (splitlines log))
                in if entries = [] then Exit 1 [''NOT_FOUND:'' @ run]
                   else Exit 0
                     ([''RUN_ID:'' @ run, ''PROJECT:'' @ project,
                       ''LAST_OBJECTIVE:'' @ last_found objective_rx strip entries,
                       ''LAST_STEP:'' @ last_found (run_step_rx run) id entries,
                       ''LAST_TYPE:'' @ last_found (word_rx ''TYPE:'') id entries,
                       ''LAST_RESULT:'' @ last_found (word_rx ''RESULT:'') id entries,
                       ''TOTAL_ENTRIES:'' @ nat_str (length entries)] @
                      (if crashes > 1 then
                         [''REPEAT_CRASH:project='' @ project @ '':prior_crashes='' @ nat_str crashes,
                          ''RECOMMENDATION:ESCALATE '' @ em_dash @ '' same project has crashed multiple times'']
                       else if crashes = 1 then
                         [''FIRST_CRASH:project='' @ project, ''RECOMMENDATION:RETRY_WITH_MODIFIED_OBJECTIVE'']
                       else [''NO_PRIOR_CRASHES:project='' @ project, ''RECOMMENDATION:RETRY'']) @
                      memory_notes run w files))))"

section \<open>\<open>crash-recover\<close>\<close>

definition recover_min_minutes :: int where "recover_min_minutes = 10"

definition lock_field_rx :: rx where
  "lock_field_rx = rseq [RGrp 1 (RSeq (RSet (\<lambda>c. is_lower c \<or> is_upper c \<or> c = CHR ''_'')) (RStar (RSet is_word))),
     rspaces, rlit '':'', rspaces, RGrp 2 (rplus rdot), REol]"

definition lock_fields :: "string \<Rightarrow> fields" where
  "lock_fields txt =
     foldl (\<lambda>d (k, v). dput k v d) []
       (List.map_filter
          (\<lambda>line. map_option (\<lambda>m. (m_group_or [] 1 m, strip (m_group_or [] 2 m))) (rx_match lock_field_rx (strip line)))
          (splitlines txt))"

text \<open>\<open>T1\<close> to \<open>T9\<close> or a substep of \<open>T0\<close>.\<close>

definition past_t0_rx :: "string \<Rightarrow> rx" where
  "past_t0_rx run =
     RSeq (rlit (''TASK:'' @ run @ ''.''))
       (RAlt (RSeq (rlit ''T'') (RSet (one_of ''123456789''))) (RSeq (rlit ''T0.'') (RSet (one_of ''123456789''))))"

definition past_t0 :: "string \<Rightarrow> string \<Rightarrow> bool" where
  "past_t0 run log \<longleftrightarrow> list_ex (\<lambda>line. rx_search (past_t0_rx run) line \<noteq> None) (splitlines log)"

definition crash_recover :: "pydt \<Rightarrow> workspace \<Rightarrow> outcome \<times> workspace" where
  "crash_recover now w =
     (case read_file ''LOCK.md'' w of
        None \<Rightarrow> (Exit 0 [''NO_RECOVERY:reason=no_lock_file''], w)
      | Some txt \<Rightarrow>
          (let fs = lock_fields txt; run = strip (dget_or [] ''run_id'' fs);
               locked_at = strip (dget_or [] ''locked_at'' fs)
           in if map_of fs ''status'' \<noteq> Some ''locked'' then (Exit 0 [''NO_RECOVERY:reason=lock_released''], w)
              else if run \<in> {[], em_dash, ''-'', ''~''} then (Exit 0 [''NO_RECOVERY:reason=holder_unknown''], w)
              else (case fromisoformat (z_to_offset locked_at) of
                  None \<Rightarrow> (Exit 0 [''NO_RECOVERY:reason=locked_at_unparseable''], w)
                | Some t \<Rightarrow>
                    if dt_tz t = None then (Raise TypeError [], w)
                    else
                      (let minutes = age_us now t div 60000000; said = '':elapsed_minutes='' @ int_str minutes in
                       if minutes < recover_min_minutes then
                         (Exit 0 [''NO_RECOVERY:reason=lock_too_fresh'' @ said], w)
                       else if \<not> past_t0 run (file_or_empty ''audit/AUDIT-LOG.md'' w) then
                         (Exit 0 [''NO_RECOVERY:reason=holder_did_not_start_past_T0:run_id='' @ run], w)
                       else if contains run (file_or_empty ''audit/SESSION-REGISTRY.md'' w) then
                         (Exit 0 [''NO_RECOVERY:reason=holder_completed_but_lock_held:run_id='' @ run], w)
                       else (Exit 0 [''RECOVERED:'' @ run @ said], write_file ''LOCK.md'' released_body w)))))"

section \<open>\<open>t7-dedup\<close>\<close>

definition long_word_rx :: rx where
  "long_word_rx = RGrp 1 (rseq [RWordB, rrep 4 (RSet is_word), RStar (RSet is_word), RWordB])"

definition long_words :: "string \<Rightarrow> string list" where
  "long_words s = remdups (map (m_group_or [] 1) (rx_finditer long_word_rx s))"

definition fm_rx :: rx where "fm_rx = RSeq (rlit ''### '') (RGrp 1 (RSeq (rlit ''FM-'') (rplus rdigit)))"
definition lesson_rx :: rx where "lesson_rx = RSeq day_rx (rlit '':'')"
definition tool_rx :: rx where "tool_rx = rseq [rlit ''|'', rspaces, day_rx, rspaces, rlit ''|'']"

text \<open>What a line opens: an entry and its first lines.\<close>

definition entry_head :: "string \<Rightarrow> (string \<times> string list) option" where
  "entry_head line =
     (case rx_match fm_rx line of
        Some m \<Rightarrow> Some (m_group_or [] 1 m, [])
      | None \<Rightarrow>
          (case rx_match lesson_rx line of
             Some m \<Rightarrow> Some (''lesson-'' @ m_group_or [] 1 m, [line])
           | None \<Rightarrow> map_option (\<lambda>m. (''tool-'' @ m_group_or [] 1 m, [line])) (rx_match tool_rx line)))"

text \<open>The entries of a file; lines before the first are dropped.\<close>

fun dedup_entries :: "(string \<times> string list) option \<Rightarrow> string list \<Rightarrow> (string \<times> string list) list" where
  "dedup_entries cur [] = (case cur of None \<Rightarrow> [] | Some e \<Rightarrow> [e])"
| "dedup_entries cur (line # lines) =
     (case entry_head line of
        Some e \<Rightarrow> (case cur of None \<Rightarrow> [] | Some e' \<Rightarrow> [e']) @ dedup_entries (Some e) lines
      | None \<Rightarrow> dedup_entries (map_option (\<lambda>(k, ls). (k, ls @ [line])) cur) lines)"

definition overlap :: "string list \<Rightarrow> string list \<Rightarrow> nat" where
  "overlap xs ys = length (filter (\<lambda>x. x \<in> set ys) xs)"

record best_match =
  bm_score :: nat             \<comment> \<open>words in common; the score is their share of the signal's words\<close>
  bm_id :: string
  bm_preview :: string

definition better :: "string list \<Rightarrow> string \<times> string list \<Rightarrow> best_match option \<Rightarrow> best_match option" where
  "better signal e best =
     (case e of (k, ls) \<Rightarrow>
        (let txt = lower (join '' '' ls); n = overlap signal (long_words txt);
             top = (case best of None \<Rightarrow> 0 | Some b \<Rightarrow> bm_score b)
         in if ls \<noteq> [] \<and> n > top then Some \<lparr>bm_score = n, bm_id = k, bm_preview = utake 120 txt\<rparr> else best))"

definition cmd_t7_dedup :: "string list \<Rightarrow> workspace \<Rightarrow> outcome" where
  "cmd_t7_dedup args w =
     (case args of
        target # arg # rest \<Rightarrow>
          (let signal = long_words (strip (lower (join '' '' (arg # rest)))) in
           case read_file target w of
             None \<Rightarrow> Exit 0 [''NOVEL reason=target_file_not_found:'' @ target]
           | Some content \<Rightarrow>
               if signal = [] then Exit 0 [''NOVEL reason=signal_too_short_for_matching'']
               else (case fold (better signal) (dedup_entries None (splitlines content)) None of
                   None \<Rightarrow> Exit 0 [''NOVEL reason=no_entries_in_file'']
                 | Some b \<Rightarrow>
                     (let score = '':score='' @ fixed 2 (double (int (bm_score b), int (length signal))) in
                      if 2 * bm_score b \<ge> length signal then
                        Exit 0 [''DUPLICATE:'' @ bm_id b @ score @ '':'' @ bm_preview b]
                      else Exit 0 [''NOVEL closest='' @ bm_id b @ score])))
      | _ \<Rightarrow> Exit 2 [])"

end
