(* ===== verification/AuditFacts.thy ===== *)
theory AuditFacts
  imports AuditLog LockSession SharedFacts
begin

text \<open>
  \<open>crash-recover\<close> against the lock of a session: the fields it reads in a lock file that \<open>lock-acquire\<close>
  wrote, and exactly when it takes the lock away.
\<close>

section \<open>The fields of the lock file\<close>










section \<open>Recovery of a held lock\<close>














end
