(* ===== verification/Phases.thy ===== *)
theory Phases
  imports Schema SharedFacts
begin

text \<open>
  \<open>nightclaw_engine/schema/phases.py\<close> and \<open>phase-validate\<close> of \<open>commands/longrunner.py\<close>: the phase
  machine of a project. \<open>yaml\<close> stands for \<open>yaml.safe_load\<close> (\<open>Inl\<close> its error text), as in \<open>Schema\<close>.
  Every error of the loader is a \<open>SchemaError\<close>, given here by its text.
\<close>

record phase =
  ph_name :: string
  ph_objective :: string
  ph_stop :: string
  ph_tools :: "string list"
  ph_successors :: "string list"

record phase_machine =
  pm_slug :: string
  pm_initial :: string
  pm_phases :: "phase list"
  pm_source :: string

definition get_phase :: "phase_machine \<Rightarrow> string \<Rightarrow> phase option" where
  "get_phase m name = find (\<lambda>p. ph_name p = name) (pm_phases m)"

definition phase_names :: "phase_machine \<Rightarrow> string list" where
  "phase_names m = map ph_name (pm_phases m)"

definition allows_transition :: "phase_machine \<Rightarrow> string \<Rightarrow> string \<Rightarrow> bool" where
  "allows_transition m src dst =
     (case get_phase m src of None \<Rightarrow> False | Some p \<Rightarrow> dst \<in> set (ph_successors p))"

definition is_terminal :: "phase_machine \<Rightarrow> string \<Rightarrow> bool" where
  "is_terminal m name = (case get_phase m name of None \<Rightarrow> False | Some p \<Rightarrow> ph_successors p = [])"

section \<open>The loader\<close>

definition require_str :: "pyval \<Rightarrow> string \<Rightarrow> string \<Rightarrow> string + string" where
  "require_str data key ctx =
     (case vget0 key data of
        VStr v \<Rightarrow> if strip v = [] then Inl (ctx @ '': missing required string '' @ [apos] @ key @ [apos])
                  else Inr (strip v)
      | _ \<Rightarrow> Inl (ctx @ '': missing required string '' @ [apos] @ key @ [apos]))"

definition coerce_entry :: "string \<Rightarrow> pyval \<Rightarrow> string + string" where
  "coerce_entry ctx item =
     (case item of
        VStr v \<Rightarrow> if strip v = [] then Inl (ctx @ '': list entries must be non-empty strings'') else Inr (strip v)
      | _ \<Rightarrow> Inl (ctx @ '': list entries must be non-empty strings''))"

definition coerce_str_list :: "pyval \<Rightarrow> string \<Rightarrow> string + string list" where
  "coerce_str_list v ctx =
     (case v of
        VNone \<Rightarrow> Inr []
      | VList elems \<Rightarrow> rmap (coerce_entry ctx) elems
      | _ \<Rightarrow> Inl (ctx @ '': expected list, got '' @ type_name v))"

definition phase_of_item :: "string \<Rightarrow> pyval \<times> pyval \<Rightarrow> string + phase" where
  "phase_of_item path item =
     (case item of
        (VStr name, body) \<Rightarrow>
          if strip name = [] then Inl (path @ '': phase names must be non-empty strings'')
          else if \<not> is_dict body then Inl (path @ '': phase '' @ [apos] @ name @ [apos] @ '' must be a mapping'')
          else
            (let ctx = path @ ''#phases.'' @ name in
             rbind (require_str body ''objective'' ctx) (\<lambda>objective.
             rbind (coerce_str_list (vget0 ''allowed_tools'' body) (ctx @ ''.allowed_tools'')) (\<lambda>tools.
             rbind (coerce_str_list (vget0 ''successors'' body) (ctx @ ''.successors'')) (\<lambda>succs.
               Inr \<lparr>ph_name = strip name, ph_objective = objective,
                    ph_stop = (case vget0 ''stop_condition'' body of VStr s \<Rightarrow> strip s | _ \<Rightarrow> []),
                    ph_tools = tools, ph_successors = succs\<rparr>))))
      | _ \<Rightarrow> Inl (path @ '': phase names must be non-empty strings''))"

definition undeclared_successor :: "phase list \<Rightarrow> (string \<times> string) option" where
  "undeclared_successor ps =
     find (\<lambda>(p, s). s \<notin> set (map ph_name ps))
       (concat (map (\<lambda>p. map (\<lambda>s. (ph_name p, s)) (ph_successors p)) ps))"

definition load_phase_machine ::
  "(string \<Rightarrow> string + pyval) \<Rightarrow> string \<Rightarrow> string option \<Rightarrow> string + phase_machine" where
  "load_phase_machine yaml path file =
     (case file of
        None \<Rightarrow> Inl (''phases.yaml not found: '' @ path)
      | Some text \<Rightarrow>
          (case yaml text of
             Inl e \<Rightarrow> Inl (''invalid YAML in '' @ path @ '': '' @ e)
           | Inr data \<Rightarrow>
               if \<not> is_dict data then Inl (path @ '': top-level must be a mapping'')
               else
                 rbind (require_str data ''slug'' path) (\<lambda>slug.
                 rbind (require_str data ''initial_phase'' path) (\<lambda>initial.
                 case vget0 ''phases'' data of
                   VDict raw \<Rightarrow>
                     if raw = [] then Inl (path @ '': '' @ [apos] @ ''phases'' @ [apos] @ '' must be a non-empty mapping'')
                     else rbind (rmap (phase_of_item path) raw) (\<lambda>phases.
                       if initial \<notin> set (map ph_name phases) then
                         Inl (path @ '': initial_phase '' @ [apos] @ initial @ [apos] @ '' not declared in phases'')
                       else (case undeclared_successor phases of
                           Some (p, s) \<Rightarrow>
                             Inl (path @ '': phase '' @ [apos] @ p @ [apos] @ '' lists undeclared successor '' @
                                  [apos] @ s @ [apos])
                         | None \<Rightarrow> Inr \<lparr>pm_slug = slug, pm_initial = initial, pm_phases = phases,
                                         pm_source = path\<rparr>))
                 | _ \<Rightarrow> Inl (path @ '': '' @ [apos] @ ''phases'' @ [apos] @ '' must be a non-empty mapping'')))))"

definition load_phase_machine_for_slug ::
  "(string \<Rightarrow> string + pyval) \<Rightarrow> string \<Rightarrow> workspace \<Rightarrow> string + phase_machine" where
  "load_phase_machine_for_slug yaml slug w =
     (if slug = [] \<or> CHR ''/'' \<in> set slug \<or> CHR 0x5C \<in> set slug \<or> contains ''..'' slug
      then Inl (''invalid slug: '' @ str_repr slug)
      else load_phase_machine yaml (project_file slug ''phases.yaml'') (read_file (project_file slug ''phases.yaml'') w))"

section \<open>\<open>phase-validate\<close>\<close>

definition cmd_phase_validate :: "(string \<Rightarrow> string + pyval) \<Rightarrow> string list \<Rightarrow> workspace \<Rightarrow> outcome" where
  "cmd_phase_validate yaml args w =
     (case args of
        slug # src # dst # _ \<Rightarrow>
          (if read_file (project_file slug ''phases.yaml'') w = None then
             Exit 1 [''PHASE:DENIED:MACHINE_MISSING:'' @ project_file slug ''phases.yaml'']
           else (case load_phase_machine_for_slug yaml slug w of
               Inl e \<Rightarrow> Exit 1 [''PHASE:DENIED:MACHINE_INVALID:'' @ e]
             | Inr machine \<Rightarrow>
                 if get_phase machine src = None then Exit 1 [''PHASE:DENIED:UNKNOWN_SOURCE:'' @ src]
                 else if get_phase machine dst = None then Exit 1 [''PHASE:DENIED:UNKNOWN_TARGET:'' @ dst]
                 else if \<not> allows_transition machine src dst
                   then Exit 1 [''PHASE:DENIED:NOT_DECLARED:'' @ src @ ''->'' @ dst]
                 else Exit 0 [''PHASE:OK'']))
      | _ \<Rightarrow> Exit 2 [])"

section \<open>Loaded machines are closed\<close>

definition machine_ok :: "phase_machine \<Rightarrow> bool" where
  "machine_ok m \<longleftrightarrow>
     pm_initial m \<in> set (phase_names m) \<and>
     (\<forall>p \<in> set (pm_phases m). ph_name p \<noteq> [] \<and> strip (ph_name p) = ph_name p \<and> ph_objective p \<noteq> [] \<and>
        (\<forall>s \<in> set (ph_successors p). s \<in> set (phase_names m)))"

lemma require_str_Inr: "require_str data key ctx = Inr v \<Longrightarrow> v \<noteq> [] \<and> strip v = v"
  by (auto simp: require_str_def split: pyval.splits if_splits)

lemma phase_of_item_ok:
  "phase_of_item path item = Inr p \<Longrightarrow> ph_name p \<noteq> [] \<and> strip (ph_name p) = ph_name p \<and> ph_objective p \<noteq> []"
  by (auto simp: phase_of_item_def Let_def rbind_Inr_iff dest: require_str_Inr
      split: prod.splits pyval.splits if_splits)

lemma undeclared_None:
  assumes "undeclared_successor ps = None" "p \<in> set ps" "s \<in> set (ph_successors p)"
  shows "s \<in> set (map ph_name ps)"
proof -
  have "(ph_name p, s) \<in> set (concat (map (\<lambda>p. map (\<lambda>s. (ph_name p, s)) (ph_successors p)) ps))"
    using assms(2,3) by auto
  then have "\<not> (case (ph_name p, s) of (p, s) \<Rightarrow> s \<notin> set (map ph_name ps))"
    using assms(1) unfolding undeclared_successor_def find_None_iff by blast
  then show ?thesis by simp
qed

lemma load_phase_machine_file: "load_phase_machine yaml path file = Inr m \<Longrightarrow> file \<noteq> None"
  by (cases "file") (simp_all add: load_phase_machine_def)

lemma load_phase_machine_ok:
  assumes "load_phase_machine yaml path file = Inr m"
  shows "machine_ok m"
proof -
  obtain body data where td: "file = Some body" "yaml body = Inr data" "is_dict data"
    using assms by (auto simp: load_phase_machine_def split: option.splits sum.splits if_splits)
  obtain raw where raw: "vget0 ''phases'' data = VDict raw" "raw \<noteq> []"
    using assms td by (cases "vget0 ''phases'' data") (auto simp: load_phase_machine_def rbind_Inr_iff split: if_splits)
  have raw: "rmap (phase_of_item path) raw = Inr (pm_phases m)"
    "pm_initial m \<in> set (map ph_name (pm_phases m))" "undeclared_successor (pm_phases m) = None"
    using assms td raw by (auto simp: load_phase_machine_def rbind_Inr_iff split: if_splits option.splits)
  then show ?thesis
    using rmap_Inr_ex [OF raw(1)] phase_of_item_ok undeclared_None [OF raw(3)]
    unfolding machine_ok_def phase_names_def by meson
qed

lemma get_phase_Some: "get_phase m name = Some p \<Longrightarrow> p \<in> set (pm_phases m) \<and> ph_name p = name"
  by (auto simp: get_phase_def find_Some_iff)

lemma get_phase_declared: "name \<in> set (phase_names m) \<longleftrightarrow> get_phase m name \<noteq> None"
  by (auto simp: get_phase_def phase_names_def find_None_iff)

section \<open>Running a machine\<close>

text \<open>A project moves from the initial phase by validated transitions.\<close>

inductive phase_reach :: "phase_machine \<Rightarrow> string \<Rightarrow> bool" for m where
  initial: "phase_reach m (pm_initial m)"
| advance: "phase_reach m p \<Longrightarrow> allows_transition m p q \<Longrightarrow> phase_reach m q"

inductive_cases phase_reachE: "phase_reach m q"

lemma phase_reach_declared: "phase_reach m p \<Longrightarrow> machine_ok m \<Longrightarrow> p \<in> set (phase_names m)"
proof (induction rule: phase_reach.induct)
  case initial
  then show ?case by (simp add: machine_ok_def)
next
  case (advance p q)
  then show ?case
    by (auto simp: allows_transition_def machine_ok_def dest!: get_phase_Some split: option.splits)
qed

text \<open>C39. A machine that loads never leaves its declared phases: every phase reached from the initial
  one by declared transitions is declared, and either it is terminal and allows nothing or it has a
  successor, and every successor is declared, so \<open>phase-validate\<close> accepts the step.\<close>

theorem phase_machine_progress:
  assumes "load_phase_machine_for_slug yaml slug w = Inr m" "phase_reach m p"
  shows "\<exists>ph. get_phase m p = Some ph \<and>
    (is_terminal m p \<longleftrightarrow> (\<forall>q. \<not> allows_transition m p q)) \<and>
    (\<forall>q \<in> set (ph_successors ph). cmd_phase_validate yaml [slug, p, q] w = Exit 0 [''PHASE:OK''])"
proof -
  let ?f = "project_file slug ''phases.yaml''"
  have load: "load_phase_machine yaml ?f (read_file ?f w) = Inr m"
    using assms(1) by (auto simp: load_phase_machine_for_slug_def split: if_splits)
  have ok: "machine_ok m" by (rule load_phase_machine_ok [OF load])
  have ex: "read_file ?f w \<noteq> None" by (rule load_phase_machine_file [OF load])
  obtain ph where ph: "get_phase m p = Some ph"
    using phase_reach_declared [OF assms(2) ok] get_phase_declared by auto
  have "is_terminal m p \<longleftrightarrow> (\<forall>q. \<not> allows_transition m p q)"
    using ph by (cases "ph_successors ph") (auto simp: is_terminal_def allows_transition_def)
  moreover have "cmd_phase_validate yaml [slug, p, q] w = Exit 0 [''PHASE:OK'']"
    if "q \<in> set (ph_successors ph)" for q
  proof -
    have "allows_transition m p q" using ph that by (simp add: allows_transition_def)
    then have "get_phase m q \<noteq> None"
      using phase_reach_declared [OF phase_reach.advance [OF assms(2)] ok] get_phase_declared by blast
    with \<open>allows_transition m p q\<close> show ?thesis
      using ex assms(1) ph by (simp add: cmd_phase_validate_def)
  qed
  ultimately show ?thesis using ph by blast
qed

text \<open>\<open>phase-validate\<close> says OK exactly for the transitions the machine of the project declares.\<close>

theorem phase_validate_ok_iff:
  "cmd_phase_validate yaml [slug, src, dst] w = Exit 0 out \<longleftrightarrow>
     out = [''PHASE:OK''] \<and>
     (\<exists>m. load_phase_machine_for_slug yaml slug w = Inr m \<and> get_phase m dst \<noteq> None \<and>
        allows_transition m src dst)"
proof -
  have "read_file (project_file slug ''phases.yaml'') w \<noteq> None" if "load_phase_machine_for_slug yaml slug w = Inr m" for m
    using that load_phase_machine_file by (auto simp: load_phase_machine_for_slug_def split: if_splits)
  then show ?thesis
    by (auto simp: cmd_phase_validate_def allows_transition_def split: sum.splits option.splits if_splits)
qed

section \<open>A sample machine\<close>

definition sample_phase_data :: pyval where
  "sample_phase_data = vdict
     [(''slug'', VStr ''demo''), (''initial_phase'', VStr ''plan''),
      (''phases'', vdict
         [(''plan'', vdict [(''objective'', VStr ''think''), (''successors'', VList [VStr ''build''])]),
          (''build'', vdict [(''objective'', VStr ''do'')])])]"

definition sample_phase_yaml :: "string \<Rightarrow> string + pyval" where
  "sample_phase_yaml text = (if text = ''machine'' then Inr sample_phase_data else Inl ''bad'')"

definition sample_phase_ws :: workspace where
  "sample_phase_ws = [''PROJECTS/demo/phases.yaml'' \<mapsto> ''machine'']"

theorem phase_machine_progress_witness:
  "cmd_phase_validate sample_phase_yaml [''demo'', ''plan'', ''build''] sample_phase_ws = Exit 0 [''PHASE:OK'']"
proof -
  have "case load_phase_machine_for_slug sample_phase_yaml ''demo'' sample_phase_ws of Inl _ \<Rightarrow> False
      | Inr m \<Rightarrow> pm_initial m = ''plan'' \<and> map ph_successors (pm_phases m) = [[''build''], []] \<and>
          phase_names m = [''plan'', ''build'']"
    by code_simp
  then obtain m where m: "load_phase_machine_for_slug sample_phase_yaml ''demo'' sample_phase_ws = Inr m"
    "pm_initial m = ''plan''" "map ph_successors (pm_phases m) = [[''build''], []]"
    "phase_names m = [''plan'', ''build'']"
    by (auto split: sum.splits)
  have "phase_reach m ''plan''" using phase_reach.initial [of m] m(2) by simp
  from phase_machine_progress [OF m(1) this] obtain ph where ph: "get_phase m ''plan'' = Some ph"
    "\<forall>q \<in> set (ph_successors ph). cmd_phase_validate sample_phase_yaml [''demo'', ''plan'', q] sample_phase_ws =
       Exit 0 [''PHASE:OK'']"
    by blast
  have "''build'' \<in> set (ph_successors ph)"
    using ph(1) m(3,4) by (auto simp: get_phase_def phase_names_def map_eq_Cons_conv)
  with ph(2) show ?thesis by blast
qed

end
