(* ===== verification/Longrunner.thy ===== *)
theory Longrunner
  imports Phases Scan
begin

text \<open>
  \<open>nightclaw_engine/engine/longrunner.py\<close> (the rendered phase card of a LONGRUNNER.md) and the
  commands \<open>longrunner-extract\<close> and \<open>longrunner-render\<close> of \<open>commands/longrunner.py\<close>.
\<close>

section \<open>The card\<close>

definition card_header :: string where "card_header = ''<!-- nightclaw:phase-machine''"
definition card_footer :: string where "card_footer = ''<!-- /nightclaw:phase-machine -->''"

definition tick :: char where "tick = CHR 0x60"

definition code_list :: "string \<Rightarrow> string list \<Rightarrow> string" where
  "code_list none xs = (if xs = [] then none else join '', '' (map (\<lambda>x. tick # x @ [tick]) xs))"

definition table_text :: "string \<Rightarrow> string" where
  "table_text s = replace_char (CHR ''|'') [CHR 0x5C, CHR ''|''] (replace_char nl '' '' (strip s))"

definition phase_row :: "string \<Rightarrow> phase \<Rightarrow> string" where
  "phase_row current p =
     (let stop = table_text (ph_stop p) in
      ''| '' @ [tick] @ ph_name p @ [tick] @ (if ph_name p = current then '' '' @ left_arrow else []) @
      '' | '' @ table_text (ph_objective p) @ '' | '' @ (if stop = [] then em_dash else stop) @
      '' | '' @ code_list em_dash (ph_tools p) @
      '' | '' @ code_list (em_dash @ '' (terminal)'') (ph_successors p) @ '' |'')"

definition render_card :: "phase_machine \<Rightarrow> string \<Rightarrow> string \<Rightarrow> string" where
  "render_card machine current fp =
     unlines
       ([card_header @ '' schema_fingerprint='' @ fp @ '' -->'', [],
         ''### Phase Machine: '' @ [tick] @ pm_slug machine @ [tick], [],
         ''- **Current phase:** '' @ [tick] @ current @ [tick],
         ''- **Initial phase:** '' @ [tick] @ pm_initial machine @ [tick],
         ''- **Total phases:** '' @ nat_str (length (pm_phases machine)), [],
         ''| Phase | Objective | Stop condition | Allowed tools | Successors |'',
         ''|---|---|---|---|---|''] @
        map (phase_row current) (pm_phases machine) @ [[], card_footer])"

section \<open>The current phase\<close>

definition section_rx :: rx where
  "section_rx = rseq [rlit ''##'', rplus (RSet is_space), rlit ''Current Phase'', rspaces, rlit [nl]]"

definition at_h2 :: "string \<Rightarrow> bool" where
  "at_h2 s \<longleftrightarrow> startswith s (nl # ''##'') \<and> (case drop 3 s of [] \<Rightarrow> False | c # _ \<Rightarrow> is_space c)"

text \<open>\<open>(.*?)(?=\n##\s+|\Z)\<close>.\<close>

fun upto_h2 :: "string \<Rightarrow> string" where
  "upto_h2 [] = []"
| "upto_h2 (c # s) = (if at_h2 (c # s) then [] else c # upto_h2 s)"

definition phase_name_rx :: rx where
  "phase_name_rx =
     rseq [RBolM, rspaces, rlit ''name:'', rspaces, ropt (RSet (one_of [quote, apos])),
           RGrp 1 (rplus (RSet (\<lambda>c. is_alnum c \<or> c \<in> set ''_-''))),
           ropt (RSet (one_of [quote, apos])), rspaces, REolM]"

definition extract_current_phase_name :: "string \<Rightarrow> string option" where
  "extract_current_phase_name body =
     (case rx_search section_rx body of
        None \<Rightarrow> None
      | Some m \<Rightarrow> map_option (\<lambda>n. strip (m_group_or [] 1 n)) (rx_search phase_name_rx (upto_h2 (m_after m))))"

section \<open>Replacing the card\<close>

text \<open>\<open>re.escape(HEADER) + r".*?" + re.escape(FOOTER) + r"\n?"\<close> with \<open>re.DOTALL\<close>.\<close>

definition card_rx :: rx where
  "card_rx = rseq [rlit card_header, RLazy (RSet (\<lambda>_. True)), rlit card_footer, ropt (rlit [nl])]"

text \<open>The replacement text of \<open>sub\<close> is a template: backslash sequences are expanded. The expression
  has no groups, so a group reference other than \<open>\g<0>\<close> is an error.\<close>

definition is_octal :: "char \<Rightarrow> bool" where
  "is_octal c \<longleftrightarrow> 48 \<le> code c \<and> code c \<le> 55"

definition code_point :: "nat \<Rightarrow> string" where
  "code_point n = (if n < 128 then [char_of n] else [char_of (192 + n div 64), char_of (128 + n mod 64)])"

definition octal_val :: "string \<Rightarrow> nat" where
  "octal_val ds = foldl (\<lambda>a c. 8 * a + digit_val c) 0 ds"

definition simple_escape :: "char \<Rightarrow> char option" where
  "simple_escape c =
     map_of [(CHR ''a'', CHR 0x07), (CHR ''b'', CHR 0x08), (CHR ''f'', CHR 0x0C), (CHR ''n'', nl),
             (CHR ''r'', CHR 0x0D), (CHR ''t'', CHR 0x09), (CHR ''v'', CHR 0x0B), (CHR 0x5C, CHR 0x5C)] c"

function expand_template :: "string \<Rightarrow> string \<Rightarrow> py_exc + string" where
  "expand_template whole [] = Inr []"
| "expand_template whole (c # s) =
     (if c \<noteq> CHR 0x5C then rbind (expand_template whole s) (\<lambda>r. Inr (c # r))
      else (case s of
          [] \<Rightarrow> Inl ReError
        | d # t \<Rightarrow>
            if d = CHR ''g'' then
              (if startswith t ''<0>'' then rbind (expand_template whole (drop 3 t)) (\<lambda>r. Inr (whole @ r))
               else Inl ReError)
            else if d = CHR ''0'' then
              (let ds = takeWhile is_octal (take 2 t) in
               rbind (expand_template whole (drop (length ds) t)) (\<lambda>r. Inr (code_point (octal_val ds) @ r)))
            else if is_digit d then
              (case t of
                 e # f # u \<Rightarrow>
                   if is_octal d \<and> is_octal e \<and> is_octal f \<and> octal_val [d, e, f] < 256
                   then rbind (expand_template whole u) (\<lambda>r. Inr (code_point (octal_val [d, e, f]) @ r))
                   else Inl ReError
               | _ \<Rightarrow> Inl ReError)
            else (case simple_escape d of
                Some x \<Rightarrow> rbind (expand_template whole t) (\<lambda>r. Inr (x # r))
              | None \<Rightarrow>
                  if is_lower d \<or> is_upper d then Inl ReError
                  else rbind (expand_template whole t) (\<lambda>r. Inr (c # d # r)))))"
  by pat_completeness auto
termination
  by (relation "measure (\<lambda>(w, s). length s)") auto

definition splice_card :: "string \<Rightarrow> string \<Rightarrow> py_exc + string" where
  "splice_card block body =
     (if rx_search card_rx body \<noteq> None then
        rbind (expand_template [] block) (\<lambda>_.
          Inr (rx_sub card_rx (\<lambda>m. case expand_template (m_text m) block of Inl _ \<Rightarrow> [] | Inr r \<Rightarrow> r) body))
      else
        (let b1 = (if endswith body [nl] then body else body @ [nl]);
             b2 = (if endswith b1 [nl, nl] then b1 else b1 @ [nl])
         in Inr (b2 @ block)))"

definition render_longrunner_card ::
  "phase_machine \<Rightarrow> string \<Rightarrow> string option \<Rightarrow> py_exc + (string \<times> string)" where
  "render_longrunner_card machine fp file =
     (case file of
        None \<Rightarrow> Inl FileNotFoundError
      | Some body \<Rightarrow>
          (let current = (case extract_current_phase_name body of None \<Rightarrow> pm_initial machine
                          | Some n \<Rightarrow> if n = [] then pm_initial machine else n)
           in rbind (splice_card (render_card machine current fp) body) (\<lambda>b. Inr (b, current))))"

section \<open>The commands\<close>

text \<open>\<open>longrunner-render\<close>. What it prints after \<open>BYTES=\<close> is the pair that \<open>render_longrunner_card\<close>
  returns, and no file is written. \<open>loaded\<close> is the result of loading the schema model.\<close>

definition cmd_longrunner_render ::
  "(string \<Rightarrow> string + pyval) \<Rightarrow> py_exc + schema_model \<Rightarrow> string list \<Rightarrow> workspace \<Rightarrow> outcome \<times> workspace" where
  "cmd_longrunner_render yaml loaded args w =
     (case args of
        [] \<Rightarrow> (Exit 2 [], w)
      | slug # _ \<Rightarrow>
          if \<not> is_valid_slug slug then (Exit 1 [''LONGRUNNER:ERROR:INVALID_SLUG:'' @ str_repr slug], w)
          else if read_file (project_file slug ''phases.yaml'') w = None then
            (Exit 1 [''LONGRUNNER:ERROR:machine_missing:'' @ project_file slug ''phases.yaml''], w)
          else (case load_phase_machine_for_slug yaml slug w of
              Inl e \<Rightarrow> (Exit 1 [''LONGRUNNER:ERROR:'' @ e], w)
            | Inr machine \<Rightarrow>
                (case loaded of
                   Inl (SchemaError e) \<Rightarrow> (Exit 1 [''ERROR: schema_load_failed: '' @ e], w)
                 | Inl e \<Rightarrow> (Raise e [], w)
                 | Inr model \<Rightarrow>
                     (case render_longrunner_card machine (sm_fingerprint model)
                             (read_file (project_file slug ''LONGRUNNER.md'') w) of
                        Inl e \<Rightarrow> (Raise e [], w)
                      | Inr (body, current) \<Rightarrow>
                          (Exit 0 [''LONGRUNNER:OK:'' @ project_file slug ''LONGRUNNER.md'' @ '':BYTES=('' @
                                   str_repr body @ '', '' @ str_repr current @ '')''], w)))))"

definition cmd_longrunner_extract :: "string list \<Rightarrow> workspace \<Rightarrow> outcome" where
  "cmd_longrunner_extract args w =
     (case args of
        [] \<Rightarrow> Exit 2 []
      | slug # _ \<Rightarrow>
          (case parse_longrunner slug w of
             None \<Rightarrow> Exit 1 [''ERROR: No LONGRUNNER found for slug='' @ slug]
           | Some fs0 \<Rightarrow>
               (let fs = dsetdefault ''next_pass.context_budget'' ''80K'' fs0;
                    status = lower (dget_or ''unknown'' ''phase.status'' fs);
                    objective = dget_or [] ''next_pass.objective'' fs;
                    routing = (if status = ''complete'' then ''COMPLETE''
                               else if status = ''blocked'' then ''BLOCKED''
                               else if objective = [] then ''STALE_OBJECTIVE''
                               else if status = ''active'' then ''ACTIVE''
                               else ''UNKNOWN_STATUS:'' @ status)
                in Exit 0 (map (\<lambda>(k, v). k @ ''='' @ v) (dput ''routing'' routing fs)))))"

end
