(* ===== verification/Sources.thy ===== *)
theory Sources
  imports Replay AuditLog
begin

text \<open>
  \<open>nightclaw_bridge/sources.py\<close>, first part: the parsers the bridge reads the files of the workspace
  with. A path is relative to the workspace root. A result that is a dict of texts is a \<open>fields\<close>
  list; one with other values is a record with the names of its keys.
\<close>

section \<open>Reading\<close>

definition rlazy :: "(char \<Rightarrow> bool) \<Rightarrow> rx" where  \<comment> \<open>\<open>[...]+?\<close>\<close>
  "rlazy P = RSeq (RSet P) (RLazy (RSet P))"

abbreviation not_bar :: "char \<Rightarrow> bool" where "not_bar c \<equiv> c \<noteq> CHR ''|''"

text \<open>\<open>readlines\<close>, each line without its newline.\<close>

definition file_lines :: "string \<Rightarrow> workspace \<Rightarrow> string list" where
  "file_lines p w =
     (case read_file p w of
        None \<Rightarrow> []
      | Some t \<Rightarrow> (let ls = split_on nl t in if last ls = [] then butlast ls else ls))"

definition no_content :: "string \<Rightarrow> bool" where
  "no_content s \<longleftrightarrow> s = [] \<or> list_ex (startswith s) [''#'', ''<!--'', ''```'', ''---'']"

text \<open>The lines with content, stripped as every reader does first.\<close>

definition content_lines :: "string \<Rightarrow> workspace \<Rightarrow> string list" where
  "content_lines p w = filter (\<lambda>l. \<not> no_content l) (map strip (file_lines p w))"

text \<open>\<open>xs[-n:]\<close>.\<close>

definition last_n :: "nat \<Rightarrow> 'a list \<Rightarrow> 'a list" where
  "last_n n xs = (if n = 0 then xs else drop (length xs - n) xs)"

definition run_day_rx :: rx where
  "run_day_rx = rseq [rlit ''RUN-'', RGrp 1 (rrep 4 rdigit), RGrp 2 (rrep 2 rdigit), RGrp 3 (rrep 2 rdigit)]"

definition ts_from_run_id :: "string \<Rightarrow> string" where
  "ts_from_run_id run =
     (case rx_match run_day_rx run of
        None \<Rightarrow> []
      | Some m \<Rightarrow> m_group_or [] 1 m @ ''-'' @ m_group_or [] 2 m @ ''-'' @ m_group_or [] 3 m @ ''T00:00:00Z'')"

definition any_ts_rx :: rx where
  "any_ts_rx =
     rseq [RGrp 1 (rseq [rrep 4 rdigit, rlit ''-'', rrep 2 rdigit, rlit ''-'', rrep 2 rdigit]),
           RSet (one_of '' T''), RGrp 2 (rrep 2 rdigit), rlit '':'', RGrp 3 (rrep 2 rdigit),
           ropt (RSeq (rlit '':'') (RGrp 4 (rrep 2 rdigit)))]"

definition normalize_ts :: "string \<Rightarrow> string" where
  "normalize_ts raw0 =
     (let raw = strip raw0 in
      case rx_match any_ts_rx raw of
        None \<Rightarrow> raw
      | Some m \<Rightarrow> m_group_or [] 1 m @ ''T'' @ m_group_or [] 2 m @ '':'' @ m_group_or [] 3 m @ '':'' @
                  m_group_or ''00'' 4 m @ ''Z'')"

definition kv_rx :: rx where
  "kv_rx =
     rseq [RWordB, RGrp 1 (RSeq (RSet is_upper) (RStar (RSet (\<lambda>c. is_upper c \<or> c = CHR ''_'')))), rspaces,
           rlit '':'', rspaces, RGrp 2 (rlazy not_bar), RLook (RAlt (RSeq rspaces (rlit ''|'')) (RSeq rspaces REol))]"

definition extract_kv :: "string \<Rightarrow> string \<Rightarrow> string option" where
  "extract_kv blob key =
     map_option (\<lambda>m. strip (m_group_or [] 2 m)) (find (\<lambda>m. m_group 1 m = Some key) (rx_finditer kv_rx blob))"

text \<open>\<open>a or b\<close> of an optional text.\<close>

definition text_or :: "string option \<Rightarrow> string \<Rightarrow> string" where
  "text_or a b = (case a of None \<Rightarrow> b | Some x \<Rightarrow> if x = [] then b else x)"

section \<open>Notifications\<close>

definition notif_header_rx :: rx where
  "notif_header_rx =
     rseq [ropt (rlit ''[''),
           RGrp 1 (rseq [rrep 4 rdigit, rlit ''-'', rrep 2 rdigit, rlit ''-'', rrep 2 rdigit, RSet (one_of ''T ''),
             rplus (RSet (\<lambda>c. is_digit c \<or> c = CHR '':'')), ropt (rlit ''Z'')]),
           ropt (rlit '']''), rspaces, rlit ''|'', rspaces, rlit ''Priority:'', rspaces, RGrp 2 (rlazy not_bar), rspaces,
           ropt (rseq [rlit ''|'', rspaces, rlit ''Project:'', rspaces, RGrp 3 (rlazy not_bar), rspaces]),
           ropt (rseq [rlit ''|'', rspaces, rlit ''Status:'', rspaces, RGrp 4 (rlazy not_bar), rspaces]), REol]"

text \<open>A header carries its status and, behind a literal \<open>\n\<close>, the first line of its message.\<close>

definition notif_of_header :: "string \<Rightarrow> fields option" where
  "notif_of_header line =
     (case rx_match notif_header_rx (strip line) of
        None \<Rightarrow> None
      | Some m \<Rightarrow>
          (let status = strip (m_group_or [] 4 m);
               (st, msg) = (case cut_at [CHR 0x5C, CHR ''n''] status of None \<Rightarrow> (status, []) | Some p \<Rightarrow> p)
           in Some [(''ts'', normalize_ts (m_group_or [] 1 m)), (''priority'', strip (m_group_or [] 2 m)),
                    (''project'', strip (m_group_or [] 3 m)), (''status'', strip st), (''message'', strip msg)]))"

definition add_message :: "string \<Rightarrow> fields \<Rightarrow> fields" where
  "add_message s e =
     (let old = dget_or [] ''message'' e in
      dput ''message'' (if old = [] then s else old @ '' | '' @ s) e)"

definition flushed :: "'a option \<Rightarrow> 'a list" where
  "flushed cur = (case cur of None \<Rightarrow> [] | Some e \<Rightarrow> [e])"

fun notif_entries :: "fields option \<Rightarrow> string list \<Rightarrow> fields list" where
  "notif_entries cur [] = flushed cur"
| "notif_entries cur (line # lines) =
     (if startswith line ''[DONE'' then flushed cur @ notif_entries None lines
      else (case notif_of_header line of
          Some e \<Rightarrow> flushed cur @ notif_entries (Some e) lines
        | None \<Rightarrow> notif_entries (if strip line = [] then cur else map_option (add_message (strip line)) cur) lines))"

definition parse_notifications :: "nat \<Rightarrow> string \<Rightarrow> workspace \<Rightarrow> fields list" where
  "parse_notifications n path w = last_n n (notif_entries None (file_lines path w))"

definition has_pending_phase_transition :: "fields list \<Rightarrow> fields list" where
  "has_pending_phase_transition es =
     filter (\<lambda>e. let blob = upper (dget_or [] ''status'' e @ '' '' @ dget_or [] ''message'' e) in
         contains ''TRANSITION-HOLD'' blob \<or> contains ''PHASE-TRANSITION'' blob \<or> contains ''PHASE-COMPLETE'' blob) es"

section \<open>The audit log\<close>

definition audit_v19_rx :: rx where
  "audit_v19_rx =
     rseq [rlit ''TASK:'', RGrp 1 (rplus (RSet not_bar)), rlit ''|'', rspaces, rlit ''TYPE:'', RGrp 2 (rlazy not_bar),
           rspaces, ropt (rseq [rlit ''|'', rspaces, RGrp 3 (RStar rdot)]), REol]"

definition audit_result_rx :: rx where
  "audit_result_rx = rseq [RWordB, rlit ''RESULT:'', rspaces, RGrp 1 (rplus (RSet (\<lambda>c. is_upper c \<or> c = CHR ''_'')))]"

definition audit_result :: "string \<Rightarrow> string" where
  "audit_result line = (case rx_search audit_result_rx line of None \<Rightarrow> [] | Some m \<Rightarrow> strip (m_group_or [] 1 m))"

definition severity :: "string \<Rightarrow> string" where
  "severity result =
     (let up = upper result in
      if up \<in> {''PASS'', ''SUCCESS''} then ''ok'' else if up \<in> {''FAIL'', ''BLOCKED''} then ''err'' else ''info'')"

definition audit_entry :: "string \<Rightarrow> fields" where
  "audit_entry line =
     (let (type, result, task) = (case rx_match audit_v19_rx line of
             None \<Rightarrow> ([], [], [])
           | Some m \<Rightarrow> (strip (m_group_or [] 2 m), audit_result line, strip (m_group_or [] 1 m)))
      in [(''line'', line), (''ts'', ts_from_run_id task), (''severity'', severity result), (''type'', type),
          (''result'', result), (''task'', task)])"

definition parse_audit_tail :: "nat \<Rightarrow> string \<Rightarrow> workspace \<Rightarrow> fields list" where
  "parse_audit_tail count path w =
     last_n count (map audit_entry
       (filter (\<lambda>l. startswith l ''TASK:'') (last_n (max (count * 3) 200) (content_lines path w))))"

definition run_of_task :: "string \<Rightarrow> string" where
  "run_of_task task = hd (split_on (CHR ''.'') task)"

record bundle_row =
  br_name :: string
  br_ok :: bool
  br_ts :: string
  br_run :: string
  br_mutations :: "string list"

definition bundle_row_of :: "string \<Rightarrow> bundle_row option" where
  "bundle_row_of line =
     (if \<not> startswith line ''TASK:'' \<or> \<not> contains ''TYPE:BUNDLE'' line then None
      else map_option
        (\<lambda>m. let run = run_of_task (strip (m_group_or [] 1 m)); file = text_or (extract_kv line ''FILE'') [] in
           \<lparr>br_name = text_or (extract_kv line ''BUNDLE'') (text_or (extract_kv (m_group_or [] 3 m) ''BUNDLE'') ''?''),
            br_ok = (upper (audit_result line) \<in> {''SUCCESS'', ''PASS''}), br_ts = ts_from_run_id run, br_run = run,
            br_mutations = (if file = [] then [] else [file])\<rparr>)
        (rx_match audit_v19_rx line))"

definition parse_bundle_history :: "nat \<Rightarrow> string \<Rightarrow> workspace \<Rightarrow> bundle_row list" where
  "parse_bundle_history count path w = last_n count (List.map_filter bundle_row_of (content_lines path w))"

text \<open>Result and time of the sessions the log closes, by run; the last line counts.\<close>

definition close_of :: "string \<Rightarrow> (string \<times> string \<times> string) option" where
  "close_of line =
     (if \<not> startswith line ''TASK:'' \<or> \<not> contains ''TYPE:SESSION_CLOSE'' line then None
      else map_option
        (\<lambda>m. let run = run_of_task (strip (m_group_or [] 1 m)) in (run, upper (audit_result line), ts_from_run_id run))
        (rx_match audit_v19_rx line))"

definition parse_audit_session_closes :: "string \<Rightarrow> workspace \<Rightarrow> (string \<times> string \<times> string) list" where
  "parse_audit_session_closes path w =
     foldl (\<lambda>d (run, v). dput run v d) [] (List.map_filter close_of (content_lines path w))"

section \<open>The change log\<close>

definition part_at :: "nat \<Rightarrow> string list \<Rightarrow> string" where
  "part_at i parts = (if i < length parts then parts ! i else [])"

definition log_line :: "string \<Rightarrow> bool" where
  "log_line line \<longleftrightarrow>
     \<not> (line = [] \<or> list_ex (startswith line) [''#'', ''<!--'', ''---'', ''```'', ''FIELD:'']) \<and> CHR ''|'' \<in> set line"

definition change_log_row :: "string \<Rightarrow> fields option" where
  "change_log_row line =
     (let parts = map strip (split_on (CHR ''|'') line); run = part_at 4 parts in
      if \<not> log_line line \<or> length parts < 3 then None
      else
        (let (file, field) = (case cut_at ''#'' (hd parts) of None \<Rightarrow> (hd parts, []) | Some p \<Rightarrow> p)
         in Some [(''file'', if startswith (upper file) ''FILE:'' then drop 5 file else file), (''field'', field),
                  (''old_val'', part_at 1 parts), (''new_val'', part_at 2 parts),
                  (''ts'', if 5 < length parts then part_at 5 parts else ts_from_run_id run),
                  (''reason'', part_at 7 parts), (''bundle'', part_at 8 parts), (''run_id'', run)]))"

definition parse_change_log :: "nat \<Rightarrow> string \<Rightarrow> workspace \<Rightarrow> fields list" where
  "parse_change_log count path w = last_n count (List.map_filter change_log_row (content_lines path w))"

section \<open>The session registry\<close>

record token_usage =
  tu_text :: string
  tu_in :: "int option"
  tu_out :: "int option"
  tu_total :: "int option"
  tu_cost :: "(int \<times> int) option"

definition rpoint :: rx where  \<comment> \<open>\<open>\d+(?:\.\d+)?\<close>\<close>
  "rpoint = RSeq (rplus rdigit) (ropt (RSeq (rlit ''.'') (rplus rdigit)))"

definition count_rx :: rx where
  "count_rx = RGrp 1 (rseq [ropt (rlit ''~''), rpoint, ropt (rlit_ci ''k'')])"

definition named_count_rx :: "string \<Rightarrow> rx" where  \<comment> \<open>\<open>\bin\s*[=:]\s*(...)\<close>\<close>
  "named_count_rx name = rseq [RWordB, rlit_ci name, rspaces, RSet (one_of ''=:''), rspaces, count_rx]"

definition count_named_rx :: "string \<Rightarrow> rx" where  \<comment> \<open>\<open>(...)\s*in\b\<close>\<close>
  "count_named_rx name = rseq [count_rx, rspaces, rlit_ci name, RWordB]"

definition total_rx :: rx where
  "total_rx =
     rseq [RAlt (rseq [rlit_ci ''total'', rspaces, RSet (one_of ''=:''), rspaces]) RWordB, count_rx, rspaces,
           ropt (RAlt (RSeq (rlit_ci ''token'') (ropt (rlit_ci ''s''))) (rlit_ci ''total'')), RWordB]"

definition cost_rx :: rx where
  "cost_rx =
     RAlt (rseq [RAlt (RSeq (rlit_ci ''cost'') (ropt (rlit_ci ''_usd''))) (rlit_ci ''usd''), rspaces,
                 RSet (one_of ''=:''), rspaces, ropt (rlit ''$''), RGrp 1 rpoint])
          (RSeq (rlit ''$'') (RGrp 2 rpoint))"

text \<open>The number a count stands for; \<open>int\<close> of an infinity raises, and no handler expects it.\<close>

definition count_of :: "string \<Rightarrow> py_exc + int" where
  "count_of s =
     (let v = lower s; k = endswith v ''k''; x = decimal (if k then butlast v else v);
          y = (if k then double (fst x * 1000, snd x) else x)
      in if float_inf y then Inl OverflowError else Inr (fst y div snd y))"

definition count_in :: "rx \<Rightarrow> rx \<Rightarrow> string \<Rightarrow> py_exc + int option" where
  "count_in r r' s =
     (case (case rx_search r s of None \<Rightarrow> rx_search r' s | Some m \<Rightarrow> Some m) of
        None \<Rightarrow> Inr None
      | Some m \<Rightarrow> rbind (count_of (lstrip_of (one_of ''~'') (m_group_or [] 1 m))) (\<lambda>n. Inr (Some n)))"

definition or_zero :: "int option \<Rightarrow> int" where
  "or_zero n = (case n of None \<Rightarrow> 0 | Some i \<Rightarrow> i)"

definition parse_token_summary :: "string \<Rightarrow> py_exc + token_usage" where
  "parse_token_summary raw =
     (let s = strip raw in
      if s = [] \<or> lower s \<in> {''unknown'', ''n/a'', ''na'', em_dash, ''-''} then
        Inr \<lparr>tu_text = s, tu_in = None, tu_out = None, tu_total = None, tu_cost = None\<rparr>
      else
        rbind (count_in (named_count_rx ''in'') (count_named_rx ''in'') s) (\<lambda>i.
        rbind (count_in (named_count_rx ''out'') (count_named_rx ''out'') s) (\<lambda>out.
        rbind (if i \<noteq> None \<or> out \<noteq> None then Inr (Some (or_zero i + or_zero out)) else count_in total_rx total_rx s)
          (\<lambda>total.
        Inr \<lparr>tu_text = s, tu_in = i, tu_out = out, tu_total = total,
             tu_cost = map_option (\<lambda>m. decimal (text_or (m_group 1 m) (m_group_or [] 2 m))) (rx_search cost_rx s)\<rparr>))))"

record session_row =
  sn_run :: string
  sn_agent :: string
  sn_model :: string
  sn_tokens :: string
  sn_usage :: token_usage
  sn_integrity :: string
  sn_outcome :: string
  sn_ts :: string

definition session_registry_rx :: rx where
  "session_registry_rx =
     rseq ([RGrp 1 run_id_rx, rspaces, rlit ''|''] @
           concat (map (\<lambda>i. [rspaces, RGrp i (rlazy not_bar), rspaces, rlit ''|'']) [2, 3, 4, 5]) @
           [rspaces, RGrp 6 (rplus rdot), REol])"

definition session_row_of :: "string \<Rightarrow> (py_exc + session_row) option" where
  "session_row_of line =
     map_option
       (\<lambda>m. rbind (parse_token_summary (m_group_or [] 4 m)) (\<lambda>u.
          let run = strip (m_group_or [] 1 m) in
          Inr \<lparr>sn_run = run, sn_agent = strip (m_group_or [] 2 m), sn_model = strip (m_group_or [] 3 m),
               sn_tokens = strip (m_group_or [] 4 m), sn_usage = u, sn_integrity = strip (m_group_or [] 5 m),
               sn_outcome = strip (m_group_or [] 6 m), sn_ts = ts_from_run_id run\<rparr>))
       (rx_match session_registry_rx line)"

definition parse_session_registry :: "nat \<Rightarrow> string \<Rightarrow> workspace \<Rightarrow> py_exc + session_row list" where
  "parse_session_registry n path w =
     rbind (rmap id (List.map_filter session_row_of (content_lines path w))) (\<lambda>rows. Inr (last_n n rows))"

end
