(* ===== verification/Reports.thy ===== *)
theory Reports
  imports Sources Scr
begin

text \<open>
  \<open>nightclaw_bridge/sources.py\<close>, third part: how the bridge reads the reports of the engine. The
  result of a subprocess is \<open>None\<close> where the script is missing or cannot be run, and otherwise its exit
  code and standard output.
\<close>

definition report_lines :: "string \<Rightarrow> string list" where
  "report_lines out = filter (\<lambda>l. l \<noteq> []) (map strip (splitlines out))"

definition behind :: "string \<Rightarrow> string \<Rightarrow> string" where  \<comment> \<open>\<open>s.partition(p)[2]\<close>\<close>
  "behind p s = (case cut_at p s of None \<Rightarrow> [] | Some (_, b) \<Rightarrow> b)"

definition behind_colon :: "string \<Rightarrow> string" where  \<comment> \<open>\<open>s.split(":", 1)[1]\<close>\<close>
  "behind_colon s = behind '':'' s"

section \<open>\<open>scr-verify\<close>\<close>

definition scr_line_rx :: rx where
  "scr_line_rx =
     rseq [RAlt (RSeq (rlit ''SCR-'') (RGrp 1 (rplus rdigit))) (RGrp 2 (RSeq (rlit ''CL'') (rplus rdigit))), rlit '':'',
           RGrp 3 (ralts [rlit ''PASS'', rlit ''FAIL'', rlit ''SKIP'', rlit ''INFO'']),
           ropt (RSeq (rplus (RSet is_space)) (RGrp 4 (RStar rdot))), REol]"

text \<open>Key, status and detail of a line.\<close>

definition scr_line_of :: "string \<Rightarrow> (string \<times> string \<times> string) option" where
  "scr_line_of line =
     map_option
       (\<lambda>m. (case m_group 1 m of Some n \<Rightarrow> ''SCR-'' @ pad0 2 (digits_val n) | None \<Rightarrow> m_group_or [] 2 m,
             m_group_or [] 3 m, strip (m_group_or [] 4 m)))
       (rx_match scr_line_rx (strip line))"

record scr_view =
  sv_checks :: "(string \<times> bool) list"
  sv_statuses :: fields
  sv_details :: fields
  sv_passed :: nat
  sv_failed :: nat

definition parse_scr_verify_output :: "string \<Rightarrow> scr_view option" where
  "parse_scr_verify_output out =
     (let rows = List.map_filter scr_line_of (splitlines out);
          statuses = foldl (\<lambda>d (k, s, x). dput k s d) [] rows;
          count = (\<lambda>s. length (filter (\<lambda>(k, v). v = s) statuses))
      in if statuses = [] then None
         else Some
           \<lparr>sv_checks = foldl (\<lambda>d (k, s, x). if s \<in> {''PASS'', ''FAIL''} then dput k (s = ''PASS'') d else d) [] rows,
            sv_statuses = statuses,
            sv_details = foldl (\<lambda>d (k, s, x). dput k (if x = [] then s else s @ '': '' @ x) d) [] rows,
            sv_passed = count ''PASS'', sv_failed = count ''FAIL''\<rparr>)"

section \<open>\<open>audit-spine\<close>\<close>

record report_row =
  rw_run :: string              \<comment> \<open>for an anomaly its type\<close>
  rw_status :: string           \<comment> \<open>for an anomaly its severity\<close>
  rw_detail :: string
  rw_line :: string

definition row_of_match :: "string \<Rightarrow> rmatch \<Rightarrow> report_row" where
  "row_of_match line m =
     \<lparr>rw_run = m_group_or [] 2 m, rw_status = m_group_or [] 1 m, rw_detail = strip (m_group_or [] 3 m), rw_line = line\<rparr>"

definition spine_row_rx :: rx where
  "spine_row_rx =
     rseq [RGrp 1 (ralts [rlit ''CLEAN_PASS'', rlit ''ROUTING_HALT'', rlit ''CRASH'', rlit ''UNKNOWN'']), rlit '':'',
           RGrp 2 run_id_rx, ropt (RSeq (RAlt (rlit '':'') (rplus (RSet is_space))) (RGrp 3 (RStar rdot))), REol]"

definition spine_summary_rx :: rx where
  "spine_summary_rx =
     rseq [rlit ''SUMMARY:'', rspaces, rlit ''clean='', RGrp 1 (rplus rdigit), rplus (RSet is_space), rlit ''crashes='',
           RGrp 2 (rplus rdigit), rplus (RSet is_space), rlit ''routing_halts='', RGrp 3 (rplus rdigit)]"

record spine_view =
  sp_clean :: nat
  sp_crashes :: nat
  sp_halts :: nat
  sp_unknown :: nat
  sp_rows :: "report_row list"

definition count_status :: "string \<Rightarrow> report_row list \<Rightarrow> nat" where
  "count_status s rows = length (filter (\<lambda>r. rw_status r = s) rows)"

definition spine_view_line :: "spine_view \<Rightarrow> string \<Rightarrow> spine_view" where
  "spine_view_line v line =
     (case rx_match spine_summary_rx line of
        Some m \<Rightarrow> v\<lparr>sp_clean := digits_val (m_group_or [] 1 m), sp_crashes := digits_val (m_group_or [] 2 m),
                   sp_halts := digits_val (m_group_or [] 3 m)\<rparr>
      | None \<Rightarrow>
          (case rx_match spine_row_rx line of
             None \<Rightarrow> v
           | Some m \<Rightarrow>
               (let row = row_of_match line m in
                v\<lparr>sp_unknown := sp_unknown v + (if rw_status row = ''UNKNOWN'' then 1 else 0),
                  sp_rows := sp_rows v @ [row]\<rparr>)))"

text \<open>A count that is zero is taken from the rows.\<close>

definition parse_audit_spine_output :: "string \<Rightarrow> spine_view" where
  "parse_audit_spine_output out =
     (let v = foldl spine_view_line \<lparr>sp_clean = 0, sp_crashes = 0, sp_halts = 0, sp_unknown = 0, sp_rows = []\<rparr>
                (report_lines out);
          fill = (\<lambda>n s. if n = 0 then count_status s (sp_rows v) else n)
      in v\<lparr>sp_clean := fill (sp_clean v) ''CLEAN_PASS'', sp_halts := fill (sp_halts v) ''ROUTING_HALT'',
           sp_crashes := fill (sp_crashes v) ''CRASH''\<rparr>)"

section \<open>\<open>audit-anomalies\<close>\<close>

definition anomaly_rx :: rx where
  "anomaly_rx =
     rseq [rlit ''ANOMALY:'', RGrp 1 (rplus (RSet (\<lambda>c. c \<noteq> CHR '':''))), rlit '':'',
           RGrp 2 (rplus (RSet (\<lambda>c. c \<noteq> CHR '':''))), ropt (RSeq (rlit '':'') (RGrp 3 (RStar rdot))), REol]"

text \<open>The loop that \<open>audit-anomalies\<close> and \<open>crash-detect\<close> share: a clean line, a total, or a row.\<close>

record tally =
  tl_clean :: bool
  tl_reason :: string
  tl_total :: "int option"
  tl_rows :: "report_row list"

definition tally_line :: "string \<Rightarrow> (string \<Rightarrow> report_row option) \<Rightarrow> tally \<Rightarrow> string \<Rightarrow> tally" where
  "tally_line key row t line =
     (if startswith line ''CLEAN'' then t\<lparr>tl_clean := True, tl_reason := behind ''reason='' line\<rparr>
      else if startswith line key then t\<lparr>tl_total := py_int (behind_colon line)\<rparr>
      else (case row line of None \<Rightarrow> t | Some r \<Rightarrow> t\<lparr>tl_rows := tl_rows t @ [r]\<rparr>))"

definition tally_of :: "string \<Rightarrow> (string \<Rightarrow> report_row option) \<Rightarrow> string \<Rightarrow> tally" where
  "tally_of key row out =
     foldl (tally_line key row) \<lparr>tl_clean = False, tl_reason = [], tl_total = None, tl_rows = []\<rparr> (report_lines out)"

record report_view =
  rv_ok :: bool
  rv_count :: int
  rv_halts :: nat
  rv_clean :: bool
  rv_rows :: "report_row list"
  rv_reason :: string

definition anomaly_row :: "string \<Rightarrow> report_row option" where
  "anomaly_row line =
     map_option (\<lambda>m. \<lparr>rw_run = m_group_or [] 2 m, rw_status = m_group_or [] 1 m,
                     rw_detail = strip (m_group_or [] 3 m), rw_line = line\<rparr>) (rx_match anomaly_rx line)"

definition parse_audit_anomalies_output :: "string \<Rightarrow> report_view" where
  "parse_audit_anomalies_output out =
     (let t = tally_of ''TOTAL_ANOMALIES:'' anomaly_row out; ok = (tl_clean t \<and> tl_rows t = []) in
      \<lparr>rv_ok = ok, rv_count = (case tl_total t of None \<Rightarrow> int (length (tl_rows t)) | Some n \<Rightarrow> n), rv_halts = 0,
       rv_clean = ok, rv_rows = tl_rows t, rv_reason = tl_reason t\<rparr>)"

section \<open>\<open>crash-detect\<close>\<close>

definition crash_row_rx :: rx where
  "crash_row_rx =
     rseq [RGrp 1 (RAlt (rlit ''CRASH'') (rlit ''ROUTING_HALT'')), rlit '':'', RGrp 2 run_id_rx,
           ropt (RSeq (rlit '':'') (RGrp 3 (RStar rdot))), REol]"

definition crash_row :: "string \<Rightarrow> report_row option" where
  "crash_row line = map_option (row_of_match line) (rx_match crash_row_rx line)"

definition parse_crash_detect_output :: "string \<Rightarrow> report_view" where
  "parse_crash_detect_output out =
     (let t = tally_of ''TOTAL_CRASHES:'' crash_row out;
          crashes = (case tl_total t of None \<Rightarrow> int (count_status ''CRASH'' (tl_rows t)) | Some n \<Rightarrow> n)
      in \<lparr>rv_ok = (tl_clean t \<and> crashes = 0), rv_count = crashes, rv_halts = count_status ''ROUTING_HALT'' (tl_rows t),
          rv_clean = (tl_clean t \<and> tl_rows t = []), rv_rows = tl_rows t, rv_reason = tl_reason t\<rparr>)"

section \<open>Running the commands\<close>

definition view_scr_verify :: "(nat \<times> string) option \<Rightarrow> scr_view option" where
  "view_scr_verify p = (case p of None \<Rightarrow> None | Some (_, out) \<Rightarrow> parse_scr_verify_output out)"

definition view_audit_spine :: "(nat \<times> string) option \<Rightarrow> (spine_view \<times> bool) option" where
  "view_audit_spine p = map_option (\<lambda>(rc, out). (parse_audit_spine_output out, rc = 0)) p"

definition view_audit_anomalies :: "(nat \<times> string) option \<Rightarrow> report_view option" where
  "view_audit_anomalies p =
     map_option (\<lambda>(rc, out). let v = parse_audit_anomalies_output out in v\<lparr>rv_ok := rc = 0 \<and> rv_rows v = []\<rparr>) p"

definition view_crash_detect :: "(nat \<times> string) option \<Rightarrow> report_view option" where
  "view_crash_detect p =
     map_option (\<lambda>(rc, out). let v = parse_crash_detect_output out in v\<lparr>rv_ok := rc = 0 \<and> rv_count v = 0\<rparr>) p"

text \<open>What the engine leaves behind when it runs a command.\<close>

definition printed :: "string list \<Rightarrow> string" where
  "printed ls = concat (map (\<lambda>l. l @ [nl]) ls)"

fun process_of :: "outcome \<Rightarrow> nat \<times> string" where
  "process_of (Exit n out) = (n, printed out)"
| "process_of (Raise e out) = (1, printed out)"

end
