(* ===== verification/ReportFacts.thy ===== *)
theory ReportFacts
  imports Reports AuditLog SharedFacts
begin

text \<open>
  The reports of the engine as the bridge reads them: what \<open>crash-detect\<close> and \<open>audit-spine\<close> find out
  about the runs arrives unchanged.
\<close>

section \<open>Groups that every match sets\<close>

primrec sets_group :: "nat \<Rightarrow> rx \<Rightarrow> bool" where
  "sets_group n REps = False"
| "sets_group n (RSet P) = False"
| "sets_group n (RSeq a b) = (sets_group n a \<or> sets_group n b)"
| "sets_group n (RAlt a b) = (sets_group n a \<and> sets_group n b)"
| "sets_group n (RStar a) = False"
| "sets_group n (RLazy a) = False"
| "sets_group n (RGrp m a) = (m = n \<or> sets_group n a)"
| "sets_group n RBol = False"
| "sets_group n RBolM = False"
| "sets_group n REol = False"
| "sets_group n REolM = False"
| "sets_group n RWordB = False"
| "sets_group n REnd = False"
| "sets_group n (RLook a) = False"







lemma group_props_rlit [simp]: "rx_groups (rlit l) = {}" "\<not> sets_group n (rlit l)"
  by (induction l rule: rlit.induct) auto

lemma group_props_derived [simp]:
  "rx_groups (rplus r) = rx_groups r" "sets_group n (rplus r) = sets_group n r"
  "rx_groups (ropt r) = rx_groups r" "\<not> sets_group n (ropt r)"
  by (auto simp: rplus_def ropt_def)

lemma group_props_rrep [simp]: "rx_groups (rrep k (RSet P)) = {}" "\<not> sets_group n (rrep k (RSet P))"
  by (induction k) auto

section \<open>Lines of a report\<close>














section \<open>Rows\<close>








section \<open>\<open>crash-detect\<close>\<close>

definition crash_row_of :: "string \<times> string \<Rightarrow> report_row" where
  "crash_row_of rs =
     (case rs of (r, s) \<Rightarrow> \<lparr>rw_run = r, rw_status = ''CRASH'', rw_detail = ''project='' @ s,
                           rw_line = ''CRASH:'' @ r @ '':project='' @ s\<rparr>)"

definition halt_row_of :: "string \<Rightarrow> report_row" where
  "halt_row_of r = \<lparr>rw_run = r, rw_status = ''ROUTING_HALT'', rw_detail = [], rw_line = ''ROUTING_HALT:'' @ r\<rparr>"




lemma run_id_groups [simp]: "rx_groups run_id_rx = {}" "\<not> sets_group n run_id_rx"
  by (simp_all add: run_id_rx_def rdigit_def)









lemma count_status_rows [simp]:
  "count_status ''CRASH'' (map crash_row_of cs) = length cs" "count_status ''CRASH'' (map halt_row_of hs) = 0"
  "count_status s (xs @ ys) = count_status s xs + count_status s ys"
  by (auto simp: count_status_def crash_row_of_def halt_row_of_def filter_empty_conv filter_id_conv comp_def
      split: prod.splits)







end
