(* ===== verification/Connect.thy ===== *)
theory Connect
  imports Scope Sources
begin

text \<open>
  The handshake of a browser client with \<open>nightclaw_bridge/runtime.py\<close>: the connect frame, the token
  and the limit on failed attempts of an address. A frame is the value \<open>json.loads\<close> returns, or \<open>None\<close>
  where the text is not JSON; readings of \<open>time.monotonic\<close> are in nanoseconds, the unit of the clock.
\<close>

section \<open>The handshake\<close>

definition ascii_text :: "string \<Rightarrow> bool" where
  "ascii_text s \<longleftrightarrow> list_all (\<lambda>c. code c < 128) s"

text \<open>\<open>hmac.compare_digest\<close> takes two texts of ASCII characters and raises \<open>TypeError\<close> otherwise.\<close>

definition compare_digest :: "pyval \<Rightarrow> string \<Rightarrow> py_exc + bool" where
  "compare_digest a b =
     (case a of
        VStr s \<Rightarrow> if ascii_text s \<and> ascii_text b then Inr (s = b) else Inl TypeError
      | _ \<Rightarrow> Inl TypeError)"

definition privilege_for_token :: "string option \<Rightarrow> pyval \<Rightarrow> py_exc + string" where
  "privilege_for_token expected token =
     (let e = text_or expected [] in
      if e = [] \<or> \<not> py_truth token then Inr ''ro''
      else rbind (compare_digest token e) (\<lambda>same. Inr (if same then ''rw'' else ''ro'')))"

definition auth_fail_max :: nat where "auth_fail_max = 5"
definition auth_fail_window :: int where "auth_fail_window = 60 * 1000000000"

record attempt =
  at_addr :: "string option"   \<comment> \<open>the remote address, where there is one\<close>
  at_frame :: "pyval option"
  at_check :: int               \<comment> \<open>the clock when the failures are counted\<close>
  at_mark :: int                \<comment> \<open>and when a failure is recorded\<close>

datatype handshake = AuthFailed string | ConnectAck string

type_synonym auth_fails = "(string \<times> int list) list"

definition recent_fails :: "int \<Rightarrow> int list \<Rightarrow> int list" where
  "recent_fails now ts = filter (\<lambda>t. now - t < auth_fail_window) ts"

definition record_fail :: "string \<Rightarrow> int \<Rightarrow> auth_fails \<Rightarrow> auth_fails" where
  "record_fail addr now fails = dput addr (last_n (auth_fail_max * 2) (dget_or [] addr fails @ [now])) fails"

text \<open>A frame that is no dict raises \<open>AttributeError\<close>, which ends the connection.\<close>

definition connect :: "string option \<Rightarrow> attempt \<Rightarrow> auth_fails \<Rightarrow> (py_exc + handshake) \<times> auth_fails" where
  "connect expected t fails =
     (case at_frame t of
        None \<Rightarrow> (Inr (AuthFailed ''MALFORMED''), fails)
      | Some req \<Rightarrow>
          if \<not> is_dict req then (Inl AttributeError, fails)
          else if vget0 ''type'' req \<noteq> VStr ''connect'' then (Inr (AuthFailed ''EXPECTED_CONNECT''), fails)
          else
            (let token = por (vget_or (VStr []) ''token'' req) (VStr []);
                 remote = text_or (at_addr t) [];
                 limited = (remote \<noteq> [] \<and> py_truth token \<and>
                   length (recent_fails (at_check t) (dget_or [] remote fails)) \<ge> auth_fail_max)
             in if limited then (Inr (AuthFailed ''RATE_LIMITED''), fails)
                else (case privilege_for_token expected token of
                    Inl e \<Rightarrow> (Inl e, fails)
                  | Inr p \<Rightarrow>
                      (Inr (ConnectAck p),
                       if py_truth token \<and> p \<noteq> ''rw'' \<and> text_or expected [] \<noteq> [] \<and> remote \<noteq> []
                       then record_fail remote (at_mark t) fails else fails))))"

text \<open>The outcomes of a sequence of attempts, which the event loop handles one at a time.\<close>

fun connects :: "string option \<Rightarrow> attempt list \<Rightarrow> auth_fails \<Rightarrow> (attempt \<times> (py_exc + handshake)) list" where
  "connects expected [] fails = []"
| "connects expected (t # ts) fails =
     (case connect expected t fails of (r, fails') \<Rightarrow> (t, r) # connects expected ts fails')"

lemma sorted_filter_ge: "sorted h \<Longrightarrow> filter (\<lambda>t. x \<le> t) h = dropWhile (\<lambda>t. t < (x :: int)) h"
proof (induction h)
  case (Cons a h)
  show ?case
  proof (cases "a < x")
    case False
    then have "filter (\<lambda>t. x \<le> t) (a # h) = a # h" using Cons.prems by (subst filter_id_conv) auto
    with False show ?thesis by simp
  qed (use Cons in auto)
qed simp

lemma sorted_filter_less: "sorted h \<Longrightarrow> filter (\<lambda>t. t < x) h = takeWhile (\<lambda>t. t < (x :: int)) h"
proof (induction h)
  case (Cons a h)
  show ?case
  proof (cases "a < x")
    case False
    then have "filter (\<lambda>t. t < x) (a # h) = []" using Cons.prems by (subst filter_empty_conv) auto
    with False show ?thesis by simp
  qed (use Cons in auto)
qed simp

section \<open>A limiter on a sliding window\<close>

text \<open>The last \<open>keep\<close> events are remembered; one more is let through while fewer than \<open>cap\<close> of them are
  younger than the window.\<close>

locale limiter =
  fixes cap keep :: nat and window :: int
  assumes cap_keep: "0 < cap" "cap \<le> keep"
begin

definition spaced :: "int list \<Rightarrow> bool" where
  "spaced h \<longleftrightarrow> sorted h \<and> (\<forall>i. i + cap < length h \<longrightarrow> h ! i + window \<le> h ! (i + cap))"

lemma spaced_Nil: "spaced []"
  by (simp add: spaced_def)

lemma spaced_snoc:
  assumes h: "spaced h" and few: "length (filter (\<lambda>t. c - t < window) (last_n keep h)) < cap"
    and time: "c \<le> m" "\<forall>t \<in> set h. t \<le> m"
  shows "spaced (h @ [m])"
proof -
  have s: "sorted h" and gap: "\<And>i. i + cap < length h \<Longrightarrow> h ! i + window \<le> h ! (i + cap)"
    using h by (auto simp: spaced_def)
  have new: "h ! i + window \<le> m" if i: "i + cap = length h" for i
  proof (rule ccontr)
    assume "\<not> ?thesis"
    then have "c - h ! i < window" using time(1) by simp
    moreover have "h ! i \<le> t" if t: "t \<in> set (drop i h)" for t
    proof -
      obtain j where "j < length h" "i \<le> j" "t = h ! j"
        using t by (auto simp: in_set_conv_nth) (metis add.commute add_lessD1 le_add2 less_diff_conv)
      then show ?thesis using s by (simp add: sorted_nth_mono)
    qed
    ultimately have young: "filter (\<lambda>t. c - t < window) (drop i h) = drop i h"
      by (subst filter_id_conv) force
    obtain k where k: "last_n keep h = drop k h" "k \<le> i"
      using cap_keep i by (cases "keep = 0") (auto simp: last_n_def)
    have "drop k h = take (i - k) (drop k h) @ drop i h"
      using k(2) by (metis append_take_drop_id drop_drop le_add_diff_inverse2)
    then have "length (filter (\<lambda>t. c - t < window) (last_n keep h)) \<ge> length (drop i h)"
      unfolding k(1) using young by (metis filter_append length_append le_add2)
    moreover have "length (drop i h) = cap" using i by simp
    ultimately show False using few by simp
  qed
  have "(h @ [m]) ! i + window \<le> (h @ [m]) ! (i + cap)" if "i + cap < length (h @ [m])" for i
    using that gap [of i] new [of i] cap_keep by (cases "i + cap = length h") (auto simp: nth_append)
  moreover have "sorted (h @ [m])" using s time(2) by (auto simp: sorted_append)
  ultimately show ?thesis by (auto simp: spaced_def)
qed

lemma spaced_window:
  assumes "spaced h"
  shows "length (filter (\<lambda>t. x \<le> t \<and> t < x + window) h) \<le> cap"
proof (rule ccontr)
  assume many: "\<not> ?thesis"
  have s: "sorted h" and gap: "\<And>i. i + cap < length h \<Longrightarrow> h ! i + window \<le> h ! (i + cap)"
    using assms by (auto simp: spaced_def)
  define k where "k = length (takeWhile (\<lambda>t. t < x) h)"
  have up: "filter (\<lambda>t. x \<le> t) h = drop k h"
    unfolding k_def by (metis dropWhile_eq_drop sorted_filter_ge s)
  have late: "x \<le> t" if "t \<in> set (drop k h)" for t
    using that unfolding up [symmetric] by simp
  have split: "filter (\<lambda>t. x \<le> t \<and> t < x + window) h = takeWhile (\<lambda>t. t < x + window) (drop k h)"
  proof -
    from up have "filter (\<lambda>t. x \<le> t \<and> t < x + window) h = filter (\<lambda>t. t < x + window) (drop k h)"
      by (metis (no_types, lifting) filter_cong filter_filter conj_commute)
    also have "\<dots> = takeWhile (\<lambda>t. t < x + window) (drop k h)"
      using sorted_wrt_drop [OF s, of k] by (rule sorted_filter_less)
    finally show ?thesis .
  qed
  let ?w = "takeWhile (\<lambda>t. t < x + window) (drop k h)"
  have len: "cap < length ?w" using many unfolding split by simp
  then have in_h: "k + cap < length h"
    using length_takeWhile_le [of "\<lambda>t. t < x + window" "drop k h"] by simp
  have "h ! (k + cap) < x + window"
    using nth_mem [OF len] len in_h by (auto simp: takeWhile_nth dest!: set_takeWhileD)
  moreover have "x \<le> h ! k"
    using late [of "h ! k"] in_h by (metis Cons_nth_drop_Suc add_lessD1 list.set_intros(1))
  ultimately show False using gap [of k] in_h by simp
qed

end

section \<open>The limit on wrong tokens\<close>

interpretation auth: limiter auth_fail_max "auth_fail_max * 2" auth_fail_window
  by unfold_locales (simp_all add: auth_fail_max_def)

definition token_of :: "attempt \<Rightarrow> pyval" where
  "token_of t = (case at_frame t of None \<Rightarrow> VNone | Some req \<Rightarrow> por (vget_or (VStr []) ''token'' req) (VStr []))"

text \<open>An attempt of the address whose token was compared and found wrong.\<close>

definition wrong_attempt :: "string \<Rightarrow> attempt \<times> (py_exc + handshake) \<Rightarrow> bool" where
  "wrong_attempt a out \<longleftrightarrow>
     at_addr (fst out) = Some a \<and> py_truth (token_of (fst out)) \<and> snd out = Inr (ConnectAck ''ro'')"

definition wrong_marks :: "string \<Rightarrow> (attempt \<times> (py_exc + handshake)) list \<Rightarrow> int list" where
  "wrong_marks a outs = map (\<lambda>out. at_mark (fst out)) (filter (wrong_attempt a) outs)"

definition readings :: "attempt list \<Rightarrow> int list" where
  "readings ts = concat (map (\<lambda>t. [at_check t, at_mark t]) ts)"

lemma last_n_snoc: "0 < n \<Longrightarrow> last_n n (last_n n xs @ [x]) = last_n n (xs @ [x])"
  by (cases "n \<le> length xs") (auto simp: last_n_def Suc_diff_le)

lemma privilege_ro: "privilege_for_token (Some e) tok = Inr p \<Longrightarrow> p = ''ro'' \<or> p = ''rw''"
  by (auto simp: privilege_for_token_def rbind_Inr_iff Let_def split: if_splits)

text \<open>Of an address, exactly the wrong attempts are recorded, and only where the limit allows one.\<close>

lemma connect_record:
  assumes "e \<noteq> []" "a \<noteq> []" "connect (Some e) t fails = (r, fails')"
  shows "dget_or [] a fails' =
    (if wrong_attempt a (t, r) then last_n (auth_fail_max * 2) (dget_or [] a fails @ [at_mark t]) else dget_or [] a fails)"
    and "wrong_attempt a (t, r) \<Longrightarrow> length (recent_fails (at_check t) (dget_or [] a fails)) < auth_fail_max"
proof -
  have other: "dget_or [] a (record_fail b m fails) =
    (if b = a then last_n (auth_fail_max * 2) (dget_or [] a fails @ [m]) else dget_or [] a fails)" for b m
    by (simp add: record_fail_def dget_or_def)
  show "dget_or [] a fails' =
    (if wrong_attempt a (t, r) then last_n (auth_fail_max * 2) (dget_or [] a fails @ [at_mark t]) else dget_or [] a fails)"
    using assms
    by (auto simp: connect_def wrong_attempt_def token_of_def Let_def other text_or_def
        split: option.splits if_splits sum.splits dest: privilege_ro)
  show "wrong_attempt a (t, r) \<Longrightarrow> length (recent_fails (at_check t) (dget_or [] a fails)) < auth_fail_max"
    using assms
    by (auto simp: connect_def wrong_attempt_def token_of_def Let_def text_or_def
        split: option.splits if_splits sum.splits)
qed

lemma wrong_marks_spaced:
  assumes "e \<noteq> []" "a \<noteq> []"
  shows "dget_or [] a fails = last_n (auth_fail_max * 2) h \<Longrightarrow> auth.spaced h \<Longrightarrow> sorted (h @ readings ts) \<Longrightarrow>
    auth.spaced (h @ wrong_marks a (connects (Some e) ts fails))"
proof (induction ts arbitrary: fails h)
  case Nil
  then show ?case by (simp add: wrong_marks_def)
next
  case (Cons t ts)
  obtain r fails' where c: "connect (Some e) t fails = (r, fails')" by force
  note rec = connect_record [OF assms c]
  have times: "sorted (h @ readings ts)" "at_check t \<le> at_mark t" "\<forall>x \<in> set h. x \<le> at_mark t"
    "sorted (h @ [at_mark t] @ readings ts)"
    using Cons.prems(3) by (auto simp: readings_def sorted_append)
  show ?case
  proof (cases "wrong_attempt a (t, r)")
    case True
    have "auth.spaced (h @ [at_mark t])"
      using Cons.prems(2) _ times(2,3)
    proof (rule auth.spaced_snoc)
      show "length (filter (\<lambda>x. at_check t - x < auth_fail_window) (last_n (auth_fail_max * 2) h)) < auth_fail_max"
        using rec(2) [OF True] by (simp add: recent_fails_def Cons.prems(1))
    qed
    moreover have "dget_or [] a fails' = last_n (auth_fail_max * 2) (h @ [at_mark t])"
      using rec(1) True by (simp add: Cons.prems(1) last_n_snoc auth_fail_max_def)
    ultimately show ?thesis
      using Cons.IH [of fails' "h @ [at_mark t]"] times(4) True by (simp add: c wrong_marks_def)
  next
    case False
    then have "dget_or [] a fails' = last_n (auth_fail_max * 2) h" using rec(1) Cons.prems(1) by simp
    then show ?thesis
      using Cons.IH [of fails' h] Cons.prems(2) times(1) False by (simp add: c wrong_marks_def)
  qed
qed

text \<open>C10. Guessing is limited: whatever frames one address sends, and whatever other addresses do in
  between, at most five of its wrong tokens are compared within any minute.\<close>

theorem wrong_tokens_limited:
  assumes "e \<noteq> []" "a \<noteq> []" "sorted (readings ts)"
  shows "length (filter (\<lambda>m. x \<le> m \<and> m < x + 60000000000) (wrong_marks a (connects (Some e) ts []))) \<le> 5"
proof -
  have "auth.spaced (wrong_marks a (connects (Some e) ts []))"
    using wrong_marks_spaced [OF assms(1,2), of "[]" "[]" ts] assms(3) auth.spaced_Nil
    by (simp add: dget_or_def last_n_def)
  then show ?thesis
    using auth.spaced_window [of _ x] by (simp add: auth_fail_window_def auth_fail_max_def)
qed

definition guess :: "int \<Rightarrow> string \<Rightarrow> attempt" where
  "guess now token =
     \<lparr>at_addr = Some ''127.0.0.1'', at_frame = Some (vdict [(''type'', VStr ''connect''), (''token'', VStr token)]),
      at_check = now, at_mark = now\<rparr>"

theorem wrong_tokens_limited_witness:
  "length (filter (\<lambda>m. 1 \<le> m \<and> m < 1 + 60000000000)
     (wrong_marks ''127.0.0.1'' (connects (Some ''s3cret'') (map (\<lambda>i. guess i ''x'') [1, 2, 3, 4, 5, 6, 7]) []))) \<le> 5 \<and>
   snd (last (connects (Some ''s3cret'') (map (\<lambda>i. guess i ''x'') [1, 2, 3, 4, 5, 6, 7]) [])) =
     Inr (AuthFailed ''RATE_LIMITED'')"
proof
  show "length (filter (\<lambda>m. 1 \<le> m \<and> m < 1 + 60000000000)
     (wrong_marks ''127.0.0.1'' (connects (Some ''s3cret'') (map (\<lambda>i. guess i ''x'') [1, 2, 3, 4, 5, 6, 7]) []))) \<le> 5"
    by (rule wrong_tokens_limited) (simp_all add: readings_def guess_def)
  show "snd (last (connects (Some ''s3cret'') (map (\<lambda>i. guess i ''x'') [1, 2, 3, 4, 5, 6, 7]) [])) =
     Inr (AuthFailed ''RATE_LIMITED'')"
    by code_simp
qed

end
