(* ===== verification/Panels.thy ===== *)
theory Panels
  imports Sources Longrunner
begin

text \<open>
  \<open>nightclaw_bridge/sources.py\<close>, second part: pre-approvals and their invocations, the project
  table and the LONGRUNNER of a project, as the panels of the monitor show them.
\<close>

section \<open>Pre-approvals\<close>

abbreviation pa_name_char :: "char \<Rightarrow> bool" where
  "pa_name_char \<equiv> is_alnum"

definition pa_name_rx :: rx where
  "pa_name_rx = RSeq (rlit ''PA-'') (rplus (RSet pa_name_char))"

definition pa_entry_rx :: rx where
  "pa_entry_rx =
     rseq [rlit ''##'', rspaces, RGrp 1 pa_name_rx, rspaces, rlit ''|'', rspaces, rlit ''Status:'', rspaces,
           RGrp 2 (rlazy not_bar), rspaces,
           ropt (rseq [rlit ''|'', rspaces, rlit ''Expires:'', rspaces, RGrp 3 (RLazy rdot)]), rspaces, REol]"

definition pa_of_header :: "string \<Rightarrow> fields option" where
  "pa_of_header line =
     map_option
       (\<lambda>m. [(''id'', strip (m_group_or [] 1 m)), (''status'', strip (m_group_or [] 2 m)),
             (''expires'', (let e = strip (m_group_or [] 3 m) in if e = [] then em_dash else e)),
             (''action_class'', []), (''scope'', []), (''condition'', []), (''boundary'', [])])
       (rx_match pa_entry_rx line)"

text \<open>The first label a line starts with sets its key.\<close>

definition set_labelled :: "(string \<times> string) list \<Rightarrow> string \<Rightarrow> fields \<Rightarrow> fields" where
  "set_labelled labels line e =
     (case find (\<lambda>(k, label). startswith line label) labels of
        None \<Rightarrow> e
      | Some (k, label) \<Rightarrow> dput k (strip (drop (length label) line)) e)"

definition pa_labels :: "(string \<times> string) list" where
  "pa_labels = [(''action_class'', ''**Action class:**''), (''scope'', ''**Scope:**''),
                (''condition'', ''**Condition:**''), (''boundary'', ''**Boundary:**'')]"

definition active_section :: string where "active_section = ''## active pre-approvals''"

definition later_sections :: "string list" where
  "later_sections =
     [''## approved action classes'', ''## usage example '' @ em_dash @ '' overnight run setup'',
      ''## conservative mode (no pre-approvals active)'', ''## security constraints on this file'']"

fun pa_entries :: "bool \<Rightarrow> fields option \<Rightarrow> string list \<Rightarrow> fields list" where
  "pa_entries active cur [] = flushed cur"
| "pa_entries active cur (raw # lines) =
     (let line = strip raw in
      if startswith (lower line) active_section then pa_entries True None lines
      else if active \<and> startswith line ''## '' \<and> lower line \<in> set later_sections then flushed cur
      else if \<not> active then pa_entries active cur lines
      else (case pa_of_header line of
          Some e \<Rightarrow> flushed cur @ pa_entries active (Some e) lines
        | None \<Rightarrow>
            (case cur of
               None \<Rightarrow> pa_entries active None lines
             | Some e \<Rightarrow>
                 if startswith line ''## '' then e # pa_entries active None lines
                 else pa_entries active (Some (set_labelled pa_labels line e)) lines)))"

definition finalize_pa :: "int \<Rightarrow> pydt \<Rightarrow> fields \<Rightarrow> py_exc + fields \<times> bool" where
  "finalize_pa loc now e =
     (let status = strip (dget_or [] ''status'' e) in
      rbind (preapproval_is_active loc (dget_or [] ''status'' e) (dget_or [] ''expires'' e) now) (\<lambda>live.
        Inr (dput ''effective_status''
               (if live then ''ACTIVE'' else if upper status = ''ACTIVE'' then ''EXPIRED'' else status) e, live)))"

definition parse_preapprovals :: "nat \<Rightarrow> int \<Rightarrow> pydt \<Rightarrow> string \<Rightarrow> workspace \<Rightarrow> py_exc + (fields \<times> bool) list" where
  "parse_preapprovals n loc now path w =
     rbind (rmap (finalize_pa loc now) (pa_entries False None (file_lines path w))) (\<lambda>es. Inr (take n es))"

section \<open>Invocations\<close>

definition pa_invocation_rx :: rx where
  "pa_invocation_rx =
     rseq [rlit ''##'', rspaces, ropt (rlit ''[''), RGrp 1 pa_name_rx, ropt (rlit '']''), rlit ''-INVOCATION-'',
           ropt (rlit ''[''), RGrp 2 (rplus (RSet pa_name_char)), ropt (rlit '']''), rspaces, rlit ''|'', rspaces,
           RGrp 3 (rplus (RSet (\<lambda>c. \<not> is_space c \<and> not_bar c))), rspaces, REol]"

definition pa_compact_rx :: rx where
  "pa_compact_rx =
     rseq [RGrp 1 pa_name_rx, rlit ''-INV-'', RGrp 2 (rplus (RSet pa_name_char)), rspaces, rlit ''|'', rspaces,
           RGrp 3 (rplus rdot), REol]"

definition parse_pipe_kv_fields :: "string \<Rightarrow> fields" where
  "parse_pipe_kv_fields blob =
     foldl (\<lambda>d part. case cut_at ''='' (strip part) of
         None \<Rightarrow> d
       | Some (k, v) \<Rightarrow> if k = [] then d else dput (lower (strip k)) (strip v) d) [] (split_on (CHR ''|'') blob)"

definition invocation :: "string \<Rightarrow> string \<Rightarrow> string \<Rightarrow> fields \<Rightarrow> fields" where
  "invocation form pa n d =
     [(''pa_id'', pa), (''invocation'', n)] @
     map (\<lambda>k. (k, dget_or [] k d)) [''ts'', ''by'', ''action'', ''result'', ''slug'', ''successor''] @
     [(''format'', form)]"

definition compact_invocation :: "string \<Rightarrow> fields option" where
  "compact_invocation line =
     map_option (\<lambda>m. invocation ''compact'' (m_group_or [] 1 m) (m_group_or [] 2 m)
                       (parse_pipe_kv_fields (m_group_or [] 3 m)))
       (rx_match pa_compact_rx line)"

definition block_invocation :: "string \<Rightarrow> fields option" where
  "block_invocation line =
     map_option (\<lambda>m. invocation ''block'' (m_group_or [] 1 m) (m_group_or [] 2 m) [(''ts'', m_group_or [] 3 m)])
       (rx_match pa_invocation_rx line)"

definition chain_labels :: "(string \<times> string) list" where
  "chain_labels = [(''by'', ''**Invoked by:**''), (''action'', ''**Action authorized:**''), (''result'', ''**Result:**'')]"

fun chain_entries :: "fields option \<Rightarrow> string list \<Rightarrow> fields list" where
  "chain_entries cur [] = flushed cur"
| "chain_entries cur (raw # lines) =
     (let line = strip raw in
      case (compact_invocation line, block_invocation line, cur) of
        (Some e, _, _) \<Rightarrow> flushed cur @ e # chain_entries None lines
      | (None, Some e, _) \<Rightarrow> flushed cur @ chain_entries (Some e) lines
      | (None, None, None) \<Rightarrow> chain_entries None lines
      | (None, None, Some e) \<Rightarrow>
          if startswith line ''## '' then e # chain_entries None lines
          else chain_entries (Some (set_labelled chain_labels line e)) lines)"

definition parse_approval_chain :: "nat \<Rightarrow> string \<Rightarrow> workspace \<Rightarrow> fields list" where
  "parse_approval_chain n path w = last_n n (chain_entries None (file_lines path w))"

section \<open>The project table\<close>

definition bar_cells :: "string \<Rightarrow> string list" where
  "bar_cells line = map strip (split_on (CHR ''|'') (strip_of (one_of ''|'') line))"

definition rule_rx :: rx where
  "rule_rx = rseq [ropt (rlit '':''), rplus (RSet (\<lambda>c. c = CHR ''-'')), ropt (rlit '':'')]"

definition project_of_cells :: "string list \<Rightarrow> fields option" where
  "project_of_cells cells =
     (case cells of
        priority # slug # path # phase # status # last_pass # escalation # _ \<Rightarrow>
          if startswith slug ''_('' \<or> slug = em_dash then None
          else Some [(''priority'', priority), (''slug'', slug), (''longrunner_path'', path), (''phase'', phase),
                     (''status'', status), (''last_pass'', last_pass), (''escalation'', escalation)]
      | _ \<Rightarrow> None)"

fun project_rows :: "bool \<Rightarrow> string list \<Rightarrow> fields list" where
  "project_rows seen [] = []"
| "project_rows seen (raw # lines) =
     (let line = strip raw; cells = bar_cells line in
      if \<not> startswith line ''|'' then project_rows seen lines
      else if \<not> seen then
        project_rows (list_ex (contains ''Priority'') cells \<and> list_ex (contains ''Slug'') cells) lines
      else if list_all (rx_fullmatches rule_rx) (filter (\<lambda>c. c \<noteq> []) cells) then project_rows seen lines
      else (case project_of_cells cells of None \<Rightarrow> project_rows seen lines | Some r \<Rightarrow> r # project_rows seen lines))"

definition parse_active_projects :: "string \<Rightarrow> workspace \<Rightarrow> fields list" where
  "parse_active_projects path w = project_rows False (file_lines path w)"

text \<open>Known projects: the directories of \<open>PROJECTS\<close> with a slug for a name.\<close>

definition slug_name_rx :: rx where
  "slug_name_rx = rseq [RSet slug_end, RStar (RSet slug_mid), REol]"

definition list_project_slugs :: "string list \<Rightarrow> string list" where
  "list_project_slugs dirs = sort (filter (rx_matches slug_name_rx) dirs)"

definition project_name_rx :: "rx \<Rightarrow> rx" where
  "project_name_rx sep = rseq [rlit ''project'', sep, RGrp 1 (RSeq (RSet slug_end) (RStar (RSet slug_mid)))]"

definition infer_project_slug :: "string list \<Rightarrow> string list \<Rightarrow> string" where
  "infer_project_slug texts known =
     (let corpus = lower (join '' | '' (filter (\<lambda>t. t \<noteq> []) texts));
          allowed = (\<lambda>m. let c = m_group_or [] 1 m in
             if c \<in> set known \<union> {''idle-cycle'', ''notifications'', ''system-idle''} then c else [])
      in if corpus = [] then []
         else (case find (\<lambda>s. contains (lower s) corpus) known of
             Some s \<Rightarrow> s
           | None \<Rightarrow>
               (case (rx_search (project_name_rx (rlit ''='')) corpus,
                      rx_search (project_name_rx (rplus (RSet is_space))) corpus) of
                  (Some m, _) \<Rightarrow> allowed m
                | (None, Some m) \<Rightarrow> allowed m
                | (None, None) \<Rightarrow> [])))"

section \<open>The LONGRUNNER of a project\<close>

definition rany :: rx where "rany = RSet (\<lambda>_. True)"  \<comment> \<open>\<open>.\<close> under \<open>re.DOTALL\<close>\<close>

definition card_section_rx :: "string \<Rightarrow> rx" where  \<comment> \<open>\<open>##\s+...\s*\n\<close>\<close>
  "card_section_rx title = rseq [rlit ''##'', rplus (RSet is_space), rlit_ci title, rspaces, rlit [nl]]"

definition yaml_block_rx :: "string \<Rightarrow> rx" where
  "yaml_block_rx title =
     rseq [card_section_rx title, RLazy rany, rlit_ci ''```yaml'', rspaces, rlit [nl], RGrp 1 (RLazy rany), rlit ''```'']"

definition unquote :: "string \<Rightarrow> string" where
  "unquote s = strip_of (one_of [CHR 0x22, CHR 0x27]) (strip s)"

text \<open>Flattening of indented \<open>key: value\<close> lines; the stack holds indentation and name of the parents.\<close>

fun yaml_flat :: "(nat \<times> string) list \<Rightarrow> string list \<Rightarrow> (string \<times> string) list" where
  "yaml_flat stack [] = []"
| "yaml_flat stack (raw # lines) =
     (if strip raw = [] \<or> startswith (strip raw) ''#'' then yaml_flat stack lines
      else
        (let line = lstrip_of is_space raw; indent = length raw - length line;
             parents = dropWhile (\<lambda>(i, _). i \<ge> indent) stack;
             prefix = (case parents of [] \<Rightarrow> [] | (_, p) # _ \<Rightarrow> p @ ''.'')
         in case cut_at '':'' line of
              None \<Rightarrow> yaml_flat parents lines
            | Some (k, v) \<Rightarrow>
                (let key = strip_of (one_of ''.'') (prefix @ unquote k); val = unquote v in
                 if val \<notin> {[], ''~'', ''null'', ''[]''} then (key, val) # yaml_flat parents lines
                 else yaml_flat ((indent, key) # parents) lines)))"

text \<open>The values of a section by the part of their key behind its first point.\<close>

definition section_values :: "string \<Rightarrow> string \<Rightarrow> fields" where
  "section_values body title =
     (case rx_search (yaml_block_rx title) body of
        None \<Rightarrow> []
      | Some m \<Rightarrow>
          foldl (\<lambda>d (k, v). case cut_at ''.'' k of None \<Rightarrow> d | Some (_, k') \<Rightarrow> dput k' v d) []
            (foldl (\<lambda>d (k, v). dput k v d) [] (yaml_flat [] (splitlines (m_group_or [] 1 m)))))"

definition section_end_rx :: rx where  \<comment> \<open>\<open>(.*?)(?=\n##|\Z)\<close>\<close>
  "section_end_rx = RSeq (RGrp 1 (RLazy rany)) (RLook (RAlt (rlit (nl # ''##'')) REnd))"

definition questions_rx :: rx where
  "questions_rx =
     rseq [rlit ''##'', rplus (RSet is_space), rlit_ci ''Open Questions'', rspaces, rlit [nl], section_end_rx]"

definition open_questions :: "string \<Rightarrow> string list" where
  "open_questions body =
     (case rx_search questions_rx body of
        None \<Rightarrow> []
      | Some m \<Rightarrow> filter (\<lambda>i. i \<noteq> [])
          (map (\<lambda>l. strip (drop 2 l)) (filter (\<lambda>l. startswith l ''- '') (map strip (splitlines (m_group_or [] 1 m))))))"

definition blockers_rx :: rx where
  "blockers_rx =
     rseq [card_section_rx ''Blockers'', RLazy rany, rlit ''|'', rspaces, rlit_ci ''Blocker'', rspaces, rlit ''|'', RLazy rany,
           rlit (nl # ''|''), rplus (RSet (one_of ''-| '')), rlit (CHR ''|'' # [nl]), section_end_rx]"

definition open_blockers :: "string \<Rightarrow> string list" where
  "open_blockers body =
     (case rx_search blockers_rx body of
        None \<Rightarrow> []
      | Some m \<Rightarrow> filter (\<lambda>c. c \<notin> {[], ''Blocker''})
          (map (\<lambda>row. strip (hd (split_on (CHR ''|'') (strip_of (one_of ''|'') (strip row))))) (splitlines (m_group_or [] 1 m))))"

record lr_view =
  lv_fields :: fields                            \<comment> \<open>the values that are texts\<close>
  lv_lists :: "(string \<times> string list) list"

definition parse_longrunner_md :: "string \<Rightarrow> lr_view" where
  "parse_longrunner_md body =
     (let ph = section_values body ''Current Phase''; la = section_values body ''Last Pass'';
          nx = section_values body ''Next Pass''; blockers = open_blockers body;
          tools = filter (\<lambda>c. c \<noteq> CHR 0x22 \<and> c \<noteq> CHR 0x27) (strip_of (one_of ''[]'') (dget_or [] ''tools_required'' nx))
      in \<lparr>lv_fields =
            [(''phase_name'', dget_or [] ''name'' ph), (''phase_objective'', dget_or [] ''objective'' ph),
             (''phase_stop'', dget_or [] ''stop_condition'' ph), (''phase_status'', dget_or [] ''status'' ph),
             (''phase_successor'', dget_or [] ''successor'' ph), (''next_pass'', dget_or [] ''objective'' nx),
             (''next_tier'', dget_or [] ''model_tier'' nx), (''next_budget'', dget_or [] ''context_budget'' nx),
             (''next_tools'', tools), (''last_objective'', dget_or [] ''objective'' la),
             (''last_output'', dget_or [] ''output_files'' la),
             (''last_quality'', if lower (dget_or [] ''weak_pass'' la) = ''true'' then ''weak''
                else if lower (dget_or [] ''validation_passed'' la) = ''true'' then ''ok'' else []),
             (''last_date'', dget_or [] ''date'' la), (''routing'', []), (''is_draft'', []),
             (''has_blockers'', if blockers = [] then ''false'' else ''true''), (''pa_active'', [])],
          lv_lists = [(''blockers'', blockers), (''open_questions'', open_questions body)]\<rparr>)"

text \<open>\<open>ops\<close> is the output of \<open>longrunner-extract\<close> of the project, if the script is there and succeeds.\<close>

definition key_values :: "string \<Rightarrow> fields" where
  "key_values out =
     foldl (\<lambda>d line. case cut_at ''='' line of None \<Rightarrow> d | Some (k, v) \<Rightarrow> dput (strip k) (strip v) d) [] (splitlines out)"

definition ops_keys :: "(string \<times> string) list" where
  "ops_keys = [(''routing'', ''routing''), (''is_draft'', ''is_draft''), (''has_blockers'', ''has_blockers''),
               (''next_budget'', ''next_pass.context_budget'')]"

definition with_ops :: "string option \<Rightarrow> fields \<Rightarrow> fields" where
  "with_ops ops d =
     (case ops of
        None \<Rightarrow> d
      | Some out \<Rightarrow> foldl (\<lambda>d (field, key). case map_of (key_values out) key of None \<Rightarrow> d | Some v \<Rightarrow> dput field v d) d ops_keys)"

definition with_project_row :: "string \<Rightarrow> workspace \<Rightarrow> fields \<Rightarrow> fields" where
  "with_project_row slug w d =
     (case find (\<lambda>r. strip (dget_or [] ''slug'' r) = slug) (parse_active_projects ''ACTIVE-PROJECTS.md'' w) of
        None \<Rightarrow> d
      | Some r \<Rightarrow>
          (let status = strip (dget_or [] ''status'' r); esc = strip (dget_or [] ''escalation'' r);
               d' = (if status = [] then d else dput ''active_status'' status d)
           in if lower esc \<in> {''none'', em_dash, ''-'', []} then d' else dput ''escalation_pending'' esc d'))"

definition extract_longrunner :: "string option \<Rightarrow> string \<Rightarrow> workspace \<Rightarrow> lr_view option" where
  "extract_longrunner ops slug w =
     (let lr = (case read_file (''PROJECTS/'' @ slug @ ''/LONGRUNNER.md'') w of
             None \<Rightarrow> \<lparr>lv_fields = [], lv_lists = []\<rparr> | Some body \<Rightarrow> parse_longrunner_md body);
          d = with_project_row slug w (with_ops ops (lv_fields lr))
      in if d = [] then None else Some (lr\<lparr>lv_fields := dput ''slug'' slug d\<rparr>))"

end
