(* ===== verification/Admin.thy ===== *)
theory Admin
  imports Connect Panels Reports
begin

text \<open>
  The admin commands of \<open>nightclaw_bridge/runtime.py\<close>: which commands there are and what privilege they
  need, the argument lists handed to the shell scripts, the commands served from the parsers, and the
  frames of a connected client. \<open>args\<close> is the dict of the frame. The host runs a program on the
  workspace; what it does is a parameter.
\<close>

section \<open>Commands and their arguments\<close>

definition admin_cmd_ro :: "string list" where
  "admin_cmd_ro =
     [''status'', ''alerts'', ''log'', ''changes'', ''file_diff'', ''crash_context'', ''notifications'', ''notifications_pending'',
      ''audit'', ''preapprovals'', ''approval_chain'', ''scr'', ''audit_spine'', ''audit_anomalies'', ''crash_detect'', ''phase'',
      ''active_projects'', ''diag_longrunner'']"

definition admin_cmd_rw :: "string list" where
  "admin_cmd_rw =
     [''approve'', ''decline'', ''pause'', ''unpause'', ''guide'', ''arm'', ''disarm'', ''priority'', ''done'',
      ''clear_notifications'', ''archive_project'', ''resign'', ''validate'']"

text \<open>The first active project, or else the first blocked one.\<close>

definition resolve_slug :: "fields list \<Rightarrow> string option" where
  "resolve_slug rows =
     (let of_status = (\<lambda>s. find (\<lambda>r. lower (dget_or [] ''status'' r) = s) rows) in
      map_option (dget_or [] ''slug'')
        (case of_status ''active'' of Some r \<Rightarrow> Some r | None \<Rightarrow> of_status ''blocked''))"

definition slug_ok :: "pyval \<Rightarrow> bool" where
  "slug_ok v = (case v of VStr s \<Rightarrow> s \<noteq> [] \<and> ulen s \<le> 64 \<and> rx_fullmatches slug_rx s | _ \<Rightarrow> False)"

definition pa_ok :: "pyval \<Rightarrow> bool" where
  "pa_ok v = (case v of VStr s \<Rightarrow> s \<noteq> [] \<and> ulen s \<le> 16 \<and> list_all (\<lambda>c. is_alnum c \<or> c = CHR ''-'') s | _ \<Rightarrow> False)"

text \<open>\<open>int(v)\<close>; \<open>None\<close> for the \<open>TypeError\<close> or \<open>ValueError\<close> that is caught.\<close>

fun int_arg :: "pyval \<Rightarrow> int option" where
  "int_arg (VBool b) = Some (if b then 1 else 0)"
| "int_arg (VInt i) = Some i"
| "int_arg (VStr s) = py_int s"
| "int_arg _ = None"

definition count_arg :: "int \<Rightarrow> int \<Rightarrow> pyval \<Rightarrow> int" where
  "count_arg d0 most args =
     (case int_arg (vget_or (VInt d0) ''count'' args) of None \<Rightarrow> d0 | Some n \<Rightarrow> max 1 (min most n))"

definition str_of :: "pyval \<Rightarrow> string" where
  "str_of v = (case v of VStr s \<Rightarrow> s | _ \<Rightarrow> [])"

definition path_join :: "string \<Rightarrow> string \<Rightarrow> string" where
  "path_join a b =
     (if startswith b ''/'' then b else if a = [] \<or> endswith a ''/'' then a @ b else a @ ''/'' @ b)"

definition fwd :: "string \<Rightarrow> string" where
  "fwd p = replace_char (CHR 0x5C) ''/'' p"

definition admin_sh :: "string \<Rightarrow> string" where
  "admin_sh root = fwd (path_join (path_join root ''scripts'') ''nightclaw-admin.sh'')"

definition ops_py :: "string \<Rightarrow> string" where
  "ops_py root = fwd (path_join (path_join root ''scripts'') ''nightclaw-ops.py'')"

section \<open>\<open>_build_admin_argv\<close>\<close>

definition tail_argv :: "string \<Rightarrow> int \<Rightarrow> string list" where
  "tail_argv path n = [''tail'', ''-n'', int_str n, fwd path]"

definition status_argv :: "string \<Rightarrow> string \<Rightarrow> pyval \<Rightarrow> string list option" where
  "status_argv root cmd args =
     (if cmd = ''status'' \<or> cmd = ''alerts'' then Some [''bash'', admin_sh root, cmd]
      else if cmd = ''log'' then Some [''bash'', admin_sh root, ''log'', int_str (count_arg 10 200 args)]
      else if cmd = ''changes'' then
        Some (tail_argv (path_join (path_join root ''audit'') ''CHANGE-LOG.md'') (count_arg 20 500 args))
      else None)"

text \<open>A pre-approval id is optional, but not an invalid one.\<close>

definition pa_argv :: "string \<Rightarrow> string \<Rightarrow> pyval \<Rightarrow> string list option" where
  "pa_argv root cmd args =
     (let pa = vget0 ''pa_id'' args in
      if pa = VNone then Some [''bash'', admin_sh root, cmd]
      else if pa_ok pa then Some [''bash'', admin_sh root, cmd, str_of pa] else None)"

definition verb_argv :: "string \<Rightarrow> string \<Rightarrow> pyval \<Rightarrow> string list option" where
  "verb_argv root cmd args =
     (if cmd \<in> {''approve'', ''decline'', ''pause'', ''unpause''} then
        (if \<not> slug_ok (vget0 ''slug'' args) then None
         else Some ([''bash'', admin_sh root, cmd, str_of (vget0 ''slug'' args)] @
           (let reason = str_of (vget0 ''reason'' args) in
            if cmd = ''decline'' \<and> reason \<noteq> [] \<and> ulen reason \<le> 200 then [reason] else [])))
      else if cmd = ''guide'' then
        (let message = str_of (vget0 ''message'' args) in
         if message = [] \<or> ulen message > 400 then None else Some [''bash'', admin_sh root, ''guide'', message])
      else if cmd = ''arm'' \<or> cmd = ''disarm'' then pa_argv root cmd args
      else None)"

definition read_argv :: "string \<Rightarrow> string \<Rightarrow> pyval \<Rightarrow> string list option" where
  "read_argv root cmd args =
     (if cmd = ''file_diff'' then
        (let f = str_of (vget0 ''file'' args) in
         if f = [] \<or> startswith f ''/'' \<or> startswith f [CHR 0x5C] \<or> ''..'' \<in> set (split_on (CHR ''/'') (fwd f)) then None
         else Some [''cat'', path_join root f])
      else if cmd = ''crash_context'' then
        (let run = str_of (vget0 ''run_id'' args) in
         if run = [] \<or> \<not> list_all (\<lambda>c. is_alnum c \<or> c \<in> set ''-_'') run \<or> ulen run > 64 then None
         else Some [''python3'', ops_py root, ''crash-context'', run])
      else if cmd = ''notifications'' then
        Some (tail_argv (path_join root ''NOTIFICATIONS.md'') (count_arg 40 500 args))
      else if cmd = ''audit'' then
        Some (tail_argv (path_join (path_join root ''audit'') ''AUDIT-LOG.md'') (count_arg 40 500 args))
      else if cmd = ''scr'' then Some [''python3'', ops_py root, ''scr-verify'']
      else if cmd = ''phase'' then
        (if slug_ok (vget0 ''slug'' args)
         then Some [''python3'', ops_py root, ''longrunner-extract'', str_of (vget0 ''slug'' args)] else None)
      else if cmd = ''active_projects'' then Some [''cat'', fwd (path_join root ''ACTIVE-PROJECTS.md'')]
      else None)"

text \<open>The line of the first open notification of a phase of the project.\<close>

fun phase_line :: "nat \<Rightarrow> string \<Rightarrow> string list \<Rightarrow> nat option" where
  "phase_line n slug [] = None"
| "phase_line n slug (raw # lines) =
     (let low = lower raw in
      if contains ''[done'' low then phase_line (Suc n) slug lines
      else if (contains ''phase-complete'' low \<or> contains ''phase_complete'' low \<or> contains ''phase-transition'' low) \<and>
              contains (lower slug) low then Some n
      else phase_line (Suc n) slug lines)"

definition done_number :: "pyval \<Rightarrow> workspace \<Rightarrow> int option" where
  "done_number args w =
     (let line = por (vget0 ''line'' args) (vget0 ''line_num'' args); slug = vget_or (VStr []) ''slug'' args in
      if line \<noteq> VNone then int_arg line
      else if slug_ok slug then map_option int (phase_line 1 (str_of slug) (file_lines ''NOTIFICATIONS.md'' w))
      else None)"

definition edit_argv :: "string \<Rightarrow> string \<Rightarrow> pyval \<Rightarrow> workspace \<Rightarrow> string list option" where
  "edit_argv root cmd args w =
     (if cmd = ''priority'' then
        (case int_arg (por (vget0 ''n'' args) (vget0 ''priority'' args)) of
           Some pr \<Rightarrow>
             if slug_ok (vget0 ''slug'' args) \<and> 0 \<le> pr \<and> pr \<le> 9999
             then Some [''bash'', admin_sh root, ''priority'', str_of (vget0 ''slug'' args), int_str pr] else None
         | None \<Rightarrow> None)
      else if cmd = ''done'' then
        (case done_number args w of
           Some n \<Rightarrow> if 1 \<le> n \<and> n \<le> 100000 then Some [''bash'', admin_sh root, ''done'', int_str n] else None
         | None \<Rightarrow> None)
      else None)"

definition build_admin_argv :: "string \<Rightarrow> string \<Rightarrow> pyval \<Rightarrow> workspace \<Rightarrow> string list option" where
  "build_admin_argv root cmd args w =
     (case status_argv root cmd args of Some a \<Rightarrow> Some a | None \<Rightarrow>
     (case verb_argv root cmd args of Some a \<Rightarrow> Some a | None \<Rightarrow>
     (case read_argv root cmd args of Some a \<Rightarrow> Some a | None \<Rightarrow> edit_argv root cmd args w)))"

section \<open>Running programs\<close>

datatype proc = Ran int string string | TimedOut string | NotRun string
  \<comment> \<open>exit code, output and errors, or the text of the exception\<close>

record host =
  hs_root :: string
  hs_python :: string
  hs_which :: "string \<Rightarrow> bool"
  hs_exec :: "string list \<Rightarrow> workspace \<Rightarrow> proc \<times> workspace"
  hs_loc :: int                  \<comment> \<open>the local UTC offset\<close>

definition ansi_rx :: rx where
  "ansi_rx = rseq [rlit [CHR 0x1B, CHR ''[''], RStar (RSet (\<lambda>c. is_digit c \<or> c = CHR '';'')), rlit ''m'']"

definition no_colours :: "string \<Rightarrow> string" where
  "no_colours s = rx_sub ansi_rx (\<lambda>_. []) s"

text \<open>\<open>_run_ops_command\<close>: \<open>None\<close> where the script is missing or cannot be run.\<close>

definition run_ops :: "host \<Rightarrow> string list \<Rightarrow> workspace \<Rightarrow> (nat \<times> string) option \<times> workspace" where
  "run_ops h args w =
     (if w (canon_path ''scripts/nightclaw-ops.py'') = None then (None, w)
      else
        (case hs_exec h ([hs_python h, path_join (path_join (hs_root h) ''scripts'') ''nightclaw-ops.py''] @ args) w of
           (Ran rc out err, w') \<Rightarrow> (Some (nat \<bar>rc\<bar>, out), w')
         | (_, w') \<Rightarrow> (None, w')))"

section \<open>Results\<close>

datatype panel_data =
    NoData
  | Rows "fields list"
  | Approvals "(fields \<times> bool) list"
  | Notices "fields list" nat         \<comment> \<open>the entries and the number of resolved ones\<close>
  | Grid scr_view
  | Spine spine_view
  | Report report_view
  | Diagnosis "string option"         \<comment> \<open>the project the report is about\<close>
  | Refreshed "fields list" "fields list"  \<comment> \<open>notifications and projects after \<open>done\<close>\<close>

record reply =
  rp_cmd :: pyval
  rp_ok :: "bool option"              \<comment> \<open>\<open>scr\<close> gives the failed checks instead\<close>
  rp_output :: string
  rp_exit :: "int option"
  rp_data :: panel_data

definition refusal :: "string \<Rightarrow> string \<Rightarrow> reply" where
  "refusal cmd msg = \<lparr>rp_cmd = VStr cmd, rp_ok = Some False, rp_output = msg, rp_exit = Some 1, rp_data = NoData\<rparr>"

definition answer :: "string \<Rightarrow> string \<Rightarrow> panel_data \<Rightarrow> reply" where
  "answer cmd out d = \<lparr>rp_cmd = VStr cmd, rp_ok = Some True, rp_output = out, rp_exit = Some 0, rp_data = d\<rparr>"

text \<open>The lines, or a note where there are none.\<close>

definition listing :: "string \<Rightarrow> string list \<Rightarrow> string" where
  "listing note ls = (if ls = [] then note else join [nl] ls)"

section \<open>Commands served from the parsers\<close>

definition pa_line :: "fields \<times> bool \<Rightarrow> string" where
  "pa_line p =
     (let e = fst p in
      dget_or [] ''id'' e @ ''  status='' @ dget_or (dget_or [] ''status'' e) ''effective_status'' e @ ''  expires='' @
      dget_or [] ''expires'' e @ ''  class='' @ dget_or [] ''action_class'' e)"

definition invocation_line :: "fields \<Rightarrow> string" where
  "invocation_line e =
     dget_or [] ''ts'' e @ ''  '' @ dget_or [] ''pa_id'' e @ ''#'' @ dget_or [] ''invocation'' e @ ''  result='' @
     dget_or [] ''result'' e @ ''  action='' @ utake 80 (dget_or [] ''action'' e)"

definition pending_line :: "fields \<Rightarrow> string" where
  "pending_line e =
     dget_or [] ''ts'' e @ ''  '' @ dget_or [] ''priority'' e @ ''  '' @ dget_or [] ''project'' e @ ''  '' @
     utake 80 (dget_or [] ''message'' e)"

definition panel_command :: "host \<Rightarrow> pydt \<Rightarrow> string \<Rightarrow> workspace \<Rightarrow> py_exc + reply" where
  "panel_command h now cmd w =
     (if cmd = ''preapprovals'' then
        rbind (parse_preapprovals 32 (hs_loc h) now ''orchestration-os/OPS-PREAPPROVAL.md'' w) (\<lambda>es.
          Inr (answer cmd (listing ''(no pre-approvals defined)'' (map pa_line es)) (Approvals es)))
      else if cmd = ''approval_chain'' then
        (let es = parse_approval_chain 20 ''audit/APPROVAL-CHAIN.md'' w in
         Inr (answer cmd (listing ''(no PA invocations recorded)'' (map invocation_line es)) (Rows es)))
      else
        (let es = has_pending_phase_transition (parse_notifications 40 ''NOTIFICATIONS.md'' w) in
         Inr (answer cmd (text_or (Some (join [nl] (map pending_line es))) ''(no pending phase transitions)'') (Rows es))))"

definition notifications_command :: "pyval \<Rightarrow> workspace \<Rightarrow> reply" where
  "notifications_command args w =
     (let es = parse_notifications (nat (count_arg 40 500 args)) ''NOTIFICATIONS.md'' w;
          raw = (case read_file ''NOTIFICATIONS.md'' w of None \<Rightarrow> [] | Some t \<Rightarrow> splitlines t);
          resolved = length (filter (\<lambda>l. startswith (strip l) ''[DONE'') raw)
      in answer ''notifications'' (nat_str (length es) @ '' workspace notification(s)'') (Notices es resolved))"

text \<open>\<open>diag_longrunner\<close>; of the text of its report only the project is kept.\<close>

definition diag_command :: "host \<Rightarrow> workspace \<Rightarrow> reply \<times> workspace" where
  "diag_command h w =
     (let slug = resolve_slug (parse_active_projects ''ACTIVE-PROJECTS.md'' w) in
      (answer ''diag_longrunner'' [] (Diagnosis slug),
       case slug of
         None \<Rightarrow> w
       | Some s \<Rightarrow> if s = [] then w else snd (run_ops h [''longrunner-extract'', s] w)))"

section \<open>Commands that change the workspace\<close>

text \<open>\<open>splitlines(keepends=True)\<close> of a text without \<open>\r\<close>, as text mode reads it.\<close>

fun keep_lines :: "string \<Rightarrow> string \<Rightarrow> string list" where
  "keep_lines w [] = (if w = [] then [] else [rev w])"
| "keep_lines w (c # s) = (if is_eol c then rev (c # w) # keep_lines [] s else keep_lines (c # w) s)"

definition rcell :: rx where "rcell = RSeq (RStar (RSet not_bar)) (rlit ''|'')"

definition archive_rx :: "string \<Rightarrow> rx" where
  "archive_rx slug =
     rseq [RGrp 1 (rseq [rlit ''|'', rspaces, rlit slug, rspaces, rlit ''|'', rcell, rcell]), rspaces,
           rplus (RSet is_word), rspaces, RGrp 2 (rlit ''|'')]"

definition archive_line :: "string \<Rightarrow> string \<Rightarrow> string" where
  "archive_line slug line =
     (if contains slug line \<and> CHR ''|'' \<in> set line
      then rx_sub (archive_rx slug) (\<lambda>m. m_group_or [] 1 m @ '' archived '' @ m_group_or [] 2 m) line
      else line)"

definition archive_text :: "string \<Rightarrow> string \<Rightarrow> string" where
  "archive_text slug text = concat (map (archive_line slug) (keep_lines [] text))"

definition archive_project :: "pyval \<Rightarrow> workspace \<Rightarrow> (py_exc + reply) \<times> workspace" where
  "archive_project args w =
     (case vget_or (VStr []) ''slug'' args of
        VStr s \<Rightarrow>
          (let slug = strip s; fail = (\<lambda>msg. (Inr (refusal ''archive_project'' msg), w)) in
           if \<not> slug_ok (VStr slug) then fail ''Invalid or missing slug''
           else (case read_file ''ACTIVE-PROJECTS.md'' w of
               None \<Rightarrow> fail ''ACTIVE-PROJECTS.md not found''
             | Some text \<Rightarrow>
                 if list_all (\<lambda>l. archive_line slug l = l) (keep_lines [] text)
                 then fail (''Slug '' @ [CHR 0x27] @ slug @ [CHR 0x27] @ '' not found in ACTIVE-PROJECTS.md table'')
                 else (Inr (answer ''archive_project''
                             ([CHR 0x27] @ slug @ [CHR 0x27] @ '' marked archived in ACTIVE-PROJECTS.md'') NoData),
                       write_file ''ACTIVE-PROJECTS.md'' (archive_text slug text) w)))
      | _ \<Rightarrow> (Inl AttributeError, w))"

definition script_reply :: "string \<Rightarrow> (string \<Rightarrow> string) \<Rightarrow> proc \<Rightarrow> reply" where
  "script_reply cmd clean p =
     (case p of
        Ran rc out err \<Rightarrow>
          \<lparr>rp_cmd = VStr cmd, rp_ok = Some (rc = 0), rp_output = text_or (Some (clean (strip (out @ err)))) ''(no output)'',
           rp_exit = Some rc, rp_data = NoData\<rparr>
      | TimedOut e \<Rightarrow> refusal cmd (''Error: '' @ e)
      | NotRun e \<Rightarrow> refusal cmd (''Error: '' @ e))"

definition resign_command :: "host \<Rightarrow> pyval \<Rightarrow> workspace \<Rightarrow> (py_exc + reply) \<times> workspace" where
  "resign_command h args w =
     (case vget_or (VStr []) ''file'' args of
        VStr s \<Rightarrow>
          (let file = strip s; fail = (\<lambda>msg. (Inr (refusal ''resign'' msg), w)) in
           if file = [] then fail (''Missing '' @ [CHR 0x27] @ ''file'' @ [CHR 0x27] @ '' arg '' @ em_dash @
             '' enter file path in the resign input'')
           else if contains ''..'' file \<or> startswith file ''/''
             then fail (''Absolute paths and '' @ [CHR 0x27] @ ''..'' @ [CHR 0x27] @ '' not allowed'')
           else if w (canon_path ''scripts/resign.sh'') = None then fail ''scripts/resign.sh not found''
           else (case hs_exec h [''bash'', ''scripts/resign.sh'', file] w of (p, w') \<Rightarrow> (Inr (script_reply ''resign'' id p), w')))
      | _ \<Rightarrow> (Inl AttributeError, w))"

definition validate_command :: "host \<Rightarrow> workspace \<Rightarrow> reply \<times> workspace" where
  "validate_command h w =
     (if w (canon_path ''scripts/validate.sh'') = None then (refusal ''validate'' ''scripts/validate.sh not found'', w)
      else (case hs_exec h [''bash'', ''scripts/validate.sh''] w of
          (p, w') \<Rightarrow> (script_reply ''validate'' no_colours p, w')))"

section \<open>Reports and files\<close>

definition report_command :: "host \<Rightarrow> string \<Rightarrow> workspace \<Rightarrow> reply \<times> workspace" where
  "report_command h cmd w =
     (let name = replace_char (CHR ''_'') ''-'' cmd;
          (p, w') = run_ops h [if cmd = ''scr'' then ''scr-verify'' else name] w;
          d = (if cmd = ''scr'' then map_option (\<lambda>v. (Grid v, None)) (view_scr_verify p)
               else if cmd = ''audit_spine'' then map_option (\<lambda>(v, ok). (Spine v, Some ok)) (view_audit_spine p)
               else map_option (\<lambda>v. (Report v, Some (rv_ok v)))
                 (if cmd = ''audit_anomalies'' then view_audit_anomalies p else view_crash_detect p))
      in (case d of
            None \<Rightarrow> refusal cmd ((if cmd = ''scr'' then ''scr-verify'' else name) @ '' failed (ops.py not found)'')
          | Some (v, ok) \<Rightarrow> \<lparr>rp_cmd = VStr cmd, rp_ok = ok, rp_output = [], rp_exit = None, rp_data = v\<rparr>,
          w'))"

text \<open>A directory is reported like a missing file.\<close>

definition file_diff_command :: "pyval \<Rightarrow> workspace \<Rightarrow> reply" where
  "file_diff_command args w =
     (let file = str_of (vget_or (VStr []) ''file'' args) in
      if contains ''..'' file \<or> startswith file ''/'' \<or> file = [] then refusal ''file_diff'' ''invalid file path''
      else (case read_file file w of
          None \<Rightarrow> refusal ''file_diff'' (''file not found: '' @ file)
        | Some t \<Rightarrow> answer ''file_diff'' t NoData))"

definition active_projects_command :: "host \<Rightarrow> workspace \<Rightarrow> reply" where
  "active_projects_command h w =
     (case read_file ''ACTIVE-PROJECTS.md'' w of
        None \<Rightarrow> refusal ''active_projects'' (''read error: [Errno 2] No such file or directory: '' @
                  py_repr (VStr (path_join (hs_root h) ''ACTIVE-PROJECTS.md'')))
      | Some t \<Rightarrow> answer ''active_projects'' t NoData)"

definition source_command :: "host \<Rightarrow> pydt \<Rightarrow> string \<Rightarrow> pyval \<Rightarrow> workspace \<Rightarrow> (py_exc + reply) \<times> workspace" where
  "source_command h now cmd args w =
     (if cmd \<in> {''preapprovals'', ''approval_chain'', ''notifications_pending''} then (panel_command h now cmd w, w)
      else if cmd = ''notifications'' then (Inr (notifications_command args w), w)
      else if cmd = ''clear_notifications'' then
        (Inr (refusal cmd ''Unsupported: notification pruning is disabled regardless of privilege; use the audited manager T8.3 path.''), w)
      else if cmd = ''diag_longrunner'' then (case diag_command h w of (r, w') \<Rightarrow> (Inr r, w'))
      else if cmd = ''archive_project'' then archive_project args w
      else if cmd = ''resign'' then resign_command h args w
      else if cmd = ''validate'' then (case validate_command h w of (r, w') \<Rightarrow> (Inr r, w'))
      else if cmd \<in> {''scr'', ''audit_spine'', ''audit_anomalies'', ''crash_detect''} then
        (case report_command h cmd w of (r, w') \<Rightarrow> (Inr r, w'))
      else if cmd = ''file_diff'' then (Inr (file_diff_command args w), w)
      else (Inr (active_projects_command h w), w))"

section \<open>\<open>run_admin_command\<close>\<close>

definition source_cmds :: "string list" where
  "source_cmds =
     [''preapprovals'', ''approval_chain'', ''notifications'', ''notifications_pending'', ''diag_longrunner'',
      ''clear_notifications'', ''archive_project'', ''resign'', ''validate'', ''scr'', ''audit_spine'', ''audit_anomalies'',
      ''crash_detect'', ''file_diff'', ''active_projects'']"

text \<open>The commands that call \<open>args.get\<close>, which raises \<open>AttributeError\<close> where \<open>args\<close> is no dict.\<close>

definition args_cmds :: "string list" where
  "args_cmds =
     [''log'', ''changes'', ''approve'', ''decline'', ''pause'', ''unpause'', ''guide'', ''arm'', ''disarm'', ''crash_context'',
      ''audit'', ''phase'', ''priority'', ''done'', ''notifications'', ''archive_project'', ''resign'', ''file_diff'']"

text \<open>A refusal before anything runs has no exit code.\<close>

definition denial :: "pyval \<Rightarrow> string \<Rightarrow> reply" where
  "denial cmd msg = \<lparr>rp_cmd = cmd, rp_ok = Some False, rp_output = msg, rp_exit = None, rp_data = NoData\<rparr>"

definition exec_result :: "proc \<Rightarrow> int \<times> string" where
  "exec_result p =
     (case p of
        Ran rc out err \<Rightarrow> (rc, strip (no_colours (out @ err)))
      | TimedOut _ \<Rightarrow> (124, ''timeout'')
      | NotRun e \<Rightarrow> (1, ''exec error: '' @ e))"

definition argv_command :: "host \<Rightarrow> string \<Rightarrow> pyval \<Rightarrow> workspace \<Rightarrow> reply \<times> workspace" where
  "argv_command h cmd args w =
     (case build_admin_argv (hs_root h) cmd args w of
        None \<Rightarrow> (denial (VStr cmd) ''invalid args'', w)
      | Some argv \<Rightarrow>
          if hd argv \<in> {''bash'', ''cat'', ''tail''} \<and> \<not> hs_which h (hd argv)
          then (denial (VStr cmd) (''missing executable: '' @ hd argv), w)
          else
            (let (p, w') = hs_exec h argv w; (rc, out) = exec_result p in
             (\<lparr>rp_cmd = VStr cmd, rp_ok = Some (rc = 0), rp_output = out, rp_exit = Some rc,
               rp_data = (if cmd = ''done'' \<and> rc = 0
                 then Refreshed (parse_notifications 40 ''NOTIFICATIONS.md'' w') (parse_active_projects ''ACTIVE-PROJECTS.md'' w')
                 else NoData)\<rparr>,
              w')))"

definition run_admin_command ::
  "host \<Rightarrow> pydt \<Rightarrow> string \<Rightarrow> pyval \<Rightarrow> pyval \<Rightarrow> workspace \<Rightarrow> (py_exc + reply) \<times> workspace" where
  "run_admin_command h now privilege cmd args w =
     (if \<not> hashable cmd then (Inl TypeError, w)
      else if cmd \<notin> VStr ` set (admin_cmd_ro @ admin_cmd_rw) then (Inr (denial cmd (''unknown command '' @ py_repr cmd)), w)
      else if str_of cmd \<in> set admin_cmd_rw \<and> privilege \<noteq> ''rw'' then
        (Inr (denial cmd ''privilege insufficient (RW required)''), w)
      else if str_of cmd \<in> set args_cmds \<and> \<not> is_dict args then (Inl AttributeError, w)
      else if str_of cmd \<in> set source_cmds then source_command h now (str_of cmd) args w
      else (case argv_command h (str_of cmd) args w of (r, w') \<Rightarrow> (Inr r, w')))"

section \<open>Frames of a connected client\<close>

datatype request =
    Nothing
  | AdminCommand pyval pyval
  | ProjectSnapshot string
  | SessionReplay string string string   \<comment> \<open>run, mode and project\<close>

text \<open>\<open>(v or "").strip()\<close>.\<close>

definition stripped :: "pyval \<Rightarrow> py_exc + string" where
  "stripped v = (case por v (VStr []) of VStr s \<Rightarrow> Inr (strip s) | _ \<Rightarrow> Inl AttributeError)"

definition run_id_ok :: "string \<Rightarrow> bool" where
  "run_id_ok r \<longleftrightarrow>
     r \<noteq> [] \<and> is_alnum (hd r) \<and> list_all (\<lambda>c. is_word c \<or> c = CHR ''-'') r \<and> length r \<le> 64"

definition request_of :: "pyval option \<Rightarrow> py_exc + request" where
  "request_of frame =
     (case frame of
        None \<Rightarrow> Inr Nothing
      | Some f \<Rightarrow>
          if \<not> is_dict f then Inl AttributeError
          else if vget0 ''type'' f = VStr ''admin_command'' then
            Inr (AdminCommand (vget_or (VStr []) ''cmd'' f) (por (vget0 ''args'' f) (vdict [])))
          else if vget0 ''type'' f = VStr ''project_snapshot'' then
            rbind (stripped (vget0 ''project_slug'' f)) (\<lambda>slug.
              Inr (if slug_ok (VStr slug) then ProjectSnapshot slug else Nothing))
          else if vget0 ''type'' f = VStr ''session_replay'' then
            rbind (stripped (vget0 ''run_id'' f)) (\<lambda>run.
            rbind (stripped (vget0 ''project_slug'' f)) (\<lambda>slug.
              Inr (if run_id_ok run then SessionReplay run (if slug_ok (VStr slug) then ''project'' else ''replay'') slug
                   else Nothing)))
          else Inr Nothing)"

text \<open>The state of a client: its privilege, as \<^const>\<open>connect\<close> granted it.\<close>

definition client_step :: "host \<Rightarrow> string \<Rightarrow> pydt \<times> pyval option \<Rightarrow> workspace \<Rightarrow> (py_exc + reply option) \<times> workspace" where
  "client_step h privilege f w =
     (case request_of (snd f) of
        Inl e \<Rightarrow> (Inl e, w)
      | Inr (AdminCommand cmd args) \<Rightarrow>
          (case run_admin_command h (fst f) privilege cmd args w of (r, w') \<Rightarrow> (rbind r (\<lambda>a. Inr (Some a)), w'))
      | Inr _ \<Rightarrow> (Inr None, w))"

text \<open>\<open>async for msg in ws\<close>: an exception ends the connection.\<close>

fun client_loop :: "host \<Rightarrow> string \<Rightarrow> (pydt \<times> pyval option) list \<Rightarrow> workspace \<Rightarrow> reply list \<times> workspace" where
  "client_loop h privilege [] w = ([], w)"
| "client_loop h privilege (f # fs) w =
     (case client_step h privilege f w of
        (Inl e, w') \<Rightarrow> ([], w')
      | (Inr r, w') \<Rightarrow> (case client_loop h privilege fs w' of (rs, w'') \<Rightarrow> (flushed r @ rs, w'')))"

text \<open>A whole connection: the handshake, then the frames if it was acknowledged.\<close>

definition serve_client ::
  "host \<Rightarrow> string option \<Rightarrow> attempt \<Rightarrow> (pydt \<times> pyval option) list \<Rightarrow> auth_fails \<Rightarrow> workspace \<Rightarrow> reply list \<times> workspace" where
  "serve_client h expected t fs fails w =
     (case fst (connect expected t fails) of
        Inr (ConnectAck p) \<Rightarrow> client_loop h p fs w
      | _ \<Rightarrow> ([], w))"

end
