(* ===== verification/Dispatch.thy ===== *)
theory Dispatch
  imports Gates Shared
begin

text \<open>
  \<open>nightclaw_engine/commands/dispatch.py\<close>: choosing the next project, scanning the notifications and
  validating the dispatch table. These commands only read, so a command is its outcome. \<open>loc\<close> is the
  local UTC offset (for pre-approvals), \<open>now\<close> the clock reading. \<open>idle-triage\<close>, which walks
  directories, is in \<open>Idle\<close>.
\<close>

section \<open>\<open>dispatch\<close>\<close>

definition cell :: "string \<Rightarrow> string \<Rightarrow> fields \<Rightarrow> string" where
  "cell k d row = strip (dget_or d k row)"

definition row_status :: "fields \<Rightarrow> string" where "row_status row = upper (cell ''status'' [] row)"
definition row_esc :: "fields \<Rightarrow> string" where "row_esc row = lower (cell ''escalation_pending'' [] row)"

definition row_priority :: "fields \<Rightarrow> int" where
  "row_priority row = (case py_int (cell ''priority'' ''999'' row) of None \<Rightarrow> 999 | Some n \<Rightarrow> n)"

definition esc_clear :: "fields \<Rightarrow> bool" where
  "esc_clear row \<longleftrightarrow> row_esc row \<in> {''none'', []} \<or> startswith (row_esc row) ''surfaced-''"

definition dispatchable :: "fields \<Rightarrow> bool" where
  "dispatchable row \<longleftrightarrow> row_status row = ''ACTIVE'' \<and> esc_clear row"

definition skip_line :: "fields \<Rightarrow> string list" where
  "skip_line row =
     (if row_status row \<noteq> ''ACTIVE'' then [''SKIP '' @ strip (row_slug row) @ '' status='' @ row_status row]
      else if \<not> esc_clear row
        then [''SKIP '' @ strip (row_slug row) @ '' escalation_pending='' @ row_esc row]
      else [])"

definition pick_lines :: "string \<Rightarrow> fields list \<Rightarrow> string list" where
  "pick_lines verb rows =
     (let sorted_rows = sort_key row_priority rows; best = hd sorted_rows in
      (verb @ strip (row_slug best) @ '' priority='' @ int_str (row_priority best)) #
      map (\<lambda>r. ''  candidate: '' @ strip (row_slug r) @ '' priority='' @ int_str (row_priority r)) sorted_rows)"

text \<open>Whether a row on hold may advance; the pre-approval check may raise.\<close>

definition advance_ok :: "int \<Rightarrow> pydt \<Rightarrow> workspace \<Rightarrow> fields \<Rightarrow> py_exc + bool" where
  "advance_ok loc now w row =
     (if row_status row \<noteq> ''TRANSITION-HOLD'' then Inr False
      else if row_esc row = ''transition-approved'' then Inr True
      else if startswith (row_esc row) ''phase-complete-'' then check_pa_active loc ''phase-auto-advance'' now w
      else Inr False)"

text \<open>The second loop: the rows that may advance, and the lines printed on the way.\<close>

fun advance_rows :: "int \<Rightarrow> pydt \<Rightarrow> workspace \<Rightarrow> fields list \<Rightarrow> (py_exc + fields list) \<times> string list" where
  "advance_rows loc now w [] = (Inr [], [])"
| "advance_rows loc now w (row # rows) =
     (case advance_ok loc now w row of
        Inl e \<Rightarrow> (Inl e, [])
      | Inr False \<Rightarrow> advance_rows loc now w rows
      | Inr True \<Rightarrow>
          (if read_longrunner_successor (strip (row_slug row)) w = [] then
             (case advance_rows loc now w rows of
                (r, out) \<Rightarrow> (r, (''SKIP '' @ strip (row_slug row) @ '' reason=no_successor_defined'') # out))
           else (case advance_rows loc now w rows of
                (r, out) \<Rightarrow> (rbind r (\<lambda>rs. Inr (row # rs)), out))))"

definition cmd_dispatch :: "int \<Rightarrow> pydt \<Rightarrow> workspace \<Rightarrow> outcome" where
  "cmd_dispatch loc now w =
     (let rows = parse_dispatch_table w in
      if rows = [] then Exit 0 [''IDLE reason=no_rows_in_table'']
      else
        (let skips = concat (map skip_line rows); candidates = filter dispatchable rows in
         if candidates \<noteq> [] then Exit 0 (skips @ pick_lines ''DISPATCH:'' candidates)
         else (case advance_rows loc now w rows of
             (Inl e, out) \<Rightarrow> Raise e (skips @ out)
           | (Inr [], out) \<Rightarrow> Exit 0 (skips @ out @ [''IDLE reason=no_active_dispatchable_projects''])
           | (Inr advs, out) \<Rightarrow> Exit 0 (skips @ out @ pick_lines ''ADVANCE:'' advs))))"

section \<open>\<open>scan-notifications\<close>\<close>

definition actionable_tags :: "string list" where
  "actionable_tags = [''WORKER-ACTION-REQUIRED'', ''PENDING-LESSON'', ''AUDIT-FLAG'', ''SESSION-SUMMARY'']"

definition skip_patterns :: "string list" where
  "skip_patterns = [''[MANAGER DEFERRED]'', ''Worker startup deferred'', ''Manager startup deferred'',
                    ''holds lock'']"

definition priority_rx :: rx where
  "priority_rx =
     rseq [rlit_ci ''Priority:'', rspaces,
           RGrp 1 (ralts (map rlit_ci [''INFO'', ''LOW'', ''MEDIUM'', ''HIGH'', ''CRITICAL'']))]"

definition some_date_rx :: rx where
  "some_date_rx = rseq [rrep 4 rdigit, rlit ''-'', rrep 2 rdigit, rlit ''-'', rrep 2 rdigit]"

definition line_priority :: "string \<Rightarrow> string option" where
  "line_priority s = map_option (\<lambda>m. upper (m_group_or [] 1 m)) (rx_search priority_rx s)"

definition skipped_line :: "string \<Rightarrow> bool" where
  "skipped_line s \<longleftrightarrow>
     startswith s ''[DONE'' \<or> s = [] \<or> startswith s ''#'' \<or> startswith s ''---'' \<or>
     startswith s ''<!--'' \<or> startswith s ''//'' \<or>
     contains ''[YYYY-MM-DD'' s \<or> contains ''[slug]'' s \<or>
     startswith s ''| Priority'' \<or> startswith s ''| ---'' \<or> list_all (one_of ''|- :'') s \<or>
     list_ex (\<lambda>p. contains p s) skip_patterns"

text \<open>The priority under which a line counts as actionable.\<close>

definition actionable :: "string \<Rightarrow> string option" where
  "actionable s =
     (let pri = line_priority s in
      if skipped_line s then None
      else if list_ex (\<lambda>t. contains t (upper s)) actionable_tags
        then Some (case pri of None \<Rightarrow> ''TAGGED'' | Some p \<Rightarrow> p)
      else if pri \<noteq> None \<and> pri \<notin> {Some ''LOW'', Some ''INFO''} then pri
      else if contains ''action_needed'' (lower s)
        then Some (case pri of None \<Rightarrow> ''ACTION'' | Some p \<Rightarrow> p)
      else if CHR ''|'' \<in> set s \<and> rx_search some_date_rx s \<noteq> None \<and> pri = None then Some ''UNKNOWN''
      else None)"

fun scan_lines :: "nat \<Rightarrow> bool \<Rightarrow> bool \<Rightarrow> string list \<Rightarrow> (nat \<times> string \<times> string) list" where
  "scan_lines n in_alerts in_code [] = []"
| "scan_lines n in_alerts in_code (line # lines) =
     (let s = strip line in
      if startswith s ''```'' then scan_lines (Suc n) in_alerts (\<not> in_code) lines
      else if in_code then scan_lines (Suc n) in_alerts in_code lines
      else if contains ''## Current Alerts'' line \<or> contains ''## current alerts'' (lower line)
              \<or> contains ''append new entries'' (lower line)
        then scan_lines (Suc n) True in_code lines
      else if \<not> in_alerts then scan_lines (Suc n) in_alerts in_code lines
      else (case actionable s of
          None \<Rightarrow> scan_lines (Suc n) in_alerts in_code lines
        | Some p \<Rightarrow> (n, p, utake 120 s) # scan_lines (Suc n) in_alerts in_code lines))"

definition cmd_scan_notifications :: "workspace \<Rightarrow> outcome" where
  "cmd_scan_notifications w =
     (case read_file ''NOTIFICATIONS.md'' w of
        None \<Rightarrow> Exit 0 [''NONE reason=file_not_found'']
      | Some content \<Rightarrow>
          (let entries = scan_lines 1 False False (splitlines content) in
           if entries = [] then Exit 0 [''NONE reason=no_actionable_entries'']
           else Exit 0 (map (\<lambda>(n, p, s). ''FOUND:line='' @ nat_str n @ '':priority='' @ p @ '':'' @ s) entries @
                        [''TOTAL:'' @ nat_str (length entries)])))"

section \<open>\<open>dispatch-validate\<close>\<close>

text \<open>The object whose R2 fields describe the table. \<open>iter\<close> is the iteration order of a Python set,
  which decides ties; \<open>dirs\<close> tells which paths under the root exist.\<close>

definition obj_score :: "schema_model \<Rightarrow> string list \<Rightarrow> string \<Rightarrow> nat" where
  "obj_score model keys obj = length (filter (\<lambda>f. fs_obj f = obj \<and> fs_field f \<in> set keys) (sm_fields model))"

fun first_max :: "('a \<Rightarrow> nat) \<Rightarrow> 'a list \<Rightarrow> 'a option" where
  "first_max f [] = None"
| "first_max f (x # xs) =
     (case first_max f xs of None \<Rightarrow> Some x | Some y \<Rightarrow> if f x \<ge> f y then Some x else Some y)"

definition dispatch_object ::
  "(string list \<Rightarrow> string list) \<Rightarrow> schema_model \<Rightarrow> fields list \<Rightarrow> string option" where
  "dispatch_object iter model rows =
     (let named = remdups (map fs_obj (filter (\<lambda>f. contains ''ACTIVE-PROJECTS'' (fs_constraint f)
                             \<or> fs_obj f \<in> {''DISPATCH_ROW'', ''DISPATCH''}) (sm_fields model)));
          keys = concat (map (map fst) rows)
      in first_max (obj_score model keys)
           (iter (if named \<noteq> [] then named else remdups (map fs_obj (sm_fields model)))))"

definition placeholder_row :: "fields \<Rightarrow> bool" where
  "placeholder_row row \<longleftrightarrow>
     (let slug = strip (row_slug row) in
      slug = [] \<or> startswith slug ''_('' \<or> slug = em_dash \<or> cell ''status'' [] row = em_dash)"

definition column_violations :: "schema_model \<Rightarrow> string option \<Rightarrow> fields \<Rightarrow> string list" where
  "column_violations model obj row =
     (case obj of
        None \<Rightarrow> []
      | Some ob \<Rightarrow>
          concat (map (\<lambda>(col, val).
            if find_field model ob col = None then []
            else (let gr = validate_field model ob col val in
                  if gr_ok gr then []
                  else [''VIOLATION:'' @ col @ '':slug='' @ strip (row_slug row) @ '':code='' @ gr_code gr @
                        '':'' @ gr_detail gr])) row))"

text \<open>The loop over the rows; \<open>seen\<close> maps a priority to the slug that had it last.\<close>

fun row_violations ::
  "schema_model \<Rightarrow> string option \<Rightarrow> (string \<Rightarrow> bool) \<Rightarrow> fields \<Rightarrow> fields list \<Rightarrow> string list" where
  "row_violations model obj dirs seen [] = []"
| "row_violations model obj dirs seen (row # rows) =
     (if placeholder_row row then row_violations model obj dirs seen rows
      else
        (let slug = strip (row_slug row); priority = cell ''priority'' [] row;
             counted = (row_status row = ''ACTIVE'' \<and> priority \<noteq> []);
             clash = (if counted then
                        (case map_of seen priority of
                           None \<Rightarrow> []
                         | Some other \<Rightarrow> [''VIOLATION:priority_unique:slug='' @ slug @ '':priority='' @ priority @
                                          '':conflicts_with='' @ other])
                      else []);
             fk = (if dirs (''PROJECTS/'' @ slug) then []
                   else [''VIOLATION:slug_fk:slug='' @ slug @ '':PROJECTS/'' @ slug @ ''/_not_found''])
         in column_violations model obj row @ clash @ fk @
            row_violations model obj dirs (if counted then dput priority slug seen else seen) rows))"

definition cmd_dispatch_validate ::
  "(string list \<Rightarrow> string list) \<Rightarrow> (string \<Rightarrow> bool) \<Rightarrow> py_exc + schema_model \<Rightarrow> workspace \<Rightarrow> outcome" where
  "cmd_dispatch_validate iter dirs loaded w =
     (let rows = parse_dispatch_table w in
      if rows = [] then Exit 0 [''SKIP reason=file_not_found'']
      else (case loaded of
          Inl (SchemaError e) \<Rightarrow> Exit 1 [''ERROR: schema_load_failed: '' @ e]
        | Inl e \<Rightarrow> Raise e []
        | Inr model \<Rightarrow>
            (let vs = row_violations model (dispatch_object iter model rows) dirs [] rows in
             if vs \<noteq> [] then Exit 1 (vs @ [''TOTAL_VIOLATIONS:'' @ nat_str (length vs)])
             else Exit 0 [''VALID''])))"

section \<open>What the choice guarantees\<close>

lemma hd_sort_key:
  "xs \<noteq> [] \<Longrightarrow> \<exists>pre post. xs = pre @ hd (sort_key f xs) # post \<and>
     (\<forall>y \<in> set pre. f (hd (sort_key f xs)) < f y) \<and> (\<forall>y \<in> set post. f (hd (sort_key f xs)) \<le> f y)"
proof (induction xs)
  case Nil
  then show ?case by simp
next
  case (Cons x xs)
  show ?case
  proof (cases "xs = []")
    case True
    then show ?thesis by (intro exI [of _ "[]"]) simp
  next
    case False
    let ?h = "hd (sort_key f xs)"
    obtain pre post where IH: "xs = pre @ ?h # post" "\<forall>y \<in> set pre. f ?h < f y" "\<forall>y \<in> set post. f ?h \<le> f y"
      using Cons.IH False by blast
    have ne: "sort_key f xs \<noteq> []" using False by (metis length_0_conv length_sort)
    then have hd: "hd (sort_key f (x # xs)) = (if f x \<le> f ?h then x else ?h)"
      by (cases "sort_key f xs") auto
    show ?thesis
    proof (cases "f x \<le> f ?h")
      case True
      have "\<forall>y \<in> set xs. f ?h \<le> f y"
        using IH(2,3) by (subst IH(1)) (auto intro: less_imp_le)
      then show ?thesis using True hd by (intro exI [of _ "[]"] exI [of _ xs]) fastforce
    next
      case gt: False
      then have "x # xs = (x # pre) @ ?h # post" "\<forall>y \<in> set (x # pre). f ?h < f y" using IH by auto
      then show ?thesis using gt hd IH(3) by metis
    qed
  qed
qed

text \<open>C5. \<open>dispatch\<close> picks, among the rows that are active and not waiting for an escalation, one of
  the smallest priority, and of those the first in the table.\<close>

theorem dispatch_picks_first_minimum:
  assumes "rows = parse_dispatch_table w" "\<exists>row \<in> set rows. dispatchable row"
  shows "\<exists>pre row post rest. filter dispatchable rows = pre @ row # post \<and>
    (\<forall>r \<in> set pre. row_priority row < row_priority r) \<and>
    (\<forall>r \<in> set post. row_priority row \<le> row_priority r) \<and>
    cmd_dispatch loc now w = Exit 0 (concat (map skip_line rows) @
      [''DISPATCH:'' @ strip (row_slug row) @ '' priority='' @ int_str (row_priority row)] @ rest)"
proof -
  have ne: "filter dispatchable rows \<noteq> []" using assms(2) by (simp add: filter_empty_conv)
  then have rows: "rows \<noteq> []" by auto
  obtain pre post where "filter dispatchable rows =
      pre @ hd (sort_key row_priority (filter dispatchable rows)) # post"
    "\<forall>y \<in> set pre. row_priority (hd (sort_key row_priority (filter dispatchable rows))) < row_priority y"
    "\<forall>y \<in> set post. row_priority (hd (sort_key row_priority (filter dispatchable rows))) \<le> row_priority y"
    using hd_sort_key [OF ne] by blast
  moreover have "\<exists>rest. cmd_dispatch loc now w = Exit 0 (concat (map skip_line rows) @
      [''DISPATCH:'' @ strip (row_slug (hd (sort_key row_priority (filter dispatchable rows)))) @
       '' priority='' @ int_str (row_priority (hd (sort_key row_priority (filter dispatchable rows))))] @ rest)"
    using ne rows assms(1) by (simp add: cmd_dispatch_def pick_lines_def Let_def)
  ultimately show ?thesis by blast
qed

definition sample_rows :: string where
  "sample_rows = unlines
     [''| Project Slug | Status | Priority | Escalation Pending |'', ''|---|---|---|---|'',
      ''| low | ACTIVE | 7 | none |'', ''| held | ACTIVE | 1 | pending-owner |'',
      ''| first | ACTIVE | 2 | surfaced-x |'', ''| second | ACTIVE | 2 | none |'']"

definition sample_dispatch :: workspace where
  "sample_dispatch = [''ACTIVE-PROJECTS.md'' \<mapsto> sample_rows]"

definition sample_now :: pydt where
  "sample_now = \<lparr>dt_y = 2026, dt_mo = 4, dt_d = 18, dt_h = 10, dt_mi = 0, dt_s = 0, dt_us = 0, dt_tz = Some 0\<rparr>"

theorem dispatch_picks_first_minimum_witness:
  "\<exists>rest. cmd_dispatch 0 sample_now sample_dispatch = Exit 0
     (concat (map skip_line (parse_dispatch_table sample_dispatch)) @ [''DISPATCH:first priority=2''] @ rest)"
proof -
  let ?fs = "filter dispatchable (parse_dispatch_table sample_dispatch)"
  have m: "map (\<lambda>r. (strip (row_slug r), row_priority r)) ?fs = [(''low'', 7), (''first'', 2), (''second'', 2)]"
    by code_simp
  have n: "int_str 2 = ''2''" by code_simp
  from m have "?fs \<noteq> []" by auto
  then have "\<exists>row \<in> set (parse_dispatch_table sample_dispatch). dispatchable row"
    by (simp add: filter_empty_conv)
  from dispatch_picks_first_minimum [OF refl this] obtain pre row post rest where
    d: "?fs = pre @ row # post" "\<forall>r \<in> set pre. row_priority row < row_priority r"
      "\<forall>r \<in> set post. row_priority row \<le> row_priority r"
    and c: "cmd_dispatch 0 sample_now sample_dispatch = Exit 0
       (concat (map skip_line (parse_dispatch_table sample_dispatch)) @
        [''DISPATCH:'' @ strip (row_slug row) @ '' priority='' @ int_str (row_priority row)] @ rest)"
    by blast
  have "strip (row_slug row) = ''first'' \<and> row_priority row = 2"
    using m d(2,3) unfolding d(1) by (auto simp: append_eq_Cons_conv map_eq_Cons_conv)
  then show ?thesis using c n by auto
qed

section \<open>Advancing\<close>





definition hold_workspace :: workspace where
  "hold_workspace =
     [''ACTIVE-PROJECTS.md'' \<mapsto> unlines
        [''| Slug | Status | Priority | Escalation Pending |'', ''|---|---|---|---|'',
         ''| p | TRANSITION-HOLD | 3 | transition-approved |''],
      ''PROJECTS/p/LONGRUNNER.md'' \<mapsto> unlines
        [''## Current Phase'', ''```yaml'', ''phase:'', ''  successor: build'', ''```'']]"


section \<open>A valid table\<close>

definition counted :: "fields \<Rightarrow> bool" where
  "counted row \<longleftrightarrow> \<not> placeholder_row row \<and> row_status row = ''ACTIVE'' \<and> cell ''priority'' [] row \<noteq> []"

lemma row_violations_Nil:
  "row_violations model obj dirs seen rows = [] \<Longrightarrow>
    (\<forall>row \<in> set rows. \<not> placeholder_row row \<longrightarrow>
       dirs (''PROJECTS/'' @ strip (row_slug row)) \<and> column_violations model obj row = []) \<and>
    distinct (map (cell ''priority'' []) (filter counted rows)) \<and>
    (\<forall>row \<in> set rows. counted row \<longrightarrow> map_of seen (cell ''priority'' [] row) = None)"
proof (induction rows arbitrary: seen)
  case Nil
  then show ?case by simp
next
  case (Cons row rows)
  show ?case
  proof (cases "placeholder_row row")
    case True
    then have "\<not> counted row" by (simp add: counted_def)
    then show ?thesis using True Cons by simp
  next
    case ph: False
    let ?p = "cell ''priority'' [] row"
    let ?seen = "if row_status row = ''ACTIVE'' \<and> ?p \<noteq> [] then dput ?p (strip (row_slug row)) seen else seen"
    have cnt: "counted row \<longleftrightarrow> row_status row = ''ACTIVE'' \<and> ?p \<noteq> []" using ph by (simp add: counted_def)
    have parts: "column_violations model obj row = []" "dirs (''PROJECTS/'' @ strip (row_slug row))"
      "counted row \<Longrightarrow> map_of seen ?p = None" "row_violations model obj dirs ?seen rows = []"
      using Cons.prems ph by (auto simp: Let_def cnt split: if_splits option.splits)
    note IH = Cons.IH [OF parts(4)]
    show ?thesis
    proof (cases "counted row")
      case True
      then have seen: "?seen = dput ?p (strip (row_slug row)) seen" using cnt by simp
      have other: "cell ''priority'' [] r \<noteq> ?p \<and> map_of seen (cell ''priority'' [] r) = None"
        if "r \<in> set rows" "counted r" for r
        using IH that unfolding seen by (auto split: if_splits)
      then have "?p \<notin> cell ''priority'' [] ` set (filter counted rows)" using other by fastforce
      then show ?thesis using IH True parts(1-3) other by auto
    next
      case False
      then have "?seen = seen" using cnt by auto
      then show ?thesis using IH False parts(1,2) by auto
    qed
  qed
qed

text \<open>A table that \<open>dispatch-validate\<close> calls valid is: every row that is no placeholder has its
  project directory and passes the R2 contract of each of its columns, and no two active rows have
  the same priority text.\<close>

theorem dispatch_valid_sound:
  assumes "cmd_dispatch_validate iter dirs (Inr model) w = Exit 0 [''VALID'']"
    and "rows = parse_dispatch_table w"
  shows "(\<forall>row \<in> set rows. \<not> placeholder_row row \<longrightarrow>
      dirs (''PROJECTS/'' @ strip (row_slug row)) \<and>
      (\<forall>ob col val. dispatch_object iter model rows = Some ob \<longrightarrow> (col, val) \<in> set row \<longrightarrow>
         find_field model ob col \<noteq> None \<longrightarrow> gr_ok (validate_field model ob col val))) \<and>
    distinct (map (cell ''priority'' []) (filter counted rows))"
proof -
  have "rows \<noteq> []" using assms by (auto simp: cmd_dispatch_validate_def)
  then have "row_violations model (dispatch_object iter model rows) dirs [] rows = []"
    using assms by (auto simp: cmd_dispatch_validate_def Let_def split: if_splits)
  note facts = row_violations_Nil [OF this]
  have "gr_ok (validate_field model ob col val)"
    if "row \<in> set rows" "\<not> placeholder_row row" "dispatch_object iter model rows = Some ob"
      "(col, val) \<in> set row" "find_field model ob col \<noteq> None" for row ob col val
  proof -
    have "column_violations model (Some ob) row = []" using facts that(1-3) by auto
    then show ?thesis using that(4,5) by (fastforce simp: column_violations_def Let_def split: if_splits)
  qed
  then show ?thesis using facts by blast
qed

definition empty_model :: schema_model where
  "empty_model = \<lparr>sm_objects = [], sm_fields = [], sm_routes = [], sm_edges = [], sm_bundles = [],
     sm_protected = [], sm_schema_paths = [], sm_scr_rules = [], sm_source_dir = [], sm_fingerprint = []\<rparr>"

theorem dispatch_valid_sound_witness:
  "distinct (map (cell ''priority'' []) (filter counted (parse_dispatch_table hold_workspace)))"
proof -
  have "row_violations empty_model (dispatch_object id empty_model (parse_dispatch_table hold_workspace))
      (\<lambda>_. True) [] (parse_dispatch_table hold_workspace) = []"
    by code_simp
  moreover have "parse_dispatch_table hold_workspace \<noteq> []" by code_simp
  ultimately have "cmd_dispatch_validate id (\<lambda>_. True) (Inr empty_model) hold_workspace = Exit 0 [''VALID'']"
    by (simp add: cmd_dispatch_validate_def)
  from dispatch_valid_sound [OF this refl] show ?thesis by blast
qed

end
