(* ===== verification/ArchiveFacts.thy ===== *)
theory ArchiveFacts
  imports Admin MutatorFacts Dispatch
begin

text \<open>
  \<open>archive_project\<close> sets the status cell of the rows of one project, and the engine does not dispatch
  the project afterwards.
\<close>

section \<open>One row\<close>


definition bars :: "string \<Rightarrow> nat" where
  "bars s = length (filter (\<lambda>c. c = CHR ''|'') s)"

lemma bars_simps [simp]: "bars [] = 0" "bars (c # s) = (if c = CHR ''|'' then Suc (bars s) else bars s)"
  "bars (s @ t) = bars s + bars t"
  by (simp_all add: bars_def)

lemma bars_free [simp]: "CHR ''|'' \<notin> set s \<Longrightarrow> bars s = 0"
  by (auto simp: bars_def filter_empty_conv)

lemma lang_rspaces: "w \<in> lang rspaces \<longleftrightarrow> (\<forall>c \<in> set w. is_space c)"
  by (simp add: rspaces_def)

lemma lang_rcell: "w \<in> lang rcell \<Longrightarrow> bars w = 1"
proof -
  assume "w \<in> lang rcell"
  then obtain u where "w = u @ ''|''" "\<forall>c \<in> set u. not_bar c" unfolding rcell_def lang.simps(3) lang_rlit lang_star_set by blast
  then show ?thesis using bars_free [of u] by fastforce
qed

lemma seqE: "w \<in> lang (rseq (r # rs)) \<Longrightarrow> (\<And>u v. w = u @ v \<Longrightarrow> u \<in> lang r \<Longrightarrow> v \<in> lang (rseq rs) \<Longrightarrow> thesis) \<Longrightarrow> thesis"
  by (auto simp: lang_rseq_Cons)

lemma archive_match:
  assumes "w \<in> lang (archive_rx slug)"
  obtains u v t where "w = CHR ''|'' # u @ slug @ v @ CHR ''|'' # t" "\<forall>c \<in> set u. is_space c" "\<forall>c \<in> set v. is_space c"
    "5 \<le> bars w"
proof -
  obtain g y where w: "w = g @ y"
    and g: "g \<in> lang (rseq [rlit ''|'', rspaces, rlit slug, rspaces, rlit ''|'', rcell, rcell])"
    and y: "y \<in> lang (rseq [rspaces, rplus (RSet is_word), rspaces, RGrp 2 (rlit ''|'')])"
    using assms unfolding archive_rx_def lang_rseq_Cons [of "RGrp 1 _"] lang.simps(7) by blast
  have "1 \<le> bars y" using y by (elim seqE) auto
  moreover obtain u v x1 x2 where "g = CHR ''|'' # u @ slug @ v @ CHR ''|'' # x1 @ x2" "u \<in> lang rspaces" "v \<in> lang rspaces"
      "x1 \<in> lang rcell" "x2 \<in> lang rcell"
    using g by (elim seqE) auto
  ultimately show thesis
    using that [of u v "x1 @ x2 @ y"] by (simp add: w lang_rspaces lang_rcell)
qed

lemma strip_spaces:
  assumes "\<forall>c \<in> set u. is_space c" "\<forall>c \<in> set v. is_space c" "s \<noteq> []" "\<not> is_space (hd s)" "\<not> is_space (last s)"
  shows "strip (u @ s @ v) = s"
proof -
  obtain c t where s: "s = c # t" using assms(3) by (cases s) auto
  have "dropWhile is_space (u @ s @ v) = s @ v" using assms(1,4) by (simp add: s dropWhile_append)
  moreover have "dropWhile is_space (rev (s @ v)) = rev s"
  proof -
    obtain d r where "rev s = d # r" "\<not> is_space d" using assms(3,5) by (metis hd_rev list.collapse rev_is_Nil_conv)
    then show ?thesis using assms(2) by (simp add: dropWhile_append)
  qed
  ultimately show ?thesis by (simp add: strip_of_def lstrip_of_def rstrip_of_def)
qed

text \<open>Where the expression cannot match: behind fewer than five bars, off a bar, before another cell.\<close>

lemma archive_none:
  assumes "bars s < 5 \<or> s \<noteq> [] \<and> hd s \<noteq> CHR ''|''"
  shows "rx_at (archive_rx slug) p s = None"
proof (rule ccontr)
  assume "rx_at (archive_rx slug) p s \<noteq> None"
  then obtain m where "rx_at (archive_rx slug) p s = Some m" by blast
  from rx_at_decomp [OF this] have s: "s = m_text m @ m_after m" and "m_text m \<in> lang (archive_rx slug)" by auto
  from archive_match [OF this(2)] obtain t where t: "m_text m = CHR ''|'' # t" "5 \<le> bars (m_text m)" by metis
  have "bars s = bars (m_text m) + bars (m_after m)" using arg_cong [OF s, of bars] by simp
  moreover have "s \<noteq> []" "hd s = CHR ''|''" using t(1) s by (metis append_Cons list.distinct(1), metis append_Cons list.sel(1))
  ultimately show False using assms t(2) by linarith
qed

lemma archive_other_cell:
  assumes "CHR ''|'' \<notin> set a" "strip a \<noteq> slug" "slug_body slug"
  shows "rx_at (archive_rx slug) p (CHR ''|'' # a @ CHR ''|'' # s) = None"
proof (rule ccontr)
  assume "rx_at (archive_rx slug) p (CHR ''|'' # a @ CHR ''|'' # s) \<noteq> None"
  then obtain m where "rx_at (archive_rx slug) p (CHR ''|'' # a @ CHR ''|'' # s) = Some m" by blast
  from rx_at_decomp [OF this] have s: "CHR ''|'' # a @ CHR ''|'' # s = m_text m @ m_after m"
    and lang: "m_text m \<in> lang (archive_rx slug)" by auto
  obtain u v t where w: "m_text m = CHR ''|'' # u @ slug @ v @ CHR ''|'' # t" "\<forall>c \<in> set u. is_space c"
    "\<forall>c \<in> set v. is_space c"
    using archive_match [OF lang] by metis
  have slug: "CHR ''|'' \<notin> set slug" "\<not> is_space (hd slug)" "\<not> is_space (last slug)" "slug \<noteq> []"
    using assms(3) by (auto simp: slug_body_def slug_mid_def slug_end_def char_class_defs)
  have "CHR ''|'' \<notin> set (u @ slug @ v)" using w(2,3) slug(1) by (auto simp: is_space_def)
  moreover have "a @ CHR ''|'' # s = (u @ slug @ v) @ CHR ''|'' # (t @ m_after m)" using s w(1) by simp
  ultimately have "a = u @ slug @ v"
    using assms(1) by (metis split_on_append list.inject)
  then show False using assms(2) strip_spaces [OF w(2,3)] slug by auto
qed

lemma takes_at:
  assumes "takes r s [] s' g"
  shows "rx_at r p s = Some \<lparr>m_before = [], m_text = take (length s - length s') s, m_after = s', m_groups = g\<rparr>"
proof -
  obtain p' rest where "rx_run r (p, s, []) = (p', s', g) # rest"
    using assms unfolding takes_def first_run_def by blast
  then show ?thesis by (simp add: rx_at_def)
qed

lemma takes_rcell: "CHR ''|'' \<notin> set a \<Longrightarrow> takes rcell (a @ ''|'' @ s) g s g"
  unfolding rcell_def by (rule takes_seq [OF takes_star takes_lit]) auto

lemma takes_rspaces: "\<forall>c \<in> set u. is_space c \<Longrightarrow> s = [] \<or> \<not> is_space (hd s) \<Longrightarrow> takes rspaces (u @ s) g s g"
  unfolding rspaces_def by (rule takes_star)

lemma spaced_word:
  assumes "strip a = w" "w \<noteq> []"
  obtains u v where "a = u @ w @ v" "\<forall>c \<in> set u. is_space c" "\<forall>c \<in> set v. is_space c" "\<not> is_space (hd w)"
proof -
  obtain u where u: "a = u @ lstrip_of is_space a" "\<forall>c \<in> set u. is_space c" using lstrip_decomp by blast
  obtain v where "lstrip_of is_space a = w @ v" "\<forall>c \<in> set v. is_space c"
    using rstrip_decomp [of "lstrip_of is_space a" is_space] assms(1) by (auto simp: strip_of_def)
  moreover have "\<not> is_space (hd w)" using strip_of_hd assms by blast
  ultimately show thesis using that [of u v] u by simp
qed

lemma takes_archive:
  assumes "slug_body slug" "strip a = slug" "CHR ''|'' \<notin> set b" "CHR ''|'' \<notin> set c" "strip d \<noteq> []" "\<forall>x \<in> set (strip d). is_word x"
  shows "takes (archive_rx slug) (''|'' @ a @ ''|'' @ b @ ''|'' @ c @ ''|'' @ d @ ''|'' @ s) [] s
    [(2, ''|''), (1, ''|'' @ a @ ''|'' @ b @ ''|'' @ c @ ''|'')]"
proof -
  have ne: "slug \<noteq> []" using assms(1) by (simp add: slug_body_def)
  obtain u v where a: "a = u @ slug @ v" "\<forall>c \<in> set u. is_space c" "\<forall>c \<in> set v. is_space c" "\<not> is_space (hd slug)"
    using spaced_word [OF assms(2) ne] by blast
  obtain u' v' where d: "d = u' @ strip d @ v'" "\<forall>c \<in> set u'. is_space c" "\<forall>c \<in> set v'. is_space c"
      "\<not> is_space (hd (strip d))"
    using spaced_word [OF refl assms(5)] by blast
  have bar: "\<not> is_space (CHR ''|'')" "\<not> is_word (CHR ''|'')" by (simp_all add: char_class_defs)
  have word_space: "\<not> is_word x" if "is_space x" for x using that by (auto simp: char_class_defs)
  define x where "x = d @ ''|'' @ s"
  define y where "y = ''|'' @ b @ ''|'' @ c @ ''|'' @ x"
  have "takes (rlit ''|'') (''|'' @ u @ slug @ v @ y) [] (u @ slug @ v @ y) []" by (rule takes_lit)
  moreover have "takes rspaces (u @ slug @ v @ y) [] (slug @ v @ y) []"
    using a ne by (intro takes_rspaces) auto
  moreover have "takes (rlit slug) (slug @ v @ y) [] (v @ y) []" by (rule takes_lit)
  moreover have "takes rspaces (v @ y) [] y []" using a bar by (intro takes_rspaces) (auto simp: y_def)
  moreover have "takes (rlit ''|'') y [] (b @ ''|'' @ c @ ''|'' @ x) []" unfolding y_def by (rule takes_lit)
  moreover have "takes rcell (b @ ''|'' @ c @ ''|'' @ x) [] (c @ ''|'' @ x) []" using assms(3) by (rule takes_rcell)
  moreover have "takes rcell (c @ ''|'' @ x) [] x []" using assms(4) by (rule takes_rcell)
  ultimately have "takes (rseq [rlit ''|'', rspaces, rlit slug, rspaces, rlit ''|'', rcell, rcell])
    (''|'' @ u @ slug @ v @ y) [] x []"
    unfolding rseq.simps by (intro takes_seq)
  moreover have "''|'' @ u @ slug @ v @ y = (''|'' @ a @ ''|'' @ b @ ''|'' @ c @ ''|'') @ x" by (simp add: a(1) y_def)
  ultimately have "takes (RGrp 1 (rseq [rlit ''|'', rspaces, rlit slug, rspaces, rlit ''|'', rcell, rcell]))
    ((''|'' @ a @ ''|'' @ b @ ''|'' @ c @ ''|'') @ x) [] x [(1, ''|'' @ a @ ''|'' @ b @ ''|'' @ c @ ''|'')]" (is "takes _ _ _ _ ?g")
    by (metis takes_grp)
  moreover have "takes rspaces x ?g (strip d @ v' @ ''|'' @ s) ?g"
  proof -
    have x: "x = u' @ strip d @ v' @ ''|'' @ s" using d(1) by (simp add: x_def)
    show ?thesis unfolding x using d assms(5) by (intro takes_rspaces) auto
  qed
  moreover have "takes (rplus (RSet is_word)) (strip d @ v' @ ''|'' @ s) ?g (v' @ ''|'' @ s) ?g"
  proof (intro takes_plus assms)
    show "v' @ ''|'' @ s = [] \<or> \<not> is_word (hd (v' @ ''|'' @ s))"
      using d(3) bar word_space by (cases v') auto
  qed
  moreover have "takes rspaces (v' @ ''|'' @ s) ?g (''|'' @ s) ?g" using d(3) bar by (intro takes_rspaces) auto
  moreover have "takes (RGrp 2 (rlit ''|'')) (''|'' @ s) ?g s ((2, ''|'') # ?g)" by (intro takes_grp takes_lit)
  ultimately have "takes (archive_rx slug) ((''|'' @ a @ ''|'' @ b @ ''|'' @ c @ ''|'') @ x) [] s ((2, ''|'') # ?g)"
    unfolding archive_rx_def rseq.simps by (intro takes_seq)
  then show ?thesis by (simp add: x_def)
qed

text \<open>A row of the project: nine parts, of which the third is the slug and the sixth a word.\<close>

definition project_line :: "string \<Rightarrow> string \<Rightarrow> bool" where
  "project_line slug line \<longleftrightarrow>
     (let ps = split_on (CHR ''|'') line in
      length ps = 9 \<and> strip (ps ! 1) \<noteq> slug \<and> strip (ps ! 2) = slug \<and> strip (ps ! 5) \<noteq> [] \<and>
      list_all is_word (strip (ps ! 5)))"

definition set_part :: "nat \<Rightarrow> string \<Rightarrow> string \<Rightarrow> string" where
  "set_part i v line = join ''|'' ((split_on (CHR ''|'') line)[i := v])"

lemma bars_0: "bars s = 0 \<longleftrightarrow> CHR ''|'' \<notin> set s"
  by (auto simp: bars_def filter_empty_conv)

lemma list_of_nine: "length xs = 9 \<Longrightarrow> \<exists>a b c d e f g h i. xs = [a, b, c, d, e, f, g, h, i]"
  by (simp add: length_Suc_conv numeral_eq_Suc) blast

lemma archive_search_none: "bars s < 5 \<Longrightarrow> rx_search_from (archive_rx slug) p s = None"
proof (induction s arbitrary: p)
  case Nil
  then show ?case using archive_none [of "[]"] by simp
next
  case (Cons c s)
  then show ?case using archive_none [of "c # s"] by (simp split: if_splits)
qed

lemma archive_line_row:
  assumes "slug_body slug" "project_line slug line"
  shows "archive_line slug line = set_part 5 '' archived '' line"
proof -
  let ?r = "archive_rx slug"
  obtain a b c d e f g h i where ps: "split_on (CHR ''|'') line = [a, b, c, d, e, f, g, h, i]"
    using list_of_nine assms(2) by (metis project_line_def)
  have cells: "strip b \<noteq> slug" "strip c = slug" "strip f \<noteq> []" "\<forall>x \<in> set (strip f). is_word x"
    using assms(2) by (auto simp: project_line_def ps list_all_iff)
  have free: "CHR ''|'' \<notin> set x" if "x \<in> {a, b, c, d, e, f, g, h, i}" for x
    using split_on_parts [of x "CHR ''|''" line] that by (auto simp: ps)
  define rest where "rest = g @ ''|'' @ h @ ''|'' @ i"
  define row where "row = ''|'' @ c @ ''|'' @ d @ ''|'' @ e @ ''|'' @ f @ ''|'' @ rest"
  define gs where "gs = [(2, ''|''), (1 :: nat, ''|'' @ c @ ''|'' @ d @ ''|'' @ e @ ''|'')]"
  have line: "line = (a @ ''|'' @ b) @ row"
    using join_split_on [of "CHR ''|''" line] by (simp add: ps row_def rest_def)
  define tx where "tx = take (length row - length rest) row"
  have at: "rx_at ?r q row = Some \<lparr>m_before = [], m_text = tx, m_after = rest, m_groups = gs\<rparr>" for q
    unfolding tx_def row_def gs_def using assms(1) cells free by (intro takes_at takes_archive) auto
  have "rx_at ?r q (x # v @ row) = None" if pre: "a @ ''|'' @ b = u @ x # v" for u x v q
  proof (cases "x = CHR ''|''")
    case True
    have "v = b"
    proof -
      have "CHR ''|'' \<notin> set u" using arg_cong [OF pre, of bars] free [of a] free [of b] True by (simp add: bars_0)
      then have "u # split_on (CHR ''|'') v = split_on (CHR ''|'') (a @ CHR ''|'' # b)"
        using pre True by (simp add: split_on_append)
      then have "split_on (CHR ''|'') v = [b]" using free [of a] free [of b] by (simp add: split_on_append split_on_notin)
      then show ?thesis using join_split_on [of "CHR ''|''" v] by simp
    qed
    then show ?thesis
      using archive_other_cell [of b slug q "c @ ''|'' @ d @ ''|'' @ e @ ''|'' @ f @ ''|'' @ rest"] free [of b] cells(1) assms(1) True
      by (simp add: row_def)
  qed (use archive_none in auto)
  then have search: "rx_search_from ?r None line = map_option (\<lambda>m. m\<lparr>m_before := (a @ ''|'' @ b) @ m_before m\<rparr>)
      (rx_search_from ?r (Some (last (a @ ''|'' @ b))) row)"
    unfolding line by (subst rx_search_from_skip) auto
  have row: "rx_search_from ?r q row = rx_at ?r q row" for q
    using at [of q] by (cases row) auto
  have tx_ne: "tx \<noteq> []" by (simp add: tx_def row_def)
  have "bars rest < 5" using free by (simp add: rest_def)
  then have "rx_finditer_n n ?r q rest = []" for n q
    using archive_search_none by (cases n) auto
  then have "rx_sub ?r (\<lambda>m. m_group_or [] 1 m @ '' archived '' @ m_group_or [] 2 m) line =
    (a @ ''|'' @ b) @ (''|'' @ c @ ''|'' @ d @ ''|'' @ e @ ''|'') @ '' archived '' @ ''|'' @ rest"
    by (simp add: rx_sub_def rx_finditer_def search row at tx_ne m_group_or_def m_group_def gs_def)
  also have "\<dots> = set_part 5 '' archived '' line"
    by (simp add: set_part_def ps rest_def)
  finally have sub: "rx_sub ?r (\<lambda>m. m_group_or [] 1 m @ '' archived '' @ m_group_or [] 2 m) line = set_part 5 '' archived '' line" .
  have "contains slug line"
  proof -
    obtain u v where "c = u @ slug @ v" using strip_of_sublist [of c is_space] cells(2) by auto
    then have "line = (a @ ''|'' @ b @ ''|'' @ u) @ slug @ (v @ ''|'' @ d @ ''|'' @ e @ ''|'' @ f @ ''|'' @ rest)"
      by (simp add: line row_def)
    then show ?thesis unfolding contains_iff by blast
  qed
  then show ?thesis using sub by (simp add: archive_line_def line row_def)
qed

lemma archive_line_other:
  assumes "slug_body slug" "slug \<notin> strip ` set (split_on (CHR ''|'') line)"
  shows "archive_line slug line = line"
proof -
  have "rx_at (archive_rx slug) q (x # v) = None" if pre: "line = u @ x # v" for u x v q
  proof (cases "x = CHR ''|'' \<and> CHR ''|'' \<in> set v")
    case True
    obtain a s where v: "v = a @ CHR ''|'' # s" "CHR ''|'' \<notin> set a" using True split_list_first by metis
    have "a \<in> set (split_on (CHR ''|'') line)"
      unfolding pre using True v(2) by (simp add: v(1) split_on_app [of _ u] split_on_append)
    then have "strip a \<noteq> slug" using assms(2) by blast
    then show ?thesis using archive_other_cell [OF v(2) _ assms(1)] v True by simp
  next
    case False
    then show ?thesis by (intro archive_none) (auto simp: bars_0)
  qed
  then have "rx_search_from (archive_rx slug) None line = None"
    using rx_search_from_skip [of line "archive_rx slug" "[]" None] archive_none [of "[]" slug] by simp
  then show ?thesis by (simp add: archive_line_def rx_sub_def rx_finditer_def)
qed

section \<open>The table\<close>

text \<open>The line with its newline.\<close>

lemma split_on_nl:
  assumes "split_on (CHR ''|'') l = ps"
  shows "split_on (CHR ''|'') (l @ [nl]) = butlast ps @ [last ps @ [nl]]"
  using assms
proof (induction l arbitrary: ps)
  case Nil
  then show ?case by auto
next
  case (Cons c l)
  obtain x xs where "split_on (CHR ''|'') l = x # xs" by (cases "split_on (CHR ''|'') l") auto
  with Cons show ?case by (auto split: if_splits)
qed

lemma strip_snoc: "is_space c \<Longrightarrow> strip (x @ [c]) = strip x"
proof (cases "\<forall>d \<in> set x. is_space d")
  case True
  moreover assume "is_space c"
  ultimately have "strip (x @ [c]) = []" "strip x = []" by (simp_all add: strip_of_Nil_iff)
  then show ?thesis by simp
next
  case False
  moreover assume "is_space c"
  ultimately show ?thesis by (auto simp: strip_of_def lstrip_of_def rstrip_of_def dropWhile_append)
qed

lemma nine_nl:
  assumes "split_on (CHR ''|'') l = [a, b, c, d, e, f, g, h, i]"
  shows "split_on (CHR ''|'') (l @ [nl]) = [a, b, c, d, e, f, g, h, i @ [nl]]"
  using split_on_nl [OF assms] by simp

lemma project_line_nl:
  assumes "project_line slug l"
  shows "project_line slug (l @ [nl])" "set_part 5 v (l @ [nl]) = set_part 5 v l @ [nl]"
proof -
  obtain a b c d e f g h i where ps: "split_on (CHR ''|'') l = [a, b, c, d, e, f, g, h, i]"
    using list_of_nine assms by (metis project_line_def)
  show "project_line slug (l @ [nl])" "set_part 5 v (l @ [nl]) = set_part 5 v l @ [nl]"
    using assms by (simp_all add: project_line_def set_part_def ps nine_nl [OF ps])
qed

text \<open>Each line of the table is a row of the project or mentions it in no cell.\<close>

definition clean_line :: "string \<Rightarrow> string \<Rightarrow> bool" where
  "clean_line slug l \<longleftrightarrow> one_line l \<and> (project_line slug l \<or> slug \<notin> strip ` set (split_on (CHR ''|'') l))"

definition archived :: "string \<Rightarrow> string \<Rightarrow> string" where
  "archived slug l = (if project_line slug l then set_part 5 '' archived '' l else l)"

lemma archive_line_nl:
  assumes "slug_body slug" "clean_line slug l"
  shows "archive_line slug (l @ [nl]) = archived slug l @ [nl]"
proof (cases "project_line slug l")
  case True
  then show ?thesis using archive_line_row [OF assms(1)] project_line_nl by (simp add: archived_def)
next
  case False
  let ?ps = "split_on (CHR ''|'') l"
  have "strip (last ?ps @ [nl]) = strip (last ?ps)"
    by (rule strip_snoc) (simp add: is_space_def)
  then have "slug \<notin> strip ` set (split_on (CHR ''|'') (l @ [nl]))"
    using False assms(2) unfolding split_on_nl [OF refl] clean_line_def
    by (auto dest: in_set_butlastD)
  then show ?thesis using archive_line_other [OF assms(1)] False by (simp add: archived_def)
qed

lemma keep_lines_one: "one_line l \<Longrightarrow> keep_lines u (l @ nl # s) = (rev u @ l @ [nl]) # keep_lines [] s"
  by (induction l arbitrary: u) (auto simp: one_line_def is_eol_def)

lemma keep_lines_join:
  "ls \<noteq> [] \<Longrightarrow> list_all one_line ls \<Longrightarrow> keep_lines [] (unlines ls) = map (\<lambda>l. l @ [nl]) ls"
proof (induction ls)
  case (Cons l ls)
  then have l: "one_line l" by simp
  show ?case
  proof (cases "ls = []")
    case True
    then show ?thesis using keep_lines_one [OF l, of "[]" "[]"] by (simp add: unlines_single)
  next
    case False
    then show ?thesis using Cons keep_lines_one [OF l, of "[]" "unlines ls"] by (simp add: unlines_Cons)
  qed
qed simp

lemma concat_nl: "ls \<noteq> [] \<Longrightarrow> concat (map (\<lambda>l. l @ [nl]) ls) = unlines ls"
proof (induction ls)
  case (Cons l ls)
  then show ?case by (cases "ls = []") (simp_all add: unlines_single unlines_Cons)
qed simp

lemma archive_text_lines:
  assumes "slug_body slug" "ls \<noteq> []" "list_all (clean_line slug) ls"
  shows "archive_text slug (unlines ls) = unlines (map (archived slug) ls)"
proof -
  have "list_all one_line ls" using assms(3) by (auto simp: list_all_iff clean_line_def)
  then have "archive_text slug (unlines ls) = concat (map (\<lambda>l. archive_line slug (l @ [nl])) ls)"
    using assms(2) by (simp add: archive_text_def keep_lines_join comp_def)
  also have "map (\<lambda>l. archive_line slug (l @ [nl])) ls = map (\<lambda>l. l @ [nl]) (map (archived slug) ls)"
    using assms(1,3) by (auto simp: list_all_iff archive_line_nl)
  finally show ?thesis using concat_nl [of "map (archived slug) ls"] assms(2) by simp
qed

lemma slug_ok_iff: "slug_ok (VStr s) \<longleftrightarrow> slug_body s \<and> ulen s \<le> 64"
  using rx_fullmatches_iff [OF slug_rx_plain] by (auto simp: slug_ok_def lang_slug_rx slug_body_def)

lemma strip_slug: "slug_body s \<Longrightarrow> strip s = s"
  by (rule strip_of_id) (auto simp: slug_body_def slug_end_def char_class_defs)

lemma archive_project_result:
  assumes "slug_body slug" "ulen slug \<le> 64" "ls \<noteq> []" "list_all (clean_line slug) ls"
    and "read_file ''ACTIVE-PROJECTS.md'' w = Some (unlines ls)"
  shows "\<exists>r. archive_project (vdict [(''slug'', VStr slug)]) w =
    (Inr r, if rp_ok r = Some True then write_file ''ACTIVE-PROJECTS.md'' (unlines (map (archived slug) ls)) w else w) \<and>
    (rp_ok r = Some True \<longleftrightarrow> (\<exists>l \<in> set ls. archived slug l \<noteq> l))"
proof -
  have "list_all one_line ls" using assms(4) by (auto simp: list_all_iff clean_line_def)
  then have lines: "list_all (\<lambda>l. archive_line slug l = l) (keep_lines [] (unlines ls)) \<longleftrightarrow> (\<forall>l \<in> set ls. archived slug l = l)"
    using assms(3,4) archive_line_nl [OF assms(1)] by (auto simp: keep_lines_join list_all_iff)
  show ?thesis
    using assms(2) strip_slug [OF assms(1)] archive_text_lines [OF assms(1,3,4)] assms(1)
    by (auto simp: archive_project_def assms(5) lines slug_ok_iff Let_def refusal_def answer_def)
qed

text \<open>\<open>archive_project\<close> succeeds exactly if some row of the project is not archived yet, and then
  rewrites the status cell of its rows and not one byte more.\<close>

theorem archive_project_sets_status:
  assumes "slug_body slug" "ulen slug \<le> 64" "ls \<noteq> []" "list_all (clean_line slug) ls"
    and "read_file ''ACTIVE-PROJECTS.md'' w = Some (unlines ls)"
  shows "\<exists>r. archive_project (vdict [(''slug'', VStr slug)]) w =
    (Inr r, if rp_ok r = Some True then write_file ''ACTIVE-PROJECTS.md'' (unlines (map (archived slug) ls)) w else w) \<and>
    (rp_ok r = Some True \<longleftrightarrow> (\<exists>l \<in> set ls. archived slug l \<noteq> l))"
  using assms by (rule archive_project_result)

definition demo_table :: "string list" where
  "demo_table =
     [''| Priority | Project Slug | LONGRUNNER | Phase | Status | Last Pass | Escalation Pending |'',
      ''| 1 | demo | PROJECTS/demo | build | active | - | none |'']"

definition demo_files :: workspace where
  "demo_files = [''ACTIVE-PROJECTS.md'' \<mapsto> unlines demo_table]"

lemma demo_table_clean: "list_all (clean_line ''demo'') demo_table" "list_all one_line demo_table"
  unfolding demo_table_def clean_line_def by code_simp+

lemma demo_files_read: "read_file ''ACTIVE-PROJECTS.md'' demo_files = Some (unlines demo_table)"
  using one_line_univ [OF demo_table_clean(2)] by (simp add: read_file_def demo_files_def)

lemma demo_slug: "slug_body ''demo''" "ulen ''demo'' \<le> 64"
  by code_simp+

theorem archive_project_sets_status_witness:
  "\<exists>r. archive_project (vdict [(''slug'', VStr ''demo'')]) demo_files =
    (Inr r, write_file ''ACTIVE-PROJECTS.md'' (unlines [hd demo_table,
       ''| 1 | demo | PROJECTS/demo | build | archived | - | none |'']) demo_files)"
proof -
  have new: "map (archived ''demo'') demo_table = [hd demo_table, ''| 1 | demo | PROJECTS/demo | build | archived | - | none |'']"
    "list_ex (\<lambda>l. archived ''demo'' l \<noteq> l) demo_table"
    unfolding demo_table_def by code_simp+
  then have "\<exists>l \<in> set demo_table. archived ''demo'' l \<noteq> l" by (simp only: list_ex_iff)
  moreover have ne: "demo_table \<noteq> []" by (simp add: demo_table_def)
  moreover obtain r where
    "archive_project (vdict [(''slug'', VStr ''demo'')]) demo_files =
      (Inr r, if rp_ok r = Some True
         then write_file ''ACTIVE-PROJECTS.md'' (unlines (map (archived ''demo'') demo_table)) demo_files else demo_files)"
    "rp_ok r = Some True \<longleftrightarrow> (\<exists>l \<in> set demo_table. archived ''demo'' l \<noteq> l)"
    using archive_project_sets_status [OF demo_slug ne demo_table_clean(1) demo_files_read] by blast
  ultimately show ?thesis unfolding new(1) by simp
qed

section \<open>What the engine reads\<close>














end
