(* ===== verification/AdminFacts.thy ===== *)
theory AdminFacts
  imports Admin
begin

text \<open>
  What the admin commands of the bridge guarantee: no client without the token changes the workspace, and the
  argument lists and files are confined.
\<close>

section \<open>Reading clients\<close>

text \<open>The invocations that only report: log tails, the reading verbs of the admin script and the
  reports of the engine.\<close>

definition reading_argv :: "string \<Rightarrow> string list \<Rightarrow> bool" where
  "reading_argv root argv \<longleftrightarrow>
     (case argv of
        a # b # c # _ \<Rightarrow>
          (a = ''tail'' \<and> b = ''-n'') \<or>
          (a = ''bash'' \<and> b = admin_sh root \<and> c \<in> {''status'', ''alerts'', ''log''}) \<or>
          (b \<in> {ops_py root, path_join (path_join root ''scripts'') ''nightclaw-ops.py''} \<and>
           c \<in> {''crash-context'', ''longrunner-extract'', ''scr-verify'', ''audit-spine'', ''audit-anomalies'', ''crash-detect''})
      | _ \<Rightarrow> False)"

definition right_token :: "string option \<Rightarrow> attempt \<Rightarrow> bool" where
  "right_token expected t \<longleftrightarrow> (case expected of None \<Rightarrow> False | Some e \<Rightarrow> e \<noteq> [] \<and> token_of t = VStr e)"

lemma rw_needs_token:
  assumes "fst (connect expected t fails) = Inr (ConnectAck p)" "\<not> right_token expected t"
  shows "p = ''ro''"
  using assms
  by (auto simp: connect_def right_token_def token_of_def privilege_for_token_def compare_digest_def Let_def
      rbind_Inr_iff text_or_def split: option.splits if_splits sum.splits pyval.splits)

lemma ro_argv_reads:
  assumes "build_admin_argv root cmd args w = Some argv" "cmd \<in> set admin_cmd_ro" "cmd \<notin> set source_cmds"
  shows "reading_argv root argv"
proof -
  have "cmd \<in> {''status'', ''alerts'', ''log'', ''changes'', ''crash_context'', ''audit'', ''phase''}"
    using assms(2,3) by (auto simp: admin_cmd_ro_def source_cmds_def)
  then show ?thesis
    using assms(1)
    by (auto simp: build_admin_argv_def status_argv_def verb_argv_def read_argv_def edit_argv_def tail_argv_def Let_def
        reading_argv_def split: if_splits)
qed

lemma run_ops_keeps:
  assumes "\<And>argv w. reading_argv (hs_root h) argv \<Longrightarrow> snd (hs_exec h argv w) = w"
    and "c \<in> {''crash-context'', ''longrunner-extract'', ''scr-verify'', ''audit-spine'', ''audit-anomalies'', ''crash-detect''}"
  shows "snd (run_ops h (c # cs) w) = w"
proof -
  have "reading_argv (hs_root h) ([hs_python h, path_join (path_join (hs_root h) ''scripts'') ''nightclaw-ops.py''] @ c # cs)"
    using assms(2) by (simp add: reading_argv_def)
  from assms(1) [OF this, of w] show ?thesis
    by (auto simp: run_ops_def split: prod.splits proc.splits)
qed

lemma ro_command_keeps:
  assumes keeps: "\<And>argv w. reading_argv (hs_root h) argv \<Longrightarrow> snd (hs_exec h argv w) = w"
    and ro: "cmd \<in> set admin_cmd_ro"
  shows "snd (argv_command h cmd args w) = w \<or> cmd \<in> set source_cmds" and
    "cmd \<in> set source_cmds \<Longrightarrow> snd (source_command h now cmd args w) = w"
proof -
  show "snd (argv_command h cmd args w) = w \<or> cmd \<in> set source_cmds"
    using ro_argv_reads [OF _ ro] keeps
    by (auto simp: argv_command_def Let_def case_prod_beta split: option.splits)
  assume src: "cmd \<in> set source_cmds"
  have "cmd \<in> {''preapprovals'', ''approval_chain'', ''notifications_pending'', ''notifications'', ''diag_longrunner'', ''scr'',
      ''audit_spine'', ''audit_anomalies'', ''crash_detect'', ''file_diff'', ''active_projects''}"
    using src ro by (auto simp: admin_cmd_ro_def source_cmds_def)
  moreover have "snd (diag_command h w) = w"
    using run_ops_keeps [OF keeps, of "''longrunner-extract''"]
    by (auto simp: diag_command_def Let_def split: option.splits)
  moreover have "snd (report_command h c w) = w" if "c \<in> {''scr'', ''audit_spine'', ''audit_anomalies'', ''crash_detect''}" for c
  proof -
    have "replace_char (CHR ''_'') ''-'' ''audit_spine'' = ''audit-spine''"
      "replace_char (CHR ''_'') ''-'' ''audit_anomalies'' = ''audit-anomalies''"
      "replace_char (CHR ''_'') ''-'' ''crash_detect'' = ''crash-detect''" by code_simp+
    moreover have "snd (report_command h c w) =
      snd (run_ops h [if c = ''scr'' then ''scr-verify'' else replace_char (CHR ''_'') ''-'' c] w)"
      by (simp add: report_command_def Let_def split: prod.splits)
    ultimately show ?thesis
      using that run_ops_keeps [OF keeps] by (elim insertE emptyE) (simp_all only: if_True if_False simp_thms, simp_all)
  qed
  ultimately show "snd (source_command h now cmd args w) = w"
    by (elim insertE emptyE) (simp_all add: source_command_def case_prod_beta)
qed

lemma ro_client_keeps:
  assumes "\<And>argv w. reading_argv (hs_root h) argv \<Longrightarrow> snd (hs_exec h argv w) = w"
  shows "snd (client_loop h ''ro'' fs w) = w"
proof (induction fs arbitrary: w)
  case (Cons f fs)
  have run: "snd (run_admin_command h now ''ro'' cmd args w) = w" for now cmd args w
    using ro_command_keeps [OF assms, of "str_of cmd"]
    by (auto simp: run_admin_command_def str_of_def case_prod_beta)
  have "snd (client_step h ''ro'' f w) = w"
    using run by (auto simp: client_step_def case_prod_beta split: sum.splits request.splits)
  then show ?case using Cons.IH by (auto split: prod.splits sum.splits) (metis snd_conv)+
qed simp

text \<open>C7. A client that does not present the token of the bridge - or any client, where no token is
  configured - changes nothing in the workspace, whatever frames it sends, as long as the reporting
  scripts themselves write nothing.\<close>

theorem no_write_without_token:
  assumes "\<not> right_token expected t"
    and "\<And>argv w. reading_argv (hs_root h) argv \<Longrightarrow> snd (hs_exec h argv w) = w"
  shows "snd (serve_client h expected t fs fails w) = w"
proof (cases "fst (connect expected t fails)")
  case (Inr a)
  then show ?thesis
    using rw_needs_token [OF _ assms(1)] ro_client_keeps [OF assms(2)]
    by (cases a) (auto simp: serve_client_def split: sum.splits handshake.splits)
qed (simp add: serve_client_def)

definition demo_host :: host where
  "demo_host =
     \<lparr>hs_root = ''/ws'', hs_python = ''python3'', hs_which = (\<lambda>_. True),
      hs_exec = (\<lambda>argv w. (Ran 0 [] [], if reading_argv ''/ws'' argv then w else w(''touched'' \<mapsto> []))), hs_loc = 0\<rparr>"

definition pause_frames :: "(pydt \<times> pyval option) list" where
  "pause_frames =
     [(\<lparr>dt_y = 2026, dt_mo = 4, dt_d = 18, dt_h = 12, dt_mi = 0, dt_s = 0, dt_us = 0, dt_tz = Some 0\<rparr>,
       Some (vdict [(''type'', VStr ''admin_command''), (''cmd'', VStr ''pause''),
                    (''args'', vdict [(''slug'', VStr ''demo'')])]))]"

theorem no_write_without_token_witness:
  "snd (serve_client demo_host (Some ''s3cret'') (guess 0 ''guess'') pause_frames [] Map.empty) = Map.empty \<and>
   snd (serve_client demo_host (Some ''s3cret'') (guess 0 ''s3cret'') pause_frames [] Map.empty) \<noteq> Map.empty"
proof
  show "snd (serve_client demo_host (Some ''s3cret'') (guess 0 ''guess'') pause_frames [] Map.empty) = Map.empty"
    by (rule no_write_without_token)
      (auto simp: right_token_def token_of_def guess_def vget_or_def por_def demo_host_def)
  have "snd (serve_client demo_host (Some ''s3cret'') (guess 0 ''s3cret'') pause_frames [] Map.empty) ''touched'' = Some []"
    unfolding demo_host_def pause_frames_def by code_simp
  then show "snd (serve_client demo_host (Some ''s3cret'') (guess 0 ''s3cret'') pause_frames [] Map.empty) \<noteq> Map.empty"
    by auto
qed

section \<open>Files\<close>

lemma canon_segs_no_parent:
  "''..'' \<notin> set segs \<Longrightarrow> canon_segs b acc segs = rev acc @ filter plain_seg segs"
  by (induction b acc segs rule: canon_segs.induct) (auto simp: plain_seg_def)

lemma join_mem: "x \<in> set xs \<Longrightarrow> \<exists>u v. join sep xs = u @ x @ v"
proof (induction xs rule: induct_list012)
  case (3 a b xs)
  show ?case
  proof (cases "x = a")
    case True
    then show ?thesis by (metis append_Nil join.simps(3))
  next
    case False
    then obtain u v where "join sep (b # xs) = u @ x @ v" using 3 by auto
    then show ?thesis by (metis append_assoc join.simps(3))
  qed
qed (auto intro: exI [of _ "[]"])

lemma split_on_sublist: "x \<in> set (split_on d s) \<Longrightarrow> \<exists>u v. s = u @ x @ v"
  using join_mem [of x "split_on d s" "[d]"] by (simp add: join_split_on)

lemma no_parent_in_workspace:
  assumes "\<not> contains ''..'' f" "\<not> startswith f ''/''"
  shows "in_workspace f"
proof -
  let ?segs = "filter plain_seg (split_on (CHR ''/'') f)"
  have sub: "\<not> contains ''..'' seg" if "seg \<in> set (split_on (CHR ''/'') f)" for seg
    using split_on_sublist [OF that] assms(1) by (auto simp: contains_iff) (metis append_assoc)
  then have "''..'' \<notin> set (split_on (CHR ''/'') f)" by (metis contains_iff append_Nil append_Nil2)
  then have path: "canon_path f = join ''/'' ?segs"
    using assms(2) by (simp add: canon_path_def canon_segs_no_parent is_absolute_def)
  have "\<not> startswith (join ''/'' segs) ''..''" if "set segs \<subseteq> set ?segs" for segs
  proof (cases segs)
    case (Cons s ss)
    have "plain_seg s" "\<not> contains ''..'' s" using that sub Cons by auto
    then have "s \<noteq> []" "\<not> startswith s ''..''" "s \<noteq> ''.''" by (auto simp: plain_seg_def contains_iff prefix_def)
    then show ?thesis by (cases ss; cases s; cases "tl s") (auto simp: Cons)
  qed simp
  then show ?thesis using assms(2) by (simp add: in_workspace_def path is_absolute_def)
qed

text \<open>\<open>file_diff\<close> shows files of the workspace only: an answer is the text of a file that lies inside,
  however the path in the request is spelled.\<close>

theorem file_diff_confined:
  assumes "rp_ok (file_diff_command args w) = Some True"
  shows "\<exists>f. in_workspace f \<and> read_file f w = Some (rp_output (file_diff_command args w))"
proof -
  let ?f = "str_of (vget_or (VStr []) ''file'' args)"
  have "\<not> contains ''..'' ?f" "\<not> startswith ?f ''/''" "read_file ?f w = Some (rp_output (file_diff_command args w))"
    using assms by (auto simp: file_diff_command_def refusal_def answer_def Let_def split: if_splits option.splits)
  then show ?thesis using no_parent_in_workspace by blast
qed

theorem file_diff_confined_witness:
  "\<exists>f. in_workspace f \<and> read_file f [''a/b'' \<mapsto> ''x''] =
     Some (rp_output (file_diff_command (vdict [(''file'', VStr ''a/./b'')]) [''a/b'' \<mapsto> ''x'']))"
  by (rule file_diff_confined) code_simp

section \<open>Confirmations\<close>

lemma nat_str_no_dash: "CHR ''-'' \<notin> set (nat_str n)"
  using nat_str_digits [of n] by (auto simp: is_digit_def)

text \<open>The bridge never confirms: \<open>decline\<close> and \<open>done\<close> of the admin script ask on the terminal unless
  their first argument is \<open>--yes\<close>, which no argument list of the bridge has.\<close>

theorem admin_argv_never_confirms:
  assumes "build_admin_argv root cmd args w = Some argv" "cmd \<in> {''approve'', ''decline'', ''done''}"
  shows "\<exists>x rest. argv = [''bash'', admin_sh root, cmd, x] @ rest \<and> x \<noteq> ''--yes''"
proof -
  have "\<not> slug_ok (VStr ''--yes'')" by code_simp
  then have slug: "str_of v \<noteq> ''--yes''" if "slug_ok v" for v
    using that by (cases v) (auto simp: slug_ok_def str_of_def)
  have num: "int_str n \<noteq> ''--yes''" if "1 \<le> n" for n
    using that nat_str_no_dash [of "nat n"] by (auto simp: int_str_def)
  show ?thesis
  proof (cases "cmd = ''done''")
    case True
    have "build_admin_argv root ''done'' args w = edit_argv root ''done'' args w"
      by (simp add: build_admin_argv_def status_argv_def verb_argv_def read_argv_def)
    with assms(1) True obtain n where "1 \<le> n" "argv = [''bash'', admin_sh root, ''done'', int_str n]"
      by (simp add: edit_argv_def split: option.splits if_splits)
    then show ?thesis using num True by simp
  next
    case False
    then have cmd: "cmd = ''approve'' \<or> cmd = ''decline''" using assms(2) by auto
    then have "status_argv root cmd args = None" "read_argv root cmd args = None" "edit_argv root cmd args w = None"
      by (elim disjE; simp add: status_argv_def read_argv_def edit_argv_def)+
    then have "verb_argv root cmd args = Some argv"
      using assms(1) by (simp add: build_admin_argv_def split: option.splits)
    then obtain rest where "argv = [''bash'', admin_sh root, cmd, str_of (vget0 ''slug'' args)] @ rest"
        "slug_ok (vget0 ''slug'' args)"
      using cmd by (auto simp: verb_argv_def Let_def split: if_splits)
    then show ?thesis using slug by auto
  qed
qed

theorem admin_argv_never_confirms_witness:
  "\<exists>x rest. [''bash'', ''/ws/scripts/nightclaw-admin.sh'', ''done'', ''7''] =
     [''bash'', admin_sh ''/ws'', ''done'', x] @ rest \<and> x \<noteq> ''--yes''"
  by (rule admin_argv_never_confirms [of _ _ "vdict [(''line'', VInt 7)]" Map.empty]) (code_simp, simp)

end
