(* ===== verification/Http.thy ===== *)
theory Http
  imports Admin AdminFacts
begin

text \<open>
  The HTTP server of \<open>nightclaw_bridge/runtime.py\<close>: the answer to a request line. \<open>files\<close> maps the
  normalized path of a regular file to its bytes; symbolic links are not modelled. The headers of the
  request are read and ignored. A file with invalid UTF-8 is outside the model of \<open>/api/file\<close>.
\<close>

section \<open>Paths\<close>

text \<open>\<open>os.path.normpath\<close>: two leading slashes stay, one or three make one.\<close>

definition normpath :: "string \<Rightarrow> string" where
  "normpath p =
     (let lead = (if \<not> startswith p ''/'' then [] else if startswith p ''//'' \<and> \<not> startswith p ''///'' then ''//'' else ''/'');
          r = lead @ join ''/'' (canon_segs (lead \<noteq> []) [] (split_on (CHR ''/'') p))
      in if r = [] then ''.'' else r)"

definition splitext :: "string \<Rightarrow> string" where  \<comment> \<open>\<open>os.path.splitext(p)[1]\<close>\<close>
  "splitext p =
     (let name = dropWhile (\<lambda>c. c = CHR ''.'') (last (split_on (CHR ''/'') p)) in
      if CHR ''.'' \<in> set name then CHR ''.'' # last (split_on (CHR ''.'') name) else [])"

section \<open>Decoding\<close>

definition latin1 :: "string \<Rightarrow> string" where
  "latin1 s = concat (map (\<lambda>c. if code c < 128 then [c] else [char_of (192 + code c div 64), char_of (128 + code c mod 64)]) s)"

definition hex_digit :: "char \<Rightarrow> bool" where
  "hex_digit c \<longleftrightarrow> is_digit c \<or> (97 \<le> code c \<and> code c \<le> 102) \<or> (65 \<le> code c \<and> code c \<le> 70)"

definition hex_val :: "char \<Rightarrow> nat" where
  "hex_val c = (if is_digit c then code c - 48 else if code c \<ge> 97 then code c - 87 else code c - 55)"

fun unquote_bytes :: "string \<Rightarrow> string" where
  "unquote_bytes (c # a # b # s) =
     (if c = CHR ''%'' \<and> hex_digit a \<and> hex_digit b then char_of (16 * hex_val a + hex_val b) # unquote_bytes s
      else c # unquote_bytes (a # b # s))"
| "unquote_bytes s = s"

text \<open>The bytes allowed behind a leading byte of UTF-8, and \<open>errors="replace"\<close>: a malformed sequence
  becomes one U+FFFD up to the first byte that does not fit.\<close>

definition utf8_tail :: "nat \<Rightarrow> (nat \<times> nat) list option" where
  "utf8_tail b =
     (if b < 128 then Some []
      else if 194 \<le> b \<and> b \<le> 223 then Some [(128, 191)]
      else if b = 224 then Some [(160, 191), (128, 191)]
      else if b = 237 then Some [(128, 159), (128, 191)]
      else if 225 \<le> b \<and> b \<le> 239 then Some [(128, 191), (128, 191)]
      else if b = 240 then Some [(144, 191), (128, 191), (128, 191)]
      else if 241 \<le> b \<and> b \<le> 243 then Some [(128, 191), (128, 191), (128, 191)]
      else if b = 244 then Some [(128, 143), (128, 191), (128, 191)]
      else None)"

fun fitting :: "(nat \<times> nat) list \<Rightarrow> string \<Rightarrow> nat" where
  "fitting ((lo, hi) # rs) (c # s) = (if lo \<le> code c \<and> code c \<le> hi then Suc (fitting rs s) else 0)"
| "fitting _ _ = 0"

definition fffd :: string where "fffd = [CHR 0xEF, CHR 0xBF, CHR 0xBD]"

function utf8_replace :: "string \<Rightarrow> string" where
  "utf8_replace [] = []"
| "utf8_replace (c # s) =
     (case utf8_tail (code c) of
        None \<Rightarrow> fffd @ utf8_replace s
      | Some rs \<Rightarrow>
          (let n = fitting rs s in
           (if n = length rs then c # take n s else fffd) @ utf8_replace (drop n s)))"
  by pat_completeness auto
termination by (relation "measure length") auto

text \<open>\<open>urllib.parse.unquote\<close> decodes each run of ASCII characters.\<close>

function unquote_text :: "string \<Rightarrow> string" where
  "unquote_text s =
     (let a = takeWhile (\<lambda>c. code c < 128) s; r = dropWhile (\<lambda>c. code c < 128) s in
      if CHR ''%'' \<notin> set s then s
      else utf8_replace (unquote_bytes a) @
        (if r = [] then []
         else takeWhile (\<lambda>c. 128 \<le> code c) r @ unquote_text (dropWhile (\<lambda>c. 128 \<le> code c) r)))"
  by pat_completeness auto
termination
proof (relation "measure length")
  fix s a r :: string
  assume r: "r = dropWhile (\<lambda>c. code c < 128) s" "r \<noteq> []"
  then have "128 \<le> code (hd r)" using hd_dropWhile [of "\<lambda>c. code c < 128" s] by simp
  then have "length (dropWhile (\<lambda>c. 128 \<le> code c) r) < length r"
    using r(2) by (cases r) (auto simp: le_imp_less_Suc length_dropWhile_le)
  also have "\<dots> \<le> length s" unfolding r(1) by (rule length_dropWhile_le)
  finally show "(dropWhile (\<lambda>c. 128 \<le> code c) r, s) \<in> measure length" by simp
qed simp

declare unquote_text.simps [simp del]

text \<open>The first value of a name in \<open>parse_qs\<close>, which drops empty values.\<close>

definition query_pair :: "string \<Rightarrow> (string \<times> string) option" where
  "query_pair nv =
     (case cut_at ''='' nv of
        None \<Rightarrow> None
      | Some (n, v) \<Rightarrow>
          if v = [] then None
          else Some (unquote_text (replace_char (CHR ''+'') '' '' n), unquote_text (replace_char (CHR ''+'') '' '' v)))"

definition query_value :: "string \<Rightarrow> string \<Rightarrow> string" where
  "query_value name qs =
     (case find (\<lambda>(n, v). n = name) (List.map_filter query_pair (split_on (CHR ''&'') qs)) of
        None \<Rightarrow> [] | Some (n, v) \<Rightarrow> v)"

section \<open>The answer\<close>

datatype http =
    NoAnswer
  | Answer nat string string          \<comment> \<open>status, content type and body\<close>
  | FileAnswer string string string   \<comment> \<open>content type, path and body of a file that is served\<close>

definition mime :: "string \<Rightarrow> string" where
  "mime ext =
     dget_or ''application/octet-stream'' ext
       [(''.html'', ''text/html; charset=utf-8''), (''.js'', ''application/javascript; charset=utf-8''),
        (''.css'', ''text/css; charset=utf-8''), (''.json'', ''application/json; charset=utf-8''),
        (''.svg'', ''image/svg+xml''), (''.png'', ''image/png''), (''.ico'', ''image/x-icon'')]"

definition forbidden :: http where "forbidden = Answer 403 ''text/plain'' ''forbidden''"

definition ws_root :: "string \<Rightarrow> string" where
  "ws_root docroot = normpath (path_join (path_join docroot ''..'') ''..'')"

definition api_file :: "string \<Rightarrow> (string \<Rightarrow> string option) \<Rightarrow> string \<Rightarrow> http" where
  "api_file docroot files qs =
     (let rel = unquote_text (query_value ''path'' qs); target = normpath (path_join (ws_root docroot) rel) in
      if rel = [] \<or> ''..'' \<in> set (split_on (CHR ''/'') rel) \<or> startswith rel ''/'' then forbidden
      else if \<not> startswith target (ws_root docroot @ ''/'') \<and> target \<noteq> ws_root docroot then forbidden
      else (case files target of
          None \<Rightarrow> Answer 404 ''text/plain'' (''not found: '' @ rel)
        | Some data \<Rightarrow> FileAnswer ''text/plain; charset=utf-8'' target (univ_nl data)))"

definition static_file :: "string \<Rightarrow> (string \<Rightarrow> string option) \<Rightarrow> string \<Rightarrow> http" where
  "static_file docroot files raw_path =
     (let rel = lstrip_of (one_of ''/'') raw_path; full = normpath (path_join docroot rel) in
      if ''..'' \<in> set (split_on (CHR ''/'') rel) then forbidden
      else if \<not> startswith full (normpath docroot) then forbidden
      else (case files full of
          None \<Rightarrow> Answer 404 ''text/plain'' ''not found''
        | Some data \<Rightarrow> FileAnswer (mime (lower (splitext full))) full data))"

text \<open>The method and the path of the request line.\<close>

definition request_line :: "string \<Rightarrow> (string \<times> string) option" where
  "request_line line =
     (case split_on (CHR '' '') (latin1 line) of
        m # p # _ # _ \<Rightarrow> Some (m, p)
      | _ \<Rightarrow> None)"

definition http_handler :: "string \<Rightarrow> nat \<Rightarrow> (string \<Rightarrow> string option) \<Rightarrow> string \<Rightarrow> http" where
  "http_handler docroot port files line =
     (if line = [] then NoAnswer
      else (case request_line line of
          None \<Rightarrow> Answer 400 [] []
        | Some (m, path) \<Rightarrow>
            (let raw = hd (split_on (CHR ''?'') path); qs = (case cut_at ''?'' path of None \<Rightarrow> [] | Some (_, q) \<Rightarrow> q);
                 raw_path = (if raw = ''/'' then ''/nightclaw-monitor.html'' else raw)
             in if upper m \<notin> {''GET'', ''HEAD''} then Answer 405 [] []
                else if raw_path = ''/nc_config.json'' then
                  Answer 200 ''application/json; charset=utf-8'' (''{'' @ json_str ''bridge_port'' @ '': '' @ nat_str port @ ''}'')
                else if raw_path = ''/api/file'' then api_file docroot files qs
                else static_file docroot files raw_path)))"

text \<open>What is sent: a \<open>HEAD\<close> request gets no body, except with the error answers of \<open>/api/file\<close> and of
  the static files, which ignore the method.\<close>

fun sent_body :: "bool \<Rightarrow> http \<Rightarrow> string" where
  "sent_body head_only NoAnswer = []"
| "sent_body head_only (Answer n t b) = (if head_only \<and> n = 200 then [] else b)"
| "sent_body head_only (FileAnswer t p b) = (if head_only then [] else b)"

section \<open>Only files of the workspace\<close>

lemma plain_path_absolute:
  assumes "plain_path d"
  shows "startswith (''/'' @ d @ x) ''/''" "\<not> startswith (''/'' @ d @ x) ''//''"
  using assms by (cases d; auto simp: plain_path_def plain_seg_def)+

lemma canon_segs_plain_prefix:
  assumes "list_all plain_seg ds"
  shows "canon_segs b acc (ds @ segs) = canon_segs b (rev ds @ acc) segs"
  using assms by (induction ds arbitrary: acc) (auto simp: plain_seg_def)

lemma normpath_below:
  assumes "plain_path d" "''..'' \<notin> set (split_on (CHR ''/'') t)"
  shows "normpath (''/'' @ d @ ''/'' @ t) =
    ''/'' @ join ''/'' (split_on (CHR ''/'') d @ filter plain_seg (split_on (CHR ''/'') t))"
proof -
  let ?p = "''/'' @ d @ ''/'' @ t"
  have "split_on (CHR ''/'') ?p = [] # split_on (CHR ''/'') d @ split_on (CHR ''/'') t"
    by (simp add: split_on_app)
  moreover have "canon_segs True [] ([] # split_on (CHR ''/'') d @ split_on (CHR ''/'') t) =
      split_on (CHR ''/'') d @ filter plain_seg (split_on (CHR ''/'') t)"
    using assms by (simp add: canon_segs_plain_prefix canon_segs_no_parent plain_path_def)
  ultimately show ?thesis
    using plain_path_absolute [OF assms(1), of "''/'' @ t"] by (simp add: normpath_def)
qed

text \<open>A path below a directory, all of whose further segments are names.\<close>

definition below :: "string \<Rightarrow> string \<Rightarrow> bool" where
  "below dir p \<longleftrightarrow> p = dir \<or> (\<exists>t. plain_path t \<and> p = dir @ ''/'' @ t)"

lemma below_join:
  assumes "list_all plain_seg segs" "list_all (\<lambda>s. CHR ''/'' \<notin> set s) segs" "plain_path d"
  shows "below (''/'' @ d) (''/'' @ join ''/'' (split_on (CHR ''/'') d @ segs))"
proof (cases "segs = []")
  case True
  then show ?thesis by (simp add: below_def join_split_on)
next
  case False
  have "join ''/'' (xs @ segs) = join ''/'' xs @ ''/'' @ join ''/'' segs" if "xs \<noteq> []" for xs
    using that False by (induction xs rule: induct_list012) (auto simp: join_Cons)
  moreover have "split_on (CHR ''/'') (join ''/'' segs) = segs"
    using False assms(2) by (intro split_on_join) (auto simp: list_all_iff)
  then have "plain_path (join ''/'' segs)" using assms(1) by (simp add: plain_path_def)
  ultimately show ?thesis by (auto simp: below_def join_split_on)
qed

lemma normpath_confined:
  assumes "plain_path d" "''..'' \<notin> set (split_on (CHR ''/'') t)"
  shows "below (''/'' @ d) (normpath (''/'' @ d @ ''/'' @ t))"
  unfolding normpath_below [OF assms]
  using assms(1) by (intro below_join) (auto simp: list_all_iff dest: split_on_parts)

lemma plain_path_end: "plain_path d \<Longrightarrow> d \<noteq> [] \<and> last d \<noteq> CHR ''/''"
  by (cases d rule: rev_cases) (auto simp: plain_path_def plain_seg_def split_on_app)

lemma endswith_char: "endswith s [c] \<longleftrightarrow> s \<noteq> [] \<and> last s = c"
  by (cases s rule: rev_cases) (auto simp: endswith_def)

lemma path_join_plain: "plain_path d \<Longrightarrow> \<not> startswith t ''/'' \<Longrightarrow> path_join (''/'' @ d) t = ''/'' @ d @ ''/'' @ t"
  using plain_path_end [of d] by (simp add: path_join_def endswith_char)

lemma ws_root_workspace:
  assumes "plain_path r"
  shows "ws_root (''/'' @ r @ ''/apps/monitor'') = ''/'' @ r"
proof -
  have "plain_path ''apps/monitor''" by code_simp
  then have "plain_path (r @ ''/'' @ ''apps/monitor'')" by (rule plain_path_join [OF assms])
  then have "path_join (''/'' @ r @ ''/apps/monitor'') ''..'' = ''/'' @ r @ ''/apps/monitor/..''"
    using path_join_plain [of "r @ ''/apps/monitor''" "''..''"] by simp
  moreover have "path_join (''/'' @ r @ ''/apps/monitor/..'') ''..'' = ''/'' @ r @ ''/apps/monitor/../..''"
    by (simp add: path_join_def endswith_char)
  moreover have "normpath (''/'' @ r @ ''/apps/monitor/../..'') = ''/'' @ r"
  proof -
    have "split_on (CHR ''/'') (''/'' @ r @ ''/apps/monitor/../..'') =
        [] # split_on (CHR ''/'') r @ [''apps'', ''monitor'', ''..'', ''..'']"
      by (simp add: split_on_app)
    moreover have "canon_segs True [] ([] # split_on (CHR ''/'') r @ [''apps'', ''monitor'', ''..'', ''..'']) =
        split_on (CHR ''/'') r"
      using assms by (simp add: canon_segs_plain_prefix plain_path_def)
    ultimately show ?thesis
      using plain_path_absolute [OF assms, of "''/apps/monitor/../..''"] assms
      by (simp add: normpath_def join_split_on)
  qed
  ultimately show ?thesis by (simp add: ws_root_def)
qed

lemma api_file_confined:
  assumes "plain_path r" "api_file (''/'' @ r @ ''/apps/monitor'') files qs = FileAnswer ctype path body"
  shows "below (''/'' @ r) path"
proof -
  let ?rel = "unquote_text (query_value ''path'' qs)"
  have rel: "''..'' \<notin> set (split_on (CHR ''/'') ?rel)" "\<not> startswith ?rel ''/''"
    and path: "path = normpath (path_join (''/'' @ r) ?rel)"
    using assms(2) unfolding api_file_def ws_root_workspace [OF assms(1)] Let_def forbidden_def
    by (simp_all split: if_split_asm option.split_asm)
  show ?thesis
    unfolding path path_join_plain [OF assms(1) rel(2)] by (rule normpath_confined [OF assms(1) rel(1)])
qed

lemma lstrip_no_slash: "\<not> startswith (lstrip_of (one_of ''/'') p) ''/''"
proof
  assume "startswith (lstrip_of (one_of ''/'') p) ''/''"
  then obtain s where "dropWhile (one_of ''/'') p = CHR ''/'' # s" by (auto simp: lstrip_of_def prefix_def)
  then show False using hd_dropWhile [of "one_of ''/''" p] by simp
qed

lemma static_file_confined:
  assumes "plain_path r" "static_file (''/'' @ r @ ''/apps/monitor'') files raw = FileAnswer ctype path body"
  shows "below (''/'' @ r) path"
proof -
  let ?rel = "lstrip_of (one_of ''/'') raw"
  have "plain_path ''apps/monitor''" by code_simp
  then have "plain_path (r @ ''/'' @ ''apps/monitor'')" by (rule plain_path_join [OF assms(1)])
  then have full: "path_join (''/'' @ r @ ''/apps/monitor'') ?rel = ''/'' @ r @ ''/'' @ ''apps/monitor/'' @ ?rel"
    using path_join_plain [of "r @ ''/apps/monitor''" ?rel] lstrip_no_slash by simp
  have "''..'' \<notin> set (split_on (CHR ''/'') ?rel)" and path: "path = normpath (''/'' @ r @ ''/'' @ ''apps/monitor/'' @ ?rel)"
    using assms(2) unfolding static_file_def Let_def forbidden_def full
    by (simp_all split: if_split_asm option.split_asm)
  then have "''..'' \<notin> set (split_on (CHR ''/'') (''apps/monitor/'' @ ?rel))" by simp
  then show ?thesis unfolding path by (rule normpath_confined [OF assms(1)])
qed

text \<open>C8. Over HTTP only files of the workspace are served: whatever the request line - encoded, encoded
  twice, with dots or slashes - the file of an answer lies below the workspace root.\<close>

theorem http_serves_workspace_only:
  assumes "plain_path r"
    and "http_handler (''/'' @ r @ ''/apps/monitor'') port files line = FileAnswer ctype path body"
  shows "below (''/'' @ r) path"
  using assms(2) api_file_confined [OF assms(1)] static_file_confined [OF assms(1)]
  by (simp add: http_handler_def Let_def split: if_split_asm option.split_asm prod.split_asm)

theorem http_serves_workspace_only_witness:
  "below ''/ws'' ''/ws/audit/LOG.md'' \<and>
   http_handler ''/ws/apps/monitor'' 8787 [''/ws/audit/LOG.md'' \<mapsto> ''x''] ''GET /api/file?path=audit%252FLOG.md HTTP/1.1'' =
     FileAnswer ''text/plain; charset=utf-8'' ''/ws/audit/LOG.md'' ''x''"
proof
  show answer: "http_handler ''/ws/apps/monitor'' 8787 [''/ws/audit/LOG.md'' \<mapsto> ''x'']
      ''GET /api/file?path=audit%252FLOG.md HTTP/1.1'' =
     FileAnswer ''text/plain; charset=utf-8'' ''/ws/audit/LOG.md'' ''x''"
    by code_simp
  have "plain_path ''ws''" by code_simp
  then show "below ''/ws'' ''/ws/audit/LOG.md''"
    using http_serves_workspace_only [of "''ws''"] answer by simp
qed

section \<open>A relative workspace\<close>

text \<open>A bridge started with a relative \<open>--workspace .\<close> shows no file: the root is normalized to a dot,
  which no normalized path starts with, so \<open>/api/file\<close> refuses every file there is.\<close>

theorem api_file_relative_workspace:
  assumes "files ''.'' = None"
  shows "api_file ''./apps/monitor'' files qs \<noteq> FileAnswer ctype path body"
proof -
  have root: "ws_root ''./apps/monitor'' = ''.''" by code_simp
  have "\<not> startswith (normpath (''./'' @ rel)) ''./''" if "''..'' \<notin> set (split_on (CHR ''/'') rel)" for rel
  proof -
    have norm: "normpath (''./'' @ rel) = (let r = join ''/'' (filter plain_seg (split_on (CHR ''/'') rel)) in if r = [] then ''.'' else r)"
      using that by (simp add: normpath_def canon_segs_no_parent plain_seg_def)
    have "\<not> startswith (join ''/'' segs) ''./''" if "list_all (\<lambda>s. plain_seg s \<and> CHR ''/'' \<notin> set s) segs" for segs
      using that by (cases segs; cases "tl segs"; cases "hd segs"; cases "tl (hd segs)") (auto simp: plain_seg_def)
    moreover have "list_all (\<lambda>s. plain_seg s \<and> CHR ''/'' \<notin> set s) (filter plain_seg (split_on (CHR ''/'') rel))"
      by (auto simp: list_all_iff dest: split_on_parts)
    ultimately show ?thesis unfolding norm by (simp add: Let_def)
  qed
  moreover have "path_join ''.'' rel = ''./'' @ rel" if "\<not> startswith rel ''/''" for rel
    using that by (simp add: path_join_def endswith_char)
  ultimately show ?thesis
    using assms by (auto simp: api_file_def root Let_def forbidden_def split: option.splits)
qed

theorem api_file_relative_workspace_witness:
  "api_file ''./apps/monitor'' [''audit/LOG.md'' \<mapsto> ''x''] ''path=audit/LOG.md'' \<noteq> FileAnswer ctype path body"
  by (rule api_file_relative_workspace) simp

end
