(* ===== verification/Replays.thy ===== *)
theory Replays
  imports Admin EventLog
begin

text \<open>
  How \<open>nightclaw_bridge/runtime.py\<close> shows a run that is over: the events for the main page, the outcome of
  a run, the LONGRUNNER card rewound to the end of a run, and the payload of a session replay with its
  scope. The session close artifacts are JSON files; of each the name and the parsed value are given,
  and of its fields those the replay uses are modelled.
\<close>

section \<open>Events for the main page\<close>

definition tier_steps :: "(string \<times> string) list" where
  "tier_steps =
     [(''T0'', ''T0''), (''T1'', ''T1''), (''T1.5'', ''T1''), (''T2'', ''T2''), (''T2.5'', ''T2''), (''T2.7'', ''T2''),
      (''T3'', ''T3''), (''T3.5'', ''T3''), (''T4'', ''T4''), (''T5'', ''T5''), (''T5.5'', ''T5''), (''T6'', ''T6''),
      (''T7'', ''T7''), (''T7a'', ''T7''), (''T7b'', ''T7''), (''T7c'', ''T7''), (''T7d'', ''T7''), (''T8'', ''T8''),
      (''T8.3'', ''T8''), (''T8.5'', ''T8''), (''T9'', ''T9'')]"

definition tier_to_step :: "pyval \<Rightarrow> py_exc + pyval" where
  "tier_to_step tier =
     (if \<not> hashable tier then Inl TypeError
      else Inr (case tier of VStr t \<Rightarrow> VStr (dget_or t t tier_steps) | _ \<Rightarrow> tier))"

definition is_engine_run :: "pyval \<Rightarrow> bool" where
  "is_engine_run v = (case v of VStr s \<Rightarrow> startswith s ''RUN-'' | _ \<Rightarrow> False)"

definition or_empty :: "pyval option \<Rightarrow> pyval" where
  "or_empty v = (case v of None \<Rightarrow> VStr [] | Some x \<Rightarrow> x)"

definition adapt_for_main :: "string \<Rightarrow> event \<Rightarrow> py_exc + event list" where
  "adapt_for_main now ev =
     (let tier = or_empty (map_of ev ''tier''); run = or_empty (map_of ev ''run_id'');
          t = (case map_of ev ''t_emitted'' of None \<Rightarrow> VStr now | Some x \<Rightarrow> x); slug = ev_get ''slug'' ev;
          ec = ev_get ''exit_code'' ev
      in if ev_get ''type'' ev \<noteq> VStr ''opsstepevent'' then Inr []
         else rbind (tier_to_step tier) (\<lambda>st.
           if \<not> is_engine_run run then Inr []
           else Inr
             ((if tier = VStr ''T0''
               then [[(''event_type'', VStr ''session_open''), (''run_id'', run),
                      (''agent_type'', por (ev_get ''session'' ev) (VStr ''worker'')), (''ts'', t), (''project_slug'', slug)]]
               else []) @
              [[(''event_type'', VStr ''step''), (''step'', st), (''tier'', tier), (''cmd'', or_empty (map_of ev ''cmd'')),
                (''ts'', t), (''run_id'', run), (''project_slug'', slug)] @
               (if ec = VNone then [] else [(''exit_code'', ec)])] @
              (if tier = VStr ''T9''
               then [[(''event_type'', VStr ''session_close''), (''run_id'', run), (''ts'', t), (''project_slug'', slug)]]
               else []))))"

text \<open>The line a notification is announced with.\<close>

definition notif_summary :: "fields \<Rightarrow> string" where
  "notif_summary n =
     (let msg = strip (dget_or [] ''message'' n);
          first = strip (case cut_at '' | '' msg of None \<Rightarrow> msg | Some (a, _) \<Rightarrow> a);
          bits = filter (\<lambda>b. b \<noteq> []) (map (\<lambda>k. dget_or [] k n) [''priority'', ''project'', ''status''])
      in if msg \<noteq> [] \<and> first \<noteq> [] then first
         else if bits = [] then ''(notification)''
         else join ([CHR '' '', CHR 0xE2, CHR 0x80, CHR 0xA2, CHR '' '']) bits)"

section \<open>The outcome of a run\<close>

text \<open>Older than ten minutes; what cannot be read counts as old.\<close>

definition is_stale_run :: "pydt \<Rightarrow> pyval \<Rightarrow> bool" where
  "is_stale_run now ts =
     (case ts of
        VStr s \<Rightarrow>
          (case fromisoformat (if endswith s ''Z'' then z_to_offset s else s) of
             None \<Rightarrow> True
           | Some t \<Rightarrow> instant now - instant (if dt_tz t = None then t\<lparr>dt_tz := Some 0\<rparr> else t) > 600 * 1000000)
      | _ \<Rightarrow> True)"

definition classify_run_outcome :: "pydt \<Rightarrow> pyval \<Rightarrow> bool \<Rightarrow> pyval \<Rightarrow> string" where
  "classify_run_outcome now last_ts saw_t9 ec =
     (if saw_t9 then (if py_eq ec (VInt 0) \<or> ec = VNone then ''clean'' else ''crash'')
      else if is_stale_run now last_ts then ''completed_no_t9'' else ''running'')"

type_synonym shown_step = "(string \<times> pyval) list"

definition step_ident :: "shown_step \<Rightarrow> string \<times> string \<times> string" where
  "step_ident s = (py_str (dget_or (VStr []) ''tier'' s), py_str (dget_or (VStr []) ''cmd'' s), py_str (dget_or (VStr []) ''ts'' s))"

fun dedupe :: "(string \<times> string \<times> string) list \<Rightarrow> shown_step list \<Rightarrow> shown_step list" where
  "dedupe seen [] = []"
| "dedupe seen (s # ss) =
     (if step_ident s \<in> set seen then dedupe seen ss else s # dedupe (step_ident s # seen) ss)"

definition dedupe_step_events :: "shown_step list \<Rightarrow> shown_step list" where
  "dedupe_step_events ss = dedupe [] ss"

section \<open>The card of a project, rewound\<close>

definition lr_fields :: "string list" where
  "lr_fields =
     [''phase.name'', ''phase.objective'', ''phase.stop_condition'', ''phase.status'', ''phase.successor'',
      ''next_pass.objective'', ''next_pass.model_tier'', ''next_pass.context_budget'', ''next_pass.tools_required'',
      ''last_pass.objective'', ''last_pass.output_files'', ''last_pass.date'', ''last_pass.validation_passed'',
      ''last_pass.weak_pass'', ''routing'']"

definition ui_keys :: "(string \<times> string) list" where
  "ui_keys =
     [(''phase.name'', ''phase_name''), (''phase.objective'', ''phase_objective''), (''phase.stop_condition'', ''phase_stop''),
      (''phase.status'', ''phase_status''), (''phase.successor'', ''phase_successor''), (''next_pass.objective'', ''next_pass''),
      (''next_pass.model_tier'', ''next_tier''), (''next_pass.context_budget'', ''next_budget''),
      (''next_pass.tools_required'', ''next_tools''), (''last_pass.objective'', ''last_objective''),
      (''last_pass.output_files'', ''last_output''), (''last_pass.date'', ''last_date''), (''routing'', ''routing'')]"

text \<open>The rows behind the first row of the run that are of another run and change a field of the card.\<close>

fun newer_rows :: "string \<Rightarrow> string \<Rightarrow> bool \<Rightarrow> fields list \<Rightarrow> fields list" where
  "newer_rows slug run seen [] = []"
| "newer_rows slug run seen (row # rows) =
     (if dget_or [] ''run_id'' row = run then newer_rows slug run True rows
      else if \<not> seen \<or> \<not> contains (''PROJECTS/'' @ slug @ ''/LONGRUNNER.md'') (dget_or [] ''file'' row) \<or>
              dget_or [] ''field'' row \<notin> set lr_fields
        then newer_rows slug run seen rows
      else row # newer_rows slug run seen rows)"

definition undo_row :: "fields \<Rightarrow> fields \<Rightarrow> fields" where
  "undo_row row d =
     (case map_of ui_keys (dget_or [] ''field'' row) of
        None \<Rightarrow> d
      | Some k \<Rightarrow> dput k (dget_or [] ''old_val'' row) d)"

definition rewind :: "fields list \<Rightarrow> fields \<Rightarrow> fields" where
  "rewind rows d = foldl (\<lambda>d row. undo_row row d) d (rev rows)"

text \<open>The card, and whether the log reaches back to the run.\<close>

definition reconstruct_longrunner_at ::
  "string option \<Rightarrow> string \<Rightarrow> string \<Rightarrow> fields list \<Rightarrow> workspace \<Rightarrow> lr_view option \<times> bool" where
  "reconstruct_longrunner_at ops slug run rows w =
     (case extract_longrunner ops slug w of
        None \<Rightarrow> (None, False)
      | Some lr \<Rightarrow>
          if \<not> list_ex (\<lambda>row. dget_or [] ''run_id'' row = run) rows then (Some lr, False)
          else (Some (lr\<lparr>lv_fields := rewind (newer_rows slug run False rows) (lv_fields lr)\<rparr>), True))"

section \<open>Session close artifacts\<close>

definition iso_z_rx :: rx where
  "iso_z_rx =
     RGrp 1 (rseq [rrep 4 rdigit, rlit ''-'', rrep 2 rdigit, rlit ''-'', rrep 2 rdigit, rlit ''T'', rrep 2 rdigit, rlit '':'',
                   rrep 2 rdigit, rlit '':'', rrep 2 rdigit, rlit ''Z''])"

definition project_field_rx :: rx where
  "project_field_rx = RSeq (rlit ''project='') (RGrp 1 (RSeq (RSet slug_end) (RStar (RSet slug_mid))))"

definition field_text :: "string \<Rightarrow> pyval \<Rightarrow> string" where  \<comment> \<open>\<open>str(data.get(k) or "")\<close>\<close>
  "field_text k v = py_str (por (vget0 k v) (VStr []))"

text \<open>The fields of an artifact; its token counts are not modelled.\<close>

definition artifact_of :: "pyval \<Rightarrow> py_exc + (string \<times> fields) option" where
  "artifact_of v =
     (if \<not> is_dict v then Inl AttributeError
      else
        (let run = strip (field_text ''run_id'' v); memory = field_text ''memory_entry'' v; entry = field_text ''session_entry'' v;
             ts = text_or (Some (strip (field_text ''ts'' v)))
                    (case rx_match iso_z_rx memory of None \<Rightarrow> [] | Some m \<Rightarrow> m_group_or [] 1 m);
             slug_in = (\<lambda>s. case rx_search project_field_rx s of None \<Rightarrow> [] | Some m \<Rightarrow> m_group_or [] 1 m);
             slug = text_or (Some (strip (py_str (por (por (vget0 ''project_slug'' v) (vget0 ''project'' v)) (VStr [])))))
                      (text_or (Some (slug_in memory)) (slug_in entry))
         in Inr (if run = [] then None
                 else Some (run, [(''ts'', text_or (Some ts) (ts_from_run_id run)), (''project_slug'', slug),
                                  (''session_key'', strip (py_str (por (por (vget0 ''session_key'' v) (vget0 ''session'' v)) (VStr [])))),
                                  (''model'', strip (field_text ''model'' v)), (''tokens'', strip (field_text ''tokens'' v)),
                                  (''session_entry'', entry), (''memory_entry'', memory)]))))"

definition parse_session_close_artifacts :: "(string \<times> pyval option) list \<Rightarrow> py_exc + (string \<times> fields) list" where
  "parse_session_close_artifacts files =
     rbind (rmap artifact_of (List.map_filter snd
              (sort_key fst (filter (\<lambda>(n, v). startswith n ''session_close_RUN-'' \<and> endswith n ''.json'') files))))
       (\<lambda>es. Inr (foldl (\<lambda>d e. case e of None \<Rightarrow> d | Some (run, a) \<Rightarrow> dput run a d) [] es))"

section \<open>A session replay\<close>

record replay_env =
  re_events :: "event list"
  re_dirs :: "string list"                     \<comment> \<open>the directories of \<open>PROJECTS\<close>\<close>
  re_artifacts :: "(string \<times> pyval option) list"
  re_ops :: "string \<Rightarrow> string option"           \<comment> \<open>\<open>longrunner-extract\<close> of a project\<close>
  re_now :: pydt

record run_scan =
  rs_steps :: "shown_step list"
  rs_slug :: pyval
  rs_last_ts :: pyval
  rs_saw_t9 :: bool
  rs_exit :: pyval

definition scan_event :: "string \<Rightarrow> event \<Rightarrow> run_scan \<Rightarrow> py_exc + run_scan" where
  "scan_event run ev s =
     (if ev_get ''type'' ev \<noteq> VStr ''opsstepevent'' \<or> ev_get ''run_id'' ev \<noteq> VStr run then Inr s
      else
        (let tier = or_empty (map_of ev ''tier''); ts = or_empty (map_of ev ''t_emitted'') in
         rbind (tier_to_step tier) (\<lambda>st.
           let s1 = s\<lparr>rs_steps := rs_steps s @ [[(''step'', st), (''tier'', tier), (''cmd'', or_empty (map_of ev ''cmd'')),
                        (''ts'', ts), (''run_id'', VStr run)]],
                      rs_last_ts := por ts (rs_last_ts s),
                      rs_slug := (if py_truth (rs_slug s) then rs_slug s else por (ev_get ''slug'' ev) (rs_slug s))\<rparr>
           in Inr (if tier = VStr ''T9''
                   then s1\<lparr>rs_saw_t9 := True, rs_exit := (case map_of ev ''exit_code'' of None \<Rightarrow> VInt 0 | Some x \<Rightarrow> x)\<rparr>
                   else s1))))"

definition scan_run :: "string \<Rightarrow> event list \<Rightarrow> py_exc + run_scan" where
  "scan_run run evs =
     run_log (scan_event run) evs
       \<lparr>rs_steps = [], rs_slug = VStr [], rs_last_ts = VStr [], rs_saw_t9 = False, rs_exit = VNone\<rparr>"

text \<open>\<open>a <= b\<close> on texts.\<close>

fun str_le :: "string \<Rightarrow> string \<Rightarrow> bool" where
  "str_le [] t = True"
| "str_le (c # s) [] = False"
| "str_le (c # s) (d # t) = (code c < code d \<or> c = d \<and> str_le s t)"

definition in_window :: "pyval \<Rightarrow> pyval \<Rightarrow> string \<Rightarrow> py_exc + bool" where
  "in_window lo hi x =
     (case lo of
        VStr l \<Rightarrow>
          if \<not> str_le l x then Inr False
          else (case hi of VStr h \<Rightarrow> Inr (str_le x h) | _ \<Rightarrow> Inl TypeError)
      | _ \<Rightarrow> Inl TypeError)"

definition window_notifications :: "shown_step list \<Rightarrow> string \<Rightarrow> fields list \<Rightarrow> py_exc + fields list" where
  "window_notifications steps slug ns =
     (if steps = [] then Inr ns
      else
        (let lo = dget_or VNone ''ts'' (hd steps); hi = dget_or VNone ''ts'' (last steps) in
         rbind (rmap (\<lambda>n. rbind (in_window lo hi (dget_or [] ''ts'' n)) (\<lambda>b.
             Inr (b \<and> (slug = [] \<or> dget_or [] ''project'' n \<in> {[], slug}), n))) ns)
           (\<lambda>bs. Inr (map snd (filter fst bs)))))"

definition vfields :: "fields \<Rightarrow> pyval" where
  "vfields d = vdict (map (\<lambda>(k, v). (k, VStr v)) d)"

definition vbundle :: "bundle_row \<Rightarrow> pyval" where
  "vbundle b =
     vdict [(''bundle_name'', VStr (br_name b)), (''ok'', VBool (br_ok b)), (''ts'', VStr (br_ts b)), (''run_id'', VStr (br_run b)),
            (''mutations_applied'', VList (map VStr (br_mutations b))), (''guards_checked'', VList [])]"

definition vcard :: "lr_view \<Rightarrow> pyval" where
  "vcard lr = vdict (map (\<lambda>(k, v). (k, VStr v)) (lv_fields lr) @ map (\<lambda>(k, vs). (k, VList (map VStr vs))) (lv_lists lr))"

text \<open>What the run was about, before its panes are filled.\<close>

record run_facts =
  rf_scan :: run_scan
  rf_slug :: string
  rf_slug_from :: string        \<comment> \<open>where the project is known from\<close>
  rf_summary :: string
  rf_last_ts :: pyval
  rf_close_ts :: pyval
  rf_closed :: bool             \<comment> \<open>its end is known from the audit log only\<close>
  rf_exit :: pyval

definition or_nothing :: "'a \<Rightarrow> py_exc + 'a \<Rightarrow> 'a" where  \<comment> \<open>\<open>except Exception\<close>\<close>
  "or_nothing d r = (case r of Inl e \<Rightarrow> d | Inr x \<Rightarrow> x)"

definition run_facts_of :: "replay_env \<Rightarrow> string \<Rightarrow> workspace \<Rightarrow> run_scan \<Rightarrow> py_exc + run_facts" where
  "run_facts_of env run w s =
     (let rows = or_nothing [] (parse_session_registry 200 ''audit/SESSION-REGISTRY.md'' w);
          closes = parse_audit_session_closes ''audit/AUDIT-LOG.md'' w;
          art = dget_or [] run (or_nothing [] (parse_session_close_artifacts (re_artifacts env)));
          summary = (case find (\<lambda>r. sn_run r = run) rows of None \<Rightarrow> [] | Some r \<Rightarrow> sn_outcome r);
          art_ts = dget_or [] ''ts'' art;
          last_ts = (if py_truth (rs_last_ts s) then rs_last_ts s else VStr art_ts);
          known = list_project_slugs (re_dirs env);
          inferred = infer_project_slug [summary, dget_or [] ''memory_entry'' art, dget_or [] ''session_entry'' art] known
      in rbind (if \<not> py_truth (rs_slug s) then Inr (text_or (map_of art ''project_slug'') inferred)
                else case rs_slug s of VStr t \<Rightarrow> Inr t | _ \<Rightarrow> Inl TypeError) (\<lambda>slug.
         let source = (if py_truth (rs_slug s) then ''telemetry''
               else if dget_or [] ''project_slug'' art \<noteq> [] then ''session_close_artifact''
               else if inferred \<noteq> [] then ''inferred'' else ''unknown'')
         in Inr
           (case (map_of closes run, rs_saw_t9 s) of
              (Some (result, ts), False) \<Rightarrow>
                \<lparr>rf_scan = s\<lparr>rs_saw_t9 := True\<rparr>, rf_slug = slug, rf_slug_from = source, rf_summary = summary,
                 rf_last_ts = last_ts, rf_close_ts = por (VStr (text_or (Some art_ts) ts)) last_ts, rf_closed = True,
                 rf_exit = VInt (if result \<in> {''SUCCESS'', ''PASS''} then 0 else 1)\<rparr>
            | _ \<Rightarrow>
                \<lparr>rf_scan = s, rf_slug = slug, rf_slug_from = source, rf_summary = summary,
                 rf_last_ts = last_ts, rf_close_ts = VStr [], rf_closed = False, rf_exit = rs_exit s\<rparr>)))"

definition last_step_ts :: "shown_step list \<Rightarrow> pyval" where
  "last_step_ts steps = (if steps = [] then VStr [] else dget_or VNone ''ts'' (last steps))"

text \<open>The end the audit log reports is appended as a step.\<close>

definition closing_step :: "string \<Rightarrow> run_facts \<Rightarrow> shown_step list \<Rightarrow> shown_step list" where
  "closing_step run f steps =
     (if rf_closed f then
        dedupe_step_events (steps @
          [[(''step'', VStr ''T9''), (''tier'', VStr ''T9''), (''cmd'', VStr ''session-close''),
            (''ts'', por (por (rf_close_ts f) (rf_last_ts f)) (last_step_ts steps)), (''run_id'', VStr run),
            (''reconstructed'', VBool True), (''provenance'', VStr ''audit_session_close'')]])
      else steps)"

definition vsteps :: "shown_step list \<Rightarrow> pyval" where
  "vsteps steps = VList (map vdict steps)"

definition replay_provenance :: "run_facts \<Rightarrow> pyval" where
  "replay_provenance f = vdict
     [(''steps'', VStr ''telemetry''), (''project_slug'', VStr (rf_slug_from f)),
      (''outcome'', VStr (if rf_closed f then ''audit_session_close'' else if rs_saw_t9 (rf_scan f) then ''telemetry_t9''
                        else ''telemetry_open_or_stale'')),
      (''summary'', VStr (if rf_summary f = [] then ''none'' else ''session_registry''))]"

text \<open>The payload without its scope.\<close>

definition replay_items ::
  "replay_env \<Rightarrow> string \<Rightarrow> run_facts \<Rightarrow> shown_step list \<Rightarrow> fields list \<Rightarrow> lr_view option \<Rightarrow> bool \<Rightarrow> workspace \<Rightarrow>
    (string \<times> pyval) list" where
  "replay_items env run f steps0 ns lrv partial w =
     (let steps = closing_step run f steps0; slug = VStr (rf_slug f);
          outcome = classify_run_outcome (re_now env) (rf_last_ts f) (rs_saw_t9 (rf_scan f)) (rf_exit f);
          first_ts = (if steps = [] then VStr [] else dget_or VNone ''ts'' (hd steps));
          end_ts = por (por (rf_close_ts f) (rf_last_ts f)) (last_step_ts steps);
          mine = (\<lambda>row. dget_or [] ''run_id'' row = run)
      in [(''event_type'', VStr ''session_replay''), (''run_id'', VStr run), (''project_slug'', slug),
          (''outcome'', VStr outcome), (''summary'', VStr (rf_summary f)), (''step_history'', vsteps steps),
          (''session'', vdict [(''run_id'', VStr run), (''agent_type'', VStr ''replay''), (''ts'', first_ts), (''project_slug'', slug)]),
          (''session_outcome'',
           if outcome = ''running'' then VNone
           else vdict [(''outcome'', VStr outcome), (''ts'', end_ts), (''run_id'', VStr run), (''reconstructed'', VBool (rf_closed f))]),
          (''session_history'', VList [vdict [(''run_id'', VStr run), (''agent_type'', VStr ''replay''), (''outcome'', VStr outcome),
                                         (''ts'', first_ts)]]),
          (''notifications'', VList (map vfields ns)),
          (''change_log'', VList (map vfields (filter mine (parse_change_log 30 ''audit/CHANGE-LOG.md'' w)))),
          (''bundle_history'', VList (map vbundle (filter (\<lambda>b. br_run b = run) (parse_bundle_history 10 ''audit/AUDIT-LOG.md'' w)))),
          (''partial'', VBool partial), (''provenance'', replay_provenance f)] @
         (case lrv of None \<Rightarrow> [] | Some lr \<Rightarrow> [(''longrunner'', vcard lr)]))"

text \<open>\<open>_attach_scope_context\<close>.\<close>

definition attach_scope_context :: "workspace \<Rightarrow> string \<Rightarrow> string \<Rightarrow> (string \<times> pyval) list \<Rightarrow> py_exc + (string \<times> pyval) list" where
  "attach_scope_context w mode selected kvs =
     (let p = vdict kvs;
          si = \<lparr>si_active = map vfields (parse_active_projects ''ACTIVE-PROJECTS.md'' w),
                si_longrunner = por (vget0 ''longrunner'' p) (vdict []), si_session = por (vget0 ''session'' p) (vdict []),
                si_history = (case vget0 ''session_history'' p of VList hs \<Rightarrow> hs | _ \<Rightarrow> []), si_mode = mode,
                si_partial = py_truth (vget0 ''partial'' p), si_selected = selected,
                si_force_historical = (vget0 ''event_type'' p = VStr ''session_replay'')\<rparr>;
          q = dput ''scope_context'' (derive_scope_context si) kvs
      in if vget0 ''event_type'' p \<in> VStr ` set scoped_replay_events
         then rbind (validate_scoped_replay_payload (vdict q)) (\<lambda>_. Inr q) else Inr q)"

definition session_replay_payload :: "replay_env \<Rightarrow> string \<Rightarrow> string \<Rightarrow> string \<Rightarrow> workspace \<Rightarrow> py_exc + (string \<times> pyval) list" where
  "session_replay_payload env run mode selected w =
     rbind (scan_run run (re_events env)) (\<lambda>s.
     rbind (run_facts_of env run w s) (\<lambda>f.
       let steps = dedupe_step_events (rs_steps s); slug = rf_slug f in
       rbind (window_notifications steps slug (parse_notifications 40 ''NOTIFICATIONS.md'' w)) (\<lambda>ns.
         let (lrv, exact) = (if slug = [] then (None, True)
               else reconstruct_longrunner_at (re_ops env slug) slug run (parse_change_log 30 ''audit/CHANGE-LOG.md'' w) w)
         in attach_scope_context w mode (text_or (Some selected) slug)
              (replay_items env run f steps ns lrv (\<not> exact) w))))"

text \<open>The frame handler sends nothing where the payload raises.\<close>

definition answer_replay :: "replay_env \<Rightarrow> request \<Rightarrow> workspace \<Rightarrow> pyval option" where
  "answer_replay env req w =
     (case req of
        SessionReplay run mode slug \<Rightarrow>
          (case session_replay_payload env run mode slug w of Inl e \<Rightarrow> None | Inr p \<Rightarrow> Some (vdict p))
      | _ \<Rightarrow> None)"

end
