(* ===== verification/RewindFacts.thy ===== *)
theory RewindFacts
  imports Replays
begin

text \<open>
  Rewinding the card of a project restores the state at the end of a run, and the replay of a session
  that is requested for a project is never answered.
\<close>

section \<open>Rewinding\<close>











section \<open>Replays for a project\<close>

lemma scope_mode: "vget0 ''mode'' (vget0 ''view_scope'' (derive_scope_context si)) = VStr (si_mode si)"
  by (simp add: derive_scope_context_def Let_def split: prod.split)

lemma validate_mode:
  assumes "vget0 ''event_type'' p = VStr ''session_replay''" "is_dict p" "vget0 ''scope_context'' p = ctx"
    and "vget0 ''mode'' (vget0 ''view_scope'' ctx) \<noteq> VStr ''replay''"
  shows "validate_scoped_replay_payload p = Inl ValueError"
proof -
  have "dget_or [] ''session_replay'' expected_scope_mode = ''replay''" "''session_replay'' \<in> set scoped_replay_events"
    by code_simp+
  then show ?thesis
    using assms(4) by (simp add: validate_scoped_replay_payload_def assms(1-3) Let_def)
qed

lemma attach_project_refused:
  assumes "map_of kvs ''event_type'' = Some (VStr ''session_replay'')" "map_of kvs ''scope_context'' = None"
  shows "attach_scope_context w ''project'' selected kvs = Inl ValueError"
proof -
  have "vget0 ''event_type'' (vdict kvs) \<in> VStr ` set scoped_replay_events"
    using assms(1) by (simp add: scoped_replay_events_def)
  moreover have "validate_scoped_replay_payload (vdict (dput ''scope_context'' (derive_scope_context si) kvs)) = Inl ValueError"
    if "si_mode si = ''project''" for si
    by (rule validate_mode [OF _ _ refl]) (use assms that in \<open>simp_all add: scope_mode\<close>)
  ultimately show ?thesis unfolding attach_scope_context_def Let_def by simp
qed

lemma replay_items_type:
  "map_of (replay_items env run f steps ns lrv partial w) ''event_type'' = Some (VStr ''session_replay'')"
  "map_of (replay_items env run f steps ns lrv partial w) ''scope_context'' = None"
  by (simp_all add: replay_items_def Let_def split: option.split)

text \<open>C40. The replay of a session that a client requests for a project is never answered: the frame
  handler asks for it under the mode \<open>project\<close>, the payload's contract demands the mode \<open>replay\<close>, and
  the error is swallowed.\<close>

theorem project_replay_unanswered:
  assumes "request_of frame = Inr (SessionReplay run mode slug)" "slug_ok (VStr slug)"
  shows "answer_replay env (SessionReplay run mode slug) w = None"
proof -
  have "mode = ''project''"
    using assms by (auto simp: request_of_def rbind_Inr_iff split: option.splits if_splits)
  then show ?thesis
    by (auto simp: answer_replay_def session_replay_payload_def Let_def rbind_def
        attach_project_refused [OF replay_items_type] split: sum.splits prod.splits)
qed

definition quiet_env :: replay_env where
  "quiet_env =
     \<lparr>re_events = [], re_dirs = [], re_artifacts = [], re_ops = Map.empty,
      re_now = \<lparr>dt_y = 2026, dt_mo = 4, dt_d = 18, dt_h = 12, dt_mi = 0, dt_s = 0, dt_us = 0, dt_tz = Some 0\<rparr>\<rparr>"

theorem project_replay_unanswered_witness:
  "answer_replay quiet_env (SessionReplay ''RUN-20260418-001'' ''project'' ''demo'') Map.empty = None \<and>
   answer_replay quiet_env (SessionReplay ''RUN-20260418-001'' ''replay'' []) Map.empty \<noteq> None"
proof
  have "request_of (Some (vdict [(''type'', VStr ''session_replay''), (''run_id'', VStr ''RUN-20260418-001''),
      (''project_slug'', VStr ''demo'')])) = Inr (SessionReplay ''RUN-20260418-001'' ''project'' ''demo'')" by code_simp
  then show "answer_replay quiet_env (SessionReplay ''RUN-20260418-001'' ''project'' ''demo'') Map.empty = None"
    by (rule project_replay_unanswered) code_simp
  show "answer_replay quiet_env (SessionReplay ''RUN-20260418-001'' ''replay'' []) Map.empty \<noteq> None"
    unfolding quiet_env_def by code_simp
qed

end
