(* ===== verification/Bootstrap.thy ===== *)
theory Bootstrap
  imports Replay
begin

text \<open>
  \<open>commands/bootstrap.py\<close>: the tracks of \<open>LLM-BOOTSTRAP.yaml\<close>, their resolvers, the budget and the two output
  formats. Parameters of a call (\<open>boot_env\<close>): the YAML parser, the schema model \<open>load\<close> gives where it
  gives one, \<open>re.compile\<close> with \<open>IGNORECASE\<close> on the filter of a manifest (the search it performs, or the text
  of its error), and the files below \<open>tests\<close>. Relative paths are relative to the workspace root.
\<close>

record boot_env =
  be_yaml :: "string \<Rightarrow> string + pyval"
  be_model :: "schema_model option"
  be_regex :: "string \<Rightarrow> string + (string \<Rightarrow> bool)"
  be_tests :: "string list"

text \<open>What was read, with the number of characters.\<close>

type_synonym sources = "(string \<times> nat) list"

definition ellipsis :: string where "ellipsis = [CHR 0xE2, CHR 0x80, CHR 0xA6]"

section \<open>Sections of a text\<close>

definition heading_rx :: rx where "heading_rx = RGrp 1 (rplus (rlit ''#''))"

definition next_heading_rx :: rx where "next_heading_rx = RSeq heading_rx (RSet is_space)"

definition heading_level :: "string \<Rightarrow> nat" where
  "heading_level line = (case rx_match heading_rx line of None \<Rightarrow> 2 | Some m \<Rightarrow> length (m_group_or [] 1 m))"

text \<open>A heading of the level or a higher one ends a section.\<close>

definition ends_section :: "nat \<Rightarrow> string \<Rightarrow> bool" where
  "ends_section level line =
     (case rx_match next_heading_rx line of None \<Rightarrow> False | Some m \<Rightarrow> length (m_group_or [] 1 m) \<le> level)"

text \<open>The two nested \<open>while\<close> loops over the index of a line.\<close>

partial_function (option) section_loop :: "nat \<Rightarrow> string list \<Rightarrow> nat \<Rightarrow> string list \<Rightarrow> (nat \<times> string list) option" where
  [code]: "section_loop level lines i out =
     (if i < length lines \<and> \<not> ends_section level (lines ! i)
      then section_loop level lines (Suc i) (out @ [lines ! i]) else Some (i, out))"

partial_function (option) sections_loop :: "rx list \<Rightarrow> string list \<Rightarrow> nat \<Rightarrow> string list \<Rightarrow> string list option" where
  [code]: "sections_loop pats lines i out =
     (if i < length lines then
        (if list_ex (\<lambda>p. rx_matches p (lines ! i)) pats then
           Option.bind (section_loop (heading_level (lines ! i)) lines (Suc i) (out @ [lines ! i]))
             (\<lambda>(j, out'). sections_loop pats lines j out')
         else sections_loop pats lines (Suc i) out)
      else Some out)"

text \<open>What they compute.\<close>

function sections_of :: "rx list \<Rightarrow> string list \<Rightarrow> string list" where
  "sections_of pats [] = []"
| "sections_of pats (line # lines) =
     (if list_ex (\<lambda>p. rx_matches p line) pats then
        (let go = (\<lambda>l. \<not> ends_section (heading_level line) l) in
         line # takeWhile go lines @ sections_of pats (dropWhile go lines))
      else sections_of pats lines)"
  by pat_completeness auto
termination by (relation "measure (length \<circ> snd)") (auto simp: le_imp_less_Suc length_dropWhile_le)

definition extract_sections :: "string \<Rightarrow> rx list \<Rightarrow> string" where
  "extract_sections t pats = join [nl] (sections_of pats (splitlines t))"

lemma section_loop_returns:
  "section_loop level lines i out =
     Some (i + length (takeWhile (\<lambda>l. \<not> ends_section level l) (drop i lines)),
           out @ takeWhile (\<lambda>l. \<not> ends_section level l) (drop i lines))"
proof (induction "length lines - i" arbitrary: i out)
  case 0
  then show ?case by (subst section_loop.simps) simp
next
  case (Suc n)
  then have i: "i < length lines" by simp
  then have d: "drop i lines = lines ! i # drop (Suc i) lines" by (rule Cons_nth_drop_Suc [symmetric])
  show ?case
    using Suc.hyps(1) [of "Suc i"] Suc.hyps(2) i by (subst section_loop.simps) (auto simp: d)
qed

lemma sections_loop_returns: "sections_loop pats lines i out = Some (out @ sections_of pats (drop i lines))"
proof (induction "length lines - i" arbitrary: i out rule: less_induct)
  case less
  show ?case
  proof (cases "i < length lines")
    case False
    then show ?thesis by (subst sections_loop.simps) simp
  next
    case True
    then have d: "drop i lines = lines ! i # drop (Suc i) lines" by (rule Cons_nth_drop_Suc [symmetric])
    let ?go = "\<lambda>l. \<not> ends_section (heading_level (lines ! i)) l"
    let ?n = "length (takeWhile ?go (drop (Suc i) lines))"
    have rest: "drop (Suc i + ?n) lines = dropWhile ?go (drop (Suc i) lines)"
      by (metis add.commute dropWhile_eq_drop drop_drop)
    have "sections_loop pats lines (Suc i + ?n) out' = Some (out' @ sections_of pats (drop (Suc i + ?n) lines))" for out'
      using True by (intro less) simp
    moreover have "sections_loop pats lines (Suc i) out = Some (out @ sections_of pats (drop (Suc i) lines))"
      using True by (intro less) simp
    ultimately show ?thesis
      using True unfolding rest
      by (subst sections_loop.simps) (simp add: d section_loop_returns Let_def)
  qed
qed


section \<open>Exceptions\<close>

text \<open>An exception with its text.\<close>

type_synonym raised = "py_exc \<times> string"

definition exc_name :: "py_exc \<Rightarrow> string" where
  "exc_name e =
     (case e of
        TypeError \<Rightarrow> ''TypeError'' | ValueError \<Rightarrow> ''ValueError'' | KeyError \<Rightarrow> ''KeyError''
      | AttributeError \<Rightarrow> ''AttributeError'' | OverflowError \<Rightarrow> ''OverflowError''
      | FileNotFoundError \<Rightarrow> ''FileNotFoundError'' | ReError \<Rightarrow> ''error'' | YamlError \<Rightarrow> ''YAMLError''
      | SchemaError s \<Rightarrow> ''SchemaError'')"

definition no_attribute :: "pyval \<Rightarrow> string \<Rightarrow> raised" where
  "no_attribute v name =
     (AttributeError, [CHR 0x27] @ type_name v @ [CHR 0x27] @ '' object has no attribute '' @ [CHR 0x27] @ name @ [CHR 0x27])"

text \<open>\<open>args.get(key, d)\<close>.\<close>

definition arg_get :: "string \<Rightarrow> pyval \<Rightarrow> pyval \<Rightarrow> raised + pyval" where
  "arg_get key d args = (if is_dict args then Inr (vget_or d key args) else Inl (no_attribute args ''get''))"

text \<open>\<open>sep.join(vs)\<close>.\<close>

definition join_vals :: "string \<Rightarrow> pyval list \<Rightarrow> raised + string" where
  "join_vals sep vs =
     (case find (\<lambda>(i, v). type_name v \<noteq> ''str'') (enumerate 0 vs) of
        Some (i, v) \<Rightarrow>
          Inl (TypeError, ''sequence item '' @ nat_str i @ '': expected str instance, '' @ type_name v @ '' found'')
      | None \<Rightarrow> Inr (join sep (map py_str vs)))"

section \<open>Resolvers\<close>

text \<open>A resolver yields a heading, a body and what it has read. None raises after it has read something.\<close>

type_synonym resolved = "(pyval \<times> string) \<times> sources"

definition read_relative :: "string \<Rightarrow> workspace \<Rightarrow> (string \<times> sources) option" where
  "read_relative rel w = map_option (\<lambda>t. (t, [(rel, ulen t)])) (read_file rel w)"

definition section_text :: "string \<Rightarrow> string \<Rightarrow> resolved" where
  "section_text heading body = ((VStr heading, body), [])"

definition not_found :: "string \<Rightarrow> string" where "not_found p = ''_('' @ p @ '' not found)_''"

definition summary_lines :: "string list" where
  "summary_lines =
     [''NightClaw is a deterministic AI-orchestration runtime. Architecture: '',
      [quote] @ ''prose for reasoning, tools for guarantees'' @ [quote] @ '' '' @ em_dash @ '' Markdown doctrine is what'',
      ''the LLM reads, the typed engine is what mutates state, YAML under'',
      ''``orchestration-os/schema/*.yaml`` is the single source of truth.'',
      [],
      ''Four-tier truth model:'',
      ''  * Tier A '' @ em_dash @ '' orchestration-os/schema/*.yaml       (authoritative)'',
      ''  * Tier B '' @ em_dash @ '' orchestration-os/REGISTRY.md         (rendered projection)'',
      ''  * Tier C '' @ em_dash @ '' PROJECTS/<slug>/phases.yaml          (per-project state)'',
      ''  * Tier D '' @ em_dash @ '' audit/*.md                           (deterministic record)'',
      [],
      ''Canonical read order for a maintainer: AGENTS-CORE.md '' @ right_arrow,
      ''orchestration-os/REGISTRY.md '' @ right_arrow @ '' internal_enhancement/ARCHITECTURE.md '' @ right_arrow,
      ''internal_enhancement/CURRENT-PASS.md.'']"

definition model_lines :: "schema_model \<Rightarrow> string list" where
  "model_lines m =
     [[], ''Schema counts (live): objects='' @ nat_str (length (sm_objects m)) @ '', fields='' @
          nat_str (length (sm_fields m)) @ '', routes='' @ nat_str (length (sm_routes m)) @ '', edges='' @
          nat_str (length (sm_edges m)) @ '', bundles='' @ nat_str (length (sm_bundles m)) @ '', scr_rules='' @
          nat_str (length (sm_scr_rules m)) @ ''.'',
      ''Schema fingerprint: '' @ sm_fingerprint m]"

definition model_source :: "schema_model \<Rightarrow> string \<times> nat" where
  "model_source m =
     (''orchestration-os/schema/ (SchemaModel)'',
      sum_list (map (\<lambda>ob. ulen (ob_obj ob) + ulen (ob_file ob)) (sm_objects m)) + ulen (sm_fingerprint m))"

definition resolve_summary :: "boot_env \<Rightarrow> resolved" where
  "resolve_summary env =
     ((VStr ''Repo summary'',
       join [nl] (summary_lines @ (case be_model env of None \<Rightarrow> [] | Some m \<Rightarrow> model_lines m))),
      (case be_model env of None \<Rightarrow> [] | Some m \<Rightarrow> [model_source m]))"

definition topology_rx :: "string \<Rightarrow> rx" where
  "topology_rx title =
     rseq [rlit ''#'', ropt (rlit ''#''), rplus (RSet is_space),
           ropt (rseq [rplus rdigit, rlit ''.'', rplus (RSet is_space)]), rlit title]"

definition resolve_topology :: "workspace \<Rightarrow> resolved" where
  "resolve_topology w =
     (case read_relative ''internal_enhancement/ARCHITECTURE.md'' w of
        None \<Rightarrow> section_text ''Topology''
          (''_(internal_enhancement/ARCHITECTURE.md not found '' @ em_dash @ '' repo layout incomplete)_'')
      | Some (t, src) \<Rightarrow>
          (let body = extract_sections t [topology_rx ''Runtime topology'', topology_rx ''Telemetry topology''] in
           ((VStr ''Topology (runtime + telemetry)'',
             if strip body = [] then join [nl] (take 60 (splitlines t)) else body), src)))"

text \<open>\<open>resolve_doctrine\<close> and \<open>resolve_file\<close> differ in their names only.\<close>

definition resolve_path :: "string \<Rightarrow> string \<Rightarrow> pyval \<Rightarrow> workspace \<Rightarrow> raised + resolved" where
  "resolve_path name title args w =
     rbind (arg_get ''path'' (VStr []) args) (\<lambda>rel.
       if \<not> py_truth rel then Inl (ValueError, name @ '' resolver requires args.path'')
       else (case rel of
           VStr p \<Rightarrow>
             if startswith p ''/'' \<or> ''..'' \<in> set (split_on (CHR ''/'') p)
             then Inl (ValueError, name @ '' resolver refuses unsafe path: '' @ p)
             else Inr (case read_relative p w of
                 None \<Rightarrow> section_text (title @ '': '' @ p) (''_(not found at '' @ p @ '')_'')
               | Some (t, src) \<Rightarrow> ((VStr (title @ '': '' @ p), t), src))
         | _ \<Rightarrow> Inl (no_attribute rel ''startswith'')))"

definition resolve_doctrine :: "pyval \<Rightarrow> workspace \<Rightarrow> raised + resolved" where
  "resolve_doctrine = resolve_path ''doctrine'' ''Doctrine''"

definition resolve_file :: "pyval \<Rightarrow> workspace \<Rightarrow> raised + resolved" where
  "resolve_file = resolve_path ''file'' ''File''"

definition resolve_cron_hardlines :: "workspace \<Rightarrow> resolved" where
  "resolve_cron_hardlines w =
     (case read_relative ''orchestration-os/CRON-HARDLINES.md'' w of
        None \<Rightarrow> section_text ''Cron hardlines'' (not_found ''CRON-HARDLINES.md'')
      | Some (t, src) \<Rightarrow> ((VStr ''Cron hardlines'', t), src))"

definition bundle_lines :: "bundle_spec \<Rightarrow> raised + string list" where
  "bundle_lines b =
     rbind (join_vals '', '' (map fst (bs_writes b))) (\<lambda>targets.
       Inr ([''  * '' @ bs_name b, ''      trigger   : '' @ bs_trigger b] @
            (if bs_args b = [] then [] else [''      args      : '' @ join '', '' (bs_args b)]) @
            (if bs_validates b = [] then [] else [''      validates : '' @ join '', '' (bs_validates b)]) @
            (if bs_writes b = [] then [] else [''      writes    : '' @ targets]) @
            (if bs_append b = [] then []
             else [''      append    : '' @ join '', '' (map (\<lambda>(k, v). py_str k @ ''='' @ py_str v) (bs_append b))]) @
            (if bs_returns b = [] then [] else [''      returns   : '' @ bs_returns b]) @ [[]]))"

definition resolve_bundles :: "boot_env \<Rightarrow> raised + resolved" where
  "resolve_bundles env =
     (case be_model env of
        None \<Rightarrow> Inr (section_text ''Bundles'' (''_(schema model unavailable '' @ em_dash @ '' cannot enumerate bundles)_''))
      | Some m \<Rightarrow>
          rbind (rmap bundle_lines (sm_bundles m)) (\<lambda>ls.
            Inr (section_text ''Bundles''
              (join [nl] ([''Declared R5 bundles (source: orchestration-os/schema/bundles.yaml):'', []] @ concat ls)))))"

section \<open>The catalog of invariants\<close>

definition invariant_rx :: rx where
  "invariant_rx = rseq [rspaces, rlit ''#'', rspaces, rlit ''@invariant:'', rspaces, RGrp 1 (rplus rdot), REol]"

definition test_def_rx :: rx where
  "test_def_rx =
     rseq [rspaces, rlit ''def'', rplus (RSet is_space), RGrp 1 (RSeq (rlit ''test_'') (rplus (RSet is_word))), rspaces,
           rlit ''('']"

definition unspecified :: fields where
  "unspecified = map (\<lambda>k. (k, ''(unspecified)'')) [''id'', ''domain'', ''fails_on'', ''remediation'']"

definition parse_invariant_body :: "string \<Rightarrow> fields" where
  "parse_invariant_body body =
     foldl (\<lambda>d part.
         case cut_at ''='' (strip part) of
           None \<Rightarrow> d
         | Some (k, v) \<Rightarrow>
             (let key = lower (strip k) in if key \<in> fst ` set unspecified then dput key (strip v) d else d))
       unspecified (split_on (CHR ''|'') body)"

definition annotation :: "string \<Rightarrow> fields option" where
  "annotation line =
     map_option (\<lambda>m. parse_invariant_body (m_group_or [] 1 m) @ [(''raw'', strip line)]) (rx_match invariant_rx line)"

definition test_name :: "string \<Rightarrow> string option" where
  "test_name line = map_option (\<lambda>m. m_group_or [] 1 m) (rx_match test_def_rx line)"

text \<open>Blank lines and other comments may stand between an annotation and its test.\<close>

definition passed_over :: "string \<Rightarrow> bool" where
  "passed_over line \<longleftrightarrow> strip line = [] \<or> startswith (lstrip_of is_space line) ''#''"

fun harvest_lines :: "string \<Rightarrow> fields option \<Rightarrow> string list \<Rightarrow> fields list" where
  "harvest_lines file pending [] = []"
| "harvest_lines file pending (line # lines) =
     (case annotation line of
        Some a \<Rightarrow> harvest_lines file (Some a) lines
      | None \<Rightarrow>
          (case pending of
             None \<Rightarrow> harvest_lines file None lines
           | Some a \<Rightarrow>
               (case test_name line of
                  Some t \<Rightarrow> (a @ [(''test'', t), (''file'', file)]) # harvest_lines file None lines
                | None \<Rightarrow> harvest_lines file (if passed_over line then Some a else None) lines)))"

definition test_file :: "string \<Rightarrow> bool" where  \<comment> \<open>\<open>tests_dir.rglob("test_*.py")\<close>\<close>
  "test_file p \<longleftrightarrow>
     (let name = last (split_on (CHR ''/'') p) in
      startswith p ''tests/'' \<and> startswith name ''test_'' \<and> endswith name ''.py'')"

definition harvest_invariants :: "string list \<Rightarrow> workspace \<Rightarrow> fields list" where
  "harvest_invariants files w =
     concat (map (\<lambda>p. case read_file p w of None \<Rightarrow> [] | Some t \<Rightarrow> harvest_lines p None (splitlines t))
       (sort_key (split_on (CHR ''/'')) (filter test_file files)))"

definition scr_title_rx :: rx where
  "scr_title_rx = rseq [rlit ''(INV-'', RGrp 1 (rplus rdigit), rlit '')'']"

definition scr_invariant :: "scr_rule \<Rightarrow> fields option" where
  "scr_invariant r =
     (case rx_search scr_title_rx (sr_title r) of
        None \<Rightarrow> None
      | Some m \<Rightarrow>
          (let why = rstrip_of (\<lambda>c. c = CHR ''.'') (strip (rx_sub scr_title_rx (\<lambda>_. []) (sr_title r))) in
           Some [(''id'', ''INV-'' @ m_group_or [] 1 m), (''domain'', ''scr-backed/'' @ lower (sr_id r)),
                 (''fails_on'', if why = [] then sr_predicate r @ '' reports FAIL'' else why),
                 (''remediation'',
                  ''Run ``python3 scripts/nightclaw-ops.py scr-verify`` and inspect the '' @ sr_id r @
                  '' FAIL rows; fix the underlying data or update the predicate ``'' @ sr_predicate r @
                  ''`` in ``nightclaw_engine/protocol/integrity.py``.''),
                 (''test'', ''scr-verify:'' @ sr_id r), (''file'', ''orchestration-os/schema/scr_rules.yaml''),
                 (''raw'', sr_id r @ '' | '' @ sr_severity r @ '' | '' @ sr_predicate r @ '' | '' @ sr_title r)]))"

definition harvest_scr_backed_invariants :: "schema_model option \<Rightarrow> fields list" where
  "harvest_scr_backed_invariants model =
     (case model of None \<Rightarrow> [] | Some m \<Rightarrow> List.map_filter scr_invariant (sm_scr_rules m))"

definition invariant_lines :: "fields \<Rightarrow> string list" where
  "invariant_lines d =
     [''  * '' @ dget_or [] ''id'' d @ '' '' @ em_dash @ '' '' @ dget_or [] ''domain'' d,
      ''      test        : '' @ dget_or [] ''test'' d, ''      fails_on    : '' @ dget_or [] ''fails_on'' d,
      ''      remediation : '' @ dget_or [] ''remediation'' d, []]"

text \<open>The filter: \<open>re.compile\<close> looks the pattern up in a cache first.\<close>

definition filter_of :: "boot_env \<Rightarrow> pyval \<Rightarrow> raised + (string \<Rightarrow> bool)" where
  "filter_of env flt =
     (if \<not> py_truth flt then Inr (\<lambda>_. True)
      else (case flt of
          VStr p \<Rightarrow> (case be_regex env p of Inl e \<Rightarrow> Inl (ReError, e) | Inr f \<Rightarrow> Inr f)
        | _ \<Rightarrow>
            Inl (TypeError,
              if hashable flt then ''first argument must be string or compiled pattern''
              else ''unhashable type: '' @ [CHR 0x27] @ type_name flt @ [CHR 0x27])))"

definition invariant_text :: "fields \<Rightarrow> string" where
  "invariant_text d = join '' '' (map (\<lambda>k. dget_or [] k d) [''id'', ''domain'', ''fails_on'', ''remediation'', ''test''])"

definition resolve_invariants :: "boot_env \<Rightarrow> pyval \<Rightarrow> workspace \<Rightarrow> raised + resolved" where
  "resolve_invariants env args w =
     rbind (arg_get ''filter'' VNone args) (\<lambda>flt.
     rbind (filter_of env flt) (\<lambda>ok.
       let catalog = harvest_invariants (be_tests env) w @ harvest_scr_backed_invariants (be_model env);
           shown = filter (\<lambda>d. ok (invariant_text d)) catalog
       in Inr ((VStr ''Invariants'',
                join [nl] ([''Invariant catalog (harvested from tests/ and scr_rules.yaml):'', []] @
                  concat (map invariant_lines shown) @
                  (if shown = [] then [''  _(no invariants matched '' @ em_dash @
                     '' either none annotated yet, or filter too strict)_''] else []))),
               [(''tests/ (@invariant: annotations) + scr_rules.yaml (INV-NN titles)'',
                 sum_list (map (\<lambda>d. ulen (dget_or [] ''raw'' d)) catalog))])))"

section \<open>The other resolvers\<close>

definition gate_lines :: "string list" where
  "gate_lines =
     [''Gate sequence (run in order; all must pass before a change ships):'',
      [],
      ''  1. ``python3 -m pytest tests/ -q`` '' @ em_dash @ '' full test suite, all green.'',
      ''  2. ``python3 scripts/nightclaw-ops.py schema-lint`` '' @ em_dash @ '' prints'',
      ''     ``SCHEMA-LINT:OK:<fingerprint>`` matching the canonical fingerprint.'',
      ''  3. ``python3 scripts/nightclaw-ops.py schema-sync`` '' @ em_dash @ '' must print'',
      ''     ``SCHEMA-SYNC:NOOP:'' @ ellipsis @ ''`` (or ``:OK:'' @ ellipsis @ ''`` exactly once per schema edit).'',
      ''  4. ``python3 scripts/nightclaw-ops.py scr-verify`` '' @ em_dash @ '' ``RESULT:PASS``'',
      ''     for every SCR rule (SCR-01..11 + CL5).'',
      ''  5. ``python3 scripts/nightclaw-ops.py validate-bundles`` '' @ em_dash @ '' ``RESULT:PASS``'',
      ''     for every bundle declared in bundles.yaml.'',
      ''  6. ``python3 scripts/nightclaw-ops.py integrity-check`` '' @ em_dash @ '' every'',
      ''     protected file matches its manifest hash (11/11 PASS).'',
      ''  7. ``python3 scripts/nightclaw-ops.py preflight-import`` '' @ em_dash,
      ''     Every Python module imports cleanly; STEP_CMD_MAP <-> ALLOWED_TIERS'',
      ''     consistency check passes. Catches the '' @ [CHR 0x27] @ ''bridge broken for 3 days'' @ [CHR 0x27],
      ''     class of regression at the next session boundary.'',
      ''  8. ``python3 scripts/nightclaw-ops.py syntax-check`` '' @ em_dash,
      ''     ``ast.parse()``s every .py file under the four packages,'',
      ''     nightclaw_common, scripts/, and tests/. Catches NTFS write'',
      ''     truncation directly.'',
      [],
      ''Plus: ``python3 scripts/skills-sync.py`` must be a no-op after any edit'',
      ''under ``nightclaw_engine/`` or ``nightclaw_common/`` (Invariant 9 fails CI'',
      ''otherwise).'',
      [],
      ''Two operator commands available for incident response (not gates):'',
      ''  * ``crash-recover`` '' @ em_dash @ '' evidence-based dead-holder lock recovery.'',
      ''    Wired into worker startup; safe to invoke manually if a lock is'',
      ''    stuck after a session crash.'',
      ''  * ``replay <RUN-YYYYMMDD-NNN> [--from Tx --to Tx --json]`` '' @ em_dash,
      ''    chronological reconstruction of one run from AUDIT-LOG +'',
      ''    CHANGE-LOG. Use this to debug a crashed pass instead of grepping'',
      ''    logs by hand.'']"

definition known_issues_rx :: rx where
  "known_issues_rx = rseq [rlit ''##'', rplus (RSet is_space), rlit ''Known issues'', rspaces, REol]"

definition resolve_known_issues :: "workspace \<Rightarrow> resolved" where
  "resolve_known_issues w =
     (case read_relative ''internal_enhancement/CURRENT-PASS.md'' w of
        None \<Rightarrow> section_text ''Known issues'' (not_found ''internal_enhancement/CURRENT-PASS.md'')
      | Some (t, src) \<Rightarrow>
          (let ls = splitlines (extract_sections t [known_issues_rx]);
               ls' = (if ls \<noteq> [] \<and> rx_matches known_issues_rx (hd ls) then tl ls else ls);
               body = strip_of (\<lambda>c. c = nl) (join [nl] ls')
           in if strip body = []
              then ((VStr ''Known issues'', ''_(no Known issues section found in CURRENT-PASS.md)_''), src)
              else ((VStr ''Known issues'', body), src @ src)))"

definition resolve_dependency_graph :: "boot_env \<Rightarrow> resolved" where
  "resolve_dependency_graph env =
     (case be_model env of
        None \<Rightarrow> section_text ''Dependency graph'' ''_(schema model unavailable)_''
      | Some m \<Rightarrow>
          section_text ''Dependency graph (R4 edges)''
            (join [nl] ([''R4 edges (source '' @ right_arrow @ '' target, typed):'', []] @
               map (\<lambda>e. ''  '' @ e_source e @ ''  --'' @ e_type e @ ''-->  '' @ e_target e) (sm_edges m))))"

definition resolve_prose :: "pyval \<Rightarrow> raised + resolved" where
  "resolve_prose args =
     rbind (arg_get ''heading'' (VStr ''Prose'') args) (\<lambda>heading.
     rbind (arg_get ''body'' (VStr []) args) (\<lambda>body. Inr ((heading, py_str body), [])))"

definition resolvers :: "string list" where
  "resolvers =
     [''summary'', ''topology'', ''doctrine'', ''cron_hardlines'', ''bundles'', ''invariants'', ''gate_sequence'',
      ''known_issues'', ''dependency_graph'', ''file'', ''prose'']"

definition resolve :: "boot_env \<Rightarrow> string \<Rightarrow> pyval \<Rightarrow> workspace \<Rightarrow> raised + resolved" where
  "resolve env name args w =
     (if name = ''summary'' then Inr (resolve_summary env)
      else if name = ''topology'' then Inr (resolve_topology w)
      else if name = ''doctrine'' then resolve_doctrine args w
      else if name = ''cron_hardlines'' then Inr (resolve_cron_hardlines w)
      else if name = ''bundles'' then resolve_bundles env
      else if name = ''invariants'' then resolve_invariants env args w
      else if name = ''gate_sequence'' then Inr (section_text ''Gate sequence'' (join [nl] gate_lines))
      else if name = ''known_issues'' then Inr (resolve_known_issues w)
      else if name = ''dependency_graph'' then Inr (resolve_dependency_graph env)
      else if name = ''file'' then resolve_file args w
      else resolve_prose args)"

section \<open>The budget\<close>

record section_out =
  so_resolver :: string
  so_heading :: pyval
  so_body :: string
  so_share :: int

definition chars_per_token :: int where "chars_per_token = 4"

definition total_share :: "section_out list \<Rightarrow> int" where
  "total_share ss = (let n = sum_list (map (\<lambda>s. max 1 (so_share s)) ss) in if n = 0 then 1 else n)"

definition allowance :: "int \<Rightarrow> section_out list \<Rightarrow> section_out \<Rightarrow> int" where
  "allowance tokens ss s = max 200 ((tokens * chars_per_token * max 1 (so_share s)) div total_share ss)"

definition cut_mark :: "int \<Rightarrow> string" where
  "cut_mark n =
     [nl, nl] @ ellipsis @ '' [truncated '' @ int_str n @ '' chars '' @ em_dash @ '' see source for full text]''"

definition fit :: "int \<Rightarrow> string \<Rightarrow> string" where
  "fit most body =
     (if int (ulen body) > most then utake (nat most) body @ cut_mark (int (ulen body) - most) else body)"

definition apportion_budget :: "section_out list \<Rightarrow> int \<Rightarrow> section_out list" where
  "apportion_budget ss tokens = map (\<lambda>s. s\<lparr>so_body := fit (allowance tokens ss s) (so_body s)\<rparr>) ss"

section \<open>Tracks\<close>

fun int_of :: "pyval \<Rightarrow> py_exc + int" where  \<comment> \<open>\<open>int(v)\<close>\<close>
  "int_of (VBool b) = Inr (if b then 1 else 0)"
| "int_of (VInt i) = Inr i"
| "int_of (VStr s) = (case py_int s of None \<Rightarrow> Inl ValueError | Some i \<Rightarrow> Inr i)"
| "int_of _ = Inl TypeError"

definition resolve_section :: "boot_env \<Rightarrow> pyval \<Rightarrow> workspace \<Rightarrow> py_exc + section_out \<times> sources" where
  "resolve_section env sec w =
     (if \<not> is_dict sec then Inl AttributeError
      else if \<not> hashable (vget0 ''resolver'' sec) then Inl TypeError
      else if vget0 ''resolver'' sec \<notin> VStr ` set resolvers then Inl ValueError
      else
        (let name = py_str (vget0 ''resolver'' sec); args = (let a = vget0 ''args'' sec in if py_truth a then a else vdict []) in
         rbind (int_of (vget_or (VInt 100) ''budget_share'' sec)) (\<lambda>share.
           case resolve env name args w of
             Inr ((heading, body), src) \<Rightarrow>
               Inr (\<lparr>so_resolver = name, so_heading = heading, so_body = body, so_share = share\<rparr>, src)
           | Inl (e, text) \<Rightarrow>
               if py_truth (vget_or (VBool True) ''required'' sec) then Inl e
               else Inr (\<lparr>so_resolver = name, so_heading = VStr (name @ '' (optional '' @ em_dash @ '' skipped)''),
                          so_body = ''_(resolver raised '' @ exc_name e @ '': '' @ text @ '')_'', so_share = share\<rparr>, []))))"

text \<open>The names of all tracks are joined for the message about an unknown one.\<close>

definition resolve_track :: "boot_env \<Rightarrow> string \<Rightarrow> pyval \<Rightarrow> workspace \<Rightarrow> py_exc + section_out list \<times> sources" where
  "resolve_track env track manifest w =
     (let tracks = vget_or (vdict []) ''tracks'' manifest in
      case vget track tracks of
        None \<Rightarrow> Inl (if list_all (\<lambda>(k, v). type_name k = ''str'') (items tracks) then KeyError else TypeError)
      | Some t \<Rightarrow>
          if \<not> is_dict t then Inl AttributeError
          else
            rbind (py_iter (vget_or (VList []) ''sections'' t)) (\<lambda>secs.
            rbind (rmap (\<lambda>sec. resolve_section env sec w) secs) (\<lambda>rs.
              Inr (map fst rs, concat (map snd rs)))))"

section \<open>Output\<close>

definition bootstrap_markdown :: "string \<Rightarrow> section_out list \<Rightarrow> sources \<Rightarrow> int \<Rightarrow> string" where
  "bootstrap_markdown track ss src tokens =
     join [nl]
       ([''# NightClaw bootstrap '' @ em_dash @ '' track: '' @ track, [],
         ''_Budget: ~'' @ int_str tokens @ '' tokens ('' @ int_str (tokens * chars_per_token) @ '' chars approx)._'', []] @
        concat (map (\<lambda>s. [''## '' @ py_str (so_heading s), [], rstrip_of is_space (so_body s), []]) ss) @
        [''---'', ''## Provenance'', []] @
        (if src = [] then [''_(no external sources consumed '' @ em_dash @ '' track used only inline prose)_'']
         else map (\<lambda>(rel, n). ''- `'' @ rel @ ''` '' @ em_dash @ '' '' @ nat_str n @ '' chars'') src) @ [[]])"

text \<open>\<open>json.dumps(v, indent=2)\<close>, nested \<open>n\<close> deep.\<close>

definition json_key :: "pyval \<Rightarrow> string" where
  "json_key k =
     json_str (case k of VNone \<Rightarrow> ''null'' | VBool b \<Rightarrow> (if b then ''true'' else ''false'') | _ \<Rightarrow> py_str k)"

definition json_block :: "char \<Rightarrow> char \<Rightarrow> nat \<Rightarrow> string list \<Rightarrow> string" where
  "json_block a b n es =
     (if es = [] then [a, b]
      else (let pad = (\<lambda>k. nl # replicate (2 * k) (CHR '' '')) in
        a # pad (Suc n) @ join ([CHR '',''] @ pad (Suc n)) es @ pad n @ [b]))"

fun json_pretty :: "nat \<Rightarrow> pyval \<Rightarrow> string" where
  "json_pretty n VNone = ''null''"
| "json_pretty n (VBool b) = (if b then ''true'' else ''false'')"
| "json_pretty n (VInt i) = int_str i"
| "json_pretty n (VStr s) = json_str s"
| "json_pretty n (VList vs) = json_block (CHR ''['') (CHR '']'') n (map (json_pretty (Suc n)) vs)"
| "json_pretty n (VDict kvs) =
     json_block (CHR ''{'') (CHR ''}'') n (map (\<lambda>(k, v). json_key k @ '': '' @ json_pretty (Suc n) v) kvs)"

definition bootstrap_json :: "string \<Rightarrow> section_out list \<Rightarrow> sources \<Rightarrow> int \<Rightarrow> string" where
  "bootstrap_json track ss src tokens =
     json_pretty 0 (vdict
       [(''track'', VStr track), (''budget_tokens'', VInt tokens),
        (''sections'', VList (map (\<lambda>s. vdict [(''resolver'', VStr (so_resolver s)), (''heading'', so_heading s),
                                               (''body'', VStr (so_body s))]) ss)),
        (''provenance'', VList (map (\<lambda>(rel, n). vdict [(''path'', VStr rel), (''chars'', VInt (int n))]) src))])"

section \<open>The command\<close>

record boot_opts =
  bo_track :: string
  bo_budget :: "int option"
  bo_format :: "string option"
  bo_manifest :: "string option"
  bo_list :: bool

definition option_value :: "string \<Rightarrow> string \<Rightarrow> string option" where
  "option_value name arg = (if startswith arg (name @ ''='') then Some (drop (Suc (length name)) arg) else None)"

text \<open>The arguments from left to right, the last value counts; \<open>None\<close> where one is unknown or no number.\<close>

definition boot_arg :: "string \<Rightarrow> boot_opts \<Rightarrow> boot_opts option" where
  "boot_arg arg op =
     (if arg = ''--list-tracks'' then Some (op\<lparr>bo_list := True\<rparr>)
      else (case option_value ''--track'' arg of Some v \<Rightarrow> Some (op\<lparr>bo_track := v\<rparr>) | None \<Rightarrow>
           (case option_value ''--budget'' arg of Some v \<Rightarrow> map_option (\<lambda>n. op\<lparr>bo_budget := Some n\<rparr>) (py_int v) | None \<Rightarrow>
           (case option_value ''--format'' arg of Some v \<Rightarrow> Some (op\<lparr>bo_format := Some v\<rparr>) | None \<Rightarrow>
           (case option_value ''--manifest'' arg of Some v \<Rightarrow> Some (op\<lparr>bo_manifest := Some v\<rparr>) | None \<Rightarrow> None)))))"

fun boot_args :: "string list \<Rightarrow> boot_opts \<Rightarrow> boot_opts option" where
  "boot_args [] op = Some op"
| "boot_args (a # as) op = Option.bind (boot_arg a op) (boot_args as)"

definition has_key :: "string \<Rightarrow> pyval \<Rightarrow> py_exc + bool" where  \<comment> \<open>\<open>k in v\<close>\<close>
  "has_key k v =
     (case v of
        VDict _ \<Rightarrow> Inr (vhas k v) | VStr s \<Rightarrow> Inr (contains k s) | VList vs \<Rightarrow> Inr (VStr k \<in> set vs) | _ \<Rightarrow> Inl TypeError)"

definition load_manifest :: "boot_env \<Rightarrow> string \<Rightarrow> workspace \<Rightarrow> py_exc + pyval" where
  "load_manifest env p w =
     (case read_file p w of
        None \<Rightarrow> Inl FileNotFoundError
      | Some t \<Rightarrow>
          (case be_yaml env t of
             Inl e \<Rightarrow> Inl YamlError
           | Inr v \<Rightarrow>
               (let data = (if py_truth v then v else vdict []) in
                rbind (rmap (\<lambda>k. rbind (has_key k data) (\<lambda>b. if b then Inr () else Inl ValueError))
                         [''version'', ''tracks'', ''resolvers'']) (\<lambda>_.
                  if \<not> is_dict data then Inl TypeError
                  else (let tr = vget0 ''tracks'' data in
                    if is_dict tr \<and> py_truth tr then Inr data else Inl ValueError)))))"

fun track_lines :: "(pyval \<times> pyval) list \<Rightarrow> string list \<Rightarrow> outcome" where
  "track_lines [] out = Exit 0 out"
| "track_lines ((name, sp) # ts) out =
     (if \<not> is_dict sp then Raise AttributeError out
      else (case name of
          VStr n \<Rightarrow> track_lines ts (out @ [''  '' @ upad 16 n @ ''  '' @ py_str (vget_or (VStr []) ''summary'' sp)])
        | VInt _ \<Rightarrow> Raise ValueError out
        | VBool _ \<Rightarrow> Raise ValueError out
        | _ \<Rightarrow> Raise TypeError out))"

definition run_track :: "boot_env \<Rightarrow> boot_opts \<Rightarrow> pyval \<Rightarrow> workspace \<Rightarrow> outcome" where
  "run_track env op manifest w =
     (let defaults = (let d = vget0 ''defaults'' manifest in if py_truth d then d else vdict []);
          budget = (case bo_budget op of Some n \<Rightarrow> n | None \<Rightarrow> 0);
          form = (case bo_format op of Some f \<Rightarrow> f | None \<Rightarrow> [])
      in if \<not> is_dict defaults \<and> (budget = 0 \<or> form = []) then Raise AttributeError []
         else (case (if budget \<noteq> 0 then Inr budget else int_of (vget_or (VInt 12000) ''budget_tokens'' defaults)) of
             Inl e \<Rightarrow> Raise e []
           | Inr tokens \<Rightarrow>
               (let out_format = (if form \<noteq> [] then form else py_str (vget_or (VStr ''md'') ''format'' defaults)) in
                case resolve_track env (bo_track op) manifest w of
                  Inl e \<Rightarrow> if e = KeyError \<or> e = ValueError then Exit 2 [] else Raise e []
                | Inr (ss, src) \<Rightarrow>
                    (let ss' = apportion_budget ss tokens in
                     if out_format = ''json'' then Exit 0 (split_on nl (bootstrap_json (bo_track op) ss' src tokens))
                     else if out_format = ''md'' then Exit 0 (split_on nl (bootstrap_markdown (bo_track op) ss' src tokens))
                     else Exit 2 []))))"

definition cmd_bootstrap :: "boot_env \<Rightarrow> string list \<Rightarrow> workspace \<Rightarrow> outcome" where
  "cmd_bootstrap env args w =
     (case boot_args args \<lparr>bo_track = ''general'', bo_budget = None, bo_format = None, bo_manifest = None, bo_list = False\<rparr> of
        None \<Rightarrow> Exit 2 []
      | Some op \<Rightarrow>
          (case load_manifest env (case bo_manifest op of None \<Rightarrow> ''internal_enhancement/LLM-BOOTSTRAP.yaml'' | Some p \<Rightarrow> p) w of
             Inl e \<Rightarrow> if e = FileNotFoundError \<or> e = ValueError then Exit 2 [] else Raise e []
           | Inr manifest \<Rightarrow>
               if bo_list op then track_lines (items (vget_or (vdict []) ''tracks'' manifest)) [''Available tracks:'']
               else run_track env op manifest w))"

end
