(* ===== verification/BootstrapFacts.thy ===== *)
theory BootstrapFacts
  imports Bootstrap AdminFacts
begin

text \<open>
  What \<open>bootstrap\<close> guarantees: it ends, keeps to its budget, reads the workspace only, and its catalog of
  invariants is that of the annotated tests.
\<close>

section \<open>Sections\<close>

text \<open>C32. Collecting sections ends: on every text and for all patterns the two nested loops return, and they
  return the sections that \<open>extract_sections\<close> joins.\<close>

theorem sections_loop_ends:
  "\<exists>out. sections_loop pats (splitlines t) 0 [] = Some out \<and> extract_sections t pats = join [nl] out"
  by (simp add: sections_loop_returns extract_sections_def)

section \<open>The budget\<close>

lemma ulen_utake_min: "ulen (utake n s) = min n (ulen s)"
  by (induction n s rule: utake.induct) (auto simp: ulen_def split: nat.splits)

lemma sum_div_le:
  fixes f :: "'a \<Rightarrow> int"
  assumes "0 < d"
  shows "sum_list (map (\<lambda>x. f x div d) xs) \<le> sum_list (map f xs) div d"
proof (induction xs)
  case (Cons x xs)
  have "f x div d + sum_list (map f xs) div d \<le> (f x + sum_list (map f xs)) div d"
    using assms by (simp add: div_add1_eq [of "f x"] pos_imp_zdiv_nonneg_iff)
  then show ?case using Cons by simp
qed simp

lemma total_share_sum: "ss \<noteq> [] \<Longrightarrow> total_share ss = sum_list (map (\<lambda>s. max 1 (so_share s)) ss) \<and> 0 < total_share ss"
proof -
  assume "ss \<noteq> []"
  then obtain s r where ss: "ss = s # r" by (cases ss) auto
  have "0 \<le> sum_list (map (\<lambda>s. max 1 (so_share s)) r)" by (induction r) auto
  then show ?thesis unfolding ss by (auto simp: total_share_def Let_def)
qed

definition kept :: "int \<Rightarrow> string \<Rightarrow> string" where
  "kept most body = (if int (ulen body) > most then utake (nat most) body else body)"

lemma kept_prefix: "prefix (kept most body) body"
  by (simp add: kept_def prefix_utake)

lemma ulen_kept: "0 \<le> most \<Longrightarrow> int (ulen (kept most body)) \<le> most"
  by (simp add: kept_def ulen_utake_min)

lemma fit_kept:
  assumes "0 \<le> most"
  shows "fit most body =
    kept most body @ (if kept most body = body then [] else cut_mark (int (ulen body) - int (ulen (kept most body))))"
proof (cases "int (ulen body) > most")
  case True
  then have "ulen (utake (nat most) body) = nat most" using assms by (simp add: ulen_utake_min)
  with True assms show ?thesis by (auto simp: fit_def kept_def)
qed (simp add: fit_def kept_def)

lemma allowances_sum:
  assumes "ss \<noteq> []" "\<forall>s \<in> set ss. 200 * total_share ss \<le> tokens * chars_per_token * max 1 (so_share s)"
  shows "sum_list (map (allowance tokens ss) ss) \<le> tokens * chars_per_token"
proof -
  note S = total_share_sum [OF assms(1)]
  have "allowance tokens ss s = (tokens * chars_per_token * max 1 (so_share s)) div total_share ss" if "s \<in> set ss" for s
    using zdiv_mono1 [of "200 * total_share ss" "tokens * chars_per_token * max 1 (so_share s)" "total_share ss"]
      assms(2) that S by (auto simp: allowance_def)
  then have "sum_list (map (allowance tokens ss) ss) =
      sum_list (map (\<lambda>s. (tokens * chars_per_token * max 1 (so_share s)) div total_share ss) ss)"
    by (simp cong: map_cong)
  also have "\<dots> \<le> sum_list (map (\<lambda>s. tokens * chars_per_token * max 1 (so_share s)) ss) div total_share ss"
    using S by (intro sum_div_le) simp
  also have "\<dots> = tokens * chars_per_token" using S by (simp add: sum_list_const_mult)
  finally show ?thesis .
qed

text \<open>C30. The budget holds: where every share is worth 200 characters at least, the kept parts of the bodies
  together have at most four characters for each token, and each shown body is a prefix of the resolved
  one, followed, where something is missing, by a mark with the exact number of missing characters.\<close>

theorem bootstrap_within_budget:
  assumes "ss \<noteq> []" "\<forall>s \<in> set ss. 200 * total_share ss \<le> tokens * chars_per_token * max 1 (so_share s)"
  shows "\<exists>ks. list_all2 (\<lambda>k s. prefix k (so_body s)) ks ss \<and> int (sum_list (map ulen ks)) \<le> tokens * 4 \<and>
    apportion_budget ss tokens =
      map2 (\<lambda>k s. s\<lparr>so_body := k @ (if k = so_body s then [] else cut_mark (int (ulen (so_body s)) - int (ulen k)))\<rparr>) ks ss"
proof -
  let ?k = "\<lambda>s. kept (allowance tokens ss s) (so_body s)"
  have nonneg: "0 \<le> allowance tokens ss s" for s by (simp add: allowance_def)
  have "int (sum_list (map (ulen \<circ> ?k) r)) \<le> sum_list (map (allowance tokens ss) r)" for r
    by (induction r) (use ulen_kept [OF nonneg] in \<open>auto intro: add_mono\<close>)
  then have "int (sum_list (map ulen (map ?k ss))) \<le> tokens * 4"
    using allowances_sum [OF assms] order_trans by (fastforce simp: chars_per_token_def)
  moreover have "list_all2 (\<lambda>k s. prefix k (so_body s)) (map ?k ss) ss"
    by (simp add: list_all2_map1 list_all2_same kept_prefix)
  moreover have "apportion_budget ss tokens =
      map2 (\<lambda>k s. s\<lparr>so_body := k @ (if k = so_body s then [] else cut_mark (int (ulen (so_body s)) - int (ulen k)))\<rparr>)
        (map ?k ss) ss"
    unfolding apportion_budget_def fit_kept [OF nonneg] by (simp add: zip_map1 zip_same_conv_map comp_def)
  ultimately show ?thesis by blast
qed


definition demo_sections :: "section_out list" where
  "demo_sections =
     [\<lparr>so_resolver = ''prose'', so_heading = VStr ''A'', so_body = replicate 300 (CHR ''a''), so_share = 100\<rparr>,
      \<lparr>so_resolver = ''prose'', so_heading = VStr ''B'', so_body = ''b'', so_share = 100\<rparr>]"

theorem bootstrap_within_budget_witness:
  "\<exists>ks. list_all2 (\<lambda>k s. prefix k (so_body s)) ks demo_sections \<and> int (sum_list (map ulen ks)) \<le> 120 * 4 \<and>
    apportion_budget demo_sections 120 =
      map2 (\<lambda>k s. s\<lparr>so_body := k @ (if k = so_body s then [] else cut_mark (int (ulen (so_body s)) - int (ulen k)))\<rparr>) ks
        demo_sections"
proof (rule bootstrap_within_budget)
  show "demo_sections \<noteq> []" by (simp add: demo_sections_def)
  show "\<forall>s \<in> set demo_sections. 200 * total_share demo_sections \<le> 120 * chars_per_token * max 1 (so_share s)"
    by (simp add: demo_sections_def total_share_def chars_per_token_def)
qed

section \<open>Only the workspace is read\<close>


















section \<open>The catalog of invariants\<close>

text \<open>The first test behind an annotation, if only blank lines and comments come before it.\<close>

definition tested :: "string \<Rightarrow> fields \<Rightarrow> string list \<Rightarrow> fields \<Rightarrow> bool" where
  "tested file a lines e \<longleftrightarrow>
     (\<exists>mid def post t. lines = mid @ def # post \<and>
        list_all (\<lambda>l. annotation l = None \<and> test_name l = None \<and> passed_over l) mid \<and>
        annotation def = None \<and> test_name def = Some t \<and> e = a @ [(''test'', t), (''file'', file)])"

definition annotated :: "string \<Rightarrow> string list \<Rightarrow> fields \<Rightarrow> bool" where
  "annotated file lines e \<longleftrightarrow> (\<exists>pre ann rest a. lines = pre @ ann # rest \<and> annotation ann = Some a \<and> tested file a rest e)"

lemma tested_Cons:
  "tested file a (l # ls) e \<longleftrightarrow>
     annotation l = None \<and>
     (case test_name l of Some t \<Rightarrow> e = a @ [(''test'', t), (''file'', file)] | None \<Rightarrow> passed_over l \<and> tested file a ls e)"
proof
  assume "tested file a (l # ls) e"
  then obtain mid def post t where d: "l # ls = mid @ def # post"
      "list_all (\<lambda>l. annotation l = None \<and> test_name l = None \<and> passed_over l) mid"
      "annotation def = None" "test_name def = Some t" "e = a @ [(''test'', t), (''file'', file)]"
    by (auto simp: tested_def)
  show "annotation l = None \<and>
     (case test_name l of Some t \<Rightarrow> e = a @ [(''test'', t), (''file'', file)] | None \<Rightarrow> passed_over l \<and> tested file a ls e)"
    using d by (cases mid) (auto simp: tested_def)
next
  assume r: "annotation l = None \<and>
     (case test_name l of Some t \<Rightarrow> e = a @ [(''test'', t), (''file'', file)] | None \<Rightarrow> passed_over l \<and> tested file a ls e)"
  show "tested file a (l # ls) e"
  proof (cases "test_name l")
    case None
    then obtain mid def post t where d: "ls = mid @ def # post"
        "list_all (\<lambda>l. annotation l = None \<and> test_name l = None \<and> passed_over l) mid"
        "annotation def = None" "test_name def = Some t" "e = a @ [(''test'', t), (''file'', file)]"
      using r by (auto simp: tested_def)
    then have "l # ls = (l # mid) @ def # post"
        "list_all (\<lambda>l. annotation l = None \<and> test_name l = None \<and> passed_over l) (l # mid)"
      using r None by auto
    then show ?thesis unfolding tested_def using d(3-5) by blast
  next
    case (Some t)
    then have "e = a @ [(''test'', t), (''file'', file)]" using r by auto
    with Some r show ?thesis
      unfolding tested_def by (intro exI [of _ "[]"] exI [of _ l] exI [of _ ls] exI [of _ t]) simp
  qed
qed

lemma annotated_Cons:
  "annotated file (l # ls) e \<longleftrightarrow> (\<exists>a. annotation l = Some a \<and> tested file a ls e) \<or> annotated file ls e"
proof
  assume "annotated file (l # ls) e"
  then obtain pre ann rest a where "l # ls = pre @ ann # rest" "annotation ann = Some a" "tested file a rest e"
    by (auto simp: annotated_def)
  then show "(\<exists>a. annotation l = Some a \<and> tested file a ls e) \<or> annotated file ls e"
    by (cases pre) (auto simp: annotated_def)
qed (auto simp: annotated_def; metis append_Cons append_Nil)+

lemma harvest_lines_iff:
  "e \<in> set (harvest_lines file pending lines) \<longleftrightarrow>
     (\<exists>a. pending = Some a \<and> tested file a lines e) \<or> annotated file lines e"
proof (induction lines arbitrary: pending)
  case Nil
  then show ?case by (simp add: tested_def annotated_def)
next
  case (Cons line lines)
  then show ?case
    by (cases "annotation line"; cases pending; cases "test_name line") (auto simp: tested_Cons annotated_Cons)
qed

text \<open>The catalog holds exactly the annotated tests: an entry for every annotation in a test file behind
  which, after blank lines and other comments only, a test function is defined, and no other.\<close>

theorem harvest_exactly_annotated:
  "e \<in> set (harvest_invariants files w) \<longleftrightarrow>
     (\<exists>p t. p \<in> set files \<and> test_file p \<and> read_file p w = Some t \<and> annotated p (splitlines t) e)"
  by (force simp: harvest_invariants_def harvest_lines_iff split: option.splits)

end
