(* ===== verification/Snapshots.thy ===== *)
theory Snapshots
  imports Replays
begin

text \<open>
  The payloads of \<open>nightclaw_bridge/runtime.py\<close> that describe the present: the state replay of the main
  page, its restriction to a project, and the snapshot of the sessions page. Both join the event log with the
  session registry, the closes of the audit log and the session close artifacts. A row is a dict; its
  token counts and costs are left out, its model and its text of tokens are not. Time stamps of rows that
  are sorted are texts (a number raises here where Python could compare two of them).
\<close>

type_synonym row = "(string \<times> pyval) list"

definition vput :: "string \<Rightarrow> pyval \<Rightarrow> pyval \<Rightarrow> pyval" where
  "vput k v d = VDict (dput (VStr k) v (items d))"

definition set_prov :: "string \<Rightarrow> string \<Rightarrow> row \<Rightarrow> row" where
  "set_prov k v row = dput ''provenance'' (vput k (VStr v) (dget_or (vdict []) ''provenance'' row)) row"

definition row_truth :: "string \<Rightarrow> row \<Rightarrow> bool" where
  "row_truth k row \<longleftrightarrow> py_truth (dget_or VNone k row)"

section \<open>The event log\<close>

record live_scan =
  ls_rows :: "(pyval \<times> row) list"
  ls_steps :: "shown_step list"
  ls_run :: "pyval option"              \<comment> \<open>the run that is open\<close>
  ls_session :: "row option"
  ls_last :: "(pyval \<times> pyval) list"     \<comment> \<open>the last time stamp of a run\<close>

definition first_row :: "event \<Rightarrow> row" where
  "first_row ev =
     [(''run_id'', or_empty (map_of ev ''run_id'')), (''agent_type'', por (ev_get ''session'' ev) (VStr ''worker'')),
      (''outcome'', VStr ''running''), (''ts'', or_empty (map_of ev ''t_emitted'')), (''has_t0'', VBool False),
      (''saw_t9'', VBool False),
      (''provenance'', vdict [(''row'', VStr ''telemetry''), (''outcome'', VStr ''telemetry_open_or_stale''),
                             (''project_slug'', VStr ''unknown'')])]"

definition with_slug :: "event \<Rightarrow> row \<Rightarrow> row" where
  "with_slug ev row = set_prov ''project_slug'' ''telemetry'' (dput ''project_slug'' (ev_get ''slug'' ev) row)"

definition clean_exit :: "event \<Rightarrow> bool" where
  "clean_exit ev \<longleftrightarrow> (case map_of ev ''exit_code'' of None \<Rightarrow> True | Some v \<Rightarrow> py_eq v (VInt 0) \<or> v = VNone)"

definition live_row :: "event \<Rightarrow> row \<Rightarrow> row" where
  "live_row ev row0 =
     (let tier = or_empty (map_of ev ''tier''); slug = ev_get ''slug'' ev;
          row1 = (if py_truth slug \<and> \<not> row_truth ''project_slug'' row0 then with_slug ev row0 else row0);
          row2 = (if tier = VStr ''T0'' \<and> is_engine_run (or_empty (map_of ev ''run_id'')) then
                    (let r = set_prov ''row'' ''telemetry'' (dput ''ts'' (or_empty (map_of ev ''t_emitted''))
                               (dput ''has_t0'' (VBool True) row1))
                     in if py_truth slug then with_slug ev r else r)
                  else row1)
      in if tier = VStr ''T9''
         then set_prov ''outcome'' ''telemetry_t9''
                (dput ''outcome'' (VStr (if clean_exit ev then ''clean'' else ''crash'')) (dput ''saw_t9'' (VBool True) row2))
         else row2)"

definition open_session :: "event \<Rightarrow> row" where
  "open_session ev =
     [(''run_id'', or_empty (map_of ev ''run_id'')), (''agent_type'', por (ev_get ''session'' ev) (VStr ''worker'')),
      (''ts'', or_empty (map_of ev ''t_emitted'')), (''project_slug'', ev_get ''slug'' ev),
      (''provenance'', vdict [(''row'', VStr ''telemetry''),
                             (''project_slug'', VStr (if py_truth (ev_get ''slug'' ev) then ''telemetry'' else ''unknown''))])]"

definition live_event :: "event \<Rightarrow> live_scan \<Rightarrow> py_exc + live_scan" where
  "live_event ev s =
     (let run = or_empty (map_of ev ''run_id''); tier = or_empty (map_of ev ''tier''); ts = or_empty (map_of ev ''t_emitted'') in
      if ev_get ''type'' ev \<noteq> VStr ''opsstepevent'' \<or> \<not> py_truth run then Inr s
      else if \<not> hashable run then Inl TypeError
      else rbind (tier_to_step tier) (\<lambda>st.
        let opens = (tier = VStr ''T0'' \<and> is_engine_run run);
            cur = (if opens then Some run else ls_run s); ses = (if opens then Some (open_session ev) else ls_session s);
            closes = (tier = VStr ''T9'' \<and> cur \<noteq> None \<and> py_eq (the cur) run)
        in Inr \<lparr>ls_rows = pupd run (first_row ev) (live_row ev) (ls_rows s),
                ls_steps = ls_steps s @ [[(''step'', st), (''tier'', tier), (''cmd'', or_empty (map_of ev ''cmd'')), (''ts'', ts),
                                          (''run_id'', run)]],
                ls_run = (if closes then None else cur), ls_session = (if closes then None else ses),
                ls_last = pupd run (VStr []) (\<lambda>old. por ts old) (ls_last s)\<rparr>))"

definition scan_live :: "event list \<Rightarrow> py_exc + live_scan" where
  "scan_live evs = run_log live_event evs \<lparr>ls_rows = [], ls_steps = [], ls_run = None, ls_session = None, ls_last = []\<rparr>"

section \<open>The session registry\<close>

record evidence =
  ec_closes :: "(string \<times> string \<times> string) list"
  ec_artifacts :: "(string \<times> fields) list"
  ec_known :: "string list"

definition evidence_of :: "replay_env \<Rightarrow> workspace \<Rightarrow> evidence" where
  "evidence_of env w =
     \<lparr>ec_closes = parse_audit_session_closes ''audit/AUDIT-LOG.md'' w,
      ec_artifacts = or_nothing [] (parse_session_close_artifacts (re_artifacts env)),
      ec_known = list_project_slugs (re_dirs env)\<rparr>"

definition registry_rows :: "workspace \<Rightarrow> session_row list" where
  "registry_rows w =
     filter (\<lambda>r. startswith (sn_run r) ''RUN-'') (or_nothing [] (parse_session_registry 200 ''audit/SESSION-REGISTRY.md'' w))"

definition artifact_for :: "evidence \<Rightarrow> session_row \<Rightarrow> fields" where
  "artifact_for ec r = dget_or [] (sn_run r) (ec_artifacts ec)"

definition is_closed_run :: "evidence \<Rightarrow> session_row \<Rightarrow> bool" where
  "is_closed_run ec r \<longleftrightarrow> map_of (ec_closes ec) (sn_run r) \<noteq> None"

text \<open>The time of the artifact or else of the audit log.\<close>

definition close_time :: "evidence \<Rightarrow> session_row \<Rightarrow> string" where
  "close_time ec r =
     text_or (map_of (artifact_for ec r) ''ts'')
       (case map_of (ec_closes ec) (sn_run r) of None \<Rightarrow> [] | Some (result, ts) \<Rightarrow> ts)"

text \<open>\<open>_backfill_session_close_fields\<close>: the artifact fills what is missing or empty.\<close>

definition backfill :: "fields \<Rightarrow> row \<Rightarrow> row" where
  "backfill art row =
     foldl (\<lambda>d k. if dget_or [] k art \<noteq> [] \<and> dget_or VNone k d \<in> {VNone, VStr []}
                 then dput k (VStr (dget_or [] k art)) d else d)
       row [''model'', ''tokens'', ''session_key'']"

text \<open>The rest of both loops: model and tokens of the registry, the artifact, and a project if none is known.\<close>

definition complete_row :: "evidence \<Rightarrow> session_row \<Rightarrow> row \<Rightarrow> row" where
  "complete_row ec r row0 =
     (let art = artifact_for ec r;
          row1 = backfill art (dsetdefault ''tokens'' (VStr (sn_tokens r)) (dsetdefault ''model'' (VStr (sn_model r)) row0));
          row2 = (if dget_or [] ''project_slug'' art \<noteq> [] \<and> \<not> row_truth ''project_slug'' row1
                  then set_prov ''project_slug'' ''session_close_artifact''
                         (dput ''project_slug'' (VStr (dget_or [] ''project_slug'' art)) row1)
                  else row1);
          inferred = infer_project_slug [sn_outcome r, dget_or [] ''memory_entry'' art, dget_or [] ''session_entry'' art]
                       (ec_known ec)
      in if \<not> row_truth ''project_slug'' row2 \<and> inferred \<noteq> []
         then set_prov ''project_slug'' ''inferred'' (dput ''project_slug'' (VStr inferred) row2) else row2)"

definition registry_outcome :: "evidence \<Rightarrow> session_row \<Rightarrow> pyval" where
  "registry_outcome ec r = VStr (if is_closed_run ec r then ''clean'' else ''completed_no_t9'')"

definition registry_prov :: "evidence \<Rightarrow> session_row \<Rightarrow> (string \<times> pyval) list" where
  "registry_prov ec r =
     [(''row'', VStr ''session_registry''),
      (''outcome'', VStr (if is_closed_run ec r then ''audit_session_close'' else ''session_registry'')),
      (''project_slug'', VStr ''unknown'')]"

definition closed_row :: "evidence \<Rightarrow> session_row \<Rightarrow> row \<Rightarrow> row" where
  "closed_row ec r row =
     (if is_closed_run ec r then set_prov ''outcome'' ''audit_session_close'' (dput ''outcome'' (VStr ''clean'') row) else row)"

definition enriched_row :: "evidence \<Rightarrow> session_row \<Rightarrow> row option \<Rightarrow> row" where
  "enriched_row ec r old =
     complete_row ec r
       (case old of
          None \<Rightarrow>
            [(''run_id'', VStr (sn_run r)), (''agent_type'', VStr (text_or (Some (sn_agent r)) ''worker'')),
             (''outcome'', registry_outcome ec r), (''ts'', VStr (text_or (Some (close_time ec r)) (sn_ts r))),
             (''has_t0'', VBool False), (''provenance'', vdict (registry_prov ec r))]
        | Some row \<Rightarrow>
            (let row1 = closed_row ec r row in
             if close_time ec r = [] then row1 else dput ''ts'' (VStr (close_time ec r)) row1))"

text \<open>The project of the open session is completed with that of its row.\<close>

definition session_with_row :: "row \<Rightarrow> row option \<Rightarrow> row option" where
  "session_with_row row ses =
     (case ses of
        None \<Rightarrow> None
      | Some s \<Rightarrow>
          if dget_or VNone ''run_id'' s = dget_or VNone ''run_id'' row \<and> row_truth ''project_slug'' row \<and>
             \<not> row_truth ''project_slug'' s
          then Some (dput ''provenance''
                 (vput ''project_slug'' (vget_or (VStr ''unknown'') ''project_slug'' (dget_or (vdict []) ''provenance'' row))
                   (dget_or (vdict []) ''provenance'' s))
                 (dput ''project_slug'' (dget_or VNone ''project_slug'' row) s))
          else Some s)"

definition add_registry_row :: "evidence \<Rightarrow> session_row \<Rightarrow> live_scan \<Rightarrow> live_scan" where
  "add_registry_row ec r s =
     (let run = VStr (sn_run r); row = enriched_row ec r (plookup run (ls_rows s)) in
      s\<lparr>ls_rows := pupd run row (\<lambda>_. row) (ls_rows s), ls_session := session_with_row row (ls_session s)\<rparr>)"

definition add_registry :: "evidence \<Rightarrow> session_row list \<Rightarrow> live_scan \<Rightarrow> live_scan" where
  "add_registry ec rs s = foldl (\<lambda>s r. add_registry_row ec r s) s rs"


section \<open>The state replay\<close>

definition drop_key :: "string \<Rightarrow> row \<Rightarrow> row" where
  "drop_key k row = filter (\<lambda>(k', v). k' \<noteq> k) row"

text \<open>The outcome of a row is classified again, from its last time stamp.\<close>

definition final_row :: "pydt \<Rightarrow> (pyval \<times> pyval) list \<Rightarrow> row \<Rightarrow> row" where
  "final_row now lasts row =
     (let run = dget_or (VStr []) ''run_id'' row; old = dget_or VNone ''outcome'' row;
          last = (case plookup run lasts of None \<Rightarrow> dget_or (VStr []) ''ts'' row | Some t \<Rightarrow> t);
          ec = (if old = VStr ''clean'' then VInt 0 else if old = VStr ''crash'' then VInt 1 else VNone)
      in drop_key ''saw_t9''
           (dput ''outcome'' (VStr (classify_run_outcome now last (row_truth ''saw_t9'' row) ec)) row))"

text \<open>\<open>(row.get(key) or "").startswith("RUN-")\<close>.\<close>

definition engine_row :: "row \<Rightarrow> py_exc + bool" where
  "engine_row row =
     (case por (dget_or VNone ''run_id'' row) (VStr []) of VStr s \<Rightarrow> Inr (startswith s ''RUN-'') | _ \<Rightarrow> Inl AttributeError)"

definition rfilter :: "('a \<Rightarrow> 'e + bool) \<Rightarrow> 'a list \<Rightarrow> 'e + 'a list" where
  "rfilter P xs = rbind (rmap (\<lambda>x. rbind (P x) (\<lambda>b. Inr (b, x))) xs) (\<lambda>bs. Inr (map snd (filter fst bs)))"

text \<open>A stable sort by texts.\<close>

definition sort_rows :: "string \<Rightarrow> row list \<Rightarrow> py_exc + row list" where
  "sort_rows k rows =
     (if length rows > 1 \<and> \<not> list_all (\<lambda>r. type_name (dget_or (VStr []) k r) = ''str'') rows then Inl TypeError
      else Inr (sort_key (\<lambda>r. py_str (dget_or (VStr []) k r)) rows))"

definition session_history :: "pydt \<Rightarrow> live_scan \<Rightarrow> py_exc + row list" where
  "session_history now s =
     rbind (rfilter engine_row (map snd (ls_rows s))) (\<lambda>rows.
     rbind (sort_rows ''run_id'' (map (final_row now (ls_last s)) rows)) (sort_rows ''ts''))"

text \<open>The project whose card is shown: that of the open session, or the one the table resolves to.\<close>

definition shown_project :: "live_scan \<Rightarrow> workspace \<Rightarrow> pyval" where
  "shown_project s w =
     (case ls_session s of
        Some ses \<Rightarrow>
          if row_truth ''project_slug'' ses then dget_or VNone ''project_slug'' ses
          else (case resolve_slug (parse_active_projects ''ACTIVE-PROJECTS.md'' w) of None \<Rightarrow> VNone | Some t \<Rightarrow> VStr t)
      | None \<Rightarrow> (case resolve_slug (parse_active_projects ''ACTIVE-PROJECTS.md'' w) of None \<Rightarrow> VNone | Some t \<Rightarrow> VStr t))"

definition card_of :: "replay_env \<Rightarrow> pyval \<Rightarrow> workspace \<Rightarrow> lr_view option" where
  "card_of env slug w =
     (case slug of VStr t \<Rightarrow> if t = [] then None else extract_longrunner (re_ops env t) t w | _ \<Rightarrow> None)"

definition state_items :: "replay_env \<Rightarrow> live_scan \<Rightarrow> row list \<Rightarrow> workspace \<Rightarrow> (string \<times> pyval) list" where
  "state_items env s history w =
     [(''event_type'', VStr ''state_replay''), (''session_history'', VList (map vdict history)),
      (''step_history'',
       vsteps (case ls_run s of None \<Rightarrow> []
         | Some run \<Rightarrow> filter (\<lambda>st. py_eq (dget_or VNone ''run_id'' st) run) (ls_steps s))),
      (''notifications'', VList (map vfields (parse_notifications 40 ''NOTIFICATIONS.md'' w))),
      (''change_log'', VList (map vfields (parse_change_log 30 ''audit/CHANGE-LOG.md'' w))),
      (''bundle_history'', VList (map vbundle (parse_bundle_history 10 ''audit/AUDIT-LOG.md'' w))),
      (''active_projects'', VList (map (\<lambda>r. vdict (map (\<lambda>k. (k, VStr (dget_or [] k r))) [''slug'', ''status'', ''priority'']))
                                    (parse_active_projects ''ACTIVE-PROJECTS.md'' w)))] @
     (case card_of env (shown_project s w) w of None \<Rightarrow> [] | Some lr \<Rightarrow> [(''longrunner'', vcard lr)]) @
     (case ls_session s of None \<Rightarrow> [] | Some ses \<Rightarrow> [(''session'', vdict ses)])"

definition state_replay_payload :: "replay_env \<Rightarrow> workspace \<Rightarrow> py_exc + (string \<times> pyval) list" where
  "state_replay_payload env w =
     rbind (scan_live (re_events env)) (\<lambda>s0.
       let s = add_registry (evidence_of env w) (registry_rows w) s0 in
       rbind (session_history (re_now env) s) (\<lambda>history.
         attach_scope_context w ''live'' [] (state_items env s history w)))"

section \<open>The snapshot of a project\<close>

definition rows_of :: "string \<Rightarrow> (string \<times> pyval) list \<Rightarrow> pyval list" where
  "rows_of k p = (case dget_or (VList []) k p of VList vs \<Rightarrow> vs | _ \<Rightarrow> [])"

text \<open>Rows of shared files count where the slug occurs in their field or values.\<close>

definition change_of_project :: "string \<Rightarrow> fields \<Rightarrow> bool" where
  "change_of_project slug row \<longleftrightarrow>
     contains (''PROJECTS/'' @ slug @ ''/'') (dget_or [] ''file'' row) \<or> contains slug (dget_or [] ''field'' row) \<or>
     contains slug (dget_or [] ''old_val'' row) \<or> contains slug (dget_or [] ''new_val'' row)"

definition project_items :: "replay_env \<Rightarrow> string \<Rightarrow> (string \<times> pyval) list \<Rightarrow> workspace \<Rightarrow> (string \<times> pyval) list" where
  "project_items env slug p0 w =
     (let history = filter (\<lambda>v. por (vget0 ''project_slug'' v) (VStr []) = VStr slug) (rows_of ''session_history'' p0);
          runs = filter py_truth (map (vget0 ''run_id'') history);
          other = (let t = vget0 ''project_slug'' (dget_or VNone ''session'' p0) in py_truth t \<and> t \<noteq> VStr slug);
          p1 = dput ''session_history'' (VList history)
                 (dput ''project_slug'' (VStr slug) (dput ''event_type'' (VStr ''project_snapshot'') p0));
          p2 = (if other then dput ''step_history'' (VList []) (dput ''session'' VNone p1) else p1);
          p3 = dput ''notifications''
                 (VList (filter (\<lambda>v. por (vget0 ''project'' v) (VStr []) \<in> {VStr [], VStr slug}) (rows_of ''notifications'' p0))) p2;
          p4 = dput ''change_log''
                 (VList (map vfields (filter (change_of_project slug) (parse_change_log 200 ''audit/CHANGE-LOG.md'' w)))) p3;
          p5 = dput ''bundle_history''
                 (VList (map vbundle (filter (\<lambda>b. br_run b = [] \<or> VStr (br_run b) \<in> set runs)
                    (parse_bundle_history 200 ''audit/AUDIT-LOG.md'' w)))) p4
      in case extract_longrunner (re_ops env slug) slug w of
           None \<Rightarrow> p5
         | Some lr \<Rightarrow> dput ''longrunner'' (vcard lr) p5)"

definition project_snapshot_payload :: "replay_env \<Rightarrow> string \<Rightarrow> workspace \<Rightarrow> py_exc + (string \<times> pyval) list" where
  "project_snapshot_payload env slug w =
     rbind (state_replay_payload env w) (\<lambda>p. attach_scope_context w ''project'' slug (project_items env slug p w))"

section \<open>The snapshot of the sessions page\<close>

definition session_row_provenance :: "run_row \<Rightarrow> pyval" where
  "session_row_provenance r =
     vdict [(''row'', VStr (if rw_has_t0 r \<or> py_truth (rw_ts r) then ''telemetry'' else ''unknown'')),
            (''outcome'', VStr (if rw_saw_t9 r then ''telemetry_t9'' else ''telemetry_open_or_stale'')),
            (''project_slug'',
             VStr (if py_truth (case rw_project_slug r of None \<Rightarrow> VNone | Some t \<Rightarrow> t) then ''telemetry'' else ''unknown'')),
            (''summary'', VStr ''none'')]"

text \<open>A run of the fold as a dict; only the rows of engine runs are completed.\<close>

definition folded_row :: "run_row \<Rightarrow> row" where
  "folded_row r =
     [(''runid'', rw_runid r), (''agenttype'', rw_agenttype r), (''mutationcount'', VInt (rw_mutationcount r)),
      (''ts'', rw_ts r), (''has_t0'', VBool (rw_has_t0 r))] @
     (case rw_project_slug r of None \<Rightarrow> [] | Some t \<Rightarrow> [(''project_slug'', t)])"

definition telemetry_row :: "pydt \<Rightarrow> run_row \<Rightarrow> row" where
  "telemetry_row now r =
     folded_row r @
     [(''provenance'', session_row_provenance r),
      (''outcome'', VStr (classify_run_outcome now (rw_ts r) (rw_saw_t9 r) (rw_last_exit_code r)))]"

definition summary_source :: "session_row \<Rightarrow> string" where
  "summary_source r = (if sn_outcome r = [] then ''none'' else ''session_registry'')"

definition session_page_row :: "evidence \<Rightarrow> session_row \<Rightarrow> row option \<Rightarrow> row" where
  "session_page_row ec r old =
     complete_row ec r
       (case old of
          None \<Rightarrow>
            [(''runid'', VStr (sn_run r)), (''agenttype'', VStr (text_or (Some (sn_agent r)) ''worker'')),
             (''outcome'', registry_outcome ec r), (''mutationcount'', VInt 0),
             (''ts'', VStr (text_or (Some (close_time ec r)) (sn_ts r))), (''summary'', VStr (sn_outcome r)),
             (''has_t0'', VBool False),
             (''provenance'', vdict (registry_prov ec r @ [(''summary'', VStr (summary_source r))]))]
        | Some row \<Rightarrow>
            (let row1 = dsetdefault ''summary'' (VStr (sn_outcome r)) row;
                 row2 = (if sn_outcome r = [] then row1 else set_prov ''summary'' ''session_registry'' row1);
                 row3 = closed_row ec r row2
             in dput ''ts'' (if close_time ec r = [] then dget_or (VStr []) ''ts'' row3 else VStr (close_time ec r)) row3))"

definition add_page_row :: "evidence \<Rightarrow> session_row \<Rightarrow> (pyval \<times> row) list \<Rightarrow> (pyval \<times> row) list" where
  "add_page_row ec r rows =
     (let run = VStr (sn_run r); row = session_page_row ec r (plookup run rows) in pupd run row (\<lambda>_. row) rows)"

definition sessions_page :: "replay_env \<Rightarrow> workspace \<Rightarrow> py_exc + row list" where
  "sessions_page env w =
     rbind (fold_eventlog_views (re_events env)) (\<lambda>v.
       if \<not> list_all (\<lambda>(run, r). type_name run = ''str'') (vw_runs v) then Inl AttributeError
       else
         (let seen = map (\<lambda>(run, r). (run, if is_engine_run run then telemetry_row (re_now env) r else folded_row r)) (vw_runs v);
              rows = foldl (\<lambda>d r. add_page_row (evidence_of env w) r d) seen (registry_rows w)
          in sort_rows ''ts'' (map snd (filter (\<lambda>(run, r). is_engine_run run) rows))))"

text \<open>\<open>scr\<close> is the last grid of the rules, \<open>t\<close> the time the payload is written; replays are not included.\<close>

definition sessions_snapshot_payload ::
  "replay_env \<Rightarrow> nat \<Rightarrow> pyval \<Rightarrow> string \<Rightarrow> workspace \<Rightarrow> py_exc + (string \<times> pyval) list" where
  "sessions_snapshot_payload env port scr t w =
     rbind (sessions_page env w) (\<lambda>sessions.
     rbind (fold_eventlog_views (re_events env)) (\<lambda>v.
       attach_scope_context w ''sessions'' []
         [(''event_type'', VStr ''sessions_snapshot''), (''type'', VStr ''sessions_snapshot''),
          (''sessions'', VList (map vdict sessions)),
          (''step_times'', VDict (map (\<lambda>(run, ts). (run, VList ts)) (vw_times v))), (''scrlast'', scr),
          (''bridgeport'', VInt (int port)), (''t_emitted'', VStr t)]))"

end
