(* ===== verification/SnapshotFacts.thy ===== *)
theory SnapshotFacts
  imports Snapshots RewindFacts
begin

text \<open>
  What the snapshots contain. \<open>plookup\<close> and \<open>pupd\<close> over texts as keys are the dicts of both
  functions; a row keeps its run id through everything that is filled in.
\<close>

section \<open>Dicts of rows\<close>

lemma pupd_keys_new: "\<not> list_ex (\<lambda>(k', v). py_eq k' k) d \<Longrightarrow> pupd k d0 f d = d @ [(k, f d0)]"
  by (induction d) auto

lemma pupd_keys_old: "list_ex (\<lambda>(k', v). py_eq k' k) d \<Longrightarrow> map fst (pupd k d0 f d) = map fst d"
  by (induction d) auto

lemma pupd_keys:
  "map fst (pupd k d0 f d) = (if list_ex (\<lambda>(k', v). py_eq k' k) d then map fst d else map fst d @ [k])"
  using pupd_keys_new [of k d d0 f] pupd_keys_old [of k d d0 f] by simp

lemma pupd_distinct: "distinct (map fst d) \<Longrightarrow> distinct (map fst (pupd k d0 f d))"
  by (auto simp: pupd_keys list_ex_iff)

lemma pupd_mem:
  "(k', v') \<in> set (pupd k d0 f d) \<Longrightarrow>
    (k', v') \<in> set d \<or> (py_eq k' k \<and> (\<exists>v. (k', v) \<in> set d \<and> v' = f v)) \<or> (k' = k \<and> v' = f d0)"
  by (induction d) (auto split: if_splits)

lemma pupd_text_keys: "set (map fst (pupd (VStr s) d0 f d)) = insert (VStr s) (set (map fst d))"
proof (induction d)
  case (Cons p d)
  then show ?case by (cases p) auto
qed simp

lemma plookup_mem: "plookup (VStr s) d = Some v \<Longrightarrow> (VStr s, v) \<in> set d"
  by (induction d) (auto split: if_splits)

lemma mem_plookup: "(VStr s, v) \<in> set d \<Longrightarrow> distinct (map fst d) \<Longrightarrow> plookup (VStr s) d = Some v"
  by (induction d) force+

section \<open>Fields that are kept\<close>

lemma dget_dput [simp]: "dget_or v0 k (dput k' v d) = (if k = k' then v else dget_or v0 k d)"
  by (simp add: dget_or_def)

lemma dget_dsetdefault [simp]: "k \<noteq> k' \<Longrightarrow> dget_or v0 k (dsetdefault k' v d) = dget_or v0 k d"
  by (simp add: dget_or_def map_of_dsetdefault split: option.split)

lemma dget_set_prov [simp]: "k \<noteq> ''provenance'' \<Longrightarrow> dget_or v0 k (set_prov k' v d) = dget_or v0 k d"
  by (simp add: set_prov_def)

lemma dget_backfill: "k \<notin> {''model'', ''tokens'', ''session_key''} \<Longrightarrow> dget_or v0 k (backfill art d) = dget_or v0 k d"
  by (simp add: backfill_def)

lemma dget_complete_row:
  "k \<notin> {''model'', ''tokens'', ''session_key'', ''project_slug'', ''provenance''} \<Longrightarrow>
    dget_or v0 k (complete_row ec r row) = dget_or v0 k row"
  by (simp add: complete_row_def Let_def dget_backfill)

lemma dget_closed_row:
  "k \<noteq> ''provenance'' \<Longrightarrow>
    dget_or v0 k (closed_row ec r row) = (if k = ''outcome'' \<and> is_closed_run ec r then VStr ''clean'' else dget_or v0 k row)"
  by (simp add: closed_row_def)

lemma dget_drop_key: "k \<noteq> k' \<Longrightarrow> dget_or v0 k (drop_key k' d) = dget_or v0 k d"
proof -
  have "k \<noteq> k' \<Longrightarrow> map_of (drop_key k' d) k = map_of d k"
    by (induction d) (auto simp: drop_key_def)
  then show "k \<noteq> k' \<Longrightarrow> dget_or v0 k (drop_key k' d) = dget_or v0 k d" by (simp add: dget_or_def)
qed

lemma sort_rows_set: "sort_rows k rows = Inr rows' \<Longrightarrow> set rows' = set rows"
  by (auto simp: sort_rows_def split: if_splits)

lemma sort_rows_distinct: "sort_rows k rows = Inr rows' \<Longrightarrow> distinct (map f rows') \<longleftrightarrow> distinct (map f rows)"
  by (auto simp: sort_rows_def distinct_map split: if_splits)

section \<open>The sessions page\<close>

text \<open>The rows of the fold carry the key of their run.\<close>

lemma run_log_keeps:
  assumes "run_log f es s = Inr s'" "P s" "\<And>e s s'. e \<in> set es \<Longrightarrow> P s \<Longrightarrow> f e s = Inr s' \<Longrightarrow> P s'"
  shows "P s'"
  using assms
proof (induction es arbitrary: s)
  case (Cons e es)
  obtain s1 where s1: "f e s = Inr s1" "run_log f es s1 = Inr s'"
    using Cons.prems(1) by (auto simp: rbind_Inr_iff)
  show ?case using Cons.IH [OF s1(2)] Cons.prems(2,3) s1(1) by auto
qed simp

definition keyed_runs :: "views \<Rightarrow> bool" where
  "keyed_runs v \<longleftrightarrow> distinct (map fst (vw_runs v)) \<and> (\<forall>k r. (k, r) \<in> set (vw_runs v) \<longrightarrow> rw_runid r = k)"

lemma fold_event_keyed:
  assumes "keyed_runs v" "fold_event ev v = Inr v'"
  shows "keyed_runs v'"
proof -
  have runs: "vw_runs v' = vw_runs v \<or> vw_runs v' = pupd (ev_get ''run_id'' ev) (new_row ev) (fold_row ev) (vw_runs v)"
    using assms(2) by (auto simp: fold_event_def Let_def split: if_splits)
  have kept: "rw_runid (fold_row ev r) = rw_runid r" for r
    by (simp add: fold_row_def Let_def)
  have new: "rw_runid (new_row ev) = ev_get ''run_id'' ev" by (simp add: new_row_def)
  from runs show ?thesis
    using assms(1) by (auto simp: keyed_runs_def kept new intro: pupd_distinct dest!: pupd_mem)
qed

lemma fold_log_keyed:
  assumes "fold_eventlog_views evs = Inr v"
  shows "keyed_runs v"
proof (rule run_log_keeps [OF assms [unfolded fold_eventlog_views_def]])
  show "keyed_runs no_views" by (simp add: keyed_runs_def no_views_def)
qed (rule fold_event_keyed)

definition page_rows :: "(pyval \<times> row) list \<Rightarrow> bool" where
  "page_rows rows \<longleftrightarrow> distinct (map fst rows) \<and> (\<forall>k row. (k, row) \<in> set rows \<longrightarrow> dget_or VNone ''runid'' row = k)"

lemma page_row_runid:
  assumes "\<forall>row. old = Some row \<longrightarrow> dget_or VNone ''runid'' row = VStr (sn_run r)"
  shows "dget_or VNone ''runid'' (session_page_row ec r old) = VStr (sn_run r)"
  using assms by (cases old) (simp_all add: session_page_row_def dget_complete_row dget_closed_row Let_def, simp add: dget_or_def)

lemma add_page_row_keyed:
  assumes "page_rows rows"
  shows "page_rows (add_page_row ec r rows) \<and>
    set (map fst (add_page_row ec r rows)) = insert (VStr (sn_run r)) (set (map fst rows))"
proof -
  let ?row = "session_page_row ec r (plookup (VStr (sn_run r)) rows)"
  have "dget_or VNone ''runid'' ?row = VStr (sn_run r)"
    using assms plookup_mem [of "sn_run r" rows] by (intro page_row_runid) (auto simp: page_rows_def)
  then show ?thesis
    using assms by (auto simp: page_rows_def add_page_row_def Let_def pupd_distinct pupd_text_keys [simplified] dest!: pupd_mem)
qed

lemma add_page_rows_keyed:
  assumes "page_rows rows"
  shows "page_rows (foldl (\<lambda>d r. add_page_row ec r d) rows rs) \<and>
    set (map fst (foldl (\<lambda>d r. add_page_row ec r d) rows rs)) = (VStr \<circ> sn_run) ` set rs \<union> set (map fst rows)"
  using assms
proof (induction rs arbitrary: rows)
  case (Cons r rs)
  show ?case using Cons.IH [OF conjunct1 [OF add_page_row_keyed [OF Cons.prems, of ec r]]]
      add_page_row_keyed [OF Cons.prems, of ec r] by auto
qed simp

definition fold_page :: "pydt \<Rightarrow> views \<Rightarrow> (pyval \<times> row) list" where
  "fold_page now v = map (\<lambda>(run, r). (run, if is_engine_run run then telemetry_row now r else folded_row r)) (vw_runs v)"

lemma fold_page_keys: "map fst (fold_page now v) = map fst (vw_runs v)"
  by (simp add: fold_page_def case_prod_beta)

lemma fold_page_keyed:
  assumes "fold_eventlog_views evs = Inr v"
  shows "page_rows (fold_page now v)"
proof -
  have "keyed_runs v" using assms by (rule fold_log_keyed)
  moreover have "dget_or VNone ''runid'' (telemetry_row now r) = rw_runid r" "dget_or VNone ''runid'' (folded_row r) = rw_runid r" for r
    by (simp_all add: telemetry_row_def folded_row_def dget_or_def)
  ultimately show ?thesis unfolding page_rows_def fold_page_keys by (auto simp: fold_page_def keyed_runs_def)
qed

lemma sessions_page_rows:
  assumes "sessions_page env w = Inr rows" "fold_eventlog_views (re_events env) = Inr v"
  shows "sort_rows ''ts'' (map snd (filter (\<lambda>(run, r). is_engine_run run)
    (foldl (\<lambda>d r. add_page_row (evidence_of env w) r d) (fold_page (re_now env) v) (registry_rows w)))) = Inr rows"
  using assms by (auto simp: sessions_page_def Let_def fold_page_def split: if_splits)


section \<open>The state replay\<close>

text \<open>The log has the last step of a run.\<close>

definition t9_run :: "event list \<Rightarrow> pyval \<Rightarrow> bool" where
  "t9_run evs run \<longleftrightarrow>
     (\<exists>ev \<in> set evs. or_empty (map_of ev ''tier'') = VStr ''T9'' \<and> py_eq run (or_empty (map_of ev ''run_id'')))"

definition live_ok :: "event list \<Rightarrow> live_scan \<Rightarrow> bool" where
  "live_ok evs s \<longleftrightarrow> (\<forall>k row. (k, row) \<in> set (ls_rows s) \<longrightarrow>
     dget_or VNone ''run_id'' row = k \<and> (row_truth ''saw_t9'' row \<longrightarrow> t9_run evs k))"

lemma dget_live_row:
  "dget_or VNone ''run_id'' (live_row ev row) = dget_or VNone ''run_id'' row"
  "dget_or VNone ''saw_t9'' (live_row ev row) =
     (if or_empty (map_of ev ''tier'') = VStr ''T9'' then VBool True else dget_or VNone ''saw_t9'' row)"
  by (auto simp: live_row_def Let_def with_slug_def)

lemma dget_first_row:
  "dget_or VNone ''run_id'' (first_row ev) = or_empty (map_of ev ''run_id'')"
  "dget_or VNone ''saw_t9'' (first_row ev) = VBool False"
  by (simp_all add: first_row_def dget_or_def)

lemma live_event_ok:
  assumes "ev \<in> set evs" "live_ok evs s" "live_event ev s = Inr s'"
  shows "live_ok evs s'"
proof -
  have "ls_rows s' = ls_rows s \<or> ls_rows s' = pupd (or_empty (map_of ev ''run_id'')) (first_row ev) (live_row ev) (ls_rows s)"
    using assms(3) by (auto simp: live_event_def Let_def rbind_Inr_iff split: if_splits)
  then show ?thesis
  proof
    assume rows: "ls_rows s' = pupd (or_empty (map_of ev ''run_id'')) (first_row ev) (live_row ev) (ls_rows s)"
    show ?thesis
      unfolding live_ok_def rows
    proof (intro allI impI)
      fix k row
      assume "(k, row) \<in> set (pupd (or_empty (map_of ev ''run_id'')) (first_row ev) (live_row ev) (ls_rows s))"
      from pupd_mem [OF this] show "dget_or VNone ''run_id'' row = k \<and> (row_truth ''saw_t9'' row \<longrightarrow> t9_run evs k)"
        using assms(1,2) by (auto simp: live_ok_def row_truth_def dget_live_row dget_first_row t9_run_def split: if_splits)
    qed
  qed (use assms(2) in \<open>simp add: live_ok_def\<close>)
qed

lemma scan_live_ok: "scan_live evs = Inr s \<Longrightarrow> live_ok evs s"
  unfolding scan_live_def by (erule run_log_keeps) (simp_all add: live_ok_def, simp_all flip: live_ok_def add: live_event_ok)

lemma enriched_row_kept:
  assumes "\<forall>row. old = Some row \<longrightarrow> dget_or VNone ''run_id'' row = VStr (sn_run r)"
  shows "dget_or VNone ''run_id'' (enriched_row ec r old) = VStr (sn_run r)"
    and "dget_or VNone ''saw_t9'' (enriched_row ec r old) = (case old of None \<Rightarrow> VNone | Some row \<Rightarrow> dget_or VNone ''saw_t9'' row)"
  using assms by (cases old; simp add: enriched_row_def dget_complete_row dget_closed_row Let_def; simp add: dget_or_def)+

lemma add_registry_row_ok:
  assumes "live_ok evs s"
  shows "live_ok evs (add_registry_row ec r s)"
proof -
  let ?old = "plookup (VStr (sn_run r)) (ls_rows s)"
  have old: "\<forall>row. ?old = Some row \<longrightarrow> dget_or VNone ''run_id'' row = VStr (sn_run r)"
    using assms plookup_mem by (fastforce simp: live_ok_def)
  have t9: "?old = Some row \<Longrightarrow> row_truth ''saw_t9'' row \<Longrightarrow> t9_run evs (VStr (sn_run r))" for row
    using assms plookup_mem by (fastforce simp: live_ok_def)
  have "row_truth ''saw_t9'' (enriched_row ec r ?old) \<Longrightarrow> t9_run evs (VStr (sn_run r))"
    using t9 enriched_row_kept(2) [OF old, of ec] by (auto simp: row_truth_def split: option.splits)
  then show ?thesis
    using assms by (auto simp: live_ok_def add_registry_row_def Let_def enriched_row_kept [OF old] dest!: pupd_mem)
qed

lemma add_registry_ok: "live_ok evs s \<Longrightarrow> live_ok evs (add_registry ec rs s)"
  unfolding add_registry_def by (induction rs arbitrary: s) (simp_all add: add_registry_row_ok)

lemma add_registry_keys:
  "fst ` set (ls_rows (add_registry ec rs s)) = (VStr \<circ> sn_run) ` set rs \<union> fst ` set (ls_rows s)"
  unfolding add_registry_def
proof (induction rs arbitrary: s)
  case (Cons r rs)
  have "fst ` set (ls_rows (add_registry_row ec r s)) = insert (VStr (sn_run r)) (fst ` set (ls_rows s))"
    using pupd_text_keys by (simp add: add_registry_row_def Let_def)
  then show ?case using Cons by auto
qed simp

lemma rfilter_set: "rfilter P xs = Inr ys \<Longrightarrow> set ys = {x \<in> set xs. P x = Inr True}"
  unfolding rfilter_def by (induction xs arbitrary: ys) (auto simp: rbind_Inr_iff split: if_splits)

lemma dget_final_row:
  "dget_or VNone ''run_id'' (final_row now lasts row) = dget_or VNone ''run_id'' row"
  "\<not> row_truth ''saw_t9'' row \<Longrightarrow>
     dget_or VNone ''outcome'' (final_row now lasts row) \<in> {VStr ''running'', VStr ''completed_no_t9''}"
  by (auto simp: final_row_def Let_def dget_drop_key classify_run_outcome_def)

lemma history_rows:
  assumes "session_history now s = Inr hist"
  shows "set hist = final_row now (ls_last s) ` {row \<in> snd ` set (ls_rows s). engine_row row = Inr True}"
proof -
  obtain xs ys where xs: "rfilter engine_row (map snd (ls_rows s)) = Inr xs"
      "sort_rows ''run_id'' (map (final_row now (ls_last s)) xs) = Inr ys" "sort_rows ''ts'' ys = Inr hist"
    using assms by (auto simp: session_history_def rbind_Inr_iff)
  show ?thesis using sort_rows_set [OF xs(2)] sort_rows_set [OF xs(3)] rfilter_set [OF xs(1)] by simp
qed

lemma attach_keeps:
  "attach_scope_context w mode selected kvs = Inr q \<Longrightarrow> k \<noteq> ''scope_context'' \<Longrightarrow> map_of q k = map_of kvs k"
  by (auto simp: attach_scope_context_def Let_def rbind_Inr_iff split: if_splits)

lemma state_history:
  assumes "state_replay_payload env w = Inr p"
  shows "\<exists>s hist. live_ok (re_events env) s \<and> (VStr \<circ> sn_run) ` set (registry_rows w) \<subseteq> fst ` set (ls_rows s) \<and>
    session_history (re_now env) s = Inr hist \<and> rows_of ''session_history'' p = map vdict hist"
proof -
  obtain s0 hist where s0: "scan_live (re_events env) = Inr s0"
      "session_history (re_now env) (add_registry (evidence_of env w) (registry_rows w) s0) = Inr hist"
      "attach_scope_context w ''live'' [] (state_items env (add_registry (evidence_of env w) (registry_rows w) s0) hist w) = Inr p"
    using assms by (auto simp: state_replay_payload_def rbind_Inr_iff Let_def)
  have "map_of p ''session_history'' = Some (VList (map vdict hist))"
    unfolding attach_keeps [OF s0(3), of "''session_history''", simplified] by (simp add: state_items_def)
  then have "rows_of ''session_history'' p = map vdict hist" by (simp add: rows_of_def dget_or_def)
  then show ?thesis
    using s0(2) add_registry_ok [OF scan_live_ok [OF s0(1)]] by (intro exI conjI) (auto simp: add_registry_keys simp del: o_apply)
qed

lemma closed_row_not_clean:
  assumes "state_replay_payload env w = Inr p" "r \<in> set (registry_rows w)" "\<not> t9_run (re_events env) (VStr (sn_run r))"
  shows "\<exists>v \<in> set (rows_of ''session_history'' p).
    vget0 ''run_id'' v = VStr (sn_run r) \<and> vget0 ''outcome'' v \<in> {VStr ''running'', VStr ''completed_no_t9''}"
proof -
  obtain s hist where s: "live_ok (re_events env) s" "(VStr \<circ> sn_run) ` set (registry_rows w) \<subseteq> fst ` set (ls_rows s)"
      "session_history (re_now env) s = Inr hist" "rows_of ''session_history'' p = map vdict hist"
    using state_history [OF assms(1)] by blast
  obtain row where row: "(VStr (sn_run r), row) \<in> set (ls_rows s)" using s(2) assms(2) by force
  then have id: "dget_or VNone ''run_id'' row = VStr (sn_run r)" and t9: "\<not> row_truth ''saw_t9'' row"
    using s(1) assms(3) by (auto simp: live_ok_def)
  have "startswith (sn_run r) ''RUN-''" using assms(2) by (simp add: registry_rows_def)
  then have "engine_row row = Inr True" using id by (auto simp: engine_row_def por_def)
  then have "final_row (re_now env) (ls_last s) row \<in> set hist" using row by (force simp: history_rows [OF s(3)])
  then show ?thesis
    using dget_final_row(1) [of "re_now env" "ls_last s" row] dget_final_row(2) [OF t9, of "re_now env" "ls_last s"]
    unfolding s(4) by (force simp: id vget_or_vdict simp flip: dget_or_def)
qed

section \<open>The state replay is complete\<close>

definition is_text :: "pyval \<Rightarrow> bool" where
  "is_text v \<longleftrightarrow> type_name v = ''str''"

lemma is_text_VStr [simp]: "is_text (VStr s)"
  by (simp add: is_text_def)

lemma is_text_iff: "is_text v \<longleftrightarrow> (\<exists>s. v = VStr s)"
  by (cases v) (auto simp: is_text_def)

definition is_step :: "event \<Rightarrow> bool" where
  "is_step ev \<longleftrightarrow> ev_get ''type'' ev = VStr ''opsstepevent'' \<and> py_truth (or_empty (map_of ev ''run_id''))"

text \<open>The run and the time of a step are texts, as the producer of the events writes them.\<close>

definition text_step :: "event \<Rightarrow> bool" where
  "text_step ev \<longleftrightarrow> is_text (or_empty (map_of ev ''run_id'')) \<and> is_text (or_empty (map_of ev ''t_emitted'')) \<and>
     hashable (or_empty (map_of ev ''tier''))"

definition step_runs :: "event list \<Rightarrow> pyval set" where
  "step_runs evs = {or_empty (map_of ev ''run_id'') | ev. ev \<in> set evs \<and> is_step ev}"

definition textual :: "live_scan \<Rightarrow> bool" where
  "textual s \<longleftrightarrow> distinct (map fst (ls_rows s)) \<and> (\<forall>k row. (k, row) \<in> set (ls_rows s) \<longrightarrow>
     is_text k \<and> dget_or VNone ''run_id'' row = k \<and> is_text (dget_or VNone ''ts'' row))"

lemma dget_live_ts:
  "dget_or VNone ''ts'' (live_row ev row) \<in> {or_empty (map_of ev ''t_emitted''), dget_or VNone ''ts'' row}"
  "dget_or VNone ''ts'' (first_row ev) = or_empty (map_of ev ''t_emitted'')"
  by (auto simp: live_row_def Let_def with_slug_def) (simp add: first_row_def dget_or_def)

lemma live_event_text:
  assumes "textual s" "is_step ev \<longrightarrow> text_step ev"
  shows "\<exists>s'. live_event ev s = Inr s' \<and> textual s' \<and>
    fst ` set (ls_rows s') = fst ` set (ls_rows s) \<union> step_runs [ev]"
proof (cases "is_step ev")
  case False
  then show ?thesis using assms(1) by (auto simp: live_event_def is_step_def step_runs_def Let_def)
next
  case True
  then obtain run where run: "or_empty (map_of ev ''run_id'') = VStr run" and ev: "text_step ev"
    using assms(2) by (auto simp: text_step_def is_text_iff)
  obtain st where st: "tier_to_step (or_empty (map_of ev ''tier'')) = Inr st"
    using ev by (simp add: tier_to_step_def text_step_def)
  then obtain s' where s': "live_event ev s = Inr s'" "ls_rows s' = pupd (VStr run) (first_row ev) (live_row ev) (ls_rows s)"
    using True run by (simp add: live_event_def is_step_def Let_def)
  have ts: "is_text (or_empty (map_of ev ''t_emitted''))" using ev by (simp add: text_step_def)
  have new: "is_text (dget_or VNone ''ts'' (live_row ev row))" if "is_text (dget_or VNone ''ts'' row)" for row
    using dget_live_ts(1) [of ev row] ts that by auto
  have "textual s'"
    unfolding textual_def s'(2)
  proof (intro conjI allI impI)
    show "distinct (map fst (pupd (VStr run) (first_row ev) (live_row ev) (ls_rows s)))"
      using assms(1) by (simp add: textual_def pupd_distinct)
  next
    fix k row
    assume "(k, row) \<in> set (pupd (VStr run) (first_row ev) (live_row ev) (ls_rows s))"
    note mem = pupd_mem [OF this]
    show "is_text k" using mem assms(1) by (auto simp: textual_def)
    show "dget_or VNone ''run_id'' row = k"
      using mem assms(1) run by (auto simp: textual_def dget_live_row dget_first_row)
    show "is_text (dget_or VNone ''ts'' row)"
      using mem assms(1) ts by (auto simp: textual_def dget_live_ts(2) new)
  qed
  then show ?thesis
    using s' pupd_text_keys [of run "first_row ev" "live_row ev" "ls_rows s"] True run by (auto simp: step_runs_def)
qed

lemma scan_live_text:
  assumes "\<forall>ev \<in> set evs. is_step ev \<longrightarrow> text_step ev" "textual s"
  shows "\<exists>s'. run_log live_event evs s = Inr s' \<and> textual s' \<and>
    fst ` set (ls_rows s') = fst ` set (ls_rows s) \<union> step_runs evs"
  using assms
proof (induction evs arbitrary: s)
  case Nil
  then show ?case by (simp add: step_runs_def)
next
  case (Cons ev evs)
  obtain s1 where s1: "live_event ev s = Inr s1" "textual s1" "fst ` set (ls_rows s1) = fst ` set (ls_rows s) \<union> step_runs [ev]"
    using live_event_text [OF Cons.prems(2), of ev] Cons.prems(1) by auto
  have "step_runs (ev # evs) = step_runs [ev] \<union> step_runs evs" by (auto simp: step_runs_def)
  then show ?case using Cons.IH [OF _ s1(2)] Cons.prems(1) s1(1,3) by auto
qed

lemma enriched_row_ts:
  "(\<And>row. old = Some row \<Longrightarrow> is_text (dget_or VNone ''ts'' row)) \<Longrightarrow> is_text (dget_or VNone ''ts'' (enriched_row ec r old))"
  by (cases old) (auto simp: enriched_row_def dget_complete_row dget_closed_row Let_def, auto simp: dget_or_def)

lemma add_registry_row_text:
  assumes "textual s"
  shows "textual (add_registry_row ec r s)"
proof -
  let ?old = "plookup (VStr (sn_run r)) (ls_rows s)"
  have old: "row \<in> set (ls_rows s) \<Longrightarrow> is_text (fst row) \<and> dget_or VNone ''run_id'' (snd row) = fst row \<and>
      is_text (dget_or VNone ''ts'' (snd row))" for row
    using assms by (cases row) (auto simp: textual_def)
  have id: "\<forall>row. ?old = Some row \<longrightarrow> dget_or VNone ''run_id'' row = VStr (sn_run r)"
    using old plookup_mem by fastforce
  have ts: "is_text (dget_or VNone ''ts'' (enriched_row ec r ?old))"
    using old plookup_mem by (intro enriched_row_ts) fastforce
  show ?thesis
    using assms ts by (auto simp: textual_def add_registry_row_def Let_def enriched_row_kept(1) [OF id] pupd_distinct dest!: pupd_mem)
qed

lemma add_registry_text: "textual s \<Longrightarrow> textual (add_registry ec rs s)"
  unfolding add_registry_def by (induction rs arbitrary: s) (simp_all add: add_registry_row_text)

lemma rmap_total: "\<forall>x \<in> set xs. f x = Inr (g x) \<Longrightarrow> rmap f xs = Inr (map g xs)"
  by (induction xs) simp_all

lemma engine_row_text:
  "is_text (dget_or VNone ''run_id'' row) \<Longrightarrow> engine_row row = Inr (is_engine_run (dget_or VNone ''run_id'' row))"
  by (auto simp: engine_row_def is_engine_run_def is_text_iff por_def)

lemma dget_some: "dget_or VNone k d \<noteq> VNone \<Longrightarrow> dget_or v0 k d = dget_or VNone k d"
  by (simp add: dget_or_def split: option.splits)

lemma sort_rows_total:
  "\<forall>row \<in> set rows. is_text (dget_or VNone k row) \<Longrightarrow> \<exists>rows'. sort_rows k rows = Inr rows'"
proof -
  assume "\<forall>row \<in> set rows. is_text (dget_or VNone k row)"
  then have "list_all (\<lambda>r. type_name (dget_or (VStr []) k r) = ''str'') rows"
    using dget_some [of k] by (force simp: list_all_iff is_text_iff)
  then show ?thesis by (simp add: sort_rows_def)
qed

lemma final_row_ts: "dget_or VNone ''ts'' (final_row now lasts row) = dget_or VNone ''ts'' row"
  by (simp add: final_row_def Let_def dget_drop_key)

lemma history_text:
  assumes "textual s"
  shows "\<exists>hist. session_history now s = Inr hist \<and> distinct (map (dget_or VNone ''run_id'') hist) \<and>
    set (map (dget_or VNone ''run_id'') hist) = {run \<in> fst ` set (ls_rows s). is_engine_run run}"
proof -
  define es where "es = filter (\<lambda>(k, row). is_engine_run k) (ls_rows s)"
  have keyed: "dget_or VNone ''run_id'' (snd p) = fst p" "is_text (fst p)" "is_text (dget_or VNone ''ts'' (snd p))"
    if "p \<in> set (ls_rows s)" for p
    using assms that by (cases p, auto simp: textual_def)+
  have "rmap (\<lambda>x. rbind (engine_row x) (\<lambda>b. Inr (b, x))) (map snd (ls_rows s)) =
      Inr (map (\<lambda>x. (is_engine_run (dget_or VNone ''run_id'' x), x)) (map snd (ls_rows s)))"
    by (rule rmap_total) (use keyed in \<open>auto simp: engine_row_text\<close>)
  moreover have "map snd (filter fst (map (\<lambda>x. (is_engine_run (dget_or VNone ''run_id'' x), x)) (map snd (ls_rows s)))) = map snd es"
    unfolding es_def filter_map map_map comp_def fst_conv snd_conv case_prod_beta
    using keyed(1) by (intro arg_cong [where f = "map snd"] filter_cong) simp_all
  ultimately have engine: "rfilter engine_row (map snd (ls_rows s)) = Inr (map snd es)" by (simp add: rfilter_def)
  let ?rows = "map (final_row now (ls_last s)) (map snd es)"
  have ids: "map (dget_or VNone ''run_id'') ?rows = map fst es"
    using keyed(1) by (auto simp: es_def dget_final_row)
  have ts: "is_text (dget_or VNone ''run_id'' row)" "is_text (dget_or VNone ''ts'' row)" if "row \<in> set ?rows" for row
  proof -
    have "row \<in> (final_row now (ls_last s) \<circ> snd) ` set es" using that by simp
    then obtain e where "e \<in> set es" "row = final_row now (ls_last s) (snd e)" by auto
    moreover have "set es \<subseteq> set (ls_rows s)" by (auto simp: es_def)
    ultimately obtain e where "e \<in> set (ls_rows s)" "row = final_row now (ls_last s) (snd e)" by blast
    then show "is_text (dget_or VNone ''run_id'' row)" "is_text (dget_or VNone ''ts'' row)"
      using keyed [of e] by (simp_all add: dget_final_row(1) final_row_ts)
  qed
  obtain ys where ys: "sort_rows ''run_id'' ?rows = Inr ys"
    using sort_rows_total [of ?rows "''run_id''", OF ballI [OF ts(1)]] by blast
  have "\<forall>row \<in> set ys. is_text (dget_or VNone ''ts'' row)" using ts(2) sort_rows_set [OF ys] by simp
  then obtain hist where hist: "sort_rows ''ts'' ys = Inr hist" using sort_rows_total [of ys "''ts''"] by blast
  have "distinct (map fst es)" using assms by (simp add: es_def textual_def distinct_map_filter)
  then have "distinct (map (dget_or VNone ''run_id'') hist)"
    unfolding sort_rows_distinct [OF hist] sort_rows_distinct [OF ys] ids .
  moreover have "set (map (dget_or VNone ''run_id'') hist) = set (map fst es)"
    unfolding ids [symmetric] set_map sort_rows_set [OF hist] sort_rows_set [OF ys] by (rule refl)
  moreover have "session_history now s = Inr hist" using engine ys hist by (simp add: session_history_def)
  ultimately show ?thesis by (auto simp: es_def)
qed

lemma scope_parts:
  "is_dict (derive_scope_context si)" "is_dict (vget0 ''view_scope'' (derive_scope_context si))"
  "is_dict (vget0 ''feed_policy'' (derive_scope_context si))" "is_dict (vget0 ''session_context'' (derive_scope_context si))"
  "vget0 ''live_events_mutate_selected_context'' (vget0 ''feed_policy'' (derive_scope_context si)) = VBool (si_mode si = ''live'')"
  by (simp_all add: derive_scope_context_def Let_def split: prod.split)

lemma validate_live:
  assumes "vget0 ''event_type'' p = VStr ''state_replay''" "is_dict p" "vget0 ''scope_context'' p = derive_scope_context si"
    and "si_mode si = ''live''"
  shows "validate_scoped_replay_payload p = Inr p"
  using assms by (simp add: validate_scoped_replay_payload_def scope_parts scope_mode scoped_replay_events_def Let_def)
    (simp add: expected_scope_mode_def dget_or_def)

lemma validate_project:
  assumes "vget0 ''event_type'' p = VStr ''project_snapshot''" "is_dict p" "vget0 ''scope_context'' p = derive_scope_context si"
    and "si_mode si = ''project''"
  shows "validate_scoped_replay_payload p = Inr p"
  using assms by (simp add: validate_scoped_replay_payload_def scope_parts scope_mode scoped_replay_events_def Let_def)
    (simp add: expected_scope_mode_def dget_or_def)

lemma attach_total:
  assumes "map_of kvs ''event_type'' = Some (VStr t)" "(t = ''state_replay'' \<and> mode = ''live'') \<or> (t = ''project_snapshot'' \<and> mode = ''project'')"
  shows "\<exists>q. attach_scope_context w mode selected kvs = Inr q"
proof -
  have "validate_scoped_replay_payload (vdict (dput ''scope_context'' (derive_scope_context si) kvs)) =
      Inr (vdict (dput ''scope_context'' (derive_scope_context si) kvs))" if "si_mode si = mode" for si
    using assms(2)
  proof
    assume "t = ''state_replay'' \<and> mode = ''live''"
    then show ?thesis using that assms(1) by (intro validate_live [where si = si]) simp_all
  next
    assume "t = ''project_snapshot'' \<and> mode = ''project''"
    then show ?thesis using that assms(1) by (intro validate_project [where si = si]) simp_all
  qed
  then show ?thesis unfolding attach_scope_context_def Let_def by simp
qed

lemma state_replay_ok:
  assumes "\<forall>ev \<in> set (re_events env). is_step ev \<longrightarrow> text_step ev"
  shows "\<exists>p s hist. state_replay_payload env w = Inr p \<and> textual s \<and> session_history (re_now env) s = Inr hist \<and>
    rows_of ''session_history'' p = map vdict hist \<and>
    fst ` set (ls_rows s) = step_runs (re_events env) \<union> (VStr \<circ> sn_run) ` set (registry_rows w)"
proof -
  obtain s0 where s0: "scan_live (re_events env) = Inr s0" "textual s0" "fst ` set (ls_rows s0) = step_runs (re_events env)"
    using scan_live_text [OF assms, of "\<lparr>ls_rows = [], ls_steps = [], ls_run = None, ls_session = None, ls_last = []\<rparr>"]
    unfolding scan_live_def by (auto simp: textual_def)
  define s where "s = add_registry (evidence_of env w) (registry_rows w) s0"
  have s: "textual s" using add_registry_text [OF s0(2)] by (simp add: s_def)
  obtain hist where hist: "session_history (re_now env) s = Inr hist" using history_text [OF s] by blast
  obtain p where p: "attach_scope_context w ''live'' [] (state_items env s hist w) = Inr p"
    using attach_total [of "state_items env s hist w" "''state_replay''" "''live''"] by (auto simp: state_items_def)
  have "map_of p ''session_history'' = Some (VList (map vdict hist))"
    unfolding attach_keeps [OF p, of "''session_history''", simplified] by (simp add: state_items_def)
  then have "rows_of ''session_history'' p = map vdict hist" by (simp add: rows_of_def dget_or_def)
  moreover have "state_replay_payload env w = Inr p"
    using s0(1) hist p by (simp add: state_replay_payload_def s_def Let_def)
  moreover have "fst ` set (ls_rows s) = step_runs (re_events env) \<union> (VStr \<circ> sn_run) ` set (registry_rows w)"
    unfolding s_def add_registry_keys s0(3) by blast
  ultimately show ?thesis using s hist by blast
qed


section \<open>The two pages disagree\<close>

text \<open>On the sessions page a run that the audit log closes is clean as soon as the registry has it.\<close>

definition clean_in :: "string \<Rightarrow> (pyval \<times> row) list \<Rightarrow> bool" where
  "clean_in run rows \<longleftrightarrow> (\<forall>row. (VStr run, row) \<in> set rows \<longrightarrow> dget_or VNone ''outcome'' row = VStr ''clean'')"

lemma page_row_clean:
  assumes "is_closed_run ec r"
  shows "dget_or VNone ''outcome'' (session_page_row ec r old) = VStr ''clean''"
  using assms
  by (cases old) (simp_all add: session_page_row_def dget_complete_row dget_closed_row Let_def, simp add: dget_or_def registry_outcome_def)

lemma pupd_mem_here: "(VStr k, x) \<in> set (pupd (VStr k) v (\<lambda>_. v) d) \<Longrightarrow> distinct (map fst d) \<Longrightarrow> x = v"
proof (induction d)
  case (Cons p d)
  then show ?case by (cases p) (force split: if_splits)
qed simp

lemma add_page_row_clean:
  assumes "page_rows rows" "sn_run r = run \<or> clean_in run rows" "sn_run r = run \<longrightarrow> is_closed_run ec r"
  shows "clean_in run (add_page_row ec r rows)"
proof (cases "sn_run r = run")
  case True
  then show ?thesis
    using assms(1,3) page_row_clean by (auto simp: clean_in_def add_page_row_def Let_def page_rows_def dest!: pupd_mem_here)
next
  case False
  then show ?thesis
    using assms(2) by (auto simp: clean_in_def add_page_row_def Let_def dest!: pupd_mem)
qed

lemma add_page_rows_clean:
  assumes "page_rows rows" "clean_in run rows \<or> (\<exists>r \<in> set rs. sn_run r = run)" "\<forall>r \<in> set rs. sn_run r = run \<longrightarrow> is_closed_run ec r"
  shows "clean_in run (foldl (\<lambda>d r. add_page_row ec r d) rows rs)"
  using assms
proof (induction rs arbitrary: rows)
  case (Cons r rs)
  have "clean_in run (add_page_row ec r rows) \<or> (\<exists>r \<in> set rs. sn_run r = run)"
    using Cons.prems add_page_row_clean [OF Cons.prems(1), of r run ec] by auto
  then show ?case using Cons.IH add_page_row_keyed [OF Cons.prems(1)] Cons.prems(3) by simp
qed simp

lemma page_shows_clean:
  assumes "sessions_page env w = Inr rows" "r \<in> set (registry_rows w)" "is_closed_run (evidence_of env w) r"
  shows "\<exists>row \<in> set rows. dget_or VNone ''runid'' row = VStr (sn_run r) \<and> dget_or VNone ''outcome'' row = VStr ''clean''"
proof -
  obtain v where v: "fold_eventlog_views (re_events env) = Inr v"
    using assms(1) by (auto simp: sessions_page_def rbind_Inr_iff)
  define d where "d = foldl (\<lambda>d r. add_page_row (evidence_of env w) r d) (fold_page (re_now env) v) (registry_rows w)"
  have d: "page_rows d" "VStr (sn_run r) \<in> fst ` set d"
    using add_page_rows_keyed [OF fold_page_keyed [OF v], of "evidence_of env w" "re_now env" "registry_rows w"] assms(2)
    unfolding d_def by auto
  have "clean_in (sn_run r) d"
    unfolding d_def using assms(2,3) by (intro add_page_rows_clean fold_page_keyed [OF v]) (auto simp: is_closed_run_def)
  moreover obtain row where row: "(VStr (sn_run r), row) \<in> set d" using d(2) by force
  moreover have "is_engine_run (VStr (sn_run r))" using assms(2) by (simp add: registry_rows_def is_engine_run_def)
  moreover have "set rows = snd ` set (filter (\<lambda>(run, r). is_engine_run run) d)"
    using sort_rows_set [OF sessions_page_rows [OF assms(1) v]] by (simp add: d_def)
  ultimately show ?thesis using d(1) by (force simp: clean_in_def page_rows_def)
qed

text \<open>C16. The two pages disagree about every run that the registry lists and the audit log closes while the event
  log lacks its last step: the sessions page shows it as clean, the main page as running or as ended without a
  last step, since the outcome is classified again from the event log alone.\<close>

theorem closed_runs_disagree:
  assumes "r \<in> set (registry_rows w)" "is_closed_run (evidence_of env w) r" "\<not> t9_run (re_events env) (VStr (sn_run r))"
    and "sessions_page env w = Inr rows" "state_replay_payload env w = Inr p"
  shows "(\<exists>row \<in> set rows. dget_or VNone ''runid'' row = VStr (sn_run r) \<and> dget_or VNone ''outcome'' row = VStr ''clean'') \<and>
    (\<exists>v \<in> set (rows_of ''session_history'' p).
       vget0 ''run_id'' v = VStr (sn_run r) \<and> vget0 ''outcome'' v \<in> {VStr ''running'', VStr ''completed_no_t9''})"
  using page_shows_clean [OF assms(4,1,2)] closed_row_not_clean [OF assms(5,1,3)] by blast

definition closed_ws :: workspace where
  "closed_ws =
     [''audit/SESSION-REGISTRY.md'' \<mapsto> ''RUN-20260418-001 | worker | m | t | ok | done'',
      ''audit/AUDIT-LOG.md'' \<mapsto> ''TASK:RUN-20260418-001.close | TYPE:SESSION_CLOSE | RESULT:SUCCESS'']"


theorem closed_runs_disagree_witness:
  "\<exists>r rows p. registry_rows closed_ws = [r] \<and> sessions_page quiet_env closed_ws = Inr rows \<and>
    state_replay_payload quiet_env closed_ws = Inr p \<and>
    (\<exists>row \<in> set rows. dget_or VNone ''outcome'' row = VStr ''clean'') \<and>
    (\<exists>v \<in> set (rows_of ''session_history'' p). vget0 ''outcome'' v \<noteq> VStr ''clean'')"
proof -
  obtain p where p: "state_replay_payload quiet_env closed_ws = Inr p"
    using state_replay_ok [of quiet_env closed_ws] by (auto simp: quiet_env_def)
  have "map_sum id (map (dget_or VNone ''outcome'')) (sessions_page quiet_env closed_ws) = Inr [VStr ''clean'']" by code_simp
  then obtain rows where rows: "sessions_page quiet_env closed_ws = Inr rows"
    by (cases "sessions_page quiet_env closed_ws") auto
  have closed: "map (is_closed_run (evidence_of quiet_env closed_ws)) (registry_rows closed_ws) = [True]" by code_simp
  then obtain r where r: "registry_rows closed_ws = [r]" "is_closed_run (evidence_of quiet_env closed_ws) r" by auto
  have "\<not> t9_run (re_events quiet_env) (VStr (sn_run r))" by (simp add: t9_run_def quiet_env_def)
  note two = closed_runs_disagree [OF _ r(2) this rows p, unfolded r(1), simplified]
  have "\<exists>row \<in> set rows. dget_or VNone ''outcome'' row = VStr ''clean''" using two by blast
  moreover have "\<exists>v \<in> set (rows_of ''session_history'' p). vget0 ''outcome'' v \<noteq> VStr ''clean''" using two by force
  ultimately show ?thesis using r(1) rows p by blast
qed



section \<open>The snapshot of a project\<close>











end
