(* ===== verification/Live.thy ===== *)
theory Live
  imports Snapshots
begin

text \<open>
  The bridge at work: an event comes in on the ops socket (\<open>nightclaw_bridge/server.py\<close>), is checked,
  appended to the repository in memory, and broadcast (\<open>nightclaw_bridge/runtime.py\<close>): the events for the main page with
  those derived from the files of the workspace, and a new snapshot for the sessions page. What has been sent is
  remembered in three sets. A set is the list of its elements; \<open>lv_order\<close> is the order in which it is
  iterated. The sockets themselves are not modelled: the outcome of an event is what is sent to the clients
  of either page.
\<close>

record live_env =
  lv_host :: host
  lv_order :: "string list \<Rightarrow> string list"
  lv_md5 :: "string \<Rightarrow> string"
  lv_now :: string                      \<comment> \<open>\<open>_now_iso()\<close>\<close>
  lv_clock :: pydt
  lv_monotonic :: int                   \<comment> \<open>in nanoseconds\<close>
  lv_port :: nat
  lv_dirs :: "string list"
  lv_artifacts :: "(string \<times> pyval option) list"

record bridge =
  bd_events :: "event list"
  bd_audit :: "string list"
  bd_notifs :: "string list"
  bd_bundles :: "string list"
  bd_partial :: string
  bd_scr :: "scr_view option"
  bd_scr_at :: int

definition new_bridge :: bridge where
  "new_bridge =
     \<lparr>bd_events = [], bd_audit = [], bd_notifs = [], bd_bundles = [], bd_partial = [], bd_scr = None, bd_scr_at = 0\<rparr>"

section \<open>What has been sent\<close>

text \<open>The items with a new key, and the keys seen then.\<close>

fun fresh :: "('a \<Rightarrow> string) \<Rightarrow> string list \<Rightarrow> 'a list \<Rightarrow> 'a list \<times> string list" where
  "fresh key seen [] = ([], seen)"
| "fresh key seen (x # xs) =
     (if key x = [] \<or> key x \<in> set seen then fresh key seen xs
      else (case fresh key (seen @ [key x]) xs of (ys, seen') \<Rightarrow> (x # ys, seen')))"

text \<open>A set that has grown too large keeps the last elements of its iteration.\<close>

definition bounded :: "nat \<Rightarrow> nat \<Rightarrow> (string list \<Rightarrow> string list) \<Rightarrow> string list \<Rightarrow> string list" where
  "bounded cap keep order seen = (if length seen > cap then last_n keep (order seen) else seen)"

definition seen_step ::
  "nat \<Rightarrow> nat \<Rightarrow> (string list \<Rightarrow> string list) \<Rightarrow> ('a \<Rightarrow> string) \<Rightarrow> 'a list \<Rightarrow> string list \<Rightarrow> 'a list \<times> string list" where
  "seen_step cap keep order key xs seen = (case fresh key seen xs of (ys, seen') \<Rightarrow> (ys, bounded cap keep order seen'))"

section \<open>\<open>_derived_events_from_sources\<close>\<close>

definition emitted_at :: "live_env \<Rightarrow> event \<Rightarrow> pyval" where
  "emitted_at env ev = (case map_of ev ''t_emitted'' of None \<Rightarrow> VStr (lv_now env) | Some v \<Rightarrow> v)"

definition audit_key :: "fields \<Rightarrow> string" where "audit_key e = dget_or [] ''line'' e"

definition audit_event :: "live_env \<Rightarrow> event \<Rightarrow> fields \<Rightarrow> event" where
  "audit_event env ev e =
     [(''event_type'', VStr ''audit_tail''), (''line'', VStr (dget_or [] ''line'' e)),
      (''severity'', VStr (dget_or [] ''severity'' e)), (''ts'', por (VStr (dget_or [] ''ts'' e)) (emitted_at env ev))]"

definition notif_key :: "fields \<Rightarrow> string" where
  "notif_key n = dget_or [] ''ts'' n @ ''|'' @ utake 80 (dget_or [] ''message'' n)"

definition notif_event :: "fields \<Rightarrow> event" where
  "notif_event n =
     [(''event_type'', VStr ''notification''), (''message'', VStr (notif_summary n))] @
     map (\<lambda>k. (k, VStr (dget_or [] k n))) [''ts'', ''priority'', ''project'', ''status'']"

definition bundle_key :: "bundle_row \<Rightarrow> string" where
  "bundle_key b = br_run b @ ''|'' @ br_name b @ ''|'' @ br_ts b"

definition bundle_event :: "bundle_row \<Rightarrow> event" where
  "bundle_event b =
     [(''event_type'', VStr ''bundle_exec_result''), (''bundle_name'', VStr (br_name b)), (''ok'', VBool (br_ok b)),
      (''run_id'', VStr (br_run b)), (''ts'', VStr (br_ts b)), (''mutations_applied'', VList (map VStr (br_mutations b))),
      (''guards_checked'', VList [])]"

definition derived_audit :: "live_env \<Rightarrow> event \<Rightarrow> workspace \<Rightarrow> bridge \<Rightarrow> event list \<times> bridge" where
  "derived_audit env ev w st =
     (case seen_step 2000 1000 (lv_order env) audit_key (parse_audit_tail 60 ''audit/AUDIT-LOG.md'' w) (bd_audit st) of
        (es, seen) \<Rightarrow> (map (audit_event env ev) es, st\<lparr>bd_audit := seen\<rparr>))"

definition derived_notifs :: "live_env \<Rightarrow> workspace \<Rightarrow> bridge \<Rightarrow> event list \<times> bridge" where
  "derived_notifs env w st =
     (case seen_step 400 200 (lv_order env) notif_key (parse_notifications 80 ''NOTIFICATIONS.md'' w) (bd_notifs st) of
        (ns, seen) \<Rightarrow> (map notif_event ns, st\<lparr>bd_notifs := seen\<rparr>))"

text \<open>\<open>json.dumps(v, sort_keys=True)\<close> of a value whose keys are texts.\<close>

fun json_sorted :: "pyval \<Rightarrow> string" where
  "json_sorted VNone = ''null''"
| "json_sorted (VBool b) = (if b then ''true'' else ''false'')"
| "json_sorted (VInt i) = int_str i"
| "json_sorted (VStr s) = json_str s"
| "json_sorted (VList vs) = ''['' @ join '', '' (map json_sorted vs) @ '']''"
| "json_sorted (VDict kvs) =
     ''{'' @ join '', '' (map snd (sort_key fst (map (\<lambda>(k, v). (py_str k, json_str (py_str k) @ '': '' @ json_sorted v)) kvs))) @ ''}''"

definition partial_hash :: "live_env \<Rightarrow> fields list \<Rightarrow> bundle_row list \<Rightarrow> string" where
  "partial_hash env changes bundles =
     lv_md5 env (json_sorted (VList [VList (map vfields changes), VList (map vbundle bundles)]))"

definition writing_tiers :: "string list" where
  "writing_tiers = [''T4'', ''T5'', ''T6'', ''T7'', ''T8'', ''T9'']"

definition derived_bundles :: "live_env \<Rightarrow> event \<Rightarrow> workspace \<Rightarrow> bridge \<Rightarrow> event list \<times> bridge" where
  "derived_bundles env ev w st =
     (if or_empty (map_of ev ''tier'') \<notin> VStr ` set writing_tiers then ([], st)
      else
        (let changes = parse_change_log 30 ''audit/CHANGE-LOG.md'' w; bundles = parse_bundle_history 10 ''audit/AUDIT-LOG.md'' w;
             (bs, seen) = seen_step 400 200 (lv_order env) bundle_key bundles (bd_bundles st);
             h = partial_hash env changes bundles
         in (map bundle_event bs @
             (if h = bd_partial st then []
              else [[(''event_type'', VStr ''state_replay''), (''change_log'', VList (map vfields changes)),
                     (''bundle_history'', VList (map vbundle bundles))]]),
             st\<lparr>bd_bundles := seen, bd_partial := h\<rparr>)))"

definition vscr :: "string \<Rightarrow> scr_view \<Rightarrow> event" where
  "vscr ts v =
     [(''event_type'', VStr ''scr_verify_result''), (''checks'', vdict (map (\<lambda>(k, b). (k, VBool b)) (sv_checks v))),
      (''statuses'', vfields (sv_statuses v)), (''details'', vfields (sv_details v)),
      (''passed'', VInt (int (sv_passed v))), (''failed'', VInt (int (sv_failed v))), (''ts'', VStr ts)]"

definition scr_pause :: int where "scr_pause = 30 * 1000000000"

text \<open>The grid of the rules is refreshed when a \<open>scr-verify\<close> has ended, every thirty seconds at most.\<close>

definition derived_scr :: "live_env \<Rightarrow> event \<Rightarrow> workspace \<Rightarrow> bridge \<Rightarrow> event list \<times> bridge \<times> workspace" where
  "derived_scr env ev w st =
     (if or_empty (map_of ev ''tier'') = VStr ''T8'' \<and> or_empty (map_of ev ''cmd'') = VStr ''scr-verify'' \<and>
         ev_get ''exit_code'' ev \<noteq> VNone \<and> lv_monotonic env - bd_scr_at st \<ge> scr_pause
      then (case run_ops (lv_host env) [''scr-verify''] w of
          (p, w') \<Rightarrow>
            (case view_scr_verify p of
               None \<Rightarrow> ([], st\<lparr>bd_scr_at := lv_monotonic env\<rparr>, w')
             | Some v \<Rightarrow> ([vscr (lv_now env) v], st\<lparr>bd_scr_at := lv_monotonic env, bd_scr := Some v\<rparr>, w')))
      else ([], st, w))"

definition derived_events :: "live_env \<Rightarrow> event \<Rightarrow> workspace \<Rightarrow> bridge \<Rightarrow> event list \<times> bridge \<times> workspace" where
  "derived_events env ev w st =
     (let (as, st1) = derived_audit env ev w st; (ns, st2) = derived_notifs env w st1;
          (bs, st3) = derived_bundles env ev w st2; (ss, st4, w') = derived_scr env ev w st3
      in (as @ ns @ bs @ ss, st4, w'))"

section \<open>Broadcast and ingest\<close>

definition env_of :: "live_env \<Rightarrow> bridge \<Rightarrow> replay_env" where
  "env_of env st =
     \<lparr>re_events = bd_events st, re_dirs = lv_dirs env, re_artifacts = lv_artifacts env, re_ops = Map.empty, re_now = lv_clock env\<rparr>"

type_synonym sent = "event list \<times> (string \<times> pyval) list"

text \<open>What is sent to the main page and to the sessions page. An exception keeps the state reached.\<close>

definition broadcast_event :: "live_env \<Rightarrow> event \<Rightarrow> workspace \<Rightarrow> bridge \<Rightarrow> (py_exc + sent) \<times> bridge \<times> workspace" where
  "broadcast_event env ev w st =
     (case adapt_for_main (lv_now env) ev of
        Inl e \<Rightarrow> (Inl e, st, w)
      | Inr ms \<Rightarrow>
          (let (ds, st', w') = (if ev_get ''type'' ev = VStr ''opsstepevent'' then derived_events env ev w st else ([], st, w));
               scr = (case bd_scr st' of None \<Rightarrow> VNone | Some v \<Rightarrow> vdict (vscr (lv_now env) v))
           in (rbind (sessions_snapshot_payload (env_of env st') (lv_port env) scr (lv_now env) w') (\<lambda>p. Inr (ms @ ds, p)),
               st', w')))"

datatype ops_line = NoLine | BadLine | JsonLine pyval

definition event_of :: "pyval \<Rightarrow> event" where
  "event_of v = map (\<lambda>(k, x). (py_str k, x)) (items v)"

record ingested =
  ig_reply :: "string option"       \<comment> \<open>none where an exception ends the connection\<close>
  ig_sent :: "sent option"

definition ok_reply :: "bool \<Rightarrow> string" where
  "ok_reply b = ''{'' @ [quote] @ ''ok'' @ [quote] @ '':'' @ (if b then ''true'' else ''false'') @ ''}''"

definition handle_ops_ingest :: "live_env \<Rightarrow> ops_line \<Rightarrow> workspace \<Rightarrow> bridge \<Rightarrow> ingested \<times> bridge \<times> workspace" where
  "handle_ops_ingest env l w st =
     (case l of
        NoLine \<Rightarrow> (\<lparr>ig_reply = Some ''{}'', ig_sent = None\<rparr>, st, w)
      | BadLine \<Rightarrow> (\<lparr>ig_reply = Some (ok_reply False), ig_sent = None\<rparr>, st, w)
      | JsonLine v \<Rightarrow>
          if is_dict v \<and> is_opsstepevent (event_of v) then
            (case broadcast_event env (event_of v) w (st\<lparr>bd_events := bd_events st @ [event_of v]\<rparr>) of
               (Inl e, st', w') \<Rightarrow> (\<lparr>ig_reply = None, ig_sent = None\<rparr>, st', w')
             | (Inr s, st', w') \<Rightarrow> (\<lparr>ig_reply = Some (ok_reply True), ig_sent = Some s\<rparr>, st', w'))
          else (\<lparr>ig_reply = Some (ok_reply False), ig_sent = None\<rparr>, st, w))"

text \<open>The connections of the ops socket one after the other; \<open>w\<close> is the workspace each of them finds.\<close>

fun ingests :: "(live_env \<times> ops_line \<times> workspace) list \<Rightarrow> bridge \<Rightarrow> ingested list \<times> bridge" where
  "ingests [] st = ([], st)"
| "ingests ((env, l, w) # xs) st =
     (case handle_ops_ingest env l w st of (r, st', w') \<Rightarrow>
       (case ingests xs st' of (rs, st'') \<Rightarrow> (r # rs, st'')))"

end
