(* ===== verification/LiveFacts.thy ===== *)
theory LiveFacts
  imports Live
begin

text \<open>
  What the bridge sends while it works. The locale \<open>seen_log\<close> is the contract of a set of sent keys that is cut
  down when it has grown too large; it is interpreted on the three sets of the code.
\<close>

section \<open>A bounded set of sent keys\<close>

text \<open>What is sent in a sequence of steps, each with its items and its order of iteration.\<close>

fun emitted ::
  "nat \<Rightarrow> nat \<Rightarrow> ('a \<Rightarrow> string) \<Rightarrow> ((string list \<Rightarrow> string list) \<times> 'a list) list \<Rightarrow> string list \<Rightarrow> 'a list \<times> string list" where
  "emitted cap keep key [] seen = ([], seen)"
| "emitted cap keep key ((order, xs) # r) seen =
     (case seen_step cap keep order key xs seen of (ys, seen') \<Rightarrow>
       (case emitted cap keep key r seen' of (zs, seen'') \<Rightarrow> (ys @ zs, seen'')))"

definition item_keys :: "('a \<Rightarrow> string) \<Rightarrow> 'a list \<Rightarrow> string set" where
  "item_keys key xs = key ` set xs - {[]}"

definition all_keys :: "('a \<Rightarrow> string) \<Rightarrow> ((string list \<Rightarrow> string list) \<times> 'a list) list \<Rightarrow> string set" where
  "all_keys key r = (\<Union>(order, xs) \<in> set r. item_keys key xs)"

lemma fresh_seen: "snd (fresh key seen xs) = seen @ map key (fst (fresh key seen xs))"
  by (induction key seen xs rule: fresh.induct) (auto split: prod.splits)

lemma fresh_distinct: "distinct seen \<Longrightarrow> distinct (snd (fresh key seen xs))"
  by (induction key seen xs rule: fresh.induct) (auto split: prod.splits)

lemma fresh_keys: "set (snd (fresh key seen xs)) = set seen \<union> item_keys key xs"
  by (induction key seen xs rule: fresh.induct) (auto simp: item_keys_def split: prod.splits)

locale seen_log =
  fixes cap keep :: nat
  assumes keep_cap: "0 < keep" "keep \<le> cap"
begin

lemma step_small:
  assumes "distinct seen" "card (set seen \<union> item_keys key xs) \<le> cap"
  shows "seen_step cap keep order key xs seen = fresh key seen xs"
proof -
  have "length (snd (fresh key seen xs)) \<le> cap"
    using assms(2) distinct_card [OF fresh_distinct [OF assms(1), of key xs]] by (simp add: fresh_keys)
  then show ?thesis by (auto simp: seen_step_def bounded_def split: prod.splits)
qed

lemma emitted_once:
  assumes "distinct seen" "card (set seen \<union> all_keys key r) \<le> cap"
  shows "distinct (seen @ map key (fst (emitted cap keep key r seen))) \<and>
    set (seen @ map key (fst (emitted cap keep key r seen))) = set seen \<union> all_keys key r"
  using assms
proof (induction r arbitrary: seen)
  case Nil
  then show ?case by (simp add: all_keys_def)
next
  case (Cons p r)
  obtain order xs where p: "p = (order, xs)" by (cases p)
  have fin: "finite (set seen \<union> all_keys key (p # r))"
    by (simp add: all_keys_def item_keys_def case_prod_beta)
  obtain ys seen' where f: "fresh key seen xs = (ys, seen')" by (cases "fresh key seen xs")
  have seen': "seen' = seen @ map key ys" "distinct seen'" "set seen' = set seen \<union> item_keys key xs"
    using fresh_seen [of key seen xs] fresh_distinct [OF Cons.prems(1), of key xs] fresh_keys [of key seen xs]
    by (simp_all add: f)
  have small: "card (set seen \<union> item_keys key xs) \<le> cap"
    using le_trans [OF card_mono [OF fin, of "set seen \<union> item_keys key xs"] Cons.prems(2)]
    by (simp add: all_keys_def p sup_assoc sup.coboundedI2)
  have st: "seen_step cap keep order key xs seen = (ys, seen')"
    using step_small [OF Cons.prems(1) small, of order] f by metis
  have un: "set seen' \<union> all_keys key r = set seen \<union> all_keys key (p # r)"
    unfolding seen'(3) by (auto simp: all_keys_def p)
  have "distinct (seen' @ map key (fst (emitted cap keep key r seen'))) \<and>
      set (seen' @ map key (fst (emitted cap keep key r seen'))) = set seen' \<union> all_keys key r"
    using Cons.prems(2) un by (intro Cons.IH) (simp_all add: seen'(2))
  then show ?case
    unfolding un by (cases "emitted cap keep key r seen'") (simp add: p st seen'(1))
qed

lemma step_bounded:
  assumes "\<And>s. length (order s) = length s"
  shows "length (snd (seen_step cap keep order key xs seen)) \<le> cap"
  using assms keep_cap by (auto simp: seen_step_def bounded_def last_n_def split: prod.splits)

end

interpretation audit_seen: seen_log 2000 1000 by unfold_locales simp_all

interpretation small_seen: seen_log 400 200 by unfold_locales simp_all

section \<open>The events of one step\<close>

definition audit_line_of :: "event \<Rightarrow> string option" where
  "audit_line_of e =
     (if map_of e ''event_type'' = Some (VStr ''audit_tail'')
      then (case map_of e ''line'' of Some (VStr s) \<Rightarrow> Some s | _ \<Rightarrow> None) else None)"

definition audit_lines :: "event list \<Rightarrow> string list" where
  "audit_lines es = List.map_filter audit_line_of es"

lemma audit_lines_append [simp]: "audit_lines (as @ bs) = audit_lines as @ audit_lines bs"
  by (simp add: audit_lines_def map_filter_def)

lemma audit_lines_none: "\<forall>e \<in> set es. map_of e ''event_type'' \<noteq> Some (VStr ''audit_tail'') \<Longrightarrow> audit_lines es = []"
  by (induction es) (auto simp: audit_lines_def map_filter_def audit_line_of_def)

lemma audit_lines_audit: "audit_lines (map (audit_event env ev) es) = map audit_key es"
  by (induction es) (auto simp: audit_lines_def map_filter_def audit_line_of_def audit_event_def audit_key_def)

lemma adapted_types:
  assumes "adapt_for_main now ev = Inr es" "e \<in> set es"
  shows "map_of e ''event_type'' \<noteq> Some (VStr ''audit_tail'')"
  using assms by (auto simp: adapt_for_main_def Let_def rbind_Inr_iff split: if_splits)

lemma derived_notifs_audit: "derived_notifs env w st = (es, st') \<Longrightarrow> audit_lines es = [] \<and> bd_audit st' = bd_audit st"
  by (auto simp: derived_notifs_def notif_event_def intro!: audit_lines_none split: prod.splits)

lemma derived_bundles_audit: "derived_bundles env ev w st = (es, st') \<Longrightarrow> audit_lines es = [] \<and> bd_audit st' = bd_audit st"
  by (auto simp: derived_bundles_def bundle_event_def Let_def intro!: audit_lines_none split: prod.splits if_splits)

lemma derived_scr_audit: "derived_scr env ev w st = (es, st', w') \<Longrightarrow> audit_lines es = [] \<and> bd_audit st' = bd_audit st"
  by (auto simp: derived_scr_def vscr_def intro!: audit_lines_none split: prod.splits option.splits if_splits)

definition audit_tail_of :: "workspace \<Rightarrow> fields list" where
  "audit_tail_of w = parse_audit_tail 60 ''audit/AUDIT-LOG.md'' w"

lemma derived_events_audit:
  assumes "derived_events env ev w st = (es, st', w')"
  shows "(audit_lines es, bd_audit st') =
    (case seen_step 2000 1000 (lv_order env) audit_key (audit_tail_of w) (bd_audit st) of (ys, s) \<Rightarrow> (map audit_key ys, s))"
proof -
  obtain as st1 ns st2 bs st3 ss where d: "derived_audit env ev w st = (as, st1)" "derived_notifs env w st1 = (ns, st2)"
      "derived_bundles env ev w st2 = (bs, st3)" "derived_scr env ev w st3 = (ss, st', w')" "es = as @ ns @ bs @ ss"
    using assms by (auto simp: derived_events_def Let_def split: prod.splits)
  show ?thesis
    using d(1) derived_notifs_audit [OF d(2)] derived_bundles_audit [OF d(3)] derived_scr_audit [OF d(4)]
    by (auto simp: d(5) derived_audit_def audit_tail_of_def audit_lines_audit split: prod.splits)
qed

section \<open>Audit lines are sent once\<close>

definition accepted :: "ops_line \<Rightarrow> bool" where
  "accepted l \<longleftrightarrow> (case l of JsonLine v \<Rightarrow> is_dict v \<and> is_opsstepevent (event_of v) | _ \<Rightarrow> False)"

definition lines_sent :: "ingested list \<Rightarrow> string list" where
  "lines_sent rs = concat (map (\<lambda>r. case ig_sent r of None \<Rightarrow> [] | Some (es, p) \<Rightarrow> audit_lines es) rs)"

definition tails :: "(live_env \<times> ops_line \<times> workspace) list \<Rightarrow> ((string list \<Rightarrow> string list) \<times> fields list) list" where
  "tails xs = map (\<lambda>(env, l, w). (lv_order env, audit_tail_of w)) (filter (\<lambda>(env, l, w). accepted l) xs)"

lemma ingest_audit:
  assumes "handle_ops_ingest env l w st = (r, st', w')" "ig_reply r \<noteq> None"
  shows "(lines_sent [r], bd_audit st') =
    (if accepted l
     then (case seen_step 2000 1000 (lv_order env) audit_key (audit_tail_of w) (bd_audit st) of (ys, s) \<Rightarrow> (map audit_key ys, s))
     else ([], bd_audit st))"
proof (cases "accepted l")
  case False
  then show ?thesis
    using assms(1) by (auto simp: handle_ops_ingest_def accepted_def lines_sent_def split: ops_line.splits)
next
  case True
  then obtain v where l: "l = JsonLine v" and ok: "is_dict v" "is_opsstepevent (event_of v)"
    by (auto simp: accepted_def split: ops_line.splits)
  let ?st = "st\<lparr>bd_events := bd_events st @ [event_of v]\<rparr>"
  obtain ms ds p where m: "adapt_for_main (lv_now env) (event_of v) = Inr ms"
      "derived_events env (event_of v) w ?st = (ds, st', w')" "ig_sent r = Some (ms @ ds, p)"
    using assms ok by (auto simp: handle_ops_ingest_def l broadcast_event_def Let_def is_opsstepevent_def rbind_Inr_iff
        split: sum.splits prod.splits)
  have "audit_lines ms = []" using adapted_types [OF m(1)] by (intro audit_lines_none) blast
  then show ?thesis
    using True derived_events_audit [OF m(2)] m(3) by (auto simp: lines_sent_def split: prod.splits)
qed

lemma ingests_audit:
  assumes "ingests xs st = (rs, st')" "\<forall>r \<in> set rs. ig_reply r \<noteq> None"
  shows "lines_sent rs = map audit_key (fst (emitted 2000 1000 audit_key (tails xs) (bd_audit st)))"
  using assms
proof (induction xs arbitrary: st rs)
  case Nil
  then show ?case by (simp add: lines_sent_def tails_def)
next
  case (Cons x xs)
  obtain env l w where x: "x = (env, l, w)" by (cases x)
  obtain r st1 w' rs' where r: "handle_ops_ingest env l w st = (r, st1, w')" "ingests xs st1 = (rs', st')" "rs = r # rs'"
    using Cons.prems(1) by (auto simp: x split: prod.splits)
  have IH: "lines_sent rs' = map audit_key (fst (emitted 2000 1000 audit_key (tails xs) (bd_audit st1)))"
    using Cons.IH [OF r(2)] Cons.prems(2) r(3) by simp
  have "ig_reply r \<noteq> None" using Cons.prems(2) r(3) by simp
  from ingest_audit [OF r(1) this] show ?case
    using IH by (auto simp: r(3) x lines_sent_def tails_def split: prod.splits if_splits)
qed

text \<open>C13. Every line of the audit log is sent to the main page exactly once: over any sequence of ops lines that
  all get a reply, with the log growing and turning over in between, the lines sent are the lines ever in the
  tail, without a repetition, as long as there are no more than 2000 of them.\<close>

theorem audit_lines_sent_once:
  assumes "ingests xs new_bridge = (rs, st)" "\<forall>r \<in> set rs. ig_reply r \<noteq> None"
    and "card (all_keys audit_key (tails xs)) \<le> 2000"
  shows "distinct (lines_sent rs) \<and> set (lines_sent rs) = all_keys audit_key (tails xs)"
  using audit_seen.emitted_once [of "[]" audit_key "tails xs"] assms(3) ingests_audit [OF assms(1,2)]
  by (simp add: new_bridge_def)


definition demo_live :: live_env where
  "demo_live =
     \<lparr>lv_host = \<lparr>hs_root = ''/w'', hs_python = ''python3'', hs_which = (\<lambda>_. False),
        hs_exec = (\<lambda>args w. (Ran 1 [] [], w)), hs_loc = 0\<rparr>,
      lv_order = id, lv_md5 = id, lv_now = ''2026-04-18T12:00:00Z'',
      lv_clock = \<lparr>dt_y = 2026, dt_mo = 4, dt_d = 18, dt_h = 12, dt_mi = 0, dt_s = 0, dt_us = 0, dt_tz = Some 0\<rparr>,
      lv_monotonic = 0, lv_port = 8787, lv_dirs = [], lv_artifacts = []\<rparr>"

definition demo_event :: "pyval \<Rightarrow> pyval" where
  "demo_event cmd =
     vdict [(''type'', VStr ''opsstepevent''), (''run_id'', VStr ''RUN-1''), (''cmd'', cmd),
            (''tier'', VStr ''T1''), (''t_emitted'', VStr ''12:00'')]"

definition demo_ops :: "pyval \<Rightarrow> ops_line" where
  "demo_ops cmd = JsonLine (demo_event cmd)"

definition demo_log :: "string list \<Rightarrow> workspace" where
  "demo_log ls = [''audit/AUDIT-LOG.md'' \<mapsto> concat (map (\<lambda>l. l @ [CHR 0x0A]) ls)]"

lemma all_keys_list: "all_keys key r = set (concat (map (map key \<circ> snd) r)) - {[]}"
  by (auto simp: all_keys_def item_keys_def case_prod_beta)

definition demo_run :: "(live_env \<times> ops_line \<times> workspace) list" where
  "demo_run =
     [(demo_live, demo_ops (VStr ''x''), demo_log [''TASK:a'']), (demo_live, BadLine, demo_log [''TASK:b'']),
      (demo_live, demo_ops (VStr ''y''), demo_log [''TASK:a'', ''TASK:c''])]"

theorem audit_lines_sent_once_witness:
  "distinct (lines_sent (fst (ingests demo_run new_bridge))) \<and>
   set (lines_sent (fst (ingests demo_run new_bridge))) = {''TASK:a'', ''TASK:c''}"
proof -
  have replies: "map ig_reply (fst (ingests demo_run new_bridge)) =
      [Some (ok_reply True), Some (ok_reply False), Some (ok_reply True)]" by code_simp
  have "map (map audit_key \<circ> snd) (tails demo_run) = [[''TASK:a''], [''TASK:a'', ''TASK:c'']]" by code_simp
  then have keys: "all_keys audit_key (tails demo_run) = {''TASK:a'', ''TASK:c''}"
    by (auto simp: all_keys_list)
  have "None \<notin> set (map ig_reply (fst (ingests demo_run new_bridge)))" unfolding replies by simp
  then have "\<forall>r \<in> set (fst (ingests demo_run new_bridge)). ig_reply r \<noteq> None" by force
  with audit_lines_sent_once [OF prod.collapse [symmetric], of demo_run] show ?thesis
    by (simp add: keys)
qed

section \<open>One event can silence the bridge\<close>

definition poisons :: "event \<Rightarrow> bool" where
  "poisons ev \<longleftrightarrow> is_opsstepevent ev \<and>
     \<not> (hashable (ev_get ''run_id'' ev) \<and> hashable (ev_get ''cmd'' ev) \<and> hashable (ev_get ''slug'' ev))"

lemma poisoned_fold: "\<exists>ev \<in> set evs. poisons ev \<Longrightarrow> \<exists>e. run_log fold_event evs v = Inl e"
proof (induction evs arbitrary: v)
  case Nil
  then show ?case by simp
next
  case (Cons ev evs)
  then show ?case
    by (cases "fold_event ev v") (auto simp: poisons_def is_opsstepevent_def fold_event_def Let_def split: if_splits)
qed

lemma derived_keeps_log: "derived_events env ev w st = (es, st', w') \<Longrightarrow> bd_events st' = bd_events st"
  by (auto simp: derived_events_def derived_audit_def derived_notifs_def derived_bundles_def derived_scr_def Let_def
      split: prod.splits if_splits option.splits)

lemma broadcast_keeps_log: "broadcast_event env ev w st = (res, st', w') \<Longrightarrow> bd_events st' = bd_events st"
  by (auto simp: broadcast_event_def Let_def split: sum.splits prod.splits if_splits dest: derived_keeps_log)

lemma broadcast_poisoned:
  assumes "broadcast_event env ev w st = (res, st', w')" "\<exists>e \<in> set (bd_events st'). poisons e"
  shows "\<exists>e. res = Inl e"
proof -
  have "\<exists>e. fold_eventlog_views (re_events (env_of env st')) = Inl e"
    using assms(2) poisoned_fold by (simp add: env_of_def fold_eventlog_views_def)
  then show ?thesis
    using assms(1) by (auto simp: broadcast_event_def sessions_snapshot_payload_def sessions_page_def Let_def
        split: sum.splits prod.splits)
qed

lemma ingest_keeps_log: "handle_ops_ingest env l w st = (r, st', w') \<Longrightarrow> set (bd_events st) \<subseteq> set (bd_events st')"
  by (auto simp: handle_ops_ingest_def split: ops_line.splits prod.splits sum.splits if_splits dest: broadcast_keeps_log)

lemma ingest_poisoned:
  assumes "handle_ops_ingest env l w st = (r, st', w')" "\<exists>e \<in> set (bd_events st'). poisons e"
  shows "ig_sent r = None \<and> ig_reply r \<noteq> Some (ok_reply True)"
proof (cases "ig_sent r")
  case None
  then show ?thesis
    using assms(1) by (auto simp: handle_ops_ingest_def ok_reply_def split: ops_line.splits prod.splits sum.splits if_splits)
next
  case (Some s)
  then obtain ev st0 where "broadcast_event env ev w st0 = (Inr s, st', w')"
    using assms(1) by (auto simp: handle_ops_ingest_def split: ops_line.splits prod.splits sum.splits if_splits)
  from broadcast_poisoned [OF this assms(2)] show ?thesis by simp
qed

lemma ingests_poisoned:
  assumes "\<exists>e \<in> set (bd_events st). poisons e" "ingests xs st = (rs, st')" "r \<in> set rs"
  shows "ig_sent r = None \<and> ig_reply r \<noteq> Some (ok_reply True)"
  using assms
proof (induction xs arbitrary: st rs)
  case Nil
  then show ?case by simp
next
  case (Cons x xs)
  obtain env l w r1 st1 w1 rs1 where one: "x = (env, l, w)" "handle_ops_ingest env l w st = (r1, st1, w1)"
      "ingests xs st1 = (rs1, st')" "rs = r1 # rs1"
    using Cons.prems(2) by (cases x) (auto split: prod.splits)
  have p: "\<exists>e \<in> set (bd_events st1). poisons e" using Cons.prems(1) ingest_keeps_log [OF one(2)] by blast
  show ?case
    using Cons.prems(3) ingest_poisoned [OF one(2) p] Cons.IH [OF p one(3)] one(4) by auto
qed

text \<open>C14. One accepted event whose command or slug is a list or an object silences the bridge for ever: it is
  stored before it is broadcast, every snapshot folds the whole log and raises on it, and no event after it is
  answered or reaches a client.\<close>

theorem poisoned_log_silences:
  assumes "poisons (event_of v)" "is_dict v" "ingests ((env, JsonLine v, w) # xs) st = (rs, st')" "r \<in> set rs"
  shows "ig_sent r = None \<and> ig_reply r \<noteq> Some (ok_reply True)"
proof -
  obtain r1 st1 w1 rs1 where one: "handle_ops_ingest env (JsonLine v) w st = (r1, st1, w1)"
      "ingests xs st1 = (rs1, st')" "rs = r1 # rs1"
    using assms(3) by (auto split: prod.splits)
  have "event_of v \<in> set (bd_events st1)"
    using one(1) assms(1,2) by (auto simp: handle_ops_ingest_def poisons_def split: prod.splits sum.splits dest: broadcast_keeps_log)
  then have p: "\<exists>e \<in> set (bd_events st1). poisons e" using assms(1) by blast
  show ?thesis using assms(4) ingest_poisoned [OF one(1) p] ingests_poisoned [OF p one(2)] one(3) by auto
qed

lemma no_such_reply: "(\<And>r. r \<in> set rs \<Longrightarrow> f r \<noteq> x) \<Longrightarrow> x \<notin> set (map f rs)"
  by auto

theorem poisoned_log_silences_witness:
  "map ig_reply (fst (ingests [(demo_live, demo_ops (VStr ''x''), Map.empty)] new_bridge)) = [Some (ok_reply True)] \<and>
   Some (ok_reply True) \<notin> set (map ig_reply (fst (ingests
     [(demo_live, demo_ops (VList [VStr ''x'']), Map.empty), (demo_live, demo_ops (VStr ''x''), Map.empty)] new_bridge)))"
proof
  show "map ig_reply (fst (ingests [(demo_live, demo_ops (VStr ''x''), Map.empty)] new_bridge)) = [Some (ok_reply True)]"
    by code_simp
  have bad: "poisons (event_of (demo_event (VList [VStr ''x''])))" "is_dict (demo_event (VList [VStr ''x'']))" by code_simp+
  show "Some (ok_reply True) \<notin> set (map ig_reply (fst (ingests
     [(demo_live, demo_ops (VList [VStr ''x'']), Map.empty), (demo_live, demo_ops (VStr ''x''), Map.empty)] new_bridge)))"
    unfolding demo_ops_def [of "VList [VStr ''x'']"]
    by (rule no_such_reply) (rule conjunct2 [OF poisoned_log_silences [OF bad prod.collapse [symmetric]]])
qed

end
