(* ===== verification/Json.thy ===== *)
theory Json
  imports Http Live
begin

text \<open>
  JSON on the wire and on disk: \<open>json.dumps\<close> and \<open>json.loads\<close> on texts, the line that
  \<open>nightclaw_ops/telemetry.py\<close> sends, the line that \<open>nightclaw_bridge/server.py\<close> reads, and the
  repositories of \<open>nightclaw_bridge/repository.py\<close>. \<open>fl\<close> is the value of the numeral of a float.
  The recursion limit of Python, the limit of a line on the socket and the lock of the repository are not
  modelled.
\<close>

section \<open>Tokens\<close>

definition utf8_enc :: "nat \<Rightarrow> string" where
  "utf8_enc p =
     map char_of
       (if p < 128 then [p]
        else if p < 2048 then [192 + p div 64, 128 + p mod 64]
        else if p < 65536 then [224 + p div 4096, 128 + p div 64 mod 64, 128 + p mod 64]
        else [240 + p div 262144, 128 + p div 4096 mod 64, 128 + p div 64 mod 64, 128 + p mod 64])"

text \<open>A text that \<open>bytes.decode("utf-8")\<close> accepts.\<close>

function utf8_ok :: "string \<Rightarrow> bool" where
  "utf8_ok [] = True"
| "utf8_ok (c # s) =
     (case utf8_tail (code c) of
        None \<Rightarrow> False
      | Some rs \<Rightarrow> length rs \<le> length s \<and> fitting rs s = length rs \<and> utf8_ok (drop (length rs) s))"
  by pat_completeness auto
termination by (relation "measure length") auto

definition json_space :: "char \<Rightarrow> bool" where
  "json_space c \<longleftrightarrow> code c = 32 \<or> code c = 9 \<or> code c = 10 \<or> code c = 13"

definition json_ws :: "string \<Rightarrow> string" where
  "json_ws s = dropWhile json_space s"

definition json_hex4 :: "string \<Rightarrow> (nat \<times> string) option" where
  "json_hex4 s =
     (case s of
        a # b # c # d # r \<Rightarrow>
          if list_all hex_digit [a, b, c, d]
          then Some (4096 * hex_val a + 256 * hex_val b + 16 * hex_val c + hex_val d, r) else None
      | _ \<Rightarrow> None)"

text \<open>Behind \<open>\u\<close>: a high surrogate takes the low one that follows it.\<close>

definition json_escape :: "string \<Rightarrow> (nat \<times> string) option" where
  "json_escape s =
     (case json_hex4 s of
        None \<Rightarrow> None
      | Some (p, r) \<Rightarrow>
          if 55296 \<le> p \<and> p \<le> 56319 \<and> startswith r (CHR 0x5C # ''u'') then
            (case json_hex4 (drop 2 r) of
               None \<Rightarrow> None
             | Some (q, r') \<Rightarrow>
                 if 56320 \<le> q \<and> q \<le> 57343 then Some (65536 + (p - 55296) * 1024 + (q - 56320), r') else Some (p, r))
          else Some (p, r))"

definition json_short :: "char \<Rightarrow> char option" where
  "json_short e =
     (if e = quote \<or> e = CHR 0x5C \<or> e = CHR ''/'' then Some e
      else if e = CHR ''b'' then Some (char_of (8::nat)) else if e = CHR ''f'' then Some (char_of (12::nat))
      else if e = CHR ''n'' then Some (char_of (10::nat)) else if e = CHR ''r'' then Some (char_of (13::nat))
      else if e = CHR ''t'' then Some (char_of (9::nat)) else None)"

lemma json_hex4_length: "json_hex4 s = Some (p, r) \<Longrightarrow> length s = length r + 4"
  by (auto simp: json_hex4_def split: list.splits if_splits)

lemma json_escape_length: "json_escape s = Some (p, r) \<Longrightarrow> length r < length s"
  using json_hex4_length
  by (fastforce simp: json_escape_def split: option.splits prod.splits if_splits)

text \<open>The text of a string literal, behind its opening quote, and what follows the closing one.\<close>

function json_chars :: "string \<Rightarrow> (string \<times> string) option" where
  "json_chars [] = None"
| "json_chars (c # s) =
     (if c = quote then Some ([], s)
      else if code c < 32 then None
      else if c \<noteq> CHR 0x5C then map_option (\<lambda>(t, r). (c # t, r)) (json_chars s)
      else (case s of
          [] \<Rightarrow> None
        | e # s' \<Rightarrow>
            if e = CHR ''u'' then
              (case json_escape s' of
                 None \<Rightarrow> None
               | Some (p, r) \<Rightarrow> map_option (\<lambda>(t, r'). (utf8_enc p @ t, r')) (json_chars r))
            else (case json_short e of
                None \<Rightarrow> None
              | Some x \<Rightarrow> map_option (\<lambda>(t, r). (x # t, r)) (json_chars s'))))"
  by pat_completeness auto
termination by (relation "measure length") (auto dest: json_escape_length)

text \<open>A numeral: an integer of at most 4300 digits, or one with a fraction or an exponent.\<close>

definition json_fraction :: "string \<Rightarrow> string" where
  "json_fraction s =
     (case s of c # d # _ \<Rightarrow> if c = CHR ''.'' \<and> is_digit d then c # takeWhile is_digit (tl s) else [] | _ \<Rightarrow> [])"

definition json_exponent :: "string \<Rightarrow> string" where
  "json_exponent s =
     (case s of
        c # r \<Rightarrow>
          if c = CHR ''e'' \<or> c = CHR ''E'' then
            (let sign = (case r of x # _ \<Rightarrow> if x = CHR ''+'' \<or> x = CHR ''-'' then [x] else [] | [] \<Rightarrow> []);
                 ds = takeWhile is_digit (drop (length sign) r)
             in if ds = [] then [] else c # sign @ ds)
          else []
      | [] \<Rightarrow> [])"

definition max_digits :: nat where "max_digits = 4300"

definition json_number :: "(string \<Rightarrow> pyval) \<Rightarrow> string \<Rightarrow> (pyval \<times> string) option" where
  "json_number fl s =
     (let neg = startswith s ''-''; s' = (if neg then tl s else s);
          ds = (if startswith s' ''0'' then ''0'' else takeWhile is_digit s');
          r = drop (length ds) s'; fr = json_fraction r; ex = json_exponent (drop (length fr) r)
      in if ds = [] then None
         else if fr = [] \<and> ex = [] then
           if length ds > max_digits then None
           else Some (VInt (if neg then - int (digits_val ds) else int (digits_val ds)), r)
         else Some (fl ((if neg then ''-'' else []) @ ds @ fr @ ex), drop (length fr + length ex) r))"

section \<open>Values\<close>

text \<open>Of two calls one at least takes a character, so twice the length of the text is fuel enough.\<close>

fun json_value :: "(string \<Rightarrow> pyval) \<Rightarrow> nat \<Rightarrow> string \<Rightarrow> (pyval \<times> string) option"
  and json_elems :: "(string \<Rightarrow> pyval) \<Rightarrow> nat \<Rightarrow> string \<Rightarrow> (pyval list \<times> string) option"
  and json_members :: "(string \<Rightarrow> pyval) \<Rightarrow> nat \<Rightarrow> (pyval \<times> pyval) list \<Rightarrow> string \<Rightarrow> ((pyval \<times> pyval) list \<times> string) option"
where
  "json_value fl 0 s = None"
| "json_value fl (Suc n) s =
     (if startswith s [quote] then map_option (\<lambda>(t, r). (VStr t, r)) (json_chars (drop 1 s))
      else if startswith s ''{'' then
        (let r = json_ws (drop 1 s) in
         if startswith r ''}'' then Some (VDict [], drop 1 r)
         else map_option (\<lambda>(kvs, r'). (VDict kvs, r')) (json_members fl n [] r))
      else if startswith s ''['' then
        (let r = json_ws (drop 1 s) in
         if startswith r '']'' then Some (VList [], drop 1 r)
         else map_option (\<lambda>(vs, r'). (VList vs, r')) (json_elems fl n r))
      else if startswith s ''null'' then Some (VNone, drop 4 s)
      else if startswith s ''true'' then Some (VBool True, drop 4 s)
      else if startswith s ''false'' then Some (VBool False, drop 5 s)
      else if startswith s ''NaN'' then Some (fl ''NaN'', drop 3 s)
      else if startswith s ''Infinity'' then Some (fl ''Infinity'', drop 8 s)
      else if startswith s ''-Infinity'' then Some (fl ''-Infinity'', drop 9 s)
      else json_number fl s)"
| "json_elems fl 0 s = None"
| "json_elems fl (Suc n) s =
     (case json_value fl n s of
        None \<Rightarrow> None
      | Some (v, r) \<Rightarrow>
          (let r' = json_ws r in
           if startswith r' '']'' then Some ([v], drop 1 r')
           else if startswith r' '','' then map_option (\<lambda>(vs, r''). (v # vs, r'')) (json_elems fl n (json_ws (drop 1 r')))
           else None))"
| "json_members fl 0 d s = None"
| "json_members fl (Suc n) d s =
     (if \<not> startswith s [quote] then None
      else (case json_chars (drop 1 s) of
          None \<Rightarrow> None
        | Some (k, r) \<Rightarrow>
            (let r1 = json_ws r in
             if \<not> startswith r1 '':'' then None
             else (case json_value fl n (json_ws (drop 1 r1)) of
                 None \<Rightarrow> None
               | Some (v, r2) \<Rightarrow>
                   (let d' = dput (VStr k) v d; r3 = json_ws r2 in
                    if startswith r3 ''}'' then Some (d', drop 1 r3)
                    else if startswith r3 '','' then json_members fl n d' (json_ws (drop 1 r3))
                    else None)))))"

definition json_loads :: "(string \<Rightarrow> pyval) \<Rightarrow> string \<Rightarrow> pyval option" where
  "json_loads fl s =
     (case json_value fl (Suc (2 * length s)) (json_ws s) of
        Some (v, r) \<Rightarrow> if json_ws r = [] then Some v else None
      | None \<Rightarrow> None)"

text \<open>\<open>json.dumps(v)\<close> of a value whose keys are texts.\<close>

fun json_text :: "pyval \<Rightarrow> string" where
  "json_text VNone = ''null''"
| "json_text (VBool b) = (if b then ''true'' else ''false'')"
| "json_text (VInt i) = int_str i"
| "json_text (VStr s) = json_str s"
| "json_text (VList vs) = ''['' @ join '', '' (map json_text vs) @ '']''"
| "json_text (VDict kvs) =
     ''{'' @ join '', '' (map (\<lambda>(k, v). json_str (py_str k) @ '': '' @ json_text v) kvs) @ ''}''"

section \<open>The ops socket\<close>

definition wire_line :: "event \<Rightarrow> string" where  \<comment> \<open>\<open>_raw_send_unix\<close>\<close>
  "wire_line ev = json_text (vdict ev) @ [nl]"

text \<open>What \<open>handle_ops_ingest\<close> makes of the bytes of the line.\<close>

definition ops_line_of :: "(string \<Rightarrow> pyval) \<Rightarrow> string \<Rightarrow> ops_line" where
  "ops_line_of fl data =
     (if data = [] then NoLine
      else if \<not> utf8_ok data then BadLine
      else (case json_loads fl (strip data) of None \<Rightarrow> BadLine | Some v \<Rightarrow> JsonLine v))"

section \<open>The repositories\<close>

definition memory_append :: "event \<Rightarrow> event list \<Rightarrow> event list" where
  "memory_append ev es = es @ [ev]"

definition memory_load :: "event list \<Rightarrow> py_exc + event list" where
  "memory_load es = Inr es"

text \<open>The state of \<open>FileSessionRepository\<close> is the file: its bytes, or none where it does not exist.\<close>

definition file_repo :: "string option \<Rightarrow> string option" where
  "file_repo f = (case f of None \<Rightarrow> Some [] | Some data \<Rightarrow> Some data)"

definition file_append :: "event \<Rightarrow> string option \<Rightarrow> string option" where
  "file_append ev f = Some ((case f of None \<Rightarrow> [] | Some data \<Rightarrow> data) @ json_sorted (vdict ev) @ [nl])"

definition load_line :: "(string \<Rightarrow> pyval) \<Rightarrow> string \<Rightarrow> event option" where
  "load_line fl l =
     (let s = strip l in
      if s = [] then None
      else (case json_loads fl s of Some v \<Rightarrow> if is_dict v then Some (event_of v) else None | None \<Rightarrow> None))"

definition file_load :: "(string \<Rightarrow> pyval) \<Rightarrow> string option \<Rightarrow> py_exc + event list" where
  "file_load fl f =
     (case f of
        None \<Rightarrow> Inr []
      | Some data \<Rightarrow>
          if \<not> utf8_ok data then Inl ValueError else Inr (List.map_filter (load_line fl) (split_on nl (univ_nl data))))"

end
