(* ===== verification/JsonFacts.thy ===== *)
theory JsonFacts
  imports Json
begin

text \<open>
  Reading JSON undoes printing it. A string literal is read back as its text (\<open>json_chars_body\<close>), for which
  every character that \<open>json.dumps\<close> escapes is a scalar value of valid UTF-8, and a value as itself
  (\<open>json_loads_text\<close>); \<open>json_wf\<close> are the values of which this holds: distinct keys that are texts, integers
  within the limit of digits, no lone surrogates. \<open>json_norm\<close> sorts the keys on every level, as \<open>sort_keys=True\<close>
  does. \<open>json_loads_fuel\<close> says that the fuel of the reader is enough.
\<close>

section \<open>Hexadecimal digits and escapes\<close>

lemma hex_char_code: "d < 16 \<Longrightarrow> code (hex_char d) = (if d < 10 then 48 + d else 87 + d)"
  by (simp add: hex_char_def)

lemma hex_char_digit [simp]: "d < 16 \<Longrightarrow> hex_digit (hex_char d)"
  by (auto simp: hex_digit_def is_digit_def hex_char_code)

lemma hex_char_val [simp]: "d < 16 \<Longrightarrow> hex_val (hex_char d) = d"
  by (auto simp: hex_val_def is_digit_def hex_char_code)

lemma hex4_sum:
  assumes "n < 65536"
  shows "4096 * (n div 4096 mod 16) + 256 * (n div 256 mod 16) + 16 * (n div 16 mod 16) + n mod 16 = (n::nat)"
proof -
  define a b c where "a = n div 16" and "b = a div 16" and "c = b div 16"
  have "n = 16 * a + n mod 16" "a = 16 * b + a mod 16" "b = 16 * c + b mod 16" by (simp_all add: a_def b_def c_def)
  moreover have q: "n div 256 = b" "n div 4096 = c" by (simp_all add: a_def b_def c_def flip: div_mult2_eq)
  moreover have "n div 4096 mod 16 = c" using assms less_mult_imp_div_less [of n 16 4096] q(2) by simp
  ultimately show ?thesis unfolding q a_def [symmetric] by linarith
qed

lemma json_hex4_hex4: "n < 65536 \<Longrightarrow> json_hex4 (hex4 n @ r) = Some (n, r)"
  using hex4_sum [of n] by (simp add: json_hex4_def hex4_def)

definition scalar :: "nat \<Rightarrow> bool" where
  "scalar p \<longleftrightarrow> p < 55296 \<or> (57344 \<le> p \<and> p < 1114112)"

lemma json_unit_escape:
  assumes "scalar p"
  shows "\<exists>u. json_unit p = CHR 0x5C # CHR ''u'' # u \<and> (\<forall>r. json_escape (u @ r) = Some (p, r))"
proof (cases "p < 65536")
  case True
  have "json_escape (hex4 p @ r) = Some (p, r)" for r
    using assms True json_hex4_hex4 [of p r] by (auto simp: json_escape_def scalar_def)
  then show ?thesis using True by (auto simp: json_unit_def)
next
  case False
  define hi lo where "hi = 55296 + (p - 65536) div 1024" and "lo = 56320 + (p - 65536) mod 1024"
  have "p - 65536 < 1048576" using assms False by (auto simp: scalar_def)
  then have "(p - 65536) div 1024 < 1024" "(p - 65536) mod 1024 < 1024" by (simp_all add: less_mult_imp_div_less)
  then have b: "55296 \<le> hi" "hi \<le> 56319" "56320 \<le> lo" "lo \<le> 57343" "(hi - 55296) * 1024 + (lo - 56320) = p - 65536"
    by (auto simp: hi_def lo_def)
  have "json_escape (hex4 hi @ CHR 0x5C # CHR ''u'' # hex4 lo @ r) = Some (p, r)" for r
    using b False json_hex4_hex4 [of hi "CHR 0x5C # CHR ''u'' # hex4 lo @ r"] json_hex4_hex4 [of lo r]
    by (simp add: json_escape_def)
  then show ?thesis using False by (auto simp: json_unit_def hi_def lo_def)
qed

section \<open>UTF-8\<close>

lemma utf8_enc_parts:
  fixes x y z w :: nat
  assumes "y < 64" "z < 64" "w < 64"
  shows "2 \<le> x \<Longrightarrow> x < 32 \<Longrightarrow> utf8_enc (x * 64 + y) = map char_of [192 + x, 128 + y]"
    and "32 \<le> x * 64 + y \<Longrightarrow> x < 16 \<Longrightarrow> utf8_enc (x * 4096 + y * 64 + z) = map char_of [224 + x, 128 + y, 128 + z]"
    and "1024 \<le> x * 4096 + y * 64 + z \<Longrightarrow> x < 8 \<Longrightarrow>
       utf8_enc (x * 262144 + y * 4096 + z * 64 + w) = map char_of [240 + x, 128 + y, 128 + z, 128 + w]"
proof -
  have d: "(a * 64 + b) div 64 = a" "(a * 64 + b) mod 64 = b" if "b < 64" for a b :: nat using that by auto
  show "2 \<le> x \<Longrightarrow> x < 32 \<Longrightarrow> utf8_enc (x * 64 + y) = map char_of [192 + x, 128 + y]"
    using assms by (simp add: utf8_enc_def d)
  have f: "m div 4096 = m div 64 div 64" "m div 262144 = m div 64 div 64 div 64" for m :: nat by (simp_all flip: div_mult2_eq)
  define n where "n = x * 64 + y"
  define m where "m = n * 64 + z"
  define k where "k = m * 64 + w"
  have n: "n div 64 = x" "n mod 64 = y" and m: "m div 64 = n" "m mod 64 = z" and k: "k div 64 = m" "k mod 64 = w"
    unfolding n_def [symmetric] m_def [symmetric] k_def [symmetric]
    using d [OF assms(1), of x, folded n_def] d [OF assms(2), of n, folded m_def] d [OF assms(3), of m, folded k_def] by simp_all
  have sums: "x * 4096 + y * 64 + z = m" "x * 262144 + y * 4096 + z * 64 + w = k" by (simp_all add: n_def m_def k_def)
  show "32 \<le> x * 64 + y \<Longrightarrow> x < 16 \<Longrightarrow> utf8_enc (x * 4096 + y * 64 + z) = map char_of [224 + x, 128 + y, 128 + z]"
  proof -
    assume b: "32 \<le> x * 64 + y" "x < 16"
    then have "2048 \<le> m" "m < 65536" using assms by (simp_all add: m_def n_def)
    then show ?thesis by (simp add: sums utf8_enc_def f m n)
  qed
  show "1024 \<le> x * 4096 + y * 64 + z \<Longrightarrow> x < 8 \<Longrightarrow>
       utf8_enc (x * 262144 + y * 4096 + z * 64 + w) = map char_of [240 + x, 128 + y, 128 + z, 128 + w]"
  proof -
    assume b: "1024 \<le> x * 4096 + y * 64 + z" "x < 8"
    then have "65536 \<le> k" using assms by (simp add: k_def m_def n_def)
    then show ?thesis by (simp add: sums utf8_enc_def f k m n)
  qed
qed

text \<open>What the decoder accepts as one character is the encoding of a scalar value.\<close>

lemma utf8_head_2:
  assumes "194 \<le> code c" "code c \<le> 223" "128 \<le> code b" "code b \<le> 191"
  shows "\<exists>p. utf8_head (map of_char (take 4 (c # b # t))) = (2, p) \<and> scalar p \<and> utf8_enc p = [c, b]"
proof -
  define x y where "x = code c - 192" and "y = code b - 128"
  have y: "y < 64" "b = char_of (128 + y)" and x: "code c = 192 + x" "c = char_of (192 + x)" "2 \<le> x" "x < 32"
    using assms by (auto simp: x_def y_def)
  have "utf8_head (map of_char (take 4 (c # b # t))) = (2, x * 64 + y)"
    using x(1,3,4) assms(3) by (simp add: utf8_head_def y_def take_Cons' split: list.split)
  moreover have "scalar (x * 64 + y)" using x y by (simp add: scalar_def)
  ultimately show ?thesis using utf8_enc_parts(1) [of y 0 0 x] x(2,3,4) y by simp
qed

lemma utf8_head_3:
  assumes "224 \<le> code c" "code c \<le> 239" "128 \<le> code b" "code b \<le> 191" "128 \<le> code d" "code d \<le> 191"
    "code c = 224 \<longrightarrow> 160 \<le> code b" "code c = 237 \<longrightarrow> code b \<le> 159"
  shows "\<exists>p. utf8_head (map of_char (take 4 (c # b # d # t))) = (3, p) \<and> scalar p \<and> utf8_enc p = [c, b, d]"
proof -
  define x y z where "x = code c - 224" and "y = code b - 128" and "z = code d - 128"
  have y: "y < 64" "b = char_of (128 + y)" "z < 64" "d = char_of (128 + z)"
    and x: "code c = 224 + x" "c = char_of (224 + x)" "x < 16" and e: "x = 0 \<Longrightarrow> 32 \<le> y" "x = 13 \<Longrightarrow> y < 32"
    using assms by (auto simp: x_def y_def z_def)
  have "utf8_head (map of_char (take 4 (c # b # d # t))) = (3, x * 4096 + y * 64 + z)"
    using x(1,3) assms(3,5) by (simp add: utf8_head_def y_def z_def take_Cons' split: list.split)
  moreover have "scalar (x * 4096 + y * 64 + z)"
  proof -
    consider "x \<le> 12" | "x = 13" | "14 \<le> x" by linarith
    then show ?thesis using x y e by cases (simp_all add: scalar_def)
  qed
  moreover have "32 \<le> x * 64 + y" using e(1) by (cases x) auto
  ultimately show ?thesis using utf8_enc_parts(2) [of y z 0 x] x(2,3) y by simp
qed

lemma utf8_head_4:
  assumes "240 \<le> code c" "code c \<le> 244" "128 \<le> code b" "code b \<le> 191" "128 \<le> code d" "code d \<le> 191"
    "128 \<le> code f" "code f \<le> 191" "code c = 240 \<longrightarrow> 144 \<le> code b" "code c = 244 \<longrightarrow> code b \<le> 143"
  shows "\<exists>p. utf8_head (map of_char (take 4 (c # b # d # f # t))) = (4, p) \<and> scalar p \<and> utf8_enc p = [c, b, d, f]"
proof -
  define x y z w where "x = code c - 240" and "y = code b - 128" and "z = code d - 128" and "w = code f - 128"
  have y: "y < 64" "b = char_of (128 + y)" "z < 64" "d = char_of (128 + z)" "w < 64" "f = char_of (128 + w)"
    and x: "code c = 240 + x" "c = char_of (240 + x)" "x \<le> 4" and e: "x = 0 \<Longrightarrow> 16 \<le> y" "x = 4 \<Longrightarrow> y < 16"
    using assms by (auto simp: x_def y_def z_def w_def)
  have "utf8_head (map of_char (take 4 (c # b # d # f # t))) = (4, x * 262144 + y * 4096 + z * 64 + w)"
    using x(1) assms(3,5,7) by (simp add: utf8_head_def y_def z_def w_def)
  moreover have "57344 \<le> x * 262144 + y * 4096" using e(1) by (cases x) auto
  moreover have "x * 262144 + y * 4096 + z * 64 + w < 1114112" using x y e(2) by (cases "x = 4") auto
  moreover have "1024 \<le> x * 4096 + y * 64 + z" using e(1) by (cases x) auto
  ultimately show ?thesis using utf8_enc_parts(3) [of y z w x] x(2,3) y by (simp add: scalar_def)
qed

lemma utf8_head_ok:
  assumes "utf8_tail (code c) = Some rs" "length rs \<le> length s" "fitting rs s = length rs" "128 \<le> code c"
  shows "\<exists>p. utf8_head (map of_char (take 4 (c # s))) = (Suc (length rs), p) \<and> scalar p \<and>
     utf8_enc p = c # take (length rs) s"
proof -
  consider (two) "rs = [(128, 191)]" "194 \<le> code c" "code c \<le> 223"
    | (three) l h where "rs = [(l, h), (128, 191)]" "224 \<le> code c" "code c \<le> 239" "128 \<le> l" "h \<le> 191"
        "code c = 224 \<longrightarrow> l = 160" "code c = 237 \<longrightarrow> h = 159"
    | (four) l h where "rs = [(l, h), (128, 191), (128, 191)]" "240 \<le> code c" "code c \<le> 244" "128 \<le> l" "h \<le> 191"
        "code c = 240 \<longrightarrow> l = 144" "code c = 244 \<longrightarrow> h = 143"
    using assms(1,4) unfolding utf8_tail_def by (auto split: if_splits)
  then show ?thesis
  proof cases
    case two
    then obtain b t where s: "s = b # t" by (cases s) (use assms(2) in auto)
    have "128 \<le> code b" "code b \<le> 191" using two(1) assms(3) by (simp_all add: s split: if_splits)
    then have "\<exists>p. utf8_head (map of_char (take 4 (c # b # t))) = (2, p) \<and> scalar p \<and> utf8_enc p = [c, b]"
      by (intro utf8_head_2 two(2,3))
    then show ?thesis by (simp add: s two(1) numeral_2_eq_2 split del: if_split)
  next
    case (three l h)
    obtain b d t where s: "s = b # d # t" using assms(2) three(1) by (cases s; cases "tl s") auto
    have b: "l \<le> code b" "code b \<le> h" "128 \<le> code d" "code d \<le> 191" using three(1) assms(3) by (simp_all add: s split: if_splits)
    have "\<exists>p. utf8_head (map of_char (take 4 (c # b # d # t))) = (3, p) \<and> scalar p \<and> utf8_enc p = [c, b, d]"
      by (rule utf8_head_3) (use b three(2-) in linarith)+
    then show ?thesis by (simp add: s three(1) numeral_3_eq_3)
  next
    case (four l h)
    obtain b d f t where s: "s = b # d # f # t" using assms(2) four(1) by (cases s; cases "tl s"; cases "tl (tl s)") auto
    have b: "l \<le> code b" "code b \<le> h" "128 \<le> code d" "code d \<le> 191" "128 \<le> code f" "code f \<le> 191"
      using four(1) assms(3) by (simp_all add: s split: if_splits)
    have "\<exists>p. utf8_head (map of_char (take 4 (c # b # d # f # t))) = (4, p) \<and> scalar p \<and> utf8_enc p = [c, b, d, f]"
      by (rule utf8_head_4) (use b four(2-) in linarith)+
    then show ?thesis by (simp add: s four(1) eval_nat_numeral)
  qed
qed

section \<open>String literals\<close>

lemma json_chars_short:
  assumes "json_short e = Some x" "e \<noteq> CHR ''u''"
  shows "json_chars (CHR 0x5C # e # s) = map_option (\<lambda>(t, r). (x # t, r)) (json_chars s)"
  using assms by (simp add: quote_def)

lemma json_chars_escape:
  assumes "json_escape (u @ s) = Some (p, s)"
  shows "json_chars (CHR 0x5C # CHR ''u'' # u @ s) = map_option (\<lambda>(t, r). (utf8_enc p @ t, r)) (json_chars s)"
  using assms by (simp add: quote_def)

lemma json_ascii_cases:
  assumes "code c < 128"
  shows "(json_ascii c = [c] \<and> c \<noteq> quote \<and> c \<noteq> CHR 0x5C \<and> 32 \<le> code c) \<or>
    (\<exists>e. json_ascii c = [CHR 0x5C, e] \<and> json_short e = Some c \<and> e \<noteq> CHR ''u'') \<or> json_ascii c = json_unit (code c)"
proof -
  have "code c \<noteq> 8 \<or> char_of (8::nat) = c" "code c \<noteq> 9 \<or> char_of (9::nat) = c" "code c \<noteq> 10 \<or> char_of (10::nat) = c"
    "code c \<noteq> 12 \<or> char_of (12::nat) = c" "code c \<noteq> 13 \<or> char_of (13::nat) = c"
    by (metis char_of_char)+
  then show ?thesis by (simp add: json_ascii_def json_short_def quote_def)
qed

lemma json_chars_ascii:
  assumes "code c < 128"
  shows "json_chars (json_ascii c @ s) = map_option (\<lambda>(t, r). (c # t, r)) (json_chars s)"
  using json_ascii_cases [OF assms]
proof (elim disjE exE conjE)
  assume "json_ascii c = json_unit (code c)"
  moreover obtain u where "json_unit (code c) = CHR 0x5C # CHR ''u'' # u" "json_escape (u @ s) = Some (code c, s)"
    using json_unit_escape [of "code c"] assms by (auto simp: scalar_def)
  moreover have "utf8_enc (code c) = [c]" using assms by (simp add: utf8_enc_def)
  ultimately show ?thesis by (simp del: json_chars.simps add: json_chars_escape)
qed (simp_all del: json_chars.simps(2) add: json_chars_short, simp)

lemma json_chars_body: "utf8_ok s \<Longrightarrow> json_chars (json_body s @ quote # r) = Some (s, r)"
proof (induction s rule: utf8_ok.induct)
  case (2 c s)
  then obtain rs where rs: "utf8_tail (code c) = Some rs" "length rs \<le> length s" "fitting rs s = length rs"
    "utf8_ok (drop (length rs) s)" by (auto split: option.splits)
  have IH: "json_chars (json_body (drop (length rs) s) @ quote # r) = Some (drop (length rs) s, r)"
    using "2.IH" rs by blast
  show ?case
  proof (cases "code c < 128")
    case True
    then have "rs = []" using rs(1) by (simp add: utf8_tail_def)
    with True IH show ?thesis by (simp add: json_chars_ascii)
  next
    case False
    obtain p where p: "utf8_head (map of_char (take 4 (c # s))) = (Suc (length rs), p)" "scalar p"
      "utf8_enc p = c # take (length rs) s" using utf8_head_ok rs False by fastforce
    obtain u where "json_unit p = CHR 0x5C # CHR ''u'' # u" "\<And>r. json_escape (u @ r) = Some (p, r)"
      using json_unit_escape [OF p(2)] by blast
    with p False IH show ?thesis by (simp del: json_chars.simps add: json_chars_escape)
  qed
qed simp

section \<open>Fuel\<close>

lemma json_ws_length: "length (json_ws s) \<le> length s"
  by (simp add: json_ws_def length_dropWhile_le)

lemma json_chars_length: "json_chars s = Some (t, r) \<Longrightarrow> length r < length s"
proof (induction s arbitrary: t r rule: json_chars.induct)
  case (2 c s)
  then show ?case by (fastforce split: if_splits list.splits option.splits prod.splits dest: json_escape_length)
qed simp

lemma json_number_length: "json_number fl s = Some (v, r) \<Longrightarrow> length r < length s"
  by (cases s) (auto simp: json_number_def Let_def split: if_splits)

text \<open>What is left of a text when its first characters and the white space behind them are taken.\<close>

lemma startswith_drop_length: "startswith s p \<Longrightarrow> p \<noteq> [] \<Longrightarrow> length (drop (length p) s) < length s"
  by (auto simp: prefix_def)

lemma json_one_length: "startswith s [c] \<Longrightarrow> length (json_ws (drop 1 s)) < length s"
  by (rule le_less_trans [OF json_ws_length]) (auto simp: prefix_def)

lemma json_value_parts:
  assumes "json_value fl (Suc n) s = Some (v, r)"
  obtains (inner) s' where "length s' < length s" "length r < length s' \<or> r = s' \<or>
      (\<exists>kvs. json_members fl n [] s' = Some (kvs, r)) \<or> (\<exists>vs. json_elems fl n s' = Some (vs, r))"
proof -
  have ne: "startswith s (c # p) \<Longrightarrow> s \<noteq> []" for c p by auto
  show thesis
  proof (cases "startswith s [quote] \<or> startswith s ''{'' \<or> startswith s ''[''")
    case False
    with assms have "length r < length s" using json_number_length [of fl s v r]
      by (auto split: if_splits dest: ne)
    then show thesis using inner by blast
  next
    case True
    then have one: "length (drop 1 s) < length s" "length (json_ws (drop 1 s)) < length s"
      using json_one_length by (auto simp: prefix_def)
    note marks = True
    show thesis
    proof (cases "startswith s [quote]")
      case True
      then show thesis using assms inner [of "drop 1 s"] one(1) json_chars_length [of "drop 1 s"]
        by auto
    next
      case False
      have "length (drop 1 (json_ws (drop 1 s))) < length s" using one by simp
      with False marks show thesis using assms inner [of "json_ws (drop 1 s)"] inner [of "drop 1 (json_ws (drop 1 s))"] one(2)
        by (auto simp: Let_def split: if_splits)
    qed
  qed
qed

lemma json_shorter:
  "(\<forall>s v r. json_value fl n s = Some (v, r) \<longrightarrow> length r < length s) \<and>
   (\<forall>s vs r. json_elems fl n s = Some (vs, r) \<longrightarrow> length r < length s) \<and>
   (\<forall>d s kvs r. json_members fl n d s = Some (kvs, r) \<longrightarrow> length r < length s)"
proof (induction n)
  case (Suc n)
  have one: "startswith (json_ws s) [c] \<Longrightarrow> length (json_ws (drop 1 (json_ws s))) < length s"
    "startswith (json_ws s) [c] \<Longrightarrow> length (drop 1 (json_ws s)) < length s" for s c
    using json_one_length [of c "json_ws s"] startswith_drop_length [of "json_ws s" "[c]"] json_ws_length [of s] by auto
  have "length r < length s" if "json_value fl (Suc n) s = Some (v, r)" for s v r
    using json_value_parts [OF that] Suc.IH by (metis less_trans)
  moreover have "length r < length s" if "json_elems fl (Suc n) s = Some (vs, r)" for s vs r
    using that Suc.IH one by (auto simp: Let_def split: option.splits prod.splits if_splits) (metis less_trans)+
  moreover have "length r < length s" if "json_members fl (Suc n) d s = Some (kvs, r)" for d s kvs r
  proof -
    from that obtain k r0 v r2 where p: "startswith s [quote]" "json_chars (drop 1 s) = Some (k, r0)" "startswith (json_ws r0) '':''"
      "json_value fl n (json_ws (drop 1 (json_ws r0))) = Some (v, r2)"
      "r = drop 1 (json_ws r2) \<and> startswith (json_ws r2) ''}'' \<or> (\<exists>d. startswith (json_ws r2) '','' \<and>
         json_members fl n d (json_ws (drop 1 (json_ws r2))) = Some (kvs, r))"
      by (auto simp: Let_def split: option.splits prod.splits if_splits)
    have "length r2 < length (json_ws (drop 1 (json_ws r0)))" using Suc.IH p(4) by blast
    also have "\<dots> < length r0" by (rule one(1) [OF p(3)])
    also have "\<dots> < length (drop 1 s)" by (rule json_chars_length [OF p(2)])
    also have "\<dots> \<le> length s" by simp
    finally have "length r2 < length s" .
    then show ?thesis using p(5) one [of _ r2] Suc.IH by (meson less_trans)
  qed
  ultimately show ?case by blast
qed simp

text \<open>Any two amounts above the bound read the same.\<close>

lemma json_fuel:
  "(\<forall>s m. 2 * length s < n \<longrightarrow> 2 * length s < m \<longrightarrow> json_value fl n s = json_value fl m s) \<and>
   (\<forall>s m. 2 * length s + 1 < n \<longrightarrow> 2 * length s + 1 < m \<longrightarrow> json_elems fl n s = json_elems fl m s) \<and>
   (\<forall>d s m. 2 * length s < n \<longrightarrow> 2 * length s < m \<longrightarrow> json_members fl n d s = json_members fl m d s)"
proof (induction n)
  case (Suc n)
  note IH = Suc.IH [THEN conjunct1, rule_format] Suc.IH [THEN conjunct2, THEN conjunct1, rule_format]
    Suc.IH [THEN conjunct2, THEN conjunct2, rule_format]
  have "json_value fl (Suc n) s = json_value fl m s" if l: "2 * length s < Suc n" "2 * length s < m" for s m
  proof -
    obtain k where k: "m = Suc k" using l(2) by (cases m) auto
    have inner: "json_members fl n [] (json_ws (drop 1 s)) = json_members fl k [] (json_ws (drop 1 s)) \<and>
        json_elems fl n (json_ws (drop 1 s)) = json_elems fl k (json_ws (drop 1 s))" if c: "startswith s [c]" for c
      using json_one_length [OF c] l by (intro conjI IH) (auto simp: k)
    show ?thesis using inner [of "CHR ''{''"] inner [of "CHR ''[''"] by (simp add: k Let_def)
  qed
  moreover have "json_elems fl (Suc n) s = json_elems fl m s" if l: "2 * length s + 1 < Suc n" "2 * length s + 1 < m" for s m
  proof -
    obtain k where k: "m = Suc k" using l(2) by (cases m) auto
    have "json_value fl n s = json_value fl k s" using l by (intro IH) (auto simp: k)
    moreover have "json_elems fl n (json_ws (drop 1 (json_ws r))) = json_elems fl k (json_ws (drop 1 (json_ws r)))"
      if "json_value fl k s = Some (v, r)" "startswith (json_ws r) [c]" for v r c
    proof -
      have "length r < length s" using json_shorter that(1) by blast
      moreover have "length (json_ws (drop 1 (json_ws r))) < length (json_ws r)" by (rule json_one_length [OF that(2)])
      ultimately show ?thesis using json_ws_length [of r] l by (intro IH) (auto simp: k)
    qed
    ultimately show ?thesis by (auto simp: k Let_def split: option.split)
  qed
  moreover have "json_members fl (Suc n) d s = json_members fl m d s" if l: "2 * length s < Suc n" "2 * length s < m" for d s m
  proof -
    obtain k where k: "m = Suc k" using l(2) by (cases m) auto
    show ?thesis
    proof (cases "startswith s [quote] \<and> json_chars (drop 1 s) \<noteq> None")
      case True
      then obtain t r where tr: "json_chars (drop 1 s) = Some (t, r)" by auto
      have r: "length r < length s" using json_chars_length [OF tr] by simp
      have val: "json_value fl n (json_ws (drop 1 (json_ws r))) = json_value fl k (json_ws (drop 1 (json_ws r)))"
        if "startswith (json_ws r) '':''"
        using json_one_length [OF that] json_ws_length [of r] r l by (intro IH) (auto simp: k)
      have "json_members fl n d' (json_ws (drop 1 (json_ws r'))) = json_members fl k d' (json_ws (drop 1 (json_ws r')))"
        if "json_value fl k (json_ws (drop 1 (json_ws r))) = Some (v, r')" "startswith (json_ws r) '':''"
          "startswith (json_ws r') '',''" for d' v r'
      proof -
        have "length r' < length (json_ws (drop 1 (json_ws r)))" using json_shorter that(1) by blast
        then show ?thesis
          using json_one_length [OF that(2)] json_one_length [OF that(3)] json_ws_length [of r] json_ws_length [of r'] r l
          by (intro IH) (auto simp: k)
      qed
      with val show ?thesis by (auto simp: k tr [simplified] Let_def split: option.split)
    qed (auto simp: k split: option.split)
  qed
  ultimately show ?case by blast
qed simp

text \<open>\<open>json_loads\<close> is never cut short: more fuel finds the same.\<close>

lemma json_loads_fuel:
  assumes "2 * length s < n"
  shows "json_loads fl s = (case json_value fl n (json_ws s) of
      Some (v, r) \<Rightarrow> if json_ws r = [] then Some v else None | None \<Rightarrow> None)"
proof -
  have "json_value fl (Suc (2 * length s)) (json_ws s) = json_value fl n (json_ws s)"
    using json_ws_length [of s] assms by (intro json_fuel [THEN conjunct1, rule_format]) auto
  then show ?thesis by (simp add: json_loads_def)
qed

section \<open>Numerals\<close>

lemma nat_str_zero [simp]: "nat_str 0 = ''0''"
  by code_simp

lemma nat_str_hd_zero: "hd (nat_str n) = CHR ''0'' \<Longrightarrow> n = 0"
proof (induction n rule: nat_str.induct)
  case (1 n)
  show ?case
  proof (cases "n < 10")
    case True
    then have "code (digit_char n) = code (CHR ''0'')" using 1(2) by (simp add: nat_str.simps [of n])
    with True show ?thesis by (simp add: digit_char_def)
  next
    case False
    then have "n div 10 = 0" using 1 by (simp add: nat_str.simps [of n])
    with False show ?thesis by simp
  qed
qed

definition json_end :: "string \<Rightarrow> bool" where
  "json_end r \<longleftrightarrow> r = [] \<or> hd r \<in> {CHR '','', CHR '']'', CHR ''}''}"

lemma json_end_Cons [simp]: "json_end (c # r) \<longleftrightarrow> c \<in> {CHR '','', CHR '']'', CHR ''}''}"
  by (simp add: json_end_def)

lemma json_end_stops:
  assumes "json_end r"
  shows "takeWhile is_digit r = []" "json_fraction r = []" "json_exponent r = []"
  using assms by (cases r; auto simp: is_digit_def json_fraction_def json_exponent_def split: list.split)+

lemma takeWhile_nat_str: "json_end r \<Longrightarrow> takeWhile is_digit (nat_str n @ r) = nat_str n"
  using nat_str_digits [of n] json_end_stops(1) by simp

lemma json_number_nat:
  assumes "json_end r" "length (nat_str n) \<le> max_digits"
  shows "json_number fl (nat_str n @ r) = Some (VInt (int n), r)"
    and "json_number fl (CHR ''-'' # nat_str n @ r) = Some (VInt (- int n), r)"
proof -
  obtain c t where ct: "nat_str n = c # t" using nat_str_ne by (cases "nat_str n") auto
  have "is_digit c" using nat_str_digits [of n] ct by simp
  then have neg: "c \<noteq> CHR ''-''" by (auto simp: is_digit_def)
  have ds: "(if startswith (nat_str n @ r) ''0'' then ''0'' else takeWhile is_digit (nat_str n @ r)) = nat_str n"
  proof (cases "n = 0")
    case False
    then have "c \<noteq> CHR ''0''" using nat_str_hd_zero [of n] ct by auto
    then show ?thesis unfolding takeWhile_nat_str [OF assms(1)] by (simp add: ct)
  qed simp
  have r: "json_fraction r = []" "json_exponent r = []" using json_end_stops [OF assms(1)] by auto
  have mi: "startswith (CHR ''-'' # nat_str n @ r) ''-''" by simp
  have nd: "\<not> startswith (nat_str n @ r) ''-''" using neg ct by simp
  show "json_number fl (nat_str n @ r) = Some (VInt (int n), r)"
    unfolding json_number_def Let_def if_not_P [OF nd] ds using assms(2) nd by (simp add: r)
  show "json_number fl (CHR ''-'' # nat_str n @ r) = Some (VInt (- int n), r)"
    unfolding json_number_def Let_def if_P [OF mi] list.sel ds using assms(2) by (simp add: r)
qed

lemma json_value_digit:
  assumes "is_digit c"
  shows "json_value fl (Suc n) (c # s) = json_number fl (c # s)"
    and "json_value fl (Suc n) (CHR ''-'' # c # s) = json_number fl (CHR ''-'' # c # s)"
proof -
  have "c \<noteq> quote" "c \<noteq> CHR ''{''" "c \<noteq> CHR ''[''" "c \<noteq> CHR ''n''" "c \<noteq> CHR ''t''" "c \<noteq> CHR ''f''"
    "c \<noteq> CHR ''N''" "c \<noteq> CHR ''I''" "c \<noteq> CHR ''-''"
    using assms by (auto simp: is_digit_def quote_def)
  then show "json_value fl (Suc n) (c # s) = json_number fl (c # s)"
    "json_value fl (Suc n) (CHR ''-'' # c # s) = json_number fl (CHR ''-'' # c # s)"
    by (simp_all add: quote_def)
qed

lemma json_value_int:
  assumes "json_end r" "length (nat_str (nat \<bar>i\<bar>)) \<le> max_digits"
  shows "json_value fl (Suc n) (int_str i @ r) = Some (VInt i, r)"
proof -
  define m where "m = nat \<bar>i\<bar>"
  obtain c t where ct: "nat_str m = c # t" using nat_str_ne by (cases "nat_str m") auto
  have c: "is_digit c" using nat_str_digits [of m] ct by simp
  show ?thesis
  proof (cases "i < 0")
    case True
    then have i: "int_str i = CHR ''-'' # nat_str m" "- int m = i" by (simp_all add: int_str_def m_def)
    show ?thesis using json_number_nat(2) [of r m fl] assms json_value_digit(2) [OF c, of fl n "t @ r"]
      by (simp add: i ct m_def [symmetric] del: json_value.simps)
  next
    case False
    then have i: "int_str i = nat_str m" "int m = i" by (simp_all add: int_str_def m_def)
    show ?thesis using json_number_nat(1) [of r m fl] assms json_value_digit(1) [OF c, of fl n "t @ r"]
      by (simp add: i ct m_def [symmetric] del: json_value.simps)
  qed
qed

section \<open>Values\<close>

definition is_json_key :: "pyval \<Rightarrow> bool" where
  "is_json_key k \<longleftrightarrow> (case k of VStr s \<Rightarrow> utf8_ok s | _ \<Rightarrow> False)"

fun json_wf :: "pyval \<Rightarrow> bool" where
  "json_wf VNone = True"
| "json_wf (VBool b) = True"
| "json_wf (VInt i) = (length (nat_str (nat \<bar>i\<bar>)) \<le> max_digits)"
| "json_wf (VStr s) = utf8_ok s"
| "json_wf (VList vs) = list_all json_wf vs"
| "json_wf (VDict kvs) = (distinct (map fst kvs) \<and> list_all (\<lambda>(k, v). is_json_key k \<and> json_wf v) kvs)"

lemma json_ws_id [simp]: "\<not> json_space c \<Longrightarrow> json_ws (c # s) = c # s"
  by (simp add: json_ws_def)

lemma json_ws_space [simp]: "json_ws (CHR '' '' # s) = json_ws s"
  by (simp add: json_ws_def json_space_def)

lemma json_space_marks [simp]:
  "\<not> json_space (CHR '','')" "\<not> json_space (CHR '':'')" "\<not> json_space (CHR '']'')" "\<not> json_space (CHR ''}'')"
  "\<not> json_space (CHR ''{'')" "\<not> json_space (CHR ''['')" "\<not> json_space quote"
  by (simp_all add: json_space_def quote_def)

lemma json_text_head: "\<exists>c t. json_text v = c # t \<and> \<not> json_space c \<and> c \<noteq> CHR '']''"
proof (cases v)
  case (VInt i)
  obtain c t where ct: "nat_str (nat \<bar>i\<bar>) = c # t" using nat_str_ne by (cases "nat_str (nat \<bar>i\<bar>)") auto
  moreover have "is_digit c" using nat_str_digits [of "nat \<bar>i\<bar>"] ct by simp
  ultimately show ?thesis using VInt by (auto simp: int_str_def json_space_def is_digit_def)
qed (auto simp: json_str_def json_space_def quote_def)

lemma json_ws_text [simp]: "json_ws (json_text v @ s) = json_text v @ s"
  using json_text_head [of v] by auto

lemma json_value_str:
  "utf8_ok s \<Longrightarrow> json_value fl (Suc n) (json_str s @ r) = Some (VStr s, r)"
  by (simp add: json_str_def json_chars_body)

definition json_reads :: "(string \<Rightarrow> pyval) \<Rightarrow> pyval \<Rightarrow> bool" where
  "json_reads fl v \<longleftrightarrow> (\<forall>n r. json_end r \<longrightarrow> length (json_text v) < n \<longrightarrow> json_value fl n (json_text v @ r) = Some (v, r))"

lemma json_elems_text:
  assumes "\<forall>v \<in> set vs. json_reads fl v" "vs \<noteq> []" "length (join '', '' (map json_text vs)) + 1 < n"
  shows "json_elems fl n (join '', '' (map json_text vs) @ CHR '']'' # r) = Some (vs, r)"
  using assms
proof (induction vs arbitrary: n)
  case (Cons v vs)
  then obtain m where n: "n = Suc m" by (cases n) auto
  show ?case
  proof (cases "vs = []")
    case True
    then show ?thesis using Cons.prems by (simp add: n json_reads_def)
  next
    case False
    then have "json_elems fl m (join '', '' (map json_text vs) @ CHR '']'' # r) = Some (vs, r)"
      using Cons by (simp add: n join_Cons)
    moreover have "json_ws (join '', '' (map json_text vs) @ s) = join '', '' (map json_text vs) @ s" for s
      using False by (cases vs; cases "tl vs") (auto simp: join_Cons)
    ultimately show ?thesis using Cons.prems False by (simp add: n json_reads_def join_Cons)
  qed
qed simp

abbreviation json_item :: "pyval \<times> pyval \<Rightarrow> string" where
  "json_item kv \<equiv> json_str (py_str (fst kv)) @ '': '' @ json_text (snd kv)"

lemma dput_new: "k \<notin> fst ` set d \<Longrightarrow> dput k v d = d @ [(k, v)]"
  by (induction d) auto

lemma json_members_text:
  assumes "\<forall>kv \<in> set kvs. is_json_key (fst kv) \<and> json_reads fl (snd kv)" "kvs \<noteq> []" "distinct (map fst (d @ kvs))"
    "length (join '', '' (map json_item kvs)) + 1 < n"
  shows "json_members fl n d (join '', '' (map json_item kvs) @ CHR ''}'' # r) = Some (d @ kvs, r)"
  using assms
proof (induction kvs arbitrary: n d)
  case (Cons kv kvs)
  then obtain m where n: "n = Suc m" by (cases n) auto
  from Cons.prems(1) obtain k v where kv: "kv = (VStr k, v)" "utf8_ok k"
    by (cases kv) (auto simp: is_json_key_def split: pyval.splits)
  have put: "dput (VStr k) v d = d @ [(VStr k, v)]" using Cons.prems(3) by (intro dput_new) (auto simp: kv)
  have val: "json_value fl m (json_text v @ s) = Some (v, s)" if "json_end s" for s
    using Cons.prems(1,4) that by (cases kvs) (auto simp: json_reads_def kv n join_Cons)
  show ?case
  proof (cases "kvs = []")
    case True
    then show ?thesis using kv by (simp add: n put val json_str_def json_chars_body)
  next
    case False
    have "json_members fl m (d @ [kv]) (join '', '' (map json_item kvs) @ CHR ''}'' # r) = Some ((d @ [kv]) @ kvs, r)"
      using Cons.prems False by (intro Cons.IH) (auto simp: n join_Cons)
    moreover have "json_ws (join '', '' (map json_item kvs) @ s) = join '', '' (map json_item kvs) @ s" for s
      using False by (cases kvs; cases "tl kvs") (auto simp: join_Cons json_str_def)
    ultimately show ?thesis using kv False by (simp add: n put val json_str_def json_chars_body join_Cons)
  qed
qed simp

lemma json_item_map: "map (\<lambda>(k, v). json_str (py_str k) @ '': '' @ json_text v) kvs = map json_item kvs"
  by (simp add: case_prod_beta)

lemma json_value_consts:
  "json_value fl (Suc n) (''null'' @ r) = Some (VNone, r)"
  "json_value fl (Suc n) (''true'' @ r) = Some (VBool True, r)"
  "json_value fl (Suc n) (''false'' @ r) = Some (VBool False, r)"
  by (simp_all add: quote_def)

lemma json_reads_wf: "json_wf v \<Longrightarrow> json_reads fl v"
proof (induction v rule: json_wf.induct)
  case (3 i)
  then show ?case unfolding json_reads_def
    by (metis json_text.simps(3) json_value_int json_wf.simps(3) less_nat_zero_code not0_implies_Suc)
next
  case (4 s)
  then show ?case unfolding json_reads_def
    by (metis json_text.simps(4) json_value_str json_wf.simps(4) less_nat_zero_code not0_implies_Suc)
next
  case (5 vs)
  show ?case unfolding json_reads_def
  proof (intro allI impI)
    fix n r assume n: "json_end r" "length (json_text (VList vs)) < n"
    then obtain m where m: "n = Suc m" by (cases n) auto
    show "json_value fl n (json_text (VList vs) @ r) = Some (VList vs, r)"
    proof (cases "vs = []")
      case False
      obtain v us where "vs = v # us" using False by (cases vs) auto
      then obtain c t where ct: "join '', '' (map json_text vs) = c # t" "\<not> json_space c" "c \<noteq> CHR '']''"
        using json_text_head [of v] by (cases us) (auto simp: join_Cons)
      have "json_elems fl m (join '', '' (map json_text vs) @ CHR '']'' # r) = Some (vs, r)"
        using 5 n False m by (intro json_elems_text) (auto simp: list_all_iff)
      then show ?thesis using ct by (simp add: m quote_def)
    qed (simp add: m quote_def)
  qed
next
  case (6 kvs)
  show ?case unfolding json_reads_def
  proof (intro allI impI)
    fix n r assume n: "json_end r" "length (json_text (VDict kvs)) < n"
    then obtain m where m: "n = Suc m" by (cases n) auto
    show "json_value fl n (json_text (VDict kvs) @ r) = Some (VDict kvs, r)"
    proof (cases "kvs = []")
      case False
      obtain kv us where "kvs = kv # us" using False by (cases kvs) auto
      then obtain t where ct: "join '', '' (map json_item kvs) = quote # t"
        by (cases us) (auto simp: join_Cons json_str_def)
      have "length (join '', '' (map json_item kvs)) + 1 < m"
        using n(2) unfolding m json_text.simps json_item_map by simp
      then have "json_members fl m [] (join '', '' (map json_item kvs) @ CHR ''}'' # r) = Some ([] @ kvs, r)"
        using 6 False by (intro json_members_text) (auto simp: list_all_iff)
      then show ?thesis unfolding m json_text.simps json_item_map using ct by (simp add: quote_def json_space_def)
    qed (simp add: m quote_def)
  qed
next
  case 1
  then show ?case unfolding json_reads_def
    by (metis json_text.simps(1) json_value_consts(1) less_nat_zero_code not0_implies_Suc)
next
  case (2 b)
  then show ?case unfolding json_reads_def
    by (metis json_text.simps(2) json_value_consts(2,3) less_nat_zero_code not0_implies_Suc)
qed

theorem json_loads_text: "json_wf v \<Longrightarrow> json_loads fl (json_text v) = Some v"
proof -
  assume "json_wf v"
  then have "json_value fl (Suc (2 * length (json_text v))) (json_text v @ []) = Some (v, [])"
    using json_reads_wf [of v fl] unfolding json_reads_def by (simp add: json_end_def del: json_value.simps)
  then show ?thesis using json_ws_text [of v "[]"]
    by (simp add: json_loads_def json_ws_def del: json_value.simps)
qed

section \<open>Sorted keys\<close>

fun json_norm :: "pyval \<Rightarrow> pyval" where
  "json_norm (VList vs) = VList (map json_norm vs)"
| "json_norm (VDict kvs) = VDict (sort_key (\<lambda>kv. py_str (fst kv)) (map (\<lambda>(k, v). (k, json_norm v)) kvs))"
| "json_norm v = v"

lemma insort_key_map: "insort_key f (g x) (map g xs) = map g (insort_key (\<lambda>x. f (g x)) x xs)"
  by (induction xs) auto

lemma sort_key_map: "sort_key f (map g xs) = map g (sort_key (\<lambda>x. f (g x)) xs)"
  by (induction xs) (simp_all add: insort_key_map)

lemma json_sorted_norm: "json_sorted v = json_text (json_norm v)"
proof (induction v rule: json_norm.induct)
  case (2 kvs)
  define kvs' where "kvs' = map (\<lambda>(k, v). (k, json_norm v)) kvs"
  have eq: "map (\<lambda>(k, v). (py_str k, json_str (py_str k) @ '': '' @ json_sorted v)) kvs =
      map (\<lambda>kv. (py_str (fst kv), json_item kv)) kvs'"
    using 2 by (auto simp: case_prod_beta kvs'_def)
  show ?case
    unfolding json_sorted.simps eq json_norm.simps json_text.simps json_item_map kvs'_def [symmetric] sort_key_map
    by (simp add: comp_def)
qed (simp_all cong: map_cong)

lemma distinct_sort_keys: "distinct (map f (sort_key g xs)) \<longleftrightarrow> distinct (map f xs)"
  by (simp add: distinct_map)

lemma json_wf_norm: "json_wf v \<Longrightarrow> json_wf (json_norm v)"
proof (induction v rule: json_norm.induct)
  case (2 kvs)
  have "map fst (map (\<lambda>(k, v). (k, json_norm v)) kvs) = map fst kvs" by (simp add: case_prod_beta)
  with 2 show ?case by (auto simp: distinct_sort_keys list_all_iff simp del: map_map)
qed (auto simp: list_all_iff)

section \<open>Printed texts\<close>

definition printable :: "char \<Rightarrow> bool" where
  "printable c \<longleftrightarrow> 32 \<le> code c \<and> code c < 128"

lemma printable_marks [simp]:
  "printable quote" "printable (CHR 0x5C)" "printable (CHR '','')" "printable (CHR '' '')" "printable (CHR '':'')"
  "printable (CHR ''['')" "printable (CHR '']'')" "printable (CHR ''{'')" "printable (CHR ''}'')" "printable (CHR ''-'')"
  by (simp_all add: printable_def quote_def)

lemma printable_hex_char: "d < 16 \<Longrightarrow> printable (hex_char d)"
  by (simp add: printable_def hex_char_code)

lemma printable_unit: "list_all printable (json_unit n)"
  by (simp add: json_unit_def hex4_def printable_hex_char) (simp add: printable_def)

lemma printable_ascii: "code c < 128 \<Longrightarrow> list_all printable (json_ascii c)"
  using printable_unit [of "code c"] by (auto simp: json_ascii_def) (simp_all add: printable_def)

lemma printable_body: "list_all printable (json_body s)"
  by (induction s rule: json_body.induct) (auto simp: printable_ascii printable_unit split: prod.splits)

lemma printable_str: "list_all printable (json_str s)"
  by (simp add: json_str_def printable_body)

lemma printable_join: "list_all printable sep \<Longrightarrow> \<forall>x \<in> set xs. list_all printable x \<Longrightarrow> list_all printable (join sep xs)"
  by (induction sep xs rule: join.induct) auto

lemma printable_nat_str: "list_all printable (nat_str n)"
  using nat_str_digits [of n] by (auto simp: list_all_iff printable_def is_digit_def)

lemma printable_text: "list_all printable (json_text v)"
proof (induction v rule: json_text.induct)
  case (3 i)
  then show ?case using printable_nat_str by (simp add: int_str_def)
next
  case (5 vs)
  then show ?case by (simp add: printable_join)
next
  case (6 kvs)
  then have "\<forall>x \<in> set (map json_item kvs). list_all printable x"
    by (auto simp: printable_str)
  then show ?case unfolding json_text.simps json_item_map by (simp add: printable_join)
qed (simp_all add: printable_str, simp_all add: printable_def)

end
