(* ===== verification/EventFile.thy ===== *)
theory EventFile
  imports JsonFacts ScrFacts LiveFacts SharedFacts EventFacts
begin

text \<open>
  The event log in a file, and the way of an event into the log. The locale \<open>event_repository\<close> is the contract of the two
  classes of \<open>nightclaw_bridge/repository.py\<close>: loading gives what was loaded before and the events appended
  since; it is interpreted on both. A file keeps it while it ends with a whole line (\<open>whole_lines\<close>), as every
  append leaves it. \<open>telemetry_reaches_log\<close> composes \<open>main\<close>, the wire and the ingest of the bridge.
\<close>

section \<open>The decoder\<close>

lemma utf8_ok_ascii: "list_all (\<lambda>c. code c < 128) s \<Longrightarrow> utf8_ok s"
  by (induction s) (simp_all add: utf8_tail_def)

lemma fitting_append: "fitting rs s = length rs \<Longrightarrow> fitting rs (s @ t) = length rs"
proof (induction rs s rule: fitting.induct)
  case (1 lo hi rs c s)
  then show ?case by (simp split: if_splits)
qed simp_all

lemma utf8_ok_append: "utf8_ok s \<Longrightarrow> utf8_ok t \<Longrightarrow> utf8_ok (s @ t)"
  by (induction s rule: utf8_ok.induct) (auto simp: fitting_append split: option.splits)

lemma printable_ascii_all: "list_all printable s \<Longrightarrow> list_all (\<lambda>c. code c < 128) s"
  by (simp add: list_all_iff printable_def)

section \<open>The lines of the file\<close>

definition event_ok :: "event \<Rightarrow> bool" where
  "event_ok ev \<longleftrightarrow> json_wf (vdict ev)"

definition norm_event :: "event \<Rightarrow> event" where
  "norm_event ev = sort_key fst (map (\<lambda>(k, v). (k, json_norm v)) ev)"

lemma event_ok_iff:
  "event_ok ev \<longleftrightarrow> distinct (map fst ev) \<and> (\<forall>(k, v) \<in> set ev. utf8_ok k \<and> json_wf v)"
proof -
  have "map fst (map (\<lambda>(k, v). (VStr k, v)) ev) = map VStr (map fst ev)" by (simp add: case_prod_beta)
  then have "distinct (map fst (map (\<lambda>(k, v). (VStr k, v)) ev)) \<longleftrightarrow> distinct (map fst ev)"
    by (simp only: distinct_map) (simp add: inj_on_def)
  then show ?thesis by (auto simp: event_ok_def vdict_def is_json_key_def list_all_iff simp del: map_map)
qed

lemma event_of_vdict [simp]: "event_of (vdict ev) = ev"
  by (induction ev) (auto simp: event_of_def vdict_def)

lemma json_norm_vdict: "json_norm (vdict ev) = vdict (norm_event ev)"
proof -
  have "map (\<lambda>(k, v). (k, json_norm v)) (map (\<lambda>(k, v). (VStr k, v)) ev) =
      map (\<lambda>(k, v). (VStr k, v)) (map (\<lambda>(k, v). (k, json_norm v)) ev)" by (simp add: case_prod_beta)
  then show ?thesis
    unfolding vdict_def json_norm.simps norm_event_def by (simp only: sort_key_map) (simp add: case_prod_beta)
qed

lemma norm_event_lookup:
  assumes "distinct (map fst ev)"
  shows "map_of (norm_event ev) k = map_option json_norm (map_of ev k)"
proof -
  have "map_of (norm_event ev) = map_of (map (\<lambda>(k, v). (k, json_norm v)) ev)"
    using assms unfolding norm_event_def
    by (intro map_of_inject_set [THEN iffD2]) (simp_all add: distinct_sort_keys case_prod_beta comp_def)
  then show ?thesis by (simp add: map_of_map)
qed

lemma json_sorted_event:
  "event_ok ev \<Longrightarrow> json_loads fl (json_sorted (vdict ev)) = Some (vdict (norm_event ev))"
  using json_loads_text [OF json_wf_norm, of "vdict ev" fl] by (simp add: json_sorted_norm json_norm_vdict event_ok_def)

lemma json_text_dict: "\<exists>s. json_text (VDict kvs) = CHR ''{'' # s @ ''}''"
  by auto

lemma strip_json_dict: "strip (json_text (vdict ev)) = json_text (vdict ev)"
  using json_text_dict unfolding vdict_def
  by (intro strip_of_id) (auto simp: is_space_def)

lemma load_line_event:
  assumes "event_ok ev"
  shows "load_line fl (json_sorted (vdict ev)) = Some (norm_event ev)"
proof -
  have "json_text (vdict (norm_event ev)) \<noteq> []" using json_text_head [of "vdict (norm_event ev)"] by auto
  moreover have "is_dict (vdict (norm_event ev))" by (simp add: vdict_def)
  ultimately show ?thesis
    using json_sorted_event [OF assms, of fl] unfolding load_line_def json_sorted_norm json_norm_vdict strip_json_dict
    by (simp only: Let_def if_False option.case if_True event_of_vdict)
qed

definition whole_lines :: "string option \<Rightarrow> bool" where
  "whole_lines f \<longleftrightarrow> (case f of None \<Rightarrow> True | Some data \<Rightarrow> utf8_ok data \<and> (data = [] \<or> last data = nl))"

lemma univ_nl_last: "s \<noteq> [] \<Longrightarrow> last s = nl \<Longrightarrow> \<exists>t. univ_nl s = t @ [nl]"
proof (induction s rule: univ_nl.induct)
  case (3 c d s)
  then show ?case by (cases "s = []") (auto simp: code_nl_iff)
qed (auto simp: code_cr_iff)

definition file_events :: "(string \<Rightarrow> pyval) \<Rightarrow> string \<Rightarrow> event list" where
  "file_events fl data = List.map_filter (load_line fl) (split_on nl (univ_nl data))"

lemma load_line_blank [simp]: "load_line fl [] = None"
  by (simp add: load_line_def strip_of_id)

lemma file_events_append:
  assumes "data = [] \<or> last data = nl" "list_all printable line"
  shows "file_events fl (data @ line @ [nl]) = file_events fl data @ (case load_line fl line of None \<Rightarrow> [] | Some ev \<Rightarrow> [ev])"
proof -
  have pr: "nl \<notin> set line" "CHR 0x0D \<notin> set line"
    using assms(2) by (auto simp: list_all_iff printable_def)
  then have line: "univ_nl (line @ [nl]) = line @ [nl]" by (intro univ_nl_id) simp
  have one: "split_on nl (line @ [nl]) = [line, []]" using split_on_append [OF pr(1), of "[]"] by simp
  show ?thesis
  proof (cases "data = []")
    case True
    then show ?thesis using line one by (simp add: file_events_def List.map_filter_def split: option.split)
  next
    case False
    with assms(1) obtain t where t: "univ_nl data = t @ [nl]" using univ_nl_last by blast
    have "last data \<noteq> CHR 0x0D" using False assms(1) by auto
    then have "univ_nl (data @ line @ [nl]) = t @ nl # line @ [nl]" using t line univ_nl_append [of data "line @ [nl]"] by simp
    then have "split_on nl (univ_nl (data @ line @ [nl])) = split_on nl t @ [line, []]"
      using one by (simp add: split_on_app)
    moreover have "split_on nl (univ_nl data) = split_on nl t @ [[]]" using split_on_app [of nl t "[]"] by (simp add: t)
    ultimately show ?thesis by (simp add: file_events_def List.map_filter_def split: option.split)
  qed
qed

section \<open>Event repositories\<close>

locale event_repository =
  fixes append_ev :: "event \<Rightarrow> 'r \<Rightarrow> 'r" and load :: "'r \<Rightarrow> py_exc + event list"
    and inv :: "'r \<Rightarrow> bool" and kept :: "event \<Rightarrow> event" and ok :: "event \<Rightarrow> bool"
  assumes append_inv: "inv r \<Longrightarrow> ok ev \<Longrightarrow> inv (append_ev ev r)"
    and load_append: "inv r \<Longrightarrow> ok ev \<Longrightarrow> load (append_ev ev r) = rbind (load r) (\<lambda>es. Inr (es @ [kept ev]))"
begin

lemma load_appends:
  "inv r \<Longrightarrow> list_all ok evs \<Longrightarrow> load (fold append_ev evs r) = rbind (load r) (\<lambda>es. Inr (es @ map kept evs))"
proof (induction evs arbitrary: r)
  case Nil
  then show ?case by (cases "load r") simp_all
next
  case (Cons ev evs)
  then show ?case using append_inv load_append by (cases "load r") simp_all
qed

lemma appends_inv: "inv r \<Longrightarrow> list_all ok evs \<Longrightarrow> inv (fold append_ev evs r)"
  by (induction evs arbitrary: r) (simp_all add: append_inv)

end

interpretation memory_repo: event_repository memory_append memory_load "\<lambda>_. True" "\<lambda>ev. ev" "\<lambda>_. True"
  by unfold_locales (simp_all add: memory_append_def memory_load_def)

lemma file_load_events:
  "file_load fl f = (case f of None \<Rightarrow> Inr [] | Some data \<Rightarrow> if utf8_ok data then Inr (file_events fl data) else Inl ValueError)"
  by (simp add: file_load_def file_events_def split: option.split)

lemma file_events_empty [simp]: "file_events fl [] = []"
  by (simp add: file_events_def List.map_filter_def)

lemma file_append_line:
  assumes "whole_lines f" "list_all printable line"
  shows "whole_lines (Some ((case f of None \<Rightarrow> [] | Some d \<Rightarrow> d) @ line @ [nl]))"
    and "file_load fl (Some ((case f of None \<Rightarrow> [] | Some d \<Rightarrow> d) @ line @ [nl])) =
      rbind (file_load fl f) (\<lambda>es. Inr (es @ (case load_line fl line of None \<Rightarrow> [] | Some ev \<Rightarrow> [ev])))"
proof -
  define d where "d = (case f of None \<Rightarrow> [] | Some d \<Rightarrow> d)"
  have d: "utf8_ok d" "d = [] \<or> last d = nl" "file_load fl f = Inr (file_events fl d)"
    using assms(1) by (auto simp: d_def whole_lines_def file_load_events split: option.splits)
  have u: "utf8_ok (d @ line @ [nl])"
    using utf8_ok_append [OF d(1), of "line @ [nl]"] utf8_ok_ascii [of "line @ [nl]"] printable_ascii_all [OF assms(2)] by simp
  then show "whole_lines (Some ((case f of None \<Rightarrow> [] | Some d \<Rightarrow> d) @ line @ [nl]))"
    by (simp add: whole_lines_def flip: d_def)
  show "file_load fl (Some ((case f of None \<Rightarrow> [] | Some d \<Rightarrow> d) @ line @ [nl])) =
      rbind (file_load fl f) (\<lambda>es. Inr (es @ (case load_line fl line of None \<Rightarrow> [] | Some ev \<Rightarrow> [ev])))"
    using u file_events_append [OF d(2) assms(2), of fl] by (simp add: file_load_events [of fl "Some _"] d(3) flip: d_def)
qed

lemma printable_sorted: "list_all printable (json_sorted v)"
  by (simp add: json_sorted_norm printable_text)

interpretation file_repo: event_repository file_append "file_load fl" whole_lines norm_event event_ok for fl
  using file_append_line [OF _ printable_sorted]
  by unfold_locales (simp_all add: file_append_def load_line_event)

text \<open>C12. What was appended to the event file is loaded again, also by a bridge that is started later: behind the
  events the file held, every event with its keys and values, of which only the order of the keys is not kept.\<close>

theorem repository_restart:
  assumes "whole_lines f" "file_load fl f = Inr es" "list_all event_ok evs"
  shows "file_load fl (file_repo (fold file_append evs (file_repo f))) = Inr (es @ map norm_event evs) \<and>
    (\<forall>ev \<in> set evs. \<forall>k. map_of (norm_event ev) k = map_option json_norm (map_of ev k))"
proof
  have same: "whole_lines (file_repo f) \<and> file_load fl (file_repo f) = Inr es"
    using assms(1,2) by (auto simp: file_repo_def whole_lines_def file_load_events split: option.splits)
  have idem: "file_load fl (file_repo g) = file_load fl g" for g
    by (simp add: file_repo_def file_load_events split: option.split)
  show "file_load fl (file_repo (fold file_append evs (file_repo f))) = Inr (es @ map norm_event evs)"
    using file_repo.load_appends [of "file_repo f" evs fl] same assms(3) by (simp add: idem)
  show "\<forall>ev \<in> set evs. \<forall>k. map_of (norm_event ev) k = map_option json_norm (map_of ev k)"
    using assms(3) norm_event_lookup event_ok_iff by (simp add: list_all_iff)
qed

definition log_event :: event where
  "log_event = [(''type'', VStr ''opsstepevent''), (''run_id'', VStr [CHR ''R'', nl, CHR 0xC3, CHR 0xA9, quote]),
     (''exit_code'', VInt (- 1)), (''data'', VDict [(VStr ''b'', VList [VNone, VBool True]), (VStr ''a'', VInt 0)])]"

theorem repository_restart_witness:
  "file_load VStr (file_repo (fold file_append [log_event, log_event] (file_repo None))) =
     Inr [norm_event log_event, norm_event log_event] \<and>
   map_of (norm_event log_event) ''data'' = Some (VDict [(VStr ''a'', VInt 0), (VStr ''b'', VList [VNone, VBool True])])"
proof -
  have ok: "event_ok log_event" by code_simp
  have "whole_lines None" "file_load VStr None = Inr []" by (simp_all add: whole_lines_def file_load_def)
  from repository_restart [OF this, of "[log_event, log_event]"] ok
  have "file_load VStr (file_repo (fold file_append [log_event, log_event] (file_repo None))) =
     Inr [norm_event log_event, norm_event log_event]"
    and "map_of (norm_event log_event) ''data'' = map_option json_norm (map_of log_event ''data'')" by simp_all
  moreover have "map_option json_norm (map_of log_event ''data'') =
     Some (VDict [(VStr ''a'', VInt 0), (VStr ''b'', VList [VNone, VBool True])])" by code_simp
  ultimately show ?thesis by simp
qed

section \<open>A torn line\<close>

lemma load_line_torn: "load_line fl (CHR ''{'' # json_text (VDict kvs)) = None"
proof -
  have "json_value fl n (CHR ''{'' # CHR ''{'' # s) = None" for n s
  proof (cases n)
    case (Suc m)
    then show ?thesis by (cases m) (simp_all add: quote_def)
  qed simp
  moreover have "strip (CHR ''{'' # json_text (VDict kvs)) = CHR ''{'' # json_text (VDict kvs)"
    by (rule strip_of_id) (auto simp: is_space_def)
  ultimately show ?thesis by (simp add: load_line_def json_loads_def del: json_value.simps)
qed

text \<open>A write that breaks off (the bridge is killed, the disk is full) leaves a line without its end. The next append
  continues this line: the event that was appended whole is not loaded either.\<close>

theorem torn_line_swallows:
  assumes "whole_lines (Some d)"
  shows "file_load fl (file_append ev (Some (d @ ''{''))) = file_load fl (Some d)"
proof -
  have "load_line fl (CHR ''{'' # json_sorted (vdict ev)) = None"
    using load_line_torn unfolding json_sorted_norm vdict_def json_norm.simps .
  moreover have "list_all printable (CHR ''{'' # json_sorted (vdict ev))" by (simp add: printable_sorted)
  ultimately have "file_load fl (Some (d @ (CHR ''{'' # json_sorted (vdict ev)) @ [nl])) = file_load fl (Some d)"
    using file_append_line(2) [OF assms, of "CHR ''{'' # json_sorted (vdict ev)" fl]
    by (cases "file_load fl (Some d)") simp_all
  then show ?thesis by (simp add: file_append_def)
qed

section \<open>From a command to the log of the bridge\<close>









end
