(* ===== verification/CheckLock.thy ===== *)
theory CheckLock
  imports AuditFacts
begin

text \<open>
  \<open>scripts/check-lock.py\<close>, with which a scheduled session asks whether it may start, and its agreement with
  \<open>lock-acquire\<close>, which it then runs. The search for the workspace is not modelled, nor is the session name,
  which the script never uses.
\<close>

section \<open>The script\<close>










section \<open>What it reads of a held lock\<close>




section \<open>Agreement with \<open>lock-acquire\<close>\<close>







end
