(* ===== verification/Idle.thy ===== *)
theory Idle
  imports AuditLog
begin

text \<open>
  What the manager reads when nothing is to be dispatched: \<open>idle-triage\<close> (\<open>commands/dispatch.py\<close>) and
  \<open>strategic-context\<close> (\<open>commands/validate.py\<close>). \<open>files\<close> is the listing of the workspace in the order in which
  directories are walked; a directory is what a listed file lies in. \<open>root\<close> is the path of the workspace,
  \<open>mtime\<close> the modification time of \<open>SOUL.md\<close> if it exists.
\<close>

section \<open>Directories\<close>

definition lies_in :: "string \<Rightarrow> string \<Rightarrow> bool" where
  "lies_in d f \<longleftrightarrow> d = [] \<or> startswith f (d @ ''/'')"

definition path_parts :: "string \<Rightarrow> string list" where
  "path_parts p = filter (\<lambda>s. s \<noteq> [] \<and> s \<noteq> ''.'') (split_on (CHR ''/'') p)"

text \<open>\<open>str(ROOT / p)\<close>.\<close>

definition shown_path :: "string \<Rightarrow> string \<Rightarrow> string" where
  "shown_path root p = root @ concat (map (\<lambda>s. ''/'' @ s) (path_parts p))"

text \<open>One character of a text in UTF-8, and the pattern \<open>????-??-??.md\<close>.\<close>

definition any_char :: rx where "any_char = RSeq (RSet (\<lambda>c. \<not> is_cont c)) (RStar (RSet is_cont))"

definition dated_rx :: rx where
  "dated_rx = rseq [rrep 4 any_char, rlit ''-'', rrep 2 any_char, rlit ''-'', rrep 2 any_char, rlit ''.md'']"

definition memory_files :: "string list \<Rightarrow> string list" where
  "memory_files files =
     filter (\<lambda>f. case split_on (CHR ''/'') f of [d, n] \<Rightarrow> d = ''memory'' \<and> rx_fullmatches dated_rx n | _ \<Rightarrow> False) files"

text \<open>The directories of the drafts, by name.\<close>

definition draft_slugs :: "string list \<Rightarrow> string list" where
  "draft_slugs files =
     List.map_filter
       (\<lambda>f. case rev (split_on (CHR ''/'') f) of
              n # d # _ \<Rightarrow> if lies_in ''PROJECTS'' f \<and> n = ''LONGRUNNER-DRAFT.md'' then Some d else None
            | _ \<Rightarrow> None)
       files"

section \<open>\<open>idle-triage\<close>\<close>

definition knowledge_rx :: rx where
  "knowledge_rx = rseq [rlit_ci ''knowledge'', rdot, rlit_ci ''repo'', RLazy rdot, rlit '':'', rspaces, RGrp 1 (rplus rdot)]"

definition knowledge_repo :: "workspace \<Rightarrow> string option" where
  "knowledge_repo w =
     Option.bind (read_file ''USER.md'' w) (\<lambda>content.
     Option.bind (rx_search knowledge_rx content) (\<lambda>m.
       let p = strip_of (\<lambda>c. c = CHR 0x27) (strip_of (\<lambda>c. c = CHR 0x22) (strip (m_group_or [] 1 m)))
       in if p \<in> {[], ''~'', ''null'', ''None'', em_dash} then None else Some p))"

text \<open>The part of the path below the workspace, if it does not lead out of it.\<close>

definition confined_repo :: "string \<Rightarrow> string option" where
  "confined_repo p =
     (let d = canon_path (lstrip_of (\<lambda>c. c = CHR ''/'') p) in
      if hd (split_on (CHR ''/'') d) = ''..'' then None else Some d)"

definition repo_line :: "string \<Rightarrow> string list \<Rightarrow> workspace \<Rightarrow> string \<Rightarrow> string option" where
  "repo_line root files w p =
     (case confined_repo p of
        None \<Rightarrow> None
      | Some d \<Rightarrow>
          if d \<noteq> [] \<and> \<not> list_ex (lies_in d) files then None
          else
            (let below = (\<lambda>s. canon_path (d @ ''/'' @ s)); shown = (\<lambda>s. shown_path root (lstrip_of (\<lambda>c. c = CHR ''/'') p @ ''/'' @ s))
             in if list_ex (lies_in (below ''00-inbox'')) files
                then Some (''IDLE:TIER=1a:ACTION=inbox_scan:path='' @ shown ''00-inbox'')
                else
                  (let stale = read_file (below ''07-index/staleness-log.md'') w in
                   if (case stale of None \<Rightarrow> False | Some t \<Rightarrow> contains ''>90'' t \<or> contains ''stale'' (lower t))
                   then Some (''IDLE:TIER=1b:ACTION=staleness_check:path='' @ shown ''07-index/staleness-log.md'')
                   else Some ''IDLE:TIER=1c:ACTION=demand_signal_scan'')))"

text \<open>The loop over the lines; \<open>entry\<close> is the entry whose status has not been seen.\<close>

fun open_entries :: "string option \<Rightarrow> string list \<Rightarrow> string list" where
  "open_entries entry [] = []"
| "open_entries entry (line # lines) =
     (case rx_match fm_rx line of
        Some m \<Rightarrow> open_entries (Some (m_group_or [] 1 m)) lines
      | None \<Rightarrow>
          (case entry of
             None \<Rightarrow> open_entries None lines
           | Some fm \<Rightarrow>
               if contains ''**Status:**'' line
               then (if contains ''OPEN'' (upper (strip (rx_split (rlit ''**Status:**'') line ! 1))) then [fm] else []) @
                    open_entries None lines
               else open_entries entry lines))"

definition registry_entry_rx :: rx where
  "registry_entry_rx = rseq [RBolM, rlit ''|'', rspaces, rrep 4 rdigit, rlit ''-'']"

definition status_entry_rx :: rx where "status_entry_rx = rseq [RBolM, rlit ''|'', rspaces, rwords]"

definition file_or_none :: "string \<Rightarrow> workspace \<Rightarrow> string" where
  "file_or_none p w = (case read_file p w of None \<Rightarrow> [] | Some t \<Rightarrow> t)"

definition tool_line :: "workspace \<Rightarrow> string option" where
  "tool_line w =
     (let status = file_or_none ''orchestration-os/TOOL-STATUS.md'' w;
          registry = file_or_none ''orchestration-os/OPS-TOOL-REGISTRY.md'' w;
          reg = length (rx_finditer registry_entry_rx registry); stat = length (rx_finditer status_entry_rx status)
      in if status \<noteq> [] \<and> registry \<noteq> [] \<and> reg > stat + 2
         then Some (''IDLE:TIER=2c:ACTION=tool_status_sync:registry_entries='' @ nat_str reg @ '':status_entries='' @ nat_str stat)
         else None)"

definition lesson_like :: "workspace \<Rightarrow> string \<Rightarrow> bool" where
  "lesson_like w f \<longleftrightarrow>
     (let t = file_or_none f w in contains ''lesson'' (lower t) \<or> contains ''correction'' (lower t) \<or> contains ''T7'' t)"

definition stale_review :: "pydt \<Rightarrow> string \<Rightarrow> bool" where
  "stale_review now line \<longleftrightarrow>
     CHR ''|'' \<in> set line \<and>
     (case table_cells line of
        a # b # _ \<Rightarrow> (case parse_iso a of None \<Rightarrow> False | Some t \<Rightarrow> age_us now t div day_us > 30)
      | _ \<Rightarrow> False)"

definition proposal_reasons :: "fields list \<Rightarrow> string list" where
  "proposal_reasons rows =
     (let has = (\<lambda>s. list_ex (\<lambda>row. upper (strip (dget_or [] ''status'' row)) = s) rows) in
      (if has ''ACTIVE'' then [] else [''no_active_projects'']) @ (if has ''COMPLETE'' then [''recent_completion''] else []) @
      (if has ''TRANSITION-HOLD'' then [''transition_hold_exists''] else []))"

text \<open>The tiers in order, each with the line it prints when it has work. (Tier 2a is behind the return of tier
  1 and is never reached.)\<close>

definition idle_tiers :: "string \<Rightarrow> string list \<Rightarrow> pydt \<Rightarrow> workspace \<Rightarrow> string option list" where
  "idle_tiers root files now w =
     (let tier1 = Option.bind (knowledge_repo w) (repo_line root files w);
          fms = open_entries None (splitlines (file_or_none ''orchestration-os/OPS-FAILURE-MODES.md'' w));
          memory = memory_files files; recent = take 3 (rev (sort memory)); drafts = draft_slugs files;
          reasons = proposal_reasons (parse_dispatch_table w)
      in [tier1,
          (if fms = [] then None else Some (''IDLE:TIER=2b:ACTION=ops_failure_review:entries='' @ join '','' fms)),
          tool_line w,
          (if length memory < 5 then None else Some (''IDLE:TIER=3a:ACTION=memory_dream_pass:files='' @ nat_str (length memory))),
          (if list_ex (lesson_like w) recent
           then Some (''IDLE:TIER=3b:ACTION=agents_lesson_encoding:recent_memory='' @ nat_str (length recent)) else None),
          (if list_ex (stale_review now) (splitlines (file_or_none ''PROJECTS/MANAGER-REVIEW-REGISTRY.md'' w))
           then Some ''IDLE:TIER=3c:ACTION=mrr_housekeeping'' else None),
          (case drafts of [] \<Rightarrow> None | d # _ \<Rightarrow> Some (''IDLE:TIER=4:ACTION=draft_exists:slug='' @ d @ '':no_new_proposal_needed'')),
          (if reasons = [] then None
           else Some (''IDLE:TIER=4a:ACTION=project_proposal:'' @
                  (if tier1 = None then ''path_b_no_knowledge_repo'' else ''path_a_knowledge_repo'') @ '':reasons='' @ join '','' reasons))])"

definition cmd_idle_triage :: "string \<Rightarrow> string list \<Rightarrow> pydt \<Rightarrow> workspace \<Rightarrow> outcome" where
  "cmd_idle_triage root files now w =
     Exit 0 [case List.map_filter id (idle_tiers root files now w) of [] \<Rightarrow> ''IDLE:NONE:all_tiers_checked'' | l # _ \<Rightarrow> l]"

section \<open>\<open>strategic-context\<close>\<close>

definition or_none :: "string list \<Rightarrow> string" where
  "or_none xs = (if xs = [] then ''none'' else join '','' xs)"

definition completions_of :: "fields list \<Rightarrow> string list" where
  "completions_of rows =
     filter (\<lambda>s. s \<noteq> [])
       (map (\<lambda>row. strip (row_slug row)) (filter (\<lambda>row. upper (strip (dget_or [] ''status'' row)) = ''COMPLETE'') rows))"

definition stem :: "string \<Rightarrow> string" where
  "stem f = (let n = last (split_on (CHR ''/'') f) in take (length n - 3) n)"

definition review_date_rx :: rx where
  "review_date_rx = RGrp 1 (rseq [rrep 4 rdigit, rlit ''-'', rrep 2 rdigit, rlit ''-'', rrep 2 rdigit])"

definition last_review :: "workspace \<Rightarrow> string" where
  "last_review w =
     (case map (m_group_or [] 1) (rx_finditer review_date_rx (file_or_none ''PROJECTS/MANAGER-REVIEW-REGISTRY.md'' w)) of
        [] \<Rightarrow> ''never''
      | ds \<Rightarrow> last (sort ds))"

definition recommended :: "string list \<Rightarrow> string list \<Rightarrow> int option \<Rightarrow> string" where
  "recommended drafts completions age =
     (case (drafts, completions) of
        (d # _, _) \<Rightarrow> ''RECOMMENDED:T3.5-A:review_draft:'' @ d
      | ([], c # _) \<Rightarrow> ''RECOMMENDED:T3.5-B:review_completion:'' @ c
      | ([], []) \<Rightarrow>
          if (case age of None \<Rightarrow> 999 | Some n \<Rightarrow> n) > 30 then ''RECOMMENDED:T3.5-C:domain_anchor_review''
          else ''RECOMMENDED:T3.5-D:no_action'')"

definition cmd_strategic_context :: "string list \<Rightarrow> pydt option \<Rightarrow> pydt \<Rightarrow> workspace \<Rightarrow> outcome" where
  "cmd_strategic_context files mtime now w =
     (let drafts = filter (\<lambda>s. s \<noteq> ''PROJECTS'') (draft_slugs files); completions = completions_of (parse_dispatch_table w);
          memory = memory_files files; age = map_option (\<lambda>t. age_us now t div day_us) mtime
      in Exit 0
        [''DRAFTS:'' @ or_none drafts, ''RECENT_COMPLETIONS:'' @ or_none completions,
         ''MEMORY_ENTRIES:'' @ nat_str (length memory) @ '':'' @ or_none (map stem (take 5 (rev (sort memory)))),
         ''DOMAIN_ANCHOR_AGE:'' @ (case age of None \<Rightarrow> ''unknown'' | Some n \<Rightarrow> int_str n @ ''d''),
         ''LAST_MANAGER_REVIEW:'' @ last_review w, recommended drafts completions age])"

section \<open>The card of a repository outside is never followed\<close>

text \<open>A knowledge repository whose path leads out of the workspace changes nothing: \<open>idle-triage\<close> prints what it prints
  for a workspace whose \<open>USER.md\<close> names no repository.\<close>

definition no_user :: "workspace \<Rightarrow> workspace" where
  "no_user w = w(''USER.md'' := None)"

lemma read_no_user: "canon_path p \<noteq> ''USER.md'' \<Longrightarrow> read_file p (no_user w) = read_file p w"
  by (simp add: read_file_def no_user_def)

end
