(* ===== verification/Legacy.thy ===== *)
theory Legacy
  imports Bundle Render
begin

text \<open>
  The deprecated parser of bundle specs in \<open>nightclaw_engine/commands/bundle.py\<close>: it reads a bundle from the text of
  REGISTRY.md and is used where the schema cannot be loaded, or where an environment variable forces it.
\<close>

section \<open>The block of a bundle\<close>

definition block_end :: "string \<Rightarrow> bool" where
  "block_end line \<longleftrightarrow>
     (let s = strip line in
      (startswith s ''BUNDLE:'' \<and> \<not> contains right_arrow s \<and> CHR ''|'' \<notin> set s) \<or> startswith s ''## '' \<or> s = ''---'')"

definition bundle_block :: "string \<Rightarrow> string \<Rightarrow> string option" where
  "bundle_block name content =
     (case dropWhile (\<lambda>l. strip l \<noteq> ''BUNDLE:'' @ name) (splitlines content) of
        [] \<Rightarrow> None
      | l # ls \<Rightarrow> Some (join [nl] (l # takeWhile (\<lambda>l. \<not> block_end l) ls)))"

section \<open>Arguments and guards\<close>

definition rest_rx :: "string \<Rightarrow> rx" where
  "rest_rx l = rseq [rlit l, rspaces, RGrp 1 (rplus rdot)]"

definition legacy_args :: "string \<Rightarrow> string list" where
  "legacy_args block =
     (case search1 (rest_rx ''ARGS:'') block of
        None \<Rightarrow> []
      | Some s \<Rightarrow> map (\<lambda>a. strip_of (\<lambda>c. c = CHR '','') (strip a))
                   (filter (\<lambda>a. strip a \<noteq> []) (split_on (CHR '','') (strip s))))"

definition guard_lines_rx :: rx where
  "guard_lines_rx =
     rseq [rlit ''VALIDATES:'', rspaces, rlit [nl],
           RGrp 1 (rplus (rseq [rplus (RSet is_space), rlit ''-'', rplus (RSet is_space), rplus rdot, ropt (rlit [nl])]))]"

definition legacy_validates :: "string \<Rightarrow> string list" where
  "legacy_validates block =
     filter (\<lambda>v. v \<noteq> [])
       (concat (map (\<lambda>m. map (\<lambda>l. strip (lstrip_of (one_of ''- '') (strip l))) (splitlines (strip (m_group_or [] 1 m))))
          (rx_finditer guard_lines_rx block)) @
        concat (map (\<lambda>m. map strip (split_on (CHR ''|'') (strip (m_group_or [] 1 m)))) (rx_finditer (rest_rx ''VALIDATES:'') block)))"

section \<open>Writes\<close>

record write_scan =
  ws_on :: bool
  ws_target :: string                 \<comment> \<open>empty for none\<close>
  ws_fields :: fields
  ws_writes :: "(pyval \<times> fields) list"

definition flush_write :: "write_scan \<Rightarrow> write_scan" where
  "flush_write s =
     (if ws_target s \<noteq> [] \<and> ws_fields s \<noteq> [] then s\<lparr>ws_writes := ws_writes s @ [(VStr (ws_target s), ws_fields s)]\<rparr> else s)"

definition inline_target_rx :: rx where
  "inline_target_rx =
     rseq [RGrp 1 (RSeq (rplus (RSet (\<lambda>c. is_word c \<or> c \<in> set ''{}[]/.*-'')))
                        (ropt (rseq [rlit '':'', ropt (rlit ''{''), rwords, ropt (rlit ''}'')]))),
           ropt (RSeq rspaces (RAlt (rlit right_arrow) (rlit '':''))), rspaces, ropt (RGrp 3 (RStar rdot))]"

definition block_target_rx :: rx where
  "block_target_rx =
     rseq [ralts (map rlit [''LONGRUNNER'', ''DISPATCH'', ''LOCK'', ''NOTIFY'', ''MEMORY'', ''MANIFEST'']),
           ropt (rseq [rlit '':'', ropt (rlit ''{''), rwords, ropt (rlit ''}'')]), rspaces, rlit '':'']"

definition assign_rx :: rx where
  "assign_rx =
     rseq [RGrp 1 (rplus (RSet (\<lambda>c. is_word c \<or> c = CHR ''.''))), rspaces, rlit ''='', rspaces, RGrp 2 (rplus rdot)]"

definition inline_pairs :: "string \<Rightarrow> fields" where
  "inline_pairs s =
     foldl (\<lambda>d p. if CHR ''='' \<in> set p
                  then dput (strip (takeWhile (\<lambda>c. c \<noteq> CHR ''='') p)) (strip (tl (dropWhile (\<lambda>c. c \<noteq> CHR ''='') p))) d else d)
       [] (map strip (split_on (CHR '','') s))"

definition no_colons :: "string \<Rightarrow> string" where "no_colons s = rstrip_of (\<lambda>c. c = CHR '':'') s"

definition write_line :: "string \<Rightarrow> write_scan \<Rightarrow> write_scan" where
  "write_line line s =
     (let t = strip line; rest = strip (drop 7 t) in
      if startswith t ''WRITES:'' then
        (if rest = [] then s\<lparr>ws_on := True\<rparr>
         else
           (case rx_match inline_target_rx rest of
              None \<Rightarrow> s\<lparr>ws_on := True\<rparr>
            | Some m \<Rightarrow> (flush_write s)\<lparr>ws_on := True, ws_target := no_colons (strip (m_group_or [] 1 m)),
                                      ws_fields := inline_pairs (m_group_or [] 3 m)\<rparr>))
      else if \<not> ws_on s then s
      else if rx_matches block_target_rx t then (flush_write s)\<lparr>ws_target := strip (no_colons t), ws_fields := []\<rparr>
      else
        (case (if ws_target s = [] then None else rx_match assign_rx t) of
           Some m \<Rightarrow> s\<lparr>ws_fields := dput (strip (m_group_or [] 1 m)) (strip (m_group_or [] 2 m)) (ws_fields s)\<rparr>
         | None \<Rightarrow>
             if t = [] \<or> list_ex (startswith t) [''APPEND:'', ''NOTIFY:'', ''RETURNS:'', ''VALIDATES:'']
             then (if ws_target s \<noteq> [] \<and> ws_fields s \<noteq> []
                   then (flush_write s)\<lparr>ws_on := False, ws_target := [], ws_fields := []\<rparr> else s\<lparr>ws_on := False\<rparr>)
             else s))"

definition legacy_writes :: "string \<Rightarrow> (pyval \<times> fields) list" where
  "legacy_writes block =
     ws_writes (flush_write (foldl (\<lambda>s l. write_line l s)
       \<lparr>ws_on = False, ws_target = [], ws_fields = [], ws_writes = []\<rparr> (splitlines block)))"

section \<open>Appends and the notification\<close>

text \<open>The texts before and behind the first colon, if it is not the first character.\<close>

definition colon_pair :: "string \<Rightarrow> (string \<times> string) option" where
  "colon_pair s =
     (case dropWhile (\<lambda>c. c \<noteq> CHR '':'') s of
        [] \<Rightarrow> None
      | _ # v \<Rightarrow> if hd s = CHR '':'' then None else Some (strip (takeWhile (\<lambda>c. c \<noteq> CHR '':'') s), strip v))"

fun legacy_appends :: "bool \<Rightarrow> string list \<Rightarrow> fields" where
  "legacy_appends sec [] = []"
| "legacy_appends sec (line # lines) =
     (let t = strip line; rest = strip (drop 7 t) in
      if startswith t ''APPEND:'' then
        (if rest = [] then legacy_appends True lines
         else (case colon_pair rest of None \<Rightarrow> [] | Some p \<Rightarrow> [p]) @ legacy_appends False lines)
      else if \<not> sec then legacy_appends False lines
      else if t = [] \<or> list_ex (startswith t) [''NOTIFY:'', ''RETURNS:'', ''NEVER'', ''#'', ''AUTHORITY:'']
        then legacy_appends False lines
      else
        (case colon_pair t of
           None \<Rightarrow> []
         | Some (f, v) \<Rightarrow> if f \<noteq> [] \<and> v \<noteq> [] then [(f, v)] else []) @ legacy_appends True lines)"

definition key_value_rx :: rx where
  "key_value_rx = rseq [RGrp 1 rwords, rspaces, rlit '':'', rspaces, RGrp 2 (rplus rdot)]"

fun legacy_notify :: "bool \<Rightarrow> fields \<Rightarrow> string list \<Rightarrow> fields" where
  "legacy_notify sec d [] = d"
| "legacy_notify sec d (line # lines) =
     (let t = strip line in
      if t = ''NOTIFY:'' \<or> (startswith t ''NOTIFY:'' \<and> \<not> startswith t ''NOTIFY: '') then legacy_notify True d lines
      else if \<not> sec then legacy_notify False d lines
      else if list_ex (startswith t) [''RETURNS:'', ''NEVER'', ''AUTHORITY:'', ''APPEND:'', ''WRITES:''] then legacy_notify False d lines
      else
        (case rx_match key_value_rx t of
           Some m \<Rightarrow> legacy_notify True (dput (strip (m_group_or [] 1 m)) (strip (m_group_or [] 2 m)) d) lines
         | None \<Rightarrow> legacy_notify (t = [] \<or> startswith t ''#'') d lines))"

section \<open>The spec\<close>

definition returns_rx :: rx where "returns_rx = key_rx ''RETURNS:'' (\<lambda>c. \<not> is_space c)"

definition parse_r5_bundle_legacy :: "string \<Rightarrow> workspace \<Rightarrow> run_spec option" where
  "parse_r5_bundle_legacy name w =
     Option.bind (read_file ''orchestration-os/REGISTRY.md'' w) (\<lambda>content.
     map_option
       (\<lambda>block. let notify = legacy_notify False [] (splitlines block) in
          \<lparr>rs_args = legacy_args block, rs_validates = legacy_validates block, rs_writes = legacy_writes block,
           rs_appends = legacy_appends False (splitlines block),
           rs_notify = (if notify = [] then None else Some (map (\<lambda>(k, v). (VStr k, VStr v)) notify)),
           rs_returns = (case search1 returns_rx block of None \<Rightarrow> ''SUCCESS'' | Some s \<Rightarrow> strip s)\<rparr>)
       (bundle_block name content))"

text \<open>\<open>model\<close> is missing where the schema could not be loaded; \<open>forced\<close> is the environment variable.\<close>

definition parse_r5_bundle :: "bool \<Rightarrow> schema_model option \<Rightarrow> string \<Rightarrow> workspace \<Rightarrow> py_exc + run_spec option" where
  "parse_r5_bundle forced model name w =
     (case (if forced then None else model) of
        Some m \<Rightarrow> spec_from_model m name
      | None \<Rightarrow> Inr (parse_r5_bundle_legacy name w))"

section \<open>Against the model\<close>

text \<open>The rendered text of a bundle is not read back: the pattern for a guard on the line of \<open>VALIDATES:\<close> also reads
  the first line of a list of guards, with its dash.\<close>

definition demo_bundle :: bundle_spec where
  "demo_bundle =
     \<lparr>bs_name = ''demo'', bs_trigger = [], bs_args = [''slug''], bs_validates = [''slug ok''],
      bs_writes = [(VStr ''DISPATCH:{slug}'', VDict [(VStr ''status'', VStr ''ACTIVE'')])], bs_append = [], bs_notify = None,
      bs_returns = ''SUCCESS'', bs_inline = False, bs_extras = []\<rparr>"

theorem legacy_doubles_guard:
  "map_sum id rs_validates (spec_of_bundle demo_bundle) = Inr [''slug ok'']"
  "map_sum id (\<lambda>ls. legacy_validates (join [nl] ls)) (render_bundle demo_bundle) = Inr [''slug ok'', ''- slug ok'']"
  "map_sum id (\<lambda>ls. legacy_writes (join [nl] ls)) (render_bundle demo_bundle) =
     Inr [(VStr ''DISPATCH:{slug}'', [(''status'', ''ACTIVE'')])]"
  by code_simp+

end
