(* ===== verification/Spec2Isabelle.thy ===== *)
theory Spec2Isabelle
  imports SchemaCache LockSession PreapprovalFacts BundleFacts RenderFacts EventFacts ReplayFacts Scope ScrFacts AuditFacts
    Longrunner ReportFacts ArchiveFacts Http RewindFacts BootstrapFacts SnapshotFacts LiveFacts EventFile CheckLock Idle Legacy
begin

text \<open>
  Verification library for the NightClaw engine: the program that a language-model agent calls to read and
  change the state of a workspace of text files.

  \<^bold>\<open>The program.\<close> \<open>src/nightclaw_engine/commands\<close> holds one function per command; \<open>main\<close> in its
  \<open>__init__.py\<close> looks the command up, runs it between two step events and passes its exit code on. The
  state lives in files: \<open>LOCK.md\<close>, the dispatch table \<open>ACTIVE-PROJECTS.md\<close>, one \<open>LONGRUNNER.md\<close> per
  project, logs under \<open>audit\<close>, and the schema under \<open>orchestration-os/schema\<close> (YAML). The schema declares
  objects, fields, routes, edges, bundles and rules (R1 to R6, CL5); \<open>bundle-exec\<close> interprets a bundle, that
  is guards, field writes, log appends and a notification, and is the only command that changes projects.
  Step events go over a queue to the bridge (\<open>src/nightclaw_bridge\<close>), which folds them into timelines, and
  to the monitor (\<open>src/nightclaw_monitor\<close>), which keeps its own.

  \<^bold>\<open>Layers.\<close> Python and its library first: \<open>PyStr\<close> (\<open>str\<close>, exceptions), \<open>PyNum\<close> (decimal numbers),
  \<open>PyFloat\<close> (quotients as doubles and their formatting), \<open>PyVal\<close> (values of JSON and YAML, \<open>str\<close>, \<open>==\<close>,
  truth), \<open>PyRe\<close> and \<open>Scan\<close> (regular expressions: a matcher that lists all runs in the order of preference
  of \<open>re\<close>, and how expressions with a literal head find their matches), \<open>PyTime\<close> (\<open>datetime\<close>),
  \<open>Workspace\<close> (the map from normalised paths to file texts, text mode reading and writing). Then the
  components, each in the theory of its operations and, where there is one, a second theory of what it
  promises:

  \<^item> \<open>Schema\<close>, \<open>SchemaCache\<close>: \<open>schema/loader.py\<close>. The records of the model, the loaders, \<open>load\<close> with its
    cache by modification time; \<open>schema_step\<close> runs it among changes of the directory, the cache invariant
    gives transparency.
  \<^item> \<open>Gates\<close>: \<open>engine/gates.py\<close> and the gate commands of \<open>commands/validate.py\<close>: field types, routes, path
    patterns, protection, tools, cascades.
  \<^item> \<open>Shared\<close>, \<open>SharedFacts\<close>: \<open>commands/_shared.py\<close>: slugs, the dispatch table, LONGRUNNER fields,
    pre-approval look-up.
  \<^item> \<open>Preapproval\<close>, \<open>PreapprovalFacts\<close>: \<open>nightclaw_common/preapprovals.py\<close>.
  \<^item> \<open>Lock\<close>, \<open>LockSession\<close>: \<open>commands/lock.py\<close>. The locale \<open>lock_service\<close> states what a lock promises its
    sessions, the lock file is its model, \<open>lock_step\<close> the runs of many sessions. \<open>CheckLock\<close>:
    \<open>scripts/check-lock.py\<close> against the same runs.
  \<^item> \<open>Append\<close>: \<open>commands/append.py\<close> and \<open>do_append\<close>; \<open>Mutators\<close>, \<open>MutatorFacts\<close>:
    \<open>commands/bundle_mutators.py\<close>; \<open>Bundle\<close>, \<open>BundleFacts\<close>: \<open>commands/bundle.py\<close> without the schema render
    commands: frame, atomicity of a rejection, expressions; \<open>Legacy\<close>: its deprecated parser of REGISTRY.md.
  \<^item> \<open>Render\<close>, \<open>RenderFacts\<close>: \<open>engine/render.py\<close> with \<open>schema-render\<close>, \<open>schema-sync\<close>, \<open>schema-lint\<close>.
  \<^item> \<open>Scr\<close>, \<open>ScrFacts\<close>: \<open>protocol/integrity.py\<close>, \<open>commands/scr.py\<close>, \<open>commands/integrity.py\<close>: the
    self-consistency rules, what a passing check guarantees, and the manifest check.
  \<^item> \<open>Dispatch\<close>: \<open>commands/dispatch.py\<close>; \<open>Idle\<close>: its \<open>idle-triage\<close> and \<open>strategic-context\<close>; \<open>Phases\<close>: \<open>schema/phases.py\<close> with \<open>phase-validate\<close>;
    \<open>Longrunner\<close>: \<open>engine/longrunner.py\<close> and \<open>commands/longrunner.py\<close>.
  \<^item> \<open>AuditLog\<close>, \<open>AuditFacts\<close>: \<open>commands/audit.py\<close>: the reports, and \<open>crash-recover\<close> against the lock.
  \<^item> \<open>Telemetry\<close>: \<open>main\<close>, \<open>nightclaw_ops/telemetry.py\<close> and \<open>lifecycle.py\<close>, \<open>nightclaw_common/tiers.py\<close>;
    \<open>EventLog\<close>, \<open>EventFacts\<close>: the fold of the bridge, the monitor store, their contracts and agreement;
    \<open>Replay\<close>, \<open>ReplayFacts\<close>: \<open>commands/replay.py\<close> and \<open>commands/model_tier.py\<close>; \<open>Scope\<close>: the scope metadata
    of bridge payloads.
  \<^item> \<open>Sources\<close>, \<open>Panels\<close>, \<open>Reports\<close>: \<open>nightclaw_bridge/sources.py\<close>, what the bridge reads from the workspace and
    from the reports of the engine; \<open>ReportFacts\<close>: what it shows of \<open>crash-detect\<close> is what the engine found.
  \<^item> \<open>Connect\<close>: the handshake of \<open>nightclaw_bridge/runtime.py\<close>. The locale \<open>limiter\<close> is the sliding window of
    failed attempts, interpreted on the numbers of the code. \<open>Admin\<close>, \<open>AdminFacts\<close>: the admin commands behind
    it, their privileges and argument lists, and the frames of a client; \<open>serve_client\<close> is a whole connection.
    \<open>ArchiveFacts\<close>: \<open>archive_project\<close> against the table \<open>dispatch\<close> reads.
  \<^item> \<open>Http\<close>: the HTTP server; \<open>Replays\<close>, \<open>RewindFacts\<close>: what is shown of a run that is over, with the
    LONGRUNNER card rewound through the change log.
  \<^item> \<open>Snapshots\<close>, \<open>SnapshotFacts\<close>: the payloads of the main page, of a project and of the sessions page, which join
    the event log with the registry, the closes of the audit log and the close artifacts: they are complete, answered
    whatever the files hold, and scoped. \<open>Live\<close>, \<open>LiveFacts\<close>: the bridge at work, from a line on the ops socket
    (\<open>server.py\<close>) to what is sent. The locale \<open>seen_log\<close> is a bounded set of sent keys, interpreted on the
    bounds of the code.
  \<^item> \<open>Json\<close>, \<open>JsonFacts\<close>, \<open>EventFile\<close>: JSON as it is printed and read, the line of an event on the ops socket
    (\<open>nightclaw_ops/telemetry.py\<close>, \<open>server.py\<close>) and \<open>nightclaw_bridge/repository.py\<close>. Reading undoes printing,
    so an event that \<open>main\<close> sends is the event in the log, and the log in a file survives a restart. The locale
    \<open>event_repository\<close> is interpreted on both repositories.
  \<^item> \<open>Bootstrap\<close>, \<open>BootstrapFacts\<close>: \<open>commands/bootstrap.py\<close>: manifest, resolvers, budget and output. Its two nested
    \<open>while\<close> loops are partial functions, which are proved to return.

  \<^bold>\<open>Correspondence.\<close> A command is a function from arguments (those behind the command name), clock and
  workspace to an \<open>outcome\<close> (\<open>Exit\<close> with its code and the lines of standard output, or \<open>Raise\<close> with the
  exception that leaves it) and, where it writes, the new workspace. A raised exception or an early exit
  keeps what was written before it. A dict is an association list in insertion order; a set that is printed
  sorted is a list without its order. Names are those of the code, with a prefix where HOL has the name.

  \<^bold>\<open>Parameters.\<close> What is not in the repository is an argument: the YAML parser and SHA-256 (\<open>yaml\<close>, \<open>sha\<close>),
  the clock (\<open>now\<close>, the one instant a command reads, \<open>stamp\<close> where it reads it twice), the local UTC offset
  (\<open>loc\<close>), \<open>re.compile\<close> on a pattern from a manifest, programs run by the bridge (\<open>host\<close>), MD5 and the time of a monotonic clock, the order in which a hash set is iterated or printed, the listing of the files below the root, the text of
  help, and in \<open>main\<close> what the command does.

  \<^bold>\<open>Termination.\<close> Loops are recursions over the lines, rows or characters they consume, and the matcher
  recurses over the expression and, in a star, over the text, of which each round takes a character (as in
  \<open>re\<close>, an empty round ends the star). Only the iteration over all matches (\<open>finditer\<close>) counts its rounds,
  by the length of the text; a lemma shows that any larger number finds the same matches. The reader of JSON has
  twice the length of the text as fuel, and a lemma says that more reads the same. Every function is
  total; where the code has \<open>while\<close>, a lemma says that the loop returns.

  \<^bold>\<open>Limits.\<close> Texts are the bytes of UTF-8; lengths and slices count characters, while the white space, digit,
  word and case classes are those of ASCII (Python's also hold for other alphabets), and text decoded with
  \<open>errors="replace"\<close> is taken to be valid UTF-8. Directories, links, permissions and I/O errors are not
  modelled, standard error output is not, and each command runs alone: two commands never interleave inside
  one read and write. Durations are compared exactly where the code compares their doubles.

  \<^bold>\<open>Not modelled.\<close> The sockets of the bridge, the text of its diagnosis, and the token
  counts and costs of session rows; the worker thread and socket of the telemetry (I/O); \<open>preflight\<close> (running other
  programs); \<open>syntax-check\<close> and the checks that need Python's parser; the JSON adapter of the monitor.
  \<open>src/skills\<close> holds copies of the packages modelled here.
\<close>

end
